(* ===== verification/Prelude.thy ===== *)
theory Prelude
  imports Main "HOL-Library.Word" "HOL-Library.AList"
begin

section \<open>Shared vocabulary of the howy development\<close>

text \<open>
  This theory holds what every component uses and no component owns: machine integers and byte
  strings, the \<open>Result\<close> type of the source with its early returns, the checked arithmetic of the
  Rust standard library on a 64-bit target, little-endian encodings, UTF-8 validity, the bits of an
  IEEE-754 \<open>f32\<close> that the code looks at, hash maps as association lists, and the generic facts
  about them.  Facts that component proofs use as rewrite rules are collected in
  \<open>howy_simps\<close>; constructors of results are eliminated with \<open>result_elims\<close>.
\<close>

named_theorems howy_simps \<open>rewrite rules for the operations of the model\<close>
named_theorems result_elims \<open>elimination of successful results\<close>

unbundle bit_operations_syntax

subsection \<open>Types\<close>

text \<open>
  A \<open>u8\<close>, \<open>u16\<close>, \<open>u32\<close>, \<open>u64\<close> is a word of its width.  A \<open>usize\<close> is a natural number: the
  source guards every \<open>usize\<close> operation that could pass \<open>2 ^ 64\<close> by a checked operation, and those
  are modelled with their failing branch.  A byte slice, a \<open>Vec<u8>\<close>, a \<open>str\<close> and a path are lists
  of bytes; fixed-size arrays are lists whose length is part of the invariant of the value that
  holds them.  An \<open>f32\<close> is its 32 bits.
\<close>

type_synonym u8 = "8 word"
type_synonym u16 = "16 word"
type_synonym u32 = "32 word"
type_synonym u64 = "64 word"
type_synonym usize = nat
type_synonym bytes = "8 word list"
type_synonym str = "8 word list"
type_synonym f32 = "32 word"

definition ascii :: "string \<Rightarrow> bytes" where
  "ascii s = map of_char s"

lemma length_ascii [simp]: "length (ascii s) = length s"
  by (simp add: ascii_def)

subsection \<open>Results\<close>

text \<open>\<open>Result<T, E>\<close> is \<open>'e + 'a\<close>, \<open>Inl\<close> the error; \<open>and_then\<close> is the early return of the \<open>?\<close>
  operator.\<close>

fun and_then :: "'e + 'a \<Rightarrow> ('a \<Rightarrow> 'e + 'b) \<Rightarrow> 'e + 'b" where
  "and_then (Inl e) f = Inl e"
| "and_then (Inr x) f = f x"

fun map_ok :: "('a \<Rightarrow> 'b) \<Rightarrow> 'e + 'a \<Rightarrow> 'e + 'b" where
  "map_ok f (Inl e) = Inl e"
| "map_ok f (Inr x) = Inr (f x)"

fun map_err :: "('e \<Rightarrow> 'f) \<Rightarrow> 'e + 'a \<Rightarrow> 'f + 'a" where
  "map_err f (Inl e) = Inl (f e)"
| "map_err f (Inr x) = Inr x"

fun ok_or :: "'e \<Rightarrow> 'a option \<Rightarrow> 'e + 'a" where
  "ok_or e None = Inl e"
| "ok_or e (Some x) = Inr x"

definition ensure :: "bool \<Rightarrow> 'e \<Rightarrow> 'e + unit" where
  "ensure b e = (if b then Inr () else Inl e)"

lemma and_then_Inr_iff: "and_then r f = Inr y \<longleftrightarrow> (\<exists>x. r = Inr x \<and> f x = Inr y)"
  by (cases r) auto

lemma and_then_InrE [result_elims]:
  assumes "and_then r f = Inr y"
  obtains x where "r = Inr x" and "f x = Inr y"
  using assms by (cases r) auto

lemma map_ok_Inr_iff: "map_ok f r = Inr y \<longleftrightarrow> (\<exists>x. r = Inr x \<and> y = f x)"
  by (cases r) auto

lemma map_err_Inr_iff [simp]: "map_err f r = Inr y \<longleftrightarrow> r = Inr y"
  by (cases r) auto

lemma ok_or_Inr_iff [simp]: "ok_or e v = Inr y \<longleftrightarrow> v = Some y"
  by (cases v) auto

lemma ensure_Inr_iff [simp]: "ensure b e = Inr u \<longleftrightarrow> b"
  by (auto simp: ensure_def)

lemma ensure_simps [simp]:
  "b \<Longrightarrow> ensure b e = Inr ()"
  "\<not> b \<Longrightarrow> ensure b e = Inl e"
  by (auto simp: ensure_def)

lemma if_Inl_Inr_iff [simp]:
  "(if b then Inl e else r) = Inr y \<longleftrightarrow> \<not> b \<and> r = Inr y"
  by auto

subsection \<open>Checked arithmetic of a 64-bit target\<close>

definition usize_limit :: nat where
  "usize_limit = 2 ^ 64"

definition usize_max :: usize where
  "usize_max = usize_limit - 1"

definition checked_add :: "usize \<Rightarrow> usize \<Rightarrow> usize option" where
  "checked_add a b = (if a + b < usize_limit then Some (a + b) else None)"

definition checked_mul :: "usize \<Rightarrow> usize \<Rightarrow> usize option" where
  "checked_mul a b = (if a * b < usize_limit then Some (a * b) else None)"

definition checked_sub :: "usize \<Rightarrow> usize \<Rightarrow> usize option" where
  "checked_sub a b = (if b \<le> a then Some (a - b) else None)"

definition saturating_add :: "usize \<Rightarrow> usize \<Rightarrow> usize" where
  "saturating_add a b = min (a + b) usize_max"

definition saturating_sub :: "usize \<Rightarrow> usize \<Rightarrow> usize" where
  "saturating_sub a b = a - b"

definition checked_add_u64 :: "u64 \<Rightarrow> u64 \<Rightarrow> u64 option" where
  "checked_add_u64 a b = (if unat a + unat b < 2 ^ 64 then Some (a + b) else None)"

definition checked_sub_u64 :: "u64 \<Rightarrow> u64 \<Rightarrow> u64 option" where
  "checked_sub_u64 a b = (if b \<le> a then Some (a - b) else None)"

lemma checked_add_Some_iff [simp]:
  "checked_add a b = Some c \<longleftrightarrow> c = a + b \<and> a + b < usize_limit"
  by (auto simp: checked_add_def)

lemma checked_mul_Some_iff [simp]:
  "checked_mul a b = Some c \<longleftrightarrow> c = a * b \<and> a * b < usize_limit"
  by (auto simp: checked_mul_def)

lemma checked_sub_Some_iff [simp]:
  "checked_sub a b = Some c \<longleftrightarrow> c = a - b \<and> b \<le> a"
  by (auto simp: checked_sub_def)

lemma checked_add_small: "a + b < usize_limit \<Longrightarrow> checked_add a b = Some (a + b)"
  by simp

lemma checked_mul_small: "a * b < usize_limit \<Longrightarrow> checked_mul a b = Some (a * b)"
  by simp

lemma checked_add2_Some_iff:
  "(case checked_add a b of None \<Rightarrow> None | Some n \<Rightarrow> checked_add n c) = Some x \<longleftrightarrow>
     x = a + b + c \<and> x < usize_limit"
  by (auto simp: checked_add_def)

lemma saturating_add_small: "a + b < usize_limit \<Longrightarrow> saturating_add a b = a + b"
  by (simp add: saturating_add_def usize_max_def)

lemma saturating_add_le_iff:
  "m < usize_max \<Longrightarrow> saturating_add a b \<le> m \<longleftrightarrow> a + b \<le> m"
  by (auto simp: saturating_add_def)

lemma unat_less_64 [simp]: "unat (w :: u64) < 2 ^ 64"
  using unsigned_less [where 'a = nat, of w] by simp

lemma checked_add_u64_Some:
  "checked_add_u64 a b = Some c \<Longrightarrow> unat c = unat a + unat b"
  by (auto simp: checked_add_u64_def unat_word_ariths split: if_splits)

lemma checked_sub_u64_Some:
  "checked_sub_u64 a b = Some c \<Longrightarrow> unat a = unat b + unat c"
  by (auto simp: checked_sub_u64_def word_le_nat_alt unat_sub split: if_splits)

subsection \<open>Little-endian encodings\<close>

fun le_of_nat :: "nat \<Rightarrow> nat \<Rightarrow> bytes" where
  "le_of_nat 0 n = []"
| "le_of_nat (Suc k) n = word_of_nat (n mod 256) # le_of_nat k (n div 256)"

fun nat_of_le :: "bytes \<Rightarrow> nat" where
  "nat_of_le [] = 0"
| "nat_of_le (b # bs) = unat b + 256 * nat_of_le bs"

definition u16_to_le :: "u16 \<Rightarrow> bytes" where "u16_to_le w = le_of_nat 2 (unat w)"
definition u32_to_le :: "u32 \<Rightarrow> bytes" where "u32_to_le w = le_of_nat 4 (unat w)"
definition u64_to_le :: "u64 \<Rightarrow> bytes" where "u64_to_le w = le_of_nat 8 (unat w)"
definition u16_from_le :: "bytes \<Rightarrow> u16" where "u16_from_le bs = word_of_nat (nat_of_le bs)"
definition u32_from_le :: "bytes \<Rightarrow> u32" where "u32_from_le bs = word_of_nat (nat_of_le bs)"
definition u64_from_le :: "bytes \<Rightarrow> u64" where "u64_from_le bs = word_of_nat (nat_of_le bs)"

lemma unat_u8_less: "unat (b :: u8) < 256"
  using unsigned_less [where 'a = nat, of b] by simp

lemma length_le_of_nat [simp]: "length (le_of_nat k n) = k"
  by (induction k arbitrary: n) auto

lemma nat_of_le_of_nat: "nat_of_le (le_of_nat k n) = n mod 256 ^ k"
  by (induction k arbitrary: n) (auto simp: unat_of_nat mod_mult2_eq)

lemma le_of_nat_of_le: "le_of_nat (length bs) (nat_of_le bs) = bs"
proof (induction bs)
  case (Cons b bs)
  with unat_u8_less [of b] show ?case by simp
qed simp

lemma nat_of_le_less: "nat_of_le bs < 256 ^ length bs"
proof (induction bs)
  case (Cons b bs)
  with unat_u8_less [of b] show ?case by simp
qed simp

lemma le_lengths [simp]:
  "length (u16_to_le a) = 2" "length (u32_to_le b) = 4" "length (u64_to_le c) = 8"
  by (simp_all add: u16_to_le_def u32_to_le_def u64_to_le_def)

lemma u16_le_roundtrip [simp]: "u16_from_le (u16_to_le w) = w"
  using unsigned_less [where 'a = nat, of w]
  by (simp add: u16_from_le_def u16_to_le_def nat_of_le_of_nat)

lemma u32_le_roundtrip [simp]: "u32_from_le (u32_to_le w) = w"
  using unsigned_less [where 'a = nat, of w]
  by (simp add: u32_from_le_def u32_to_le_def nat_of_le_of_nat)

lemma u64_le_roundtrip [simp]: "u64_from_le (u64_to_le w) = w"
  using unsigned_less [where 'a = nat, of w]
  by (simp add: u64_from_le_def u64_to_le_def nat_of_le_of_nat)

lemma u16_to_from_le: "length bs = 2 \<Longrightarrow> u16_to_le (u16_from_le bs) = bs"
  using nat_of_le_less [of bs] le_of_nat_of_le [of bs]
  by (simp add: u16_from_le_def u16_to_le_def unat_of_nat)

lemma u32_to_from_le: "length bs = 4 \<Longrightarrow> u32_to_le (u32_from_le bs) = bs"
  using nat_of_le_less [of bs] le_of_nat_of_le [of bs]
  by (simp add: u32_from_le_def u32_to_le_def unat_of_nat)

lemma u64_to_from_le: "length bs = 8 \<Longrightarrow> u64_to_le (u64_from_le bs) = bs"
  using nat_of_le_less [of bs] le_of_nat_of_le [of bs]
  by (simp add: u64_from_le_def u64_to_le_def unat_of_nat)

lemma u64_to_le_inject [simp]: "u64_to_le a = u64_to_le b \<longleftrightarrow> a = b"
  by (metis u64_le_roundtrip)

lemma u32_to_le_inject [simp]: "u32_to_le a = u32_to_le b \<longleftrightarrow> a = b"
  by (metis u32_le_roundtrip)

lemma u16_to_le_inject [simp]: "u16_to_le a = u16_to_le b \<longleftrightarrow> a = b"
  by (metis u16_le_roundtrip)

lemma word_less_increment: "(x :: 'a :: len word) \<noteq> - 1 \<Longrightarrow> x < x + 1"
  by (metis add.commute lessI max_word_wrap unatSuc word_less_nat_alt)

lemma word_of_small_nat:
  "n < 65536 \<Longrightarrow> unat (word_of_nat n :: u16) = n"
  "n < 4294967296 \<Longrightarrow> unat (word_of_nat n :: u32) = n"
  by (simp_all add: unat_of_nat)

subsection \<open>Bits of an f32\<close>

definition f32_is_finite :: "f32 \<Rightarrow> bool" where
  "f32_is_finite v \<longleftrightarrow> v AND 0x7F800000 \<noteq> 0x7F800000"

definition f32_is_nan :: "f32 \<Rightarrow> bool" where
  "f32_is_nan v \<longleftrightarrow> v AND 0x7F800000 = 0x7F800000 \<and> v AND 0x007FFFFF \<noteq> 0"

text \<open>IEEE-754 orders the values that are not a NaN by sign and then by the remaining 31 bits, which
  are a monotone code of the magnitude; both zeros have the key 0.\<close>

definition f32_key :: "f32 \<Rightarrow> int" where
  "f32_key v = (if bit v 31 then - uint (v AND 0x7FFFFFFF) else uint (v AND 0x7FFFFFFF))"

definition f32_le :: "f32 \<Rightarrow> f32 \<Rightarrow> bool" where
  "f32_le a b \<longleftrightarrow> \<not> f32_is_nan a \<and> \<not> f32_is_nan b \<and> f32_key a \<le> f32_key b"

subsection \<open>ASCII classes and UTF-8 validity\<close>

definition is_ascii_alphanumeric :: "u8 \<Rightarrow> bool" where
  "is_ascii_alphanumeric b \<longleftrightarrow>
     (48 \<le> b \<and> b \<le> 57) \<or> (65 \<le> b \<and> b \<le> 90) \<or> (97 \<le> b \<and> b \<le> 122)"

definition utf8_cont :: "u8 \<Rightarrow> bool" where
  "utf8_cont b \<longleftrightarrow> 0x80 \<le> b \<and> b \<le> 0xBF"

text \<open>The well-formed byte sequences of UTF-8, which \<open>std::str::from_utf8\<close> accepts: the two-, three-
  and four-byte forms without overlong encodings, surrogates or values above \<open>U+10FFFF\<close>.\<close>

fun valid_utf8 :: "bytes \<Rightarrow> bool" where
  "valid_utf8 [] = True"
| "valid_utf8 (a # r) =
     (if a < 0x80 then valid_utf8 r
      else if 0xC2 \<le> a \<and> a \<le> 0xDF then
        (case r of b # r2 \<Rightarrow> utf8_cont b \<and> valid_utf8 r2 | [] \<Rightarrow> False)
      else if 0xE0 \<le> a \<and> a \<le> 0xEF then
        (case r of
           b # c # r3 \<Rightarrow>
             utf8_cont b \<and> utf8_cont c \<and> (a = 0xE0 \<longrightarrow> 0xA0 \<le> b) \<and> (a = 0xED \<longrightarrow> b \<le> 0x9F)
             \<and> valid_utf8 r3
         | _ \<Rightarrow> False)
      else if 0xF0 \<le> a \<and> a \<le> 0xF4 then
        (case r of
           b # c # d # r4 \<Rightarrow>
             utf8_cont b \<and> utf8_cont c \<and> utf8_cont d \<and> (a = 0xF0 \<longrightarrow> 0x90 \<le> b)
             \<and> (a = 0xF4 \<longrightarrow> b \<le> 0x8F) \<and> valid_utf8 r4
         | _ \<Rightarrow> False)
      else False)"

lemma valid_utf8_ascii: "\<forall>b \<in> set bs. b < 0x80 \<Longrightarrow> valid_utf8 bs"
  by (induction bs) auto

subsection \<open>Prefix-free encodings\<close>

text \<open>
  An encoding is prefix free when no encoded value followed by anything can be read as another
  encoded value.  The record fields of the storage formats and the length-framed fields that the
  daemon hashes both have this law; what follows from it is proved once here.
\<close>

locale prefix_free =
  fixes put :: "'a \<Rightarrow> bytes"
    and ok :: "'a \<Rightarrow> bool"
  assumes put_cancel:
    "ok x \<Longrightarrow> ok y \<Longrightarrow> put x @ r = put y @ s \<Longrightarrow> x = y \<and> r = s"
begin

lemma put_inject: "ok x \<Longrightarrow> ok y \<Longrightarrow> put x = put y \<longleftrightarrow> x = y"
  using put_cancel [of x y "[]" "[]"] by auto

lemma concat_put_cancel:
  assumes "length xs = length ys"
    and "\<forall>x \<in> set xs. ok x" and "\<forall>y \<in> set ys. ok y"
    and "concat (map put xs) @ r = concat (map put ys) @ s"
  shows "xs = ys \<and> r = s"
  using assms
proof (induction xs ys rule: list_induct2)
  case (Cons x xs y ys)
  from Cons.prems have "x = y \<and> concat (map put xs) @ r = concat (map put ys) @ s"
    by (intro put_cancel) simp_all
  moreover from this Cons.prems have "xs = ys \<and> r = s"
    by (intro Cons.IH) simp_all
  ultimately show ?case by simp
qed simp

end

subsection \<open>Issuers of fresh values\<close>

text \<open>
  Several components hand out values that must never repeat: the nonce generator of a key, the
  connection counter and the active-transaction counter of the prompt manager.  Each is a machine
  whose step may issue a value; the contract is that the state knows what was issued and a step
  issues only what is new.  \<open>issue_run\<close> runs a list of steps and collects what they issued.
\<close>

fun issue_run :: "('op \<Rightarrow> 's \<Rightarrow> 'i option \<times> 's) \<Rightarrow> 'op list \<Rightarrow> 's \<Rightarrow> 'i list \<times> 's" where
  "issue_run step [] s = ([], s)"
| "issue_run step (p # ps) s =
     (let (r, s') = step p s; (is, s'') = issue_run step ps s'
      in ((case r of None \<Rightarrow> is | Some i \<Rightarrow> i # is), s''))"

locale fresh_issuer =
  fixes step :: "'op \<Rightarrow> 's \<Rightarrow> 'i option \<times> 's"
    and issued :: "'s \<Rightarrow> 'i set"
    and inv :: "'s \<Rightarrow> bool"
  assumes step_inv: "inv s \<Longrightarrow> step p s = (r, s') \<Longrightarrow> inv s'"
    and step_keeps: "inv s \<Longrightarrow> step p s = (r, s') \<Longrightarrow> issued s \<subseteq> issued s'"
    and step_fresh: "inv s \<Longrightarrow> step p s = (Some i, s') \<Longrightarrow> i \<notin> issued s \<and> i \<in> issued s'"
begin

lemma run_fresh:
  assumes "inv s" and "issue_run step ps s = (is, s')"
  shows "inv s' \<and> issued s \<union> set is \<subseteq> issued s' \<and> distinct is \<and> set is \<inter> issued s = {}"
  using assms
proof (induction ps arbitrary: s "is")
  case (Cons p ps)
  obtain r s1 where r: "step p s = (r, s1)" by (cases "step p s")
  obtain js where js: "issue_run step ps s1 = (js, s')"
    using Cons.prems r by (cases "issue_run step ps s1") auto
  have IH: "inv s' \<and> issued s1 \<union> set js \<subseteq> issued s' \<and> distinct js \<and> set js \<inter> issued s1 = {}"
    using Cons.IH [OF step_inv [OF Cons.prems(1) r] js] .
  have keep: "issued s \<subseteq> issued s1" by (rule step_keeps [OF Cons.prems(1) r])
  show ?case
  proof (cases r)
    case None
    with Cons.prems r js IH keep show ?thesis by auto
  next
    case (Some i)
    with step_fresh [OF Cons.prems(1)] r have "i \<notin> issued s \<and> i \<in> issued s1" by blast
    with Some Cons.prems r js IH keep show ?thesis by auto
  qed
qed auto

lemma run_distinct: "inv s \<Longrightarrow> distinct (fst (issue_run step ps s))"
  using run_fresh [of s ps] by (cases "issue_run step ps s") auto

lemma run_count:
  assumes "inv s" and "issue_run step ps s = (is, s')" and "finite (issued s')"
  shows "card (issued s) + length is \<le> card (issued s')"
proof -
  note run = run_fresh [OF assms(1,2)]
  have "finite (issued s)" using run assms(3) finite_subset by blast
  then have "card (issued s \<union> set is) = card (issued s) + length is"
    using run by (subst card_Un_disjoint) (auto simp: distinct_card)
  moreover have "card (issued s \<union> set is) \<le> card (issued s')"
    using run assms(3) by (intro card_mono) auto
  ultimately show ?thesis by simp
qed

end

subsection \<open>Machines that never panic\<close>

text \<open>A machine whose step returns \<open>None\<close> where the code would panic.  Its contract is an invariant that
  every step keeps and under which no step panics; both carry over to runs.\<close>

fun run_ops :: "('op \<Rightarrow> 's \<Rightarrow> 's option) \<Rightarrow> 'op list \<Rightarrow> 's \<Rightarrow> 's option" where
  "run_ops exec [] s = Some s"
| "run_ops exec (p # ps) s = Option.bind (exec p s) (run_ops exec ps)"

locale safe_machine =
  fixes exec :: "'op \<Rightarrow> 's \<Rightarrow> 's option"
    and inv :: "'s \<Rightarrow> bool"
  assumes exec_safe: "inv s \<Longrightarrow> \<exists>s'. exec p s = Some s' \<and> inv s'"
begin

lemma run_safe: "inv s \<Longrightarrow> \<exists>s'. run_ops exec ps s = Some s' \<and> inv s'"
proof (induction ps arbitrary: s)
  case (Cons p ps)
  from exec_safe [OF Cons.prems, of p] obtain s1 where "exec p s = Some s1" and "inv s1" by blast
  with Cons.IH [of s1] show ?case by simp
qed simp

lemma run_inv: "inv s \<Longrightarrow> run_ops exec ps s = Some s' \<Longrightarrow> inv s'"
  using run_safe [of s ps] by auto

end

subsection \<open>Hash maps\<close>

text \<open>
  A \<open>HashMap\<close> is an association list whose keys are distinct (\<open>hm_inv\<close>); its iteration order is
  not specified by the source, and no operation of the model depends on it beyond what a theorem
  states.
\<close>

type_synonym ('k, 'v) hashmap = "('k \<times> 'v) list"

definition hm_inv :: "('k, 'v) hashmap \<Rightarrow> bool" where
  "hm_inv m \<longleftrightarrow> distinct (map fst m)"

abbreviation hm_get :: "('k, 'v) hashmap \<Rightarrow> 'k \<Rightarrow> 'v option" where
  "hm_get m k \<equiv> map_of m k"

definition hm_contains :: "('k, 'v) hashmap \<Rightarrow> 'k \<Rightarrow> bool" where
  "hm_contains m k \<longleftrightarrow> map_of m k \<noteq> None"

abbreviation hm_insert :: "'k \<Rightarrow> 'v \<Rightarrow> ('k, 'v) hashmap \<Rightarrow> ('k, 'v) hashmap" where
  "hm_insert k v m \<equiv> AList.update k v m"

abbreviation hm_remove :: "'k \<Rightarrow> ('k, 'v) hashmap \<Rightarrow> ('k, 'v) hashmap" where
  "hm_remove k m \<equiv> AList.delete k m"

lemma hm_inv_Nil [simp]: "hm_inv []"
  by (simp add: hm_inv_def)

lemma hm_inv_insert [simp]: "hm_inv m \<Longrightarrow> hm_inv (hm_insert k v m)"
  by (simp add: hm_inv_def distinct_update)

lemma hm_inv_remove [simp]: "hm_inv m \<Longrightarrow> hm_inv (hm_remove k m)"
  by (simp add: hm_inv_def distinct_delete)

lemma hm_get_insert [simp]: "hm_get (hm_insert k v m) j = (if j = k then Some v else hm_get m j)"
  by (simp add: update_conv')

lemma hm_get_remove [simp]: "hm_get (hm_remove k m) j = (if j = k then None else hm_get m j)"
  by (simp add: delete_conv')

lemma hm_length_insert_fresh: "hm_get m k = None \<Longrightarrow> length (hm_insert k v m) = Suc (length m)"
  by (induction m) (auto split: if_splits)

lemma hm_insert_fresh: "hm_get m k = None \<Longrightarrow> hm_insert k v m = m @ [(k, v)]"
  by (induction m) (auto split: if_splits)

lemma hm_length_insert_present:
  "hm_get m k = Some w \<Longrightarrow> length (hm_insert k v m) = length m"
  by (induction m) (auto split: if_splits)

lemma hm_remove_absent: "hm_get m k = None \<Longrightarrow> hm_remove k m = m"
  by (simp add: map_of_eq_None_iff)

lemma hm_length_remove_le: "length (hm_remove k m) \<le> length m"
  by (rule length_delete_le)

lemma hm_remove_filter: "hm_remove k m = filter (\<lambda>p. fst p \<noteq> k) m"
  by (induction m) auto

lemma hm_get_Some_in: "hm_inv m \<Longrightarrow> hm_get m k = Some v \<longleftrightarrow> (k, v) \<in> set m"
  by (simp add: hm_inv_def)

text \<open>Sums over the values of a map: what one key contributes.\<close>

definition hm_sum :: "('v \<Rightarrow> nat) \<Rightarrow> ('k, 'v) hashmap \<Rightarrow> nat" where
  "hm_sum f m = sum_list (map (f \<circ> snd) m)"

lemma hm_sum_Nil [simp]: "hm_sum f [] = 0"
  by (simp add: hm_sum_def)

lemma hm_sum_Cons [simp]: "hm_sum f (p # m) = f (snd p) + hm_sum f m"
  by (simp add: hm_sum_def)

lemma hm_sum_append [simp]: "hm_sum f (m @ n) = hm_sum f m + hm_sum f n"
  by (simp add: hm_sum_def)

lemma hm_sum_remove:
  assumes "hm_inv m" and "hm_get m k = Some v"
  shows "hm_sum f m = f v + hm_sum f (hm_remove k m)"
  using assms
proof (induction m)
  case (Cons p m)
  show ?case
  proof (cases "fst p = k")
    case True
    with Cons.prems have "hm_get m k = None"
      by (auto simp: hm_inv_def map_of_eq_None_iff)
    with True Cons.prems show ?thesis
      by (cases p) (auto simp: hm_remove_absent)
  next
    case False
    with Cons show ?thesis by (cases p) (auto simp: hm_inv_def)
  qed
qed simp

lemma hm_sum_insert_fresh:
  "hm_get m k = None \<Longrightarrow> hm_sum f (hm_insert k v m) = hm_sum f m + f v"
  by (simp add: hm_insert_fresh)

lemma hm_length_eq_sum: "length m = hm_sum (\<lambda>_. 1) m"
  by (induction m) auto

lemma hm_count_eq_sum: "length (filter (P \<circ> snd) m) = hm_sum (\<lambda>v. if P v then 1 else 0) m"
  by (induction m) auto

lemma hm_sum_mono: "(\<And>v. f v \<le> g v) \<Longrightarrow> hm_sum f m \<le> hm_sum g m"
  by (induction m) (auto intro: add_mono)

lemma hm_sum_remove_le: "hm_sum f (hm_remove k m) \<le> hm_sum f m"
  by (induction m) (auto simp: le_SucI trans_le_add2)

end
