(* ===== verification/Config.thy ===== *)
theory Config
  imports Prelude
begin

section \<open>Configuration\<close>

text \<open>
  The configuration of \<^verbatim>\<open>crates/howy-common/src/config.rs\<close>: its sections as records, the legacy
  defaults, the secure bootstrap template and \<open>HowyConfig::validate\<close> with its checks in source order.
  Reading TOML and the file system is not modelled.  Each error message of the source is one
  constructor of \<open>config_error\<close>.
\<close>

subsection \<open>Sections\<close>

datatype embedding_security_mode = Plaintext | AeadCached | AeadEphemeral | ReservedFuture

fun embedding_mode_u8 :: "embedding_security_mode \<Rightarrow> u8" where
  "embedding_mode_u8 Plaintext = 0"
| "embedding_mode_u8 AeadCached = 1"
| "embedding_mode_u8 AeadEphemeral = 2"
| "embedding_mode_u8 ReservedFuture = 3"

definition embedding_mode_deserialize :: "int \<Rightarrow> embedding_security_mode option" where
  "embedding_mode_deserialize value =
     (if value = 0 then Some Plaintext
      else if value = 1 then Some AeadCached
      else if value = 2 then Some AeadEphemeral
      else if value = 3 then Some ReservedFuture
      else None)"

record cached_security_config =
  credential_name :: str
  max_cached_users :: u32
  max_cache_bytes :: u64
  require_mlock :: bool

record ephemeral_security_config =
  sealed_key_blob :: str
  key_description :: str
  tpm_parent_handle :: str

record security_config =
  embedding_mode :: embedding_security_mode
  key_epoch :: u64
  max_embeddings_per_user :: u32
  max_record_bytes :: u64
  max_plaintext_bytes :: u64
  cached :: cached_security_config
  ephemeral :: ephemeral_security_config

datatype presence_mode = Off | Confirm

record presence_config =
  presence_mode :: presence_mode
  local_only :: bool
  allowed_pam_services :: "str list"
  prompt_timeout_ms :: u64
  commit_to_camera_ms :: u64
  scan_timeout_ms :: u64
  max_pending_per_uid :: u32
  max_pending_global :: u32

record core_config =
  detection_notice :: bool
  timeout_notice :: bool
  no_confirmation :: bool
  suppress_unknown :: bool
  abort_if_ssh :: bool
  abort_if_lid_closed :: bool
  core_disabled :: bool

record ml_config =
  provider :: str
  prefer_npu :: bool
  det_threshold :: f32
  recognition_threshold :: f32
  detector_model :: str
  recognizer_model :: str
  det_width :: u32
  det_height :: u32
  threads :: usize

record video_config =
  video_timeout :: u32
  device_path :: str
  max_height :: u32
  dark_threshold :: f32
  max_dark_frames :: u32
  frame_width :: "32 word"
  frame_height :: "32 word"
  rotate :: u8
  device_fps :: "32 word"
  exposure :: "32 word"

record snapshot_config =
  save_failed :: bool
  save_successful :: bool

record credential_config =
  enable_cache :: bool
  cache_ttl_secs :: u32
  keyring_prefix :: str
  use_systemd_creds :: bool

record debug_config =
  end_report :: bool
  log_level :: str

record howy_config =
  core :: core_config
  ml :: ml_config
  video :: video_config
  snapshots :: snapshot_config
  credentials :: credential_config
  security :: security_config
  presence :: presence_config
  debug :: debug_config

subsection \<open>Defaults\<close>

text \<open>The \<open>f32\<close> literals are written as their bits: 0.6, 0.5 and 60.0.  A signed \<open>-1\<close> is the word
  of all ones.\<close>

definition cached_security_default :: cached_security_config where
  "cached_security_default =
     \<lparr>credential_name = ascii ''howy.storage.mode1.epoch1'', max_cached_users = 64,
      max_cache_bytes = 134217728, require_mlock = True\<rparr>"

definition ephemeral_security_default :: ephemeral_security_config where
  "ephemeral_security_default =
     \<lparr>sealed_key_blob = ascii ''/var/lib/howy/keys/mode2-epoch1.blob'',
      key_description = ascii ''howy:storage:mode2:epoch1'',
      tpm_parent_handle = ascii ''0x81000001''\<rparr>"

definition security_default :: security_config where
  "security_default =
     \<lparr>embedding_mode = Plaintext, key_epoch = 1, max_embeddings_per_user = 1000,
      max_record_bytes = 2621440, max_plaintext_bytes = 134217728,
      cached = cached_security_default, ephemeral = ephemeral_security_default\<rparr>"

definition presence_default :: presence_config where
  "presence_default =
     \<lparr>presence_mode = Off, local_only = True, allowed_pam_services = [ascii ''sudo''],
      prompt_timeout_ms = 30000, commit_to_camera_ms = 1000, scan_timeout_ms = 2000,
      max_pending_per_uid = 2, max_pending_global = 32\<rparr>"

definition core_default :: core_config where
  "core_default =
     \<lparr>detection_notice = False, timeout_notice = True, no_confirmation = False,
      suppress_unknown = False, abort_if_ssh = True, abort_if_lid_closed = True,
      core_disabled = False\<rparr>"

definition ml_default :: ml_config where
  "ml_default =
     \<lparr>provider = ascii ''auto'', prefer_npu = False, det_threshold = 0x3F19999A,
      recognition_threshold = 0x3F000000, detector_model = [], recognizer_model = [],
      det_width = 640, det_height = 640, threads = 0\<rparr>"

definition video_default :: video_config where
  "video_default =
     \<lparr>video_timeout = 4, device_path = [], max_height = 320, dark_threshold = 0x42700000,
      max_dark_frames = 15, frame_width = - 1, frame_height = - 1, rotate = 0,
      device_fps = - 1, exposure = - 1\<rparr>"

definition snapshot_default :: snapshot_config where
  "snapshot_default = \<lparr>save_failed = False, save_successful = False\<rparr>"

definition credential_default :: credential_config where
  "credential_default =
     \<lparr>enable_cache = False, cache_ttl_secs = 300, keyring_prefix = ascii ''howy:auth'',
      use_systemd_creds = False\<rparr>"

definition debug_default :: debug_config where
  "debug_default = \<lparr>end_report = False, log_level = ascii ''info''\<rparr>"

definition legacy_defaults :: howy_config where
  "legacy_defaults =
     \<lparr>core = core_default, ml = ml_default, video = video_default, snapshots = snapshot_default,
      credentials = credential_default, security = security_default,
      presence = presence_default, debug = debug_default\<rparr>"

definition secure_bootstrap_template :: howy_config where
  "secure_bootstrap_template =
     (let config = legacy_defaults;
          config = config\<lparr>core := (core config)\<lparr>core_disabled := True\<rparr>\<rparr>;
          config = config\<lparr>security := (security config)\<lparr>embedding_mode := AeadCached\<rparr>\<rparr>
      in config\<lparr>presence := (presence config)\<lparr>presence_mode := Confirm\<rparr>\<rparr>)"

definition fresh_template :: howy_config where
  "fresh_template = legacy_defaults"

subsection \<open>Validation\<close>

datatype config_error =
    DetThreshold | RecognitionThreshold | DetWidth | DetHeight | CacheTtl | VideoTimeout
  | ReservedMode | KeyEpoch | MaxEmbeddings | MaxRecordBytes | MaxPlaintextBytes
  | MaxCachedUsers | MaxCacheBytes | CredentialName | SealedKeyBlob | KeyDescription
  | TpmParentHandle | PamServiceName | PamServiceUnique | PamServicesEmpty | PromptTimeout
  | CommitToCamera | ScanTimeout | MaxPendingPerUid | MaxPendingGlobal | LogLevel

definition is_name_byte :: "u8 \<Rightarrow> bool" where
  "is_name_byte b \<longleftrightarrow> is_ascii_alphanumeric b \<or> b = 46 \<or> b = 95 \<or> b = 45"

definition is_safe_ascii_name :: "str \<Rightarrow> usize \<Rightarrow> bool" where
  "is_safe_ascii_name value max_len \<longleftrightarrow>
     value \<noteq> [] \<and> length value \<le> max_len \<and> list_all is_name_byte value"

definition is_ascii_hexdigit :: "u8 \<Rightarrow> bool" where
  "is_ascii_hexdigit b \<longleftrightarrow>
     (48 \<le> b \<and> b \<le> 57) \<or> (65 \<le> b \<and> b \<le> 70) \<or> (97 \<le> b \<and> b \<le> 102)"

definition hex_digit_value :: "u8 \<Rightarrow> nat" where
  "hex_digit_value b =
     (if b \<le> 57 then unat b - 48 else if b \<le> 70 then unat b - 55 else unat b - 87)"

definition hex_value :: "bytes \<Rightarrow> nat" where
  "hex_value bs = foldl (\<lambda>v b. 16 * v + hex_digit_value b) 0 bs"

definition validate_tpm_parent_handle :: "str \<Rightarrow> bool" where
  "validate_tpm_parent_handle value \<longleftrightarrow>
     length value = 10 \<and> take 2 value = ascii ''0x'' \<and> list_all is_ascii_hexdigit (drop 2 value)
     \<and> hex_value (drop 2 value) \<noteq> 0"

definition is_absolute :: "str \<Rightarrow> bool" where
  "is_absolute path \<longleftrightarrow> (case path of [] \<Rightarrow> False | b # _ \<Rightarrow> b = 47)"

definition printable_ascii :: "u8 \<Rightarrow> bool" where
  "printable_ascii b \<longleftrightarrow> 32 \<le> b \<and> b \<le> 126"

fun validate_services :: "str list \<Rightarrow> str list \<Rightarrow> config_error + unit" where
  "validate_services seen [] = Inr ()"
| "validate_services seen (service # rest) =
     (if \<not> is_safe_ascii_name service 64 then Inl PamServiceName
      else if service \<in> set seen then Inl PamServiceUnique
      else validate_services (service # seen) rest)"

definition validate_mode_section :: "security_config \<Rightarrow> config_error + unit" where
  "validate_mode_section sec =
     (case embedding_mode sec of
        AeadCached \<Rightarrow>
          (if \<not> (1 \<le> max_cached_users (cached sec) \<and> max_cached_users (cached sec) \<le> 4096)
           then Inl MaxCachedUsers
           else if max_cache_bytes (cached sec) < max_record_bytes sec
             \<or> max_cache_bytes (cached sec) > max_plaintext_bytes sec
           then Inl MaxCacheBytes
           else if \<not> is_safe_ascii_name (credential_name (cached sec)) 128
           then Inl CredentialName
           else Inr ())
      | AeadEphemeral \<Rightarrow>
          (if \<not> is_absolute (sealed_key_blob (ephemeral sec)) then Inl SealedKeyBlob
           else if key_description (ephemeral sec) = []
             \<or> 128 < length (key_description (ephemeral sec))
             \<or> \<not> list_all printable_ascii (key_description (ephemeral sec))
           then Inl KeyDescription
           else if \<not> validate_tpm_parent_handle (tpm_parent_handle (ephemeral sec))
           then Inl TpmParentHandle
           else Inr ())
      | Plaintext \<Rightarrow> Inr ()
      | ReservedFuture \<Rightarrow> Inr ())"

definition validate_security :: "security_config \<Rightarrow> config_error + unit" where
  "validate_security sec =
     (if embedding_mode sec = ReservedFuture then Inl ReservedMode
      else if (embedding_mode sec = AeadCached \<or> embedding_mode sec = AeadEphemeral)
        \<and> key_epoch sec = 0 then Inl KeyEpoch
      else if \<not> (1 \<le> max_embeddings_per_user sec \<and> max_embeddings_per_user sec \<le> 1000)
      then Inl MaxEmbeddings
      else if \<not> (4096 \<le> max_record_bytes sec \<and> max_record_bytes sec \<le> 2621440)
      then Inl MaxRecordBytes
      else if max_plaintext_bytes sec < max_record_bytes sec \<or> max_plaintext_bytes sec > 1073741824
      then Inl MaxPlaintextBytes
      else validate_mode_section sec)"

definition validate_presence :: "presence_config \<Rightarrow> config_error + unit" where
  "validate_presence pres =
     and_then (validate_services [] (allowed_pam_services pres)) (\<lambda>_.
       if presence_mode pres = Confirm \<and> allowed_pam_services pres = [] then Inl PamServicesEmpty
       else if \<not> (1000 \<le> prompt_timeout_ms pres \<and> prompt_timeout_ms pres \<le> 300000)
       then Inl PromptTimeout
       else if \<not> (100 \<le> commit_to_camera_ms pres \<and> commit_to_camera_ms pres \<le> 10000)
       then Inl CommitToCamera
       else if \<not> (100 \<le> scan_timeout_ms pres \<and> scan_timeout_ms pres \<le> 30000)
       then Inl ScanTimeout
       else if \<not> (1 \<le> max_pending_per_uid pres \<and> max_pending_per_uid pres \<le> 16)
       then Inl MaxPendingPerUid
       else if max_pending_global pres < max_pending_per_uid pres \<or> max_pending_global pres > 1024
       then Inl MaxPendingGlobal
       else Inr ())"

definition unit_interval :: "f32 \<Rightarrow> bool" where
  "unit_interval v \<longleftrightarrow> f32_le 0 v \<and> f32_le v 0x3F800000"

definition validate :: "howy_config \<Rightarrow> config_error + unit" where
  "validate config =
     (if \<not> unit_interval (det_threshold (ml config)) then Inl DetThreshold
      else if \<not> unit_interval (recognition_threshold (ml config)) then Inl RecognitionThreshold
      else if det_width (ml config) = 0 then Inl DetWidth
      else if det_height (ml config) = 0 then Inl DetHeight
      else if enable_cache (credentials config) \<and> cache_ttl_secs (credentials config) = 0
      then Inl CacheTtl
      else if video_timeout (video config) = 0 then Inl VideoTimeout
      else and_then (validate_security (security config)) (\<lambda>_.
        and_then (validate_presence (presence config)) (\<lambda>_.
          if log_level (debug config) \<in>
            {ascii ''error'', ascii ''warn'', ascii ''info'', ascii ''debug'', ascii ''trace''}
          then Inr () else Inl LogLevel)))"

lemmas config_default_defs =
  legacy_defaults_def core_default_def ml_default_def video_default_def snapshot_default_def
  credential_default_def security_default_def presence_default_def debug_default_def
  cached_security_default_def ephemeral_security_default_def

subsection \<open>What a validated configuration guarantees\<close>

text \<open>The checks of the presence section, restated on numbers.\<close>

definition presence_ok :: "presence_config \<Rightarrow> bool" where
  "presence_ok pres \<longleftrightarrow>
     1000 \<le> unat (prompt_timeout_ms pres) \<and> unat (prompt_timeout_ms pres) \<le> 300000
     \<and> 100 \<le> unat (commit_to_camera_ms pres) \<and> unat (commit_to_camera_ms pres) \<le> 10000
     \<and> 100 \<le> unat (scan_timeout_ms pres) \<and> unat (scan_timeout_ms pres) \<le> 30000
     \<and> 1 \<le> unat (max_pending_per_uid pres) \<and> unat (max_pending_per_uid pres) \<le> 16
     \<and> unat (max_pending_per_uid pres) \<le> unat (max_pending_global pres)
     \<and> unat (max_pending_global pres) \<le> 1024
     \<and> distinct (allowed_pam_services pres)
     \<and> (\<forall>s \<in> set (allowed_pam_services pres). is_safe_ascii_name s 64)
     \<and> (presence_mode pres = Confirm \<longrightarrow> allowed_pam_services pres \<noteq> [])"

definition security_ok :: "security_config \<Rightarrow> bool" where
  "security_ok sec \<longleftrightarrow>
     embedding_mode sec \<noteq> ReservedFuture
     \<and> (embedding_mode sec \<in> {AeadCached, AeadEphemeral} \<longrightarrow> key_epoch sec \<noteq> 0)
     \<and> 1 \<le> unat (max_embeddings_per_user sec) \<and> unat (max_embeddings_per_user sec) \<le> 1000
     \<and> 4096 \<le> unat (max_record_bytes sec) \<and> unat (max_record_bytes sec) \<le> 2621440
     \<and> unat (max_record_bytes sec) \<le> unat (max_plaintext_bytes sec)
     \<and> unat (max_plaintext_bytes sec) \<le> 1073741824
     \<and> (embedding_mode sec = AeadCached \<longrightarrow>
          1 \<le> unat (max_cached_users (cached sec)) \<and> unat (max_cached_users (cached sec)) \<le> 4096
          \<and> unat (max_record_bytes sec) \<le> unat (max_cache_bytes (cached sec))
          \<and> unat (max_cache_bytes (cached sec)) \<le> unat (max_plaintext_bytes sec)
          \<and> is_safe_ascii_name (credential_name (cached sec)) 128)"

lemma validate_services_iff:
  "validate_services seen services = Inr u \<longleftrightarrow>
     (\<forall>s \<in> set services. is_safe_ascii_name s 64) \<and> distinct services
     \<and> set services \<inter> set seen = {}"
  by (induction seen services rule: validate_services.induct) auto

lemma validate_presence_ok: "validate_presence pres = Inr u \<Longrightarrow> presence_ok pres"
  by (auto simp: validate_presence_def presence_ok_def and_then_Inr_iff validate_services_iff
      word_le_nat_alt word_less_nat_alt split: if_splits)

lemma validate_security_ok: "validate_security sec = Inr u \<Longrightarrow> security_ok sec"
  by (auto simp: validate_security_def validate_mode_section_def security_ok_def
      word_le_nat_alt word_less_nat_alt split: if_splits embedding_security_mode.splits)

lemma validate_sections:
  assumes "validate config = Inr u"
  shows "security_ok (security config)" and "presence_ok (presence config)"
  using assms
  by (auto simp: validate_def and_then_Inr_iff split: if_splits
      intro: validate_security_ok validate_presence_ok)

end
