(* ===== verification/Records.thy ===== *)
theory Records
  imports Config
begin

section \<open>Enrollment records\<close>

text \<open>
  The value types of \<^verbatim>\<open>crates/howy-common/src/storage/mod.rs\<close> and the username grammar of
  \<^verbatim>\<open>crates/howy-common/src/paths.rs\<close>: canonical usernames, enrollment identifiers, enrollment
  entries, enrollment records and storage modes, each with the checks of its constructor.  Zeroizing
  ownership and redacted formatting have no counterpart in the model.

  The predicates \<open>entry_wf\<close> and \<open>record_wf\<close> are the type invariants: a value built by the
  constructors has them (\<open>new_zeroizing_fields_wf\<close>, \<open>from_boxed_entries_wf\<close>), and the rest of the
  development relies on them.
\<close>

definition EMBEDDING_DIMENSION :: usize where "EMBEDDING_DIMENSION = 512"
definition MAX_ENTRIES :: usize where "MAX_ENTRIES = 1000"
definition MAX_LABEL_BYTES :: usize where "MAX_LABEL_BYTES = 256"
definition MAX_PLAINTEXT_BYTES :: usize where "MAX_PLAINTEXT_BYTES = 2621440"
definition AES_256_KEY_BYTES :: usize where "AES_256_KEY_BYTES = 32"
definition GCM_NONCE_BYTES :: usize where "GCM_NONCE_BYTES = 12"
definition GCM_TAG_BYTES :: usize where "GCM_TAG_BYTES = 16"
definition CANONICAL_PAYLOAD_FIXED_BYTES :: usize where "CANONICAL_PAYLOAD_FIXED_BYTES = 8"
definition CANONICAL_ENTRY_FIXED_BYTES :: usize where
  "CANONICAL_ENTRY_FIXED_BYTES = 16 + 8 + 2 + 2 + EMBEDDING_DIMENSION * 4"

lemmas storage_consts =
  EMBEDDING_DIMENSION_def MAX_ENTRIES_def MAX_LABEL_BYTES_def MAX_PLAINTEXT_BYTES_def
  AES_256_KEY_BYTES_def GCM_NONCE_BYTES_def GCM_TAG_BYTES_def CANONICAL_PAYLOAD_FIXED_BYTES_def
  CANONICAL_ENTRY_FIXED_BYTES_def

subsection \<open>Errors\<close>

datatype storage_error =
    InvalidUsername
  | InvalidMagic string
  | UnsupportedVersion string u16
  | UnsupportedAlgorithm u16
  | UnsupportedMode u8
  | UnsupportedNamespaceMode u8
  | UnknownFlags string u16
  | InvalidReserved string
  | InvalidLength string
  | LimitExceeded string
  | IntegerOverflow string
  | AllocationFailed string
  | InvalidGeneration
  | InvalidEpoch
  | InvalidEmbeddingDimension u16
  | EntryCountMismatch
  | ZeroEnrollmentId
  | DuplicateEnrollmentId
  | InvalidLabelUtf8
  | NonFiniteEmbedding
  | BindingMismatch string
  | AuthenticationFailed
  | RandomSource string
  | DuplicateNonce
  | InvalidNonceCeiling
  | NonceWriteLimitExceeded
  | GenerationOverflow
  | InvalidLegacyRecord

text \<open>A fallible allocation (\<open>try_reserve_exact\<close>): the allocator may refuse a request, and which
  ones it refuses is a parameter, indexed by the name of the allocation site.\<close>

type_synonym allocator = "string \<Rightarrow> nat \<Rightarrow> bool"

definition try_reserve_exact :: "allocator \<Rightarrow> string \<Rightarrow> nat \<Rightarrow> storage_error + unit" where
  "try_reserve_exact alloc site n = ensure (alloc site n) (AllocationFailed site)"

subsection \<open>Canonical usernames\<close>

definition is_canonical_username :: "str \<Rightarrow> bool" where
  "is_canonical_username username \<longleftrightarrow>
     1 \<le> length username \<and> length username \<le> 64
     \<and> list_all (\<lambda>b. is_ascii_alphanumeric b \<or> b = 46 \<or> b = 95 \<or> b = 45) username"

definition validate_username :: "str \<Rightarrow> bool" where
  "validate_username username = is_canonical_username username"

definition canonical_username_new :: "str \<Rightarrow> storage_error + str" where
  "canonical_username_new username =
     (if \<not> is_canonical_username username then Inl InvalidUsername else Inr username)"

lemma canonical_username_new_Inr_iff [simp]:
  "canonical_username_new u = Inr v \<longleftrightarrow> v = u \<and> is_canonical_username u"
  by (auto simp: canonical_username_new_def)

lemma canonical_username_bytes:
  "is_canonical_username u \<Longrightarrow> b \<in> set u \<Longrightarrow> b < 128 \<and> b \<noteq> 47 \<and> b \<noteq> 0"
  by (auto simp: is_canonical_username_def is_ascii_alphanumeric_def list_all_iff
      word_le_nat_alt word_less_nat_alt dest!: bspec)

lemma canonical_username_utf8: "is_canonical_username u \<Longrightarrow> valid_utf8 u"
  by (rule valid_utf8_ascii) (use canonical_username_bytes in auto)

lemma canonical_username_length:
  "is_canonical_username u \<Longrightarrow> 1 \<le> length u \<and> length u \<le> 64"
  by (simp add: is_canonical_username_def)

subsection \<open>Enrollment identifiers and entries\<close>

definition enrollment_id_new :: "bytes \<Rightarrow> storage_error + bytes" where
  "enrollment_id_new bs = (if bs = replicate 16 0 then Inl ZeroEnrollmentId else Inr bs)"

definition enrollment_id_wf :: "bytes \<Rightarrow> bool" where
  "enrollment_id_wf i \<longleftrightarrow> length i = 16 \<and> i \<noteq> replicate 16 0"

lemma enrollment_id_new_Inr_iff [simp]:
  "enrollment_id_new bs = Inr i \<longleftrightarrow> i = bs \<and> bs \<noteq> replicate 16 0"
  by (auto simp: enrollment_id_new_def)

record enrollment_entry =
  enrollment_id :: bytes
  created_unix_seconds :: u64
  label :: str
  embedding :: "f32 list"

definition new_zeroizing_fields ::
  "bytes \<Rightarrow> u64 \<Rightarrow> str \<Rightarrow> f32 list \<Rightarrow> storage_error + enrollment_entry" where
  "new_zeroizing_fields eid created lab emb =
     (let entry = \<lparr>enrollment_id = eid, created_unix_seconds = created, label = lab,
                   embedding = emb\<rparr>
      in if MAX_LABEL_BYTES < length (label entry) then Inl (LimitExceeded ''label'')
         else if list_ex (\<lambda>v. \<not> f32_is_finite v) (embedding entry) then Inl NonFiniteEmbedding
         else Inr entry)"

definition enrollment_entry_new ::
  "bytes \<Rightarrow> u64 \<Rightarrow> str \<Rightarrow> f32 list \<Rightarrow> storage_error + enrollment_entry" where
  "enrollment_entry_new eid created lab emb = new_zeroizing_fields eid created lab emb"

definition try_from_embedding_vec ::
  "bytes \<Rightarrow> u64 \<Rightarrow> str \<Rightarrow> f32 list \<Rightarrow> storage_error + enrollment_entry" where
  "try_from_embedding_vec eid created lab emb =
     (let actual = length emb
      in if actual \<noteq> EMBEDDING_DIMENSION
         then Inl (InvalidEmbeddingDimension (if actual < 65536 then word_of_nat actual else 65535))
         else new_zeroizing_fields eid created lab emb)"

definition entry_wf :: "enrollment_entry \<Rightarrow> bool" where
  "entry_wf e \<longleftrightarrow>
     enrollment_id_wf (enrollment_id e) \<and> valid_utf8 (label e)
     \<and> length (label e) \<le> MAX_LABEL_BYTES \<and> length (embedding e) = EMBEDDING_DIMENSION
     \<and> list_all f32_is_finite (embedding e)"

lemma new_zeroizing_fields_Inr_iff:
  "new_zeroizing_fields i c l v = Inr e \<longleftrightarrow>
     e = \<lparr>enrollment_id = i, created_unix_seconds = c, label = l, embedding = v\<rparr>
     \<and> length l \<le> MAX_LABEL_BYTES \<and> list_all f32_is_finite v"
  by (auto simp: new_zeroizing_fields_def Let_def list_all_iff list_ex_iff)

lemma new_zeroizing_fields_wf:
  assumes "new_zeroizing_fields i c l v = Inr e"
    and "enrollment_id_wf i" and "valid_utf8 l" and "length v = EMBEDDING_DIMENSION"
  shows "entry_wf e"
  using assms by (auto simp: new_zeroizing_fields_Inr_iff entry_wf_def)

lemma try_from_embedding_vec_wf:
  assumes "try_from_embedding_vec i c l v = Inr e"
    and "enrollment_id_wf i" and "valid_utf8 l"
  shows "entry_wf e"
  using assms
  by (auto simp: try_from_embedding_vec_def Let_def intro: new_zeroizing_fields_wf split: if_splits)

subsection \<open>Records\<close>

record enrollment_record =
  generation :: u64
  recognizer_model_sha256 :: bytes
  username :: str
  entries :: "enrollment_entry list"

text \<open>The duplicate scan of the constructor compares every entry with the ones before it.\<close>

fun has_duplicate_id :: "bytes list \<Rightarrow> enrollment_entry list \<Rightarrow> bool" where
  "has_duplicate_id prior [] = False"
| "has_duplicate_id prior (e # es) =
     (enrollment_id e \<in> set prior \<or> has_duplicate_id (prior @ [enrollment_id e]) es)"

definition from_boxed_entries ::
  "u64 \<Rightarrow> bytes \<Rightarrow> str \<Rightarrow> enrollment_entry list \<Rightarrow> storage_error + enrollment_record" where
  "from_boxed_entries gen model user es =
     (if gen = 0 then Inl InvalidGeneration
      else if MAX_ENTRIES < length es then Inl (LimitExceeded ''entry count'')
      else if has_duplicate_id [] es then Inl DuplicateEnrollmentId
      else Inr \<lparr>generation = gen, recognizer_model_sha256 = model, username = user, entries = es\<rparr>)"

definition enrollment_record_new ::
  "u64 \<Rightarrow> bytes \<Rightarrow> str \<Rightarrow> enrollment_entry list \<Rightarrow> storage_error + enrollment_record" where
  "enrollment_record_new gen model user es = from_boxed_entries gen model user es"

definition record_wf :: "enrollment_record \<Rightarrow> bool" where
  "record_wf r \<longleftrightarrow>
     generation r \<noteq> 0 \<and> length (recognizer_model_sha256 r) = 32
     \<and> is_canonical_username (username r) \<and> length (entries r) \<le> MAX_ENTRIES
     \<and> distinct (map enrollment_id (entries r)) \<and> list_all entry_wf (entries r)"

lemma has_duplicate_id_iff:
  "has_duplicate_id prior es \<longleftrightarrow>
     \<not> (distinct (map enrollment_id es) \<and> set prior \<inter> set (map enrollment_id es) = {})"
  by (induction prior es rule: has_duplicate_id.induct) auto

lemma from_boxed_entries_Inr_iff:
  "from_boxed_entries g m u es = Inr r \<longleftrightarrow>
     r = \<lparr>generation = g, recognizer_model_sha256 = m, username = u, entries = es\<rparr>
     \<and> g \<noteq> 0 \<and> length es \<le> MAX_ENTRIES \<and> distinct (map enrollment_id es)"
  by (auto simp: from_boxed_entries_def has_duplicate_id_iff)

lemma enrollment_record_new_Inr_iff:
  "enrollment_record_new g m u es = Inr r \<longleftrightarrow>
     r = \<lparr>generation = g, recognizer_model_sha256 = m, username = u, entries = es\<rparr>
     \<and> g \<noteq> 0 \<and> length es \<le> MAX_ENTRIES \<and> distinct (map enrollment_id es)"
  by (simp add: enrollment_record_new_def from_boxed_entries_Inr_iff)

lemma from_boxed_entries_wf:
  assumes "from_boxed_entries g m u es = Inr r"
    and "length m = 32" and "is_canonical_username u" and "list_all entry_wf es"
  shows "record_wf r"
  using assms by (auto simp: from_boxed_entries_Inr_iff record_wf_def)

subsection \<open>Storage modes\<close>

datatype storage_mode = ModeAeadCached | ModeAeadEphemeral

fun storage_mode_identifier :: "storage_mode \<Rightarrow> u8" where
  "storage_mode_identifier ModeAeadCached = 1"
| "storage_mode_identifier ModeAeadEphemeral = 2"

definition storage_mode_try_from_u8 :: "u8 \<Rightarrow> storage_error + storage_mode" where
  "storage_mode_try_from_u8 value =
     (if value = 1 then Inr ModeAeadCached
      else if value = 2 then Inr ModeAeadEphemeral
      else Inl (UnsupportedMode value))"

fun storage_mode_try_from :: "embedding_security_mode \<Rightarrow> storage_error + storage_mode" where
  "storage_mode_try_from AeadCached = Inr ModeAeadCached"
| "storage_mode_try_from AeadEphemeral = Inr ModeAeadEphemeral"
| "storage_mode_try_from other = Inl (UnsupportedMode (embedding_mode_u8 other))"

lemma storage_mode_identifier_roundtrip [simp]:
  "storage_mode_try_from_u8 (storage_mode_identifier m) = Inr m"
  by (cases m) (simp_all add: storage_mode_try_from_u8_def)

lemma storage_mode_try_from_u8_Inr:
  "storage_mode_try_from_u8 b = Inr m \<longleftrightarrow> b = storage_mode_identifier m"
  by (cases m) (auto simp: storage_mode_try_from_u8_def split: if_splits)

end
