(* ===== verification/Reader.thy ===== *)
theory Reader
  imports Records
begin

section \<open>The bounded reader\<close>

text \<open>
  \<open>struct Reader\<close> of \<^verbatim>\<open>crates/howy-common/src/storage/codec.rs\<close>, the only way the record decoders
  consume bytes.  A read returns its value and the reader after it.  \<open>rest\<close> is what is left to read
  and \<open>advance n\<close> is the reader \<open>n\<close> bytes further; on a well-formed reader every operation is a
  function of \<open>rest\<close> alone (\<open>rtake_eq\<close> and the lemmas after it).

  The locale \<open>field_codec\<close> is the contract between an encoder of a field and its reader: reading what
  was written gives the value back, and whatever was read is what the encoder writes.  The integer
  fields and the fixed arrays of the formats are instances; so is the enrollment entry in \<open>Codec\<close>.
\<close>

record reader =
  rbytes :: bytes
  roffset :: usize
  rformat :: string

definition reader_new :: "bytes \<Rightarrow> string \<Rightarrow> reader" where
  "reader_new bs fmt = \<lparr>rbytes = bs, roffset = 0, rformat = fmt\<rparr>"

definition rtake :: "nat \<Rightarrow> reader \<Rightarrow> storage_error + bytes \<times> reader" where
  "rtake n r =
     and_then (ok_or (IntegerOverflow ''decoder offset'') (checked_add (roffset r) n)) (\<lambda>end'.
       if roffset r \<le> end' \<and> end' \<le> length (rbytes r)
       then Inr (take (end' - roffset r) (drop (roffset r) (rbytes r)), r\<lparr>roffset := end'\<rparr>)
       else Inl (InvalidLength (rformat r)))"

definition read_array :: "nat \<Rightarrow> reader \<Rightarrow> storage_error + bytes \<times> reader" where
  "read_array n r =
     and_then (rtake n r) (\<lambda>(v, r').
       if length v = n then Inr (v, r') else Inl (InvalidLength (rformat r)))"

definition read_u8 :: "reader \<Rightarrow> storage_error + u8 \<times> reader" where
  "read_u8 r = map_ok (\<lambda>(v, r'). (v ! 0, r')) (read_array 1 r)"

definition read_u16 :: "reader \<Rightarrow> storage_error + u16 \<times> reader" where
  "read_u16 r = map_ok (\<lambda>(v, r'). (u16_from_le v, r')) (read_array 2 r)"

definition read_u32 :: "reader \<Rightarrow> storage_error + u32 \<times> reader" where
  "read_u32 r = map_ok (\<lambda>(v, r'). (u32_from_le v, r')) (read_array 4 r)"

definition read_u64 :: "reader \<Rightarrow> storage_error + u64 \<times> reader" where
  "read_u64 r = map_ok (\<lambda>(v, r'). (u64_from_le v, r')) (read_array 8 r)"

definition remaining :: "reader \<Rightarrow> usize" where
  "remaining r = saturating_sub (length (rbytes r)) (roffset r)"

definition remainder :: "reader \<Rightarrow> bytes" where
  "remainder r = drop (roffset r) (rbytes r)"

definition finish :: "reader \<Rightarrow> storage_error + unit" where
  "finish r = (if roffset r = length (rbytes r) then Inr () else Inl (InvalidLength (rformat r)))"

subsection \<open>A reader as what is left to read\<close>

text \<open>A Rust slice holds at most \<open>isize::MAX\<close> bytes.\<close>

definition slice_limit :: nat where
  "slice_limit = 2 ^ 63"

definition rest :: "reader \<Rightarrow> bytes" where
  "rest r = drop (roffset r) (rbytes r)"

definition advance :: "nat \<Rightarrow> reader \<Rightarrow> reader" where
  "advance n r = r\<lparr>roffset := roffset r + n\<rparr>"

definition wf_reader :: "reader \<Rightarrow> bool" where
  "wf_reader r \<longleftrightarrow> roffset r \<le> length (rbytes r) \<and> length (rbytes r) < slice_limit"

lemma rest_new [simp]: "rest (reader_new bs fmt) = bs"
  by (simp add: rest_def reader_new_def)

lemma wf_reader_new [simp]: "wf_reader (reader_new bs fmt) \<longleftrightarrow> length bs < slice_limit"
  by (simp add: wf_reader_def reader_new_def)

lemma rformat_new [simp]: "rformat (reader_new bs fmt) = fmt"
  by (simp add: reader_new_def)

lemma rest_advance [simp]: "rest (advance n r) = drop n (rest r)"
  by (simp add: rest_def advance_def add.commute)

lemma rformat_advance [simp]: "rformat (advance n r) = rformat r"
  by (simp add: advance_def)

lemma advance_advance [simp]: "advance n (advance m r) = advance (m + n) r"
  by (simp add: advance_def add.assoc)

lemma wf_reader_advance [simp]:
  "wf_reader r \<Longrightarrow> wf_reader (advance n r) \<longleftrightarrow> n \<le> length (rest r)"
  by (auto simp: wf_reader_def advance_def rest_def)

lemma rtake_eq:
  assumes "wf_reader r" and "n < slice_limit"
  shows "rtake n r =
    (if n \<le> length (rest r) then Inr (take n (rest r), advance n r)
     else Inl (InvalidLength (rformat r)))"
proof -
  have "roffset r + n < usize_limit"
    using assms by (auto simp: wf_reader_def slice_limit_def usize_limit_def)
  with assms(1) show ?thesis
    by (auto simp: rtake_def checked_add_small rest_def advance_def wf_reader_def)
qed

lemma read_array_eq:
  assumes "wf_reader r" and "n < slice_limit"
  shows "read_array n r =
    (if n \<le> length (rest r) then Inr (take n (rest r), advance n r)
     else Inl (InvalidLength (rformat r)))"
  using assms by (simp add: read_array_def rtake_eq)

lemma read_int_eqs:
  assumes "wf_reader r"
  shows "read_u8 r =
      (if 1 \<le> length (rest r) then Inr (rest r ! 0, advance 1 r)
       else Inl (InvalidLength (rformat r)))"
    and "read_u16 r =
      (if 2 \<le> length (rest r) then Inr (u16_from_le (take 2 (rest r)), advance 2 r)
       else Inl (InvalidLength (rformat r)))"
    and "read_u32 r =
      (if 4 \<le> length (rest r) then Inr (u32_from_le (take 4 (rest r)), advance 4 r)
       else Inl (InvalidLength (rformat r)))"
    and "read_u64 r =
      (if 8 \<le> length (rest r) then Inr (u64_from_le (take 8 (rest r)), advance 8 r)
       else Inl (InvalidLength (rformat r)))"
  using assms
  by (simp_all add: read_u8_def read_u16_def read_u32_def read_u64_def read_array_eq slice_limit_def)

lemma remaining_eq: "wf_reader r \<Longrightarrow> remaining r = length (rest r)"
  by (simp add: remaining_def saturating_sub_def rest_def)

lemma remainder_eq: "remainder r = rest r"
  by (simp add: remainder_def rest_def)

lemma finish_eq:
  "wf_reader r \<Longrightarrow> finish r = (if rest r = [] then Inr () else Inl (InvalidLength (rformat r)))"
  by (auto simp: finish_def rest_def wf_reader_def)

lemma wf_reader_rest: "wf_reader r \<Longrightarrow> length (rest r) < slice_limit"
  by (auto simp: wf_reader_def rest_def)

subsection \<open>The contract of a field\<close>

locale field_codec =
  fixes put :: "'a \<Rightarrow> bytes"
    and get :: "reader \<Rightarrow> storage_error + 'a \<times> reader"
    and ok :: "'a \<Rightarrow> bool"
  assumes get_put:
      "wf_reader r \<Longrightarrow> ok x \<Longrightarrow> rest r = put x @ t \<Longrightarrow> get r = Inr (x, advance (length (put x)) r)"
    and put_get:
      "wf_reader r \<Longrightarrow> get r = Inr (x, r') \<Longrightarrow>
         ok x \<and> r' = advance (length (put x)) r \<and> (\<exists>t. rest r = put x @ t)"
    and put_short: "ok x \<Longrightarrow> length (put x) < slice_limit"
begin

lemma get_wf: "wf_reader r \<Longrightarrow> get r = Inr (x, r') \<Longrightarrow> wf_reader r'"
  using put_get [of r x r'] by auto

lemma get_Inr_iff:
  assumes "wf_reader r"
  shows "get r = Inr (x, r') \<longleftrightarrow>
    ok x \<and> r' = advance (length (put x)) r \<and> (\<exists>t. rest r = put x @ t)"
  using get_put [OF assms, of x] put_get [OF assms, of x r'] by auto

lemma put_cancel_field:
  assumes "ok x" and "ok y" and eq: "put x @ r = put y @ s"
  shows "x = y \<and> r = s"
proof -
  define k where "k = max (length (put x)) (length (put y))"
  define d where "d = reader_new (take k (put x @ r)) []"
  have "k < slice_limit" using put_short assms(1,2) by (simp add: k_def)
  then have wf: "wf_reader d" by (simp only: d_def wf_reader_new length_take)
  have le: "length (put x) \<le> k" "length (put y) \<le> k" by (simp_all add: k_def)
  have "rest d = put x @ take (k - length (put x)) r" using le by (simp add: d_def)
  from get_put [OF wf assms(1) this] have x: "get d = Inr (x, advance (length (put x)) d)" .
  have "rest d = put y @ take (k - length (put y)) s"
    unfolding d_def eq using le by simp
  from get_put [OF wf assms(2) this] x have "x = y" by simp
  with eq show ?thesis by simp
qed

end

sublocale field_codec \<subseteq> prefix_free put ok
  by unfold_locales (rule put_cancel_field)

lemma fixed_codec:
  assumes get: "\<And>r. wf_reader r \<Longrightarrow> get r =
      (if n \<le> length (rest r) then Inr (dec (take n (rest r)), advance n r)
       else Inl (InvalidLength (rformat r)))"
    and put: "\<And>x. ok x \<Longrightarrow> length (put x) = n \<and> dec (put x) = x"
    and inverse: "\<And>bs. length bs = n \<Longrightarrow> ok (dec bs) \<and> put (dec bs) = bs"
    and n: "n < slice_limit"
  shows "field_codec put get ok"
proof
  show "get r = Inr (x, advance (length (put x)) r)"
    if "wf_reader r" and "ok x" and "rest r = put x @ t" for r x t
    using that get [of r] put [of x] by simp
  show "ok x \<and> r' = advance (length (put x)) r \<and> (\<exists>t. rest r = put x @ t)"
    if "wf_reader r" and g: "get r = Inr (x, r')" for r x r'
  proof -
    from get [OF that(1)] g have "n \<le> length (rest r)" "x = dec (take n (rest r))"
      "r' = advance n r" by (simp_all split: if_splits)
    with inverse [of "take n (rest r)"] put [of x] show ?thesis
      using append_take_drop_id [of n "rest r"] by (metis length_take min.absorb2)
  qed
  show "length (put x) < slice_limit" if "ok x" for x
    using put [OF that] n by simp
qed

lemma length_1_hd: "length bs = 1 \<Longrightarrow> [bs ! 0] = bs"
  by (cases bs) auto

interpretation f_u8: field_codec "\<lambda>b. [b]" read_u8 "\<lambda>_. True"
  by (rule fixed_codec [where n = 1 and dec = "\<lambda>bs. bs ! 0"])
    (simp_all add: read_int_eqs length_1_hd slice_limit_def)

interpretation f_u16: field_codec u16_to_le read_u16 "\<lambda>_. True"
  by (rule fixed_codec [where n = 2 and dec = u16_from_le])
    (simp_all add: read_int_eqs u16_to_from_le slice_limit_def)

interpretation f_u32: field_codec u32_to_le read_u32 "\<lambda>_. True"
  by (rule fixed_codec [where n = 4 and dec = u32_from_le])
    (simp_all add: read_int_eqs u32_to_from_le slice_limit_def)

interpretation f_u64: field_codec u64_to_le read_u64 "\<lambda>_. True"
  by (rule fixed_codec [where n = 8 and dec = u64_from_le])
    (simp_all add: read_int_eqs u64_to_from_le slice_limit_def)

lemma array_codec: "n < slice_limit \<Longrightarrow> field_codec (\<lambda>x. x) (read_array n) (\<lambda>x. length x = n)"
  by (rule fixed_codec [where n = n and dec = "\<lambda>bs. bs"]) (simp_all add: read_array_eq)

lemma slice_codec: "n < slice_limit \<Longrightarrow> field_codec (\<lambda>x. x) (rtake n) (\<lambda>x. length x = n)"
  by (rule fixed_codec [where n = n and dec = "\<lambda>bs. bs"]) (simp_all add: rtake_eq)

interpretation f_id: field_codec "\<lambda>x. x" "read_array 16" "\<lambda>x. length x = 16"
  by (rule array_codec) (simp add: slice_limit_def)

interpretation f_digest: field_codec "\<lambda>x. x" "read_array 32" "\<lambda>x. length x = 32"
  by (rule array_codec) (simp add: slice_limit_def)

interpretation f_nonce: field_codec "\<lambda>x. x" "read_array 12" "\<lambda>x. length x = 12"
  by (rule array_codec) (simp add: slice_limit_def)

interpretation f_magic: field_codec "\<lambda>x. x" "rtake 8" "\<lambda>x. length x = 8"
  by (rule slice_codec) (simp add: slice_limit_def)

text \<open>The inversion facts of the field readers: what a successful read says of \<open>rest\<close>.\<close>

lemmas field_gets =
  f_u8.put_get f_u16.put_get f_u32.put_get f_u64.put_get f_id.put_get f_digest.put_get
  f_nonce.put_get f_magic.put_get

end
