(* ===== verification/Crypto.thy ===== *)
theory Crypto
  imports Records
begin

section \<open>Nonces and authenticated encryption\<close>

text \<open>
  \<^verbatim>\<open>crates/howy-common/src/storage/crypto.rs\<close>: the process-lifetime nonce generator and the two
  AES-256-GCM wrappers.  What the file calls outside itself is a parameter:
  \<^item> \<open>fill src n\<close> is the random source (\<open>RandomSource::fill_bytes\<close> on an \<open>n\<close>-byte buffer): an error
    message or the bytes it wrote, and the next state of the source;
  \<^item> \<open>reserve n\<close> is the capacity that \<open>HashSet::try_reserve(n)\<close> left, or \<open>None\<close> when it failed;
  \<^item> \<open>encrypt_in_place key nonce aad buffer\<close> and \<open>decrypt_in_place key nonce aad buffer\<close> are the
    vendored AES-GCM implementation: the buffer afterwards, or \<open>None\<close> on its error.
\<close>

definition MAX_ENCRYPTIONS_PER_KEY_V1 :: u64 where "MAX_ENCRYPTIONS_PER_KEY_V1 = 65536"

definition MAX_NONCE_TRACKER_CAPACITY :: usize where
  "MAX_NONCE_TRACKER_CAPACITY = 2 * unat MAX_ENCRYPTIONS_PER_KEY_V1"

subsection \<open>The nonce generator\<close>

type_synonym 'r random_source = "'r \<Rightarrow> nat \<Rightarrow> (string + bytes) \<times> 'r"

text \<open>The \<open>HashSet\<close> of accepted nonces is the list of its elements.\<close>

record 'r nonce_generator =
  source :: 'r
  seen :: "bytes list"
  accepted :: u64
  ceiling :: u64
  allocated_capacity :: "usize option"

definition from_source :: "'r \<Rightarrow> 'r nonce_generator" where
  "from_source src =
     \<lparr>source = src, seen = [], accepted = 0, ceiling = MAX_ENCRYPTIONS_PER_KEY_V1,
      allocated_capacity = None\<rparr>"

definition from_source_with_ceiling :: "'r \<Rightarrow> u64 \<Rightarrow> storage_error + 'r nonce_generator" where
  "from_source_with_ceiling src c =
     (if c = 0 \<or> c > MAX_ENCRYPTIONS_PER_KEY_V1 then Inl InvalidNonceCeiling
      else Inr \<lparr>source = src, seen = [], accepted = 0, ceiling = c, allocated_capacity = None\<rparr>)"

definition reserve_tracker ::
  "(nat \<Rightarrow> nat option) \<Rightarrow> 'r nonce_generator \<Rightarrow> (storage_error + unit) \<times> 'r nonce_generator" where
  "reserve_tracker reserve g =
     (if allocated_capacity g = None then
        (let requested = unat (ceiling g)
         in case reserve requested of
              None \<Rightarrow> (Inl (AllocationFailed ''nonce tracker''), g)
            | Some capacity \<Rightarrow>
                if capacity < requested \<or> capacity > MAX_NONCE_TRACKER_CAPACITY
                then (Inl (AllocationFailed ''nonce tracker''), g\<lparr>seen := []\<rparr>)
                else (Inr (), g\<lparr>allocated_capacity := Some capacity\<rparr>))
      else (Inr (), g))"

text \<open>A buffer of \<open>n\<close> zero bytes after the source wrote \<open>bs\<close> into it: it has \<open>n\<close> bytes whatever the
  source did.\<close>

definition filled :: "nat \<Rightarrow> bytes \<Rightarrow> bytes" where
  "filled n bs = take n (bs @ replicate n 0)"

lemma length_filled [simp]: "length (filled n bs) = n"
  by (simp add: filled_def)

definition draw_nonce ::
  "'r random_source \<Rightarrow> 'r nonce_generator \<Rightarrow> (storage_error + bytes) \<times> 'r nonce_generator" where
  "draw_nonce fill g =
     (let (drawn, src) = fill (source g) GCM_NONCE_BYTES; g = g\<lparr>source := src\<rparr>
      in case drawn of
           Inl message \<Rightarrow> (Inl (RandomSource message), g)
         | Inr written \<Rightarrow>
             let nonce = filled GCM_NONCE_BYTES written
             in if nonce \<in> set (seen g) then (Inl DuplicateNonce, g)
             else (let g = g\<lparr>seen := nonce # seen g\<rparr>
                   in case checked_add_u64 (accepted g) 1 of
                        None \<Rightarrow> (Inl NonceWriteLimitExceeded, g)
                      | Some n \<Rightarrow> (Inr nonce, g\<lparr>accepted := n\<rparr>)))"

definition generate ::
  "'r random_source \<Rightarrow> (nat \<Rightarrow> nat option) \<Rightarrow> 'r nonce_generator
   \<Rightarrow> (storage_error + bytes) \<times> 'r nonce_generator" where
  "generate fill reserve g =
     (if accepted g \<ge> ceiling g then (Inl NonceWriteLimitExceeded, g)
      else case reserve_tracker reserve g of
             (Inl e, g') \<Rightarrow> (Inl e, g')
           | (Inr _, g') \<Rightarrow> draw_nonce fill g')"

subsection \<open>The invariant of the generator\<close>

definition nonce_inv :: "'r nonce_generator \<Rightarrow> bool" where
  "nonce_inv g \<longleftrightarrow>
     distinct (seen g) \<and> length (seen g) = unat (accepted g) \<and> accepted g \<le> ceiling g
     \<and> (allocated_capacity g = None \<longrightarrow> seen g = [])"

lemma nonce_inv_from_source: "nonce_inv (from_source src)"
  by (simp add: nonce_inv_def from_source_def)

lemma nonce_inv_from_source_with_ceiling:
  "from_source_with_ceiling src c = Inr g \<Longrightarrow> nonce_inv g"
  by (auto simp: nonce_inv_def from_source_with_ceiling_def)

lemma reserve_tracker_keeps:
  assumes "nonce_inv g" and "reserve_tracker reserve g = (r, g')"
  shows "nonce_inv g'" and "seen g' = seen g" and "accepted g' = accepted g"
    and "ceiling g' = ceiling g" and "r = Inr () \<Longrightarrow> allocated_capacity g' \<noteq> None"
  using assms
  by (auto simp: nonce_inv_def reserve_tracker_def Let_def split: if_splits option.splits)

lemma below_ceiling_room:
  assumes "(a :: u64) < c"
  shows "checked_add_u64 a 1 = Some (a + 1)" and "unat (a + 1) = Suc (unat a)" and "a + 1 \<le> c"
proof -
  have "unat a < unat c" using assms by (simp add: word_less_nat_alt)
  moreover have "unat c < 2 ^ 64" using unsigned_less [where 'a = nat, of c] by simp
  ultimately have small: "unat a + 1 < 2 ^ 64" by linarith
  then show add: "checked_add_u64 a 1 = Some (a + 1)" by (simp add: checked_add_u64_def)
  from checked_add_u64_Some [OF add] show s: "unat (a + 1) = Suc (unat a)" by simp
  from s \<open>unat a < unat c\<close> show "a + 1 \<le> c" by (simp add: word_le_nat_alt)
qed

lemma draw_nonce_keeps:
  assumes inv: "nonce_inv g" and room: "accepted g < ceiling g"
    and cap: "allocated_capacity g \<noteq> None" and draw: "draw_nonce fill g = (r, g')"
  shows "nonce_inv g' \<and> set (seen g) \<subseteq> set (seen g') \<and> ceiling g' = ceiling g
    \<and> (\<forall>n. r = Inr n \<longrightarrow> n \<notin> set (seen g) \<and> n \<in> set (seen g'))"
  using inv cap draw below_ceiling_room [OF room]
  by (cases "fill (source g) GCM_NONCE_BYTES"; cases "fst (fill (source g) GCM_NONCE_BYTES)")
    (auto simp: draw_nonce_def nonce_inv_def Let_def split: if_splits)

lemma generate_step:
  assumes inv: "nonce_inv g" and gen: "generate fill reserve g = (r, g')"
  shows "nonce_inv g' \<and> set (seen g) \<subseteq> set (seen g') \<and> ceiling g' = ceiling g
    \<and> (\<forall>n. r = Inr n \<longrightarrow> n \<notin> set (seen g) \<and> n \<in> set (seen g'))"
proof (cases "accepted g \<ge> ceiling g")
  case True
  with inv gen show ?thesis by (auto simp: generate_def)
next
  case False
  obtain q h where q: "reserve_tracker reserve g = (q, h)"
    by (cases "reserve_tracker reserve g")
  note keeps = reserve_tracker_keeps [OF inv q]
  show ?thesis
  proof (cases q)
    case (Inl e)
    with False gen q keeps show ?thesis by (auto simp: generate_def)
  next
    case (Inr u)
    with False gen q have "draw_nonce fill h = (r, g')" by (auto simp: generate_def)
    with draw_nonce_keeps [OF keeps(1) _ _ this] keeps False Inr show ?thesis by auto
  qed
qed

lemma generate_length:
  "generate fill reserve g = (Inr n, g') \<Longrightarrow> length n = GCM_NONCE_BYTES"
  by (auto simp: generate_def draw_nonce_def Let_def split: prod.splits sum.splits if_splits
      option.splits)

text \<open>The generator as an issuer of fresh nonces; \<open>nonce_inv_at c\<close> also fixes its write limit.\<close>

definition nonce_inv_at :: "u64 \<Rightarrow> 'r nonce_generator \<Rightarrow> bool" where
  "nonce_inv_at c g \<longleftrightarrow> nonce_inv g \<and> ceiling g = c"

lemma nonce_inv_at_count: "nonce_inv_at c g \<Longrightarrow> card (set (seen g)) \<le> unat c"
  by (auto simp: nonce_inv_at_def nonce_inv_def distinct_card word_le_nat_alt)

definition generate_op ::
  "'r random_source \<Rightarrow> (nat \<Rightarrow> nat option) \<Rightarrow> unit \<Rightarrow> 'r nonce_generator
   \<Rightarrow> bytes option \<times> 'r nonce_generator" where
  "generate_op fill reserve u g =
     (case generate fill reserve g of
        (Inl e, g') \<Rightarrow> (None, g')
      | (Inr n, g') \<Rightarrow> (Some n, g'))"

lemma generate_op_step:
  assumes "nonce_inv_at c g" and "generate_op fill reserve u g = (r, g')"
  shows "nonce_inv_at c g'" and "set (seen g) \<subseteq> set (seen g')"
    and "r = Some n \<Longrightarrow> n \<notin> set (seen g) \<and> n \<in> set (seen g')"
proof -
  obtain q where q: "generate fill reserve g = (q, g')" and "r = Some n \<Longrightarrow> q = Inr n" for n
    using assms(2) by (auto simp: generate_op_def split: prod.splits sum.splits)
  moreover from assms(1) have "nonce_inv g" "ceiling g = c" by (simp_all add: nonce_inv_at_def)
  ultimately show "nonce_inv_at c g'" and "set (seen g) \<subseteq> set (seen g')"
    and "r = Some n \<Longrightarrow> n \<notin> set (seen g) \<and> n \<in> set (seen g')"
    using generate_step [of g fill reserve q g'] unfolding nonce_inv_at_def by blast+
qed

interpretation nonces: fresh_issuer "generate_op fill reserve" "\<lambda>g. set (seen g)" "nonce_inv_at c"
  for fill :: "'r random_source" and reserve and c
  by unfold_locales (fact generate_op_step(1) generate_op_step(2) | blast dest: generate_op_step(3))+

subsection \<open>AES-256-GCM wrappers\<close>

type_synonym aead_in_place = "bytes \<Rightarrow> bytes \<Rightarrow> bytes \<Rightarrow> bytes \<Rightarrow> bytes option"

definition encrypt_aes_256_gcm ::
  "allocator \<Rightarrow> aead_in_place \<Rightarrow> bytes \<Rightarrow> bytes \<Rightarrow> bytes \<Rightarrow> bytes
   \<Rightarrow> storage_error + bytes \<times> bytes" where
  "encrypt_aes_256_gcm alloc encrypt_in_place key nonce aad plaintext =
     and_then (ensure (length key = AES_256_KEY_BYTES) AuthenticationFailed) (\<lambda>_.
     and_then (ok_or (IntegerOverflow ''AES-GCM output length'')
                (checked_add (length plaintext) GCM_TAG_BYTES)) (\<lambda>combined_len.
     and_then (try_reserve_exact alloc ''AES-GCM output'' combined_len) (\<lambda>_.
     and_then (ok_or AuthenticationFailed (encrypt_in_place key nonce aad plaintext)) (\<lambda>combined.
     and_then (ok_or (InvalidLength ''AES-GCM'') (checked_sub (length combined) GCM_TAG_BYTES))
       (\<lambda>tag_offset.
       let tag = drop tag_offset combined
       in if length tag \<noteq> GCM_TAG_BYTES then Inl (InvalidLength ''AES-GCM'')
          else Inr (take tag_offset combined, tag))))))"

definition decrypt_aes_256_gcm ::
  "allocator \<Rightarrow> aead_in_place \<Rightarrow> bytes \<Rightarrow> bytes \<Rightarrow> bytes \<Rightarrow> bytes \<Rightarrow> bytes
   \<Rightarrow> storage_error + bytes" where
  "decrypt_aes_256_gcm alloc decrypt_in_place key nonce aad ciphertext tag =
     and_then (ensure (length key = AES_256_KEY_BYTES) AuthenticationFailed) (\<lambda>_.
     and_then (ok_or (IntegerOverflow ''AES-GCM input length'')
                (checked_add (length ciphertext) GCM_TAG_BYTES)) (\<lambda>combined_len.
     and_then (try_reserve_exact alloc ''AES-GCM input'' combined_len) (\<lambda>_.
     ok_or AuthenticationFailed (decrypt_in_place key nonce aad (ciphertext @ tag)))))"

text \<open>The documented contract of the AES-GCM implementation: encryption appends a 16-byte tag and
  keeps the length of the text, and decryption of what encryption produced under the same key, nonce
  and associated data restores the text.\<close>

definition aead_contract :: "aead_in_place \<Rightarrow> aead_in_place \<Rightarrow> bool" where
  "aead_contract enc dec \<longleftrightarrow>
     (\<forall>key nonce aad text out. enc key nonce aad text = Some out \<longrightarrow>
        length out = length text + GCM_TAG_BYTES \<and> dec key nonce aad out = Some text)"

lemma decrypt_encrypt_aes_256_gcm:
  assumes contract: "aead_contract enc dec"
    and enc: "encrypt_aes_256_gcm alloc enc key nonce aad text = Inr (ciphertext, tag)"
    and room: "alloc' ''AES-GCM input'' (length text + GCM_TAG_BYTES)"
  shows "length ciphertext = length text" and "length tag = GCM_TAG_BYTES"
    and "decrypt_aes_256_gcm alloc' dec key nonce aad ciphertext tag = Inr text"
proof -
  from enc obtain out where key: "length key = AES_256_KEY_BYTES"
    and out: "enc key nonce aad text = Some out"
    and small: "length text + GCM_TAG_BYTES < usize_limit"
    and parts: "ciphertext = take (length out - GCM_TAG_BYTES) out"
      "tag = drop (length out - GCM_TAG_BYTES) out" "length tag = GCM_TAG_BYTES"
    by (auto simp: encrypt_aes_256_gcm_def Let_def and_then_Inr_iff split: if_splits)
  from contract out have len: "length out = length text + GCM_TAG_BYTES"
    and dec: "dec key nonce aad out = Some text"
    by (auto simp: aead_contract_def)
  from len parts show "length ciphertext = length text" and "length tag = GCM_TAG_BYTES" by auto
  moreover have "ciphertext @ tag = out" using parts(1,2) by simp
  ultimately show "decrypt_aes_256_gcm alloc' dec key nonce aad ciphertext tag = Inr text"
    using key small room dec
    by (simp add: decrypt_aes_256_gcm_def try_reserve_exact_def checked_add_small)
qed

end
