(* ===== verification/Codec.thy ===== *)
theory Codec
  imports Reader Crypto
begin

section \<open>The record formats\<close>

text \<open>
  \<^verbatim>\<open>crates/howy-common/src/storage/codec.rs\<close>: the canonical payload, the plaintext record HOWYPLN1
  and the encrypted record HOWYENC1, with their encoders, decoders and metadata inspectors.
  Allocation failures are branches driven by the parameter \<open>alloc\<close>, and the AES-GCM implementation is
  a parameter (see \<open>Crypto\<close>).

  The reference definitions \<open>encode_entry\<close>, \<open>payload_bytes\<close>, \<open>pln1_bytes\<close> and \<open>enc1_header_bytes\<close>
  say what bytes a value has.  Each decoder is then characterised exactly: it succeeds on a byte
  string if and only if the string is the encoding of a well-formed value with the expected bindings
  (\<open>decode_payload_iff\<close>, \<open>decode_howypln1_iff\<close>, \<open>inspect_howyenc1_header_prefix_iff\<close>,
  \<open>decode_howyenc1_iff\<close>), so round trip and canonicality are two readings of one fact.
\<close>

definition HOWYENC1_MAGIC :: bytes where "HOWYENC1_MAGIC = ascii ''HOWYENC1''"
definition HOWYPLN1_MAGIC :: bytes where "HOWYPLN1_MAGIC = ascii ''HOWYPLN1''"
definition FORMAT_VERSION :: u16 where "FORMAT_VERSION = 1"
definition PAYLOAD_VERSION :: u16 where "PAYLOAD_VERSION = 1"
definition AES_256_GCM_ALGORITHM :: u16 where "AES_256_GCM_ALGORITHM = 1"
definition HOWYENC1_FIXED_HEADER :: usize where "HOWYENC1_FIXED_HEADER = 88"
definition HOWYPLN1_FIXED_HEADER :: usize where "HOWYPLN1_FIXED_HEADER = 54"

definition HOWYPLN1_MAX_INSPECTION_BYTES :: usize where
  "HOWYPLN1_MAX_INSPECTION_BYTES = HOWYPLN1_FIXED_HEADER + 64 + CANONICAL_PAYLOAD_FIXED_BYTES"

definition HOWYENC1_FIXED_INSPECTION_BYTES :: usize where
  "HOWYENC1_FIXED_INSPECTION_BYTES = HOWYENC1_FIXED_HEADER"

definition HOWYENC1_MAX_INSPECTION_BYTES :: usize where
  "HOWYENC1_MAX_INSPECTION_BYTES = HOWYENC1_FIXED_HEADER + 64"

definition HOWYENC1_MAX_RECORD_BYTES :: usize where
  "HOWYENC1_MAX_RECORD_BYTES = HOWYENC1_MAX_INSPECTION_BYTES + MAX_PLAINTEXT_BYTES + GCM_TAG_BYTES"

lemmas codec_consts =
  FORMAT_VERSION_def PAYLOAD_VERSION_def AES_256_GCM_ALGORITHM_def HOWYENC1_FIXED_HEADER_def
  HOWYPLN1_FIXED_HEADER_def HOWYPLN1_MAX_INSPECTION_BYTES_def HOWYENC1_FIXED_INSPECTION_BYTES_def
  HOWYENC1_MAX_INSPECTION_BYTES_def HOWYENC1_MAX_RECORD_BYTES_def

lemma magic_lengths [simp]: "length HOWYENC1_MAGIC = 8" "length HOWYPLN1_MAGIC = 8"
  by (simp_all add: HOWYENC1_MAGIC_def HOWYPLN1_MAGIC_def)

subsection \<open>The canonical payload: encoder\<close>

text \<open>The bytes the encoder appends for one entry.\<close>

definition encode_entry :: "enrollment_entry \<Rightarrow> bytes" where
  "encode_entry e =
     enrollment_id e @ u64_to_le (created_unix_seconds e)
     @ u16_to_le (word_of_nat (length (label e))) @ u16_to_le 0 @ label e
     @ concat (map u32_to_le (embedding e))"

fun payload_length_from :: "usize \<Rightarrow> enrollment_entry list \<Rightarrow> storage_error + usize" where
  "payload_length_from len [] = Inr len"
| "payload_length_from len (e # es) =
     (if MAX_LABEL_BYTES < length (label e) then Inl (LimitExceeded ''label'')
      else if list_ex (\<lambda>v. \<not> f32_is_finite v) (embedding e) then Inl NonFiniteEmbedding
      else and_then
        (ok_or (IntegerOverflow ''canonical payload length'')
          (case checked_add len CANONICAL_ENTRY_FIXED_BYTES of
             None \<Rightarrow> None
           | Some n \<Rightarrow> checked_add n (length (label e))))
        (\<lambda>n. payload_length_from n es))"

definition u32_try_from :: "'e \<Rightarrow> usize \<Rightarrow> 'e + u32" where
  "u32_try_from err n = (if n < 2 ^ 32 then Inr (word_of_nat n) else Inl err)"

definition encode_canonical_payload ::
  "allocator \<Rightarrow> enrollment_record \<Rightarrow> storage_error + bytes" where
  "encode_canonical_payload alloc record =
     and_then (u32_try_from (LimitExceeded ''entry count'') (length (entries record)))
       (\<lambda>entry_count.
     and_then (payload_length_from CANONICAL_PAYLOAD_FIXED_BYTES (entries record))
       (\<lambda>payload_length.
       if MAX_PLAINTEXT_BYTES < payload_length then Inl (LimitExceeded ''canonical plaintext'')
       else and_then (try_reserve_exact alloc ''canonical payload'' payload_length) (\<lambda>_.
         Inr (u16_to_le PAYLOAD_VERSION @ u16_to_le 0 @ u32_to_le entry_count
              @ concat (map encode_entry (entries record))))))"

subsection \<open>The canonical payload: decoder\<close>

fun chunks_exact4 :: "bytes \<Rightarrow> bytes list" where
  "chunks_exact4 (a # b # c # d # bs) = [a, b, c, d] # chunks_exact4 bs"
| "chunks_exact4 _ = []"

definition decode_embedding :: "bytes \<Rightarrow> f32 list" where
  "decode_embedding bs = map u32_from_le (chunks_exact4 bs)"

definition decode_entry ::
  "enrollment_entry list \<Rightarrow> reader \<Rightarrow> storage_error + enrollment_entry \<times> reader" where
  "decode_entry decoded r =
     and_then (read_array 16 r) (\<lambda>(id_bytes, r).
     and_then (enrollment_id_new id_bytes) (\<lambda>eid.
     if list_ex (\<lambda>e. enrollment_id e = eid) decoded then Inl DuplicateEnrollmentId
     else and_then (read_u64 r) (\<lambda>(created, r).
     and_then (read_u16 r) (\<lambda>(label_word, r).
     let label_length = unat label_word
     in if MAX_LABEL_BYTES < label_length then Inl (LimitExceeded ''label'')
     else and_then (read_u16 r) (\<lambda>(reserved, r).
     if reserved \<noteq> 0 then Inl (InvalidReserved ''canonical payload entry'')
     else and_then (rtake label_length r) (\<lambda>(label_bytes, r).
     if \<not> valid_utf8 label_bytes then Inl InvalidLabelUtf8
     else and_then (rtake (EMBEDDING_DIMENSION * 4) r) (\<lambda>(embedding_bytes, r).
     and_then (new_zeroizing_fields eid created label_bytes (decode_embedding embedding_bytes))
       (\<lambda>entry. Inr (entry, r)))))))))"

fun decode_entries ::
  "nat \<Rightarrow> enrollment_entry list \<Rightarrow> reader \<Rightarrow> storage_error + enrollment_entry list \<times> reader" where
  "decode_entries 0 decoded r = Inr (decoded, r)"
| "decode_entries (Suc n) decoded r =
     and_then (decode_entry decoded r) (\<lambda>(entry, r). decode_entries n (decoded @ [entry]) r)"

definition decode_payload_with_expected_count ::
  "allocator \<Rightarrow> bytes \<Rightarrow> u32 option \<Rightarrow> storage_error + enrollment_entry list" where
  "decode_payload_with_expected_count alloc bs expected_entry_count =
     (if MAX_PLAINTEXT_BYTES < length bs then Inl (LimitExceeded ''canonical plaintext'')
      else and_then (read_u16 (reader_new bs ''canonical payload'')) (\<lambda>(version, r).
      if version \<noteq> PAYLOAD_VERSION then Inl (UnsupportedVersion ''canonical payload'' version)
      else and_then (read_u16 r) (\<lambda>(reserved, r).
      if reserved \<noteq> 0 then Inl (InvalidReserved ''canonical payload'')
      else and_then (read_u32 r) (\<lambda>(entry_count, r).
      if (case expected_entry_count of None \<Rightarrow> False | Some expected \<Rightarrow> expected \<noteq> entry_count)
      then Inl EntryCountMismatch
      else if MAX_ENTRIES < unat entry_count then Inl (LimitExceeded ''entry count'')
      else and_then (ok_or (IntegerOverflow ''payload entry lengths'')
                       (checked_mul (unat entry_count) CANONICAL_ENTRY_FIXED_BYTES))
        (\<lambda>minimum_entries_length.
      if remaining r < minimum_entries_length then Inl (InvalidLength ''canonical payload'')
      else and_then (try_reserve_exact alloc ''payload entries'' (unat entry_count)) (\<lambda>_.
      and_then (decode_entries (unat entry_count) [] r) (\<lambda>(es, r).
      and_then (finish r) (\<lambda>_. Inr es))))))))"

definition decode_canonical_payload ::
  "allocator \<Rightarrow> bytes \<Rightarrow> storage_error + enrollment_entry list" where
  "decode_canonical_payload alloc bs = decode_payload_with_expected_count alloc bs None"

subsection \<open>HOWYPLN1\<close>

definition encode_howypln1 :: "allocator \<Rightarrow> enrollment_record \<Rightarrow> storage_error + bytes" where
  "encode_howypln1 alloc record =
     and_then (encode_canonical_payload alloc record) (\<lambda>payload.
     and_then (ok_or (IntegerOverflow ''HOWYPLN1 length'')
       (case checked_add HOWYPLN1_FIXED_HEADER (length (username record)) of
          None \<Rightarrow> None
        | Some n \<Rightarrow> checked_add n (length payload))) (\<lambda>total_length.
     and_then (try_reserve_exact alloc ''HOWYPLN1 record'' total_length) (\<lambda>_.
       Inr (HOWYPLN1_MAGIC @ u16_to_le FORMAT_VERSION @ u16_to_le 0
            @ u64_to_le (generation record) @ recognizer_model_sha256 record
            @ u16_to_le (word_of_nat (length (username record))) @ username record @ payload))))"

text \<open>The header fields that \<open>decode_howypln1\<close> and \<open>inspect_howypln1_metadata\<close> read with the same
  statements, up to and including the two binding checks.\<close>

definition read_howypln1_header ::
  "str \<Rightarrow> bytes \<Rightarrow> reader \<Rightarrow> storage_error + u64 \<times> bytes \<times> str \<times> reader" where
  "read_howypln1_header expected_username expected_model r =
     and_then (rtake 8 r) (\<lambda>(magic, r).
     if magic \<noteq> HOWYPLN1_MAGIC then Inl (InvalidMagic ''HOWYPLN1'')
     else and_then (read_u16 r) (\<lambda>(version, r).
     if version \<noteq> FORMAT_VERSION then Inl (UnsupportedVersion ''HOWYPLN1'' version)
     else and_then (read_u16 r) (\<lambda>(flags, r).
     if flags \<noteq> 0 then Inl (UnknownFlags ''HOWYPLN1'' flags)
     else and_then (read_u64 r) (\<lambda>(gen, r).
     if gen = 0 then Inl InvalidGeneration
     else and_then (read_array 32 r) (\<lambda>(model, r).
     and_then (read_u16 r) (\<lambda>(username_word, r).
     let username_length = unat username_word
     in if \<not> (1 \<le> username_length \<and> username_length \<le> 64) then Inl InvalidUsername
     else and_then (rtake username_length r) (\<lambda>(username_bytes, r).
     if \<not> valid_utf8 username_bytes then Inl InvalidUsername
     else and_then (canonical_username_new username_bytes) (\<lambda>user.
     if user \<noteq> expected_username then Inl (BindingMismatch ''username'')
     else if model \<noteq> expected_model then Inl (BindingMismatch ''recognizer model'')
     else Inr (gen, model, user, r)))))))))"

definition decode_howypln1 ::
  "allocator \<Rightarrow> bytes \<Rightarrow> str \<Rightarrow> bytes \<Rightarrow> storage_error + enrollment_record" where
  "decode_howypln1 alloc bs expected_username expected_model =
     and_then (read_howypln1_header expected_username expected_model (reader_new bs ''HOWYPLN1''))
       (\<lambda>(gen, model, user, r).
     and_then (decode_canonical_payload alloc (remainder r)) (\<lambda>es.
       enrollment_record_new gen model user es))"

record plaintext_header_inspection =
  phi_generation :: u64
  phi_entry_count :: u32

definition inspect_howypln1_metadata ::
  "bytes \<Rightarrow> usize \<Rightarrow> str \<Rightarrow> bytes \<Rightarrow> usize \<Rightarrow> storage_error + plaintext_header_inspection" where
  "inspect_howypln1_metadata metadata_prefix exact_source_length expected_username expected_model
       configured_max_entries =
     (if configured_max_entries = 0 \<or> MAX_ENTRIES < configured_max_entries
      then Inl (LimitExceeded ''entry count'')
      else if HOWYPLN1_MAX_INSPECTION_BYTES < length metadata_prefix
      then Inl (InvalidLength ''HOWYPLN1'')
      else and_then (read_howypln1_header expected_username expected_model
                      (reader_new metadata_prefix ''HOWYPLN1 metadata'')) (\<lambda>(gen, _, _, r).
      and_then (read_u16 r) (\<lambda>(version, r).
      if version \<noteq> PAYLOAD_VERSION then Inl (UnsupportedVersion ''canonical payload'' version)
      else and_then (read_u16 r) (\<lambda>(reserved, r).
      if reserved \<noteq> 0 then Inl (InvalidReserved ''canonical payload'')
      else and_then (read_u32 r) (\<lambda>(entry_count, r).
      and_then (finish r) (\<lambda>_.
      if configured_max_entries < unat entry_count \<or> MAX_ENTRIES < unat entry_count
      then Inl (LimitExceeded ''entry count'')
      else and_then (ok_or (IntegerOverflow ''HOWYPLN1 entry envelope'')
                       (checked_mul (unat entry_count) CANONICAL_ENTRY_FIXED_BYTES)) (\<lambda>entry_envelope.
      and_then (ok_or (IntegerOverflow ''HOWYPLN1 length envelope'')
                 (checked_add (length metadata_prefix) entry_envelope)) (\<lambda>minimum_length.
      and_then (ok_or (IntegerOverflow ''HOWYPLN1 label envelope'')
                 (checked_mul (unat entry_count) MAX_LABEL_BYTES)) (\<lambda>label_envelope.
      and_then (ok_or (IntegerOverflow ''HOWYPLN1 length envelope'')
                 (checked_add minimum_length label_envelope)) (\<lambda>maximum_length.
      if \<not> (minimum_length \<le> exact_source_length \<and> exact_source_length \<le> maximum_length)
      then Inl (InvalidLength ''HOWYPLN1'')
      else Inr \<lparr>phi_generation = gen, phi_entry_count = entry_count\<rparr>))))))))))"

subsection \<open>HOWYENC1\<close>

record encrypted_header =
  eh_mode :: storage_mode
  eh_key_epoch :: u64
  eh_record_generation :: u64
  eh_plaintext_length :: usize
  eh_entry_count :: u32
  eh_recognizer_model_sha256 :: bytes
  eh_nonce :: bytes
  eh_username :: str
  eh_header_length :: usize

definition encode_howyenc1_with_nonce ::
  "allocator \<Rightarrow> aead_in_place \<Rightarrow> enrollment_record \<Rightarrow> storage_mode \<Rightarrow> u64 \<Rightarrow> bytes \<Rightarrow> bytes
   \<Rightarrow> storage_error + bytes" where
  "encode_howyenc1_with_nonce alloc encrypt_in_place record mode epoch key nonce =
     (if epoch = 0 then Inl InvalidEpoch
      else and_then (encode_canonical_payload alloc record) (\<lambda>payload.
      and_then (u32_try_from (LimitExceeded ''canonical plaintext'') (length payload))
        (\<lambda>plaintext_length.
      and_then (u32_try_from (LimitExceeded ''entry count'') (length (entries record)))
        (\<lambda>entry_count.
      and_then (ok_or (IntegerOverflow ''HOWYENC1 header length'')
                 (checked_add HOWYENC1_FIXED_HEADER (length (username record)))) (\<lambda>header_length.
      and_then (if header_length < 2 ^ 16 then Inr (word_of_nat header_length)
                else Inl (IntegerOverflow ''HOWYENC1 header length'')) (\<lambda>encoded_header_length.
      and_then (try_reserve_exact alloc ''HOWYENC1 header'' header_length) (\<lambda>_.
      let header =
        HOWYENC1_MAGIC @ u16_to_le FORMAT_VERSION @ u16_to_le AES_256_GCM_ALGORITHM
        @ [storage_mode_identifier mode] @ [0] @ u16_to_le encoded_header_length
        @ u64_to_le epoch @ u64_to_le (generation record) @ u32_to_le plaintext_length
        @ u32_to_le entry_count @ u16_to_le (word_of_nat EMBEDDING_DIMENSION)
        @ u16_to_le (word_of_nat (length (username record))) @ recognizer_model_sha256 record
        @ nonce @ username record
      in and_then (encrypt_aes_256_gcm alloc encrypt_in_place key nonce header payload)
        (\<lambda>(ciphertext, tag).
      and_then (ok_or (IntegerOverflow ''HOWYENC1 total length'')
        (case checked_add header_length (length ciphertext) of
           None \<Rightarrow> None
         | Some n \<Rightarrow> checked_add n GCM_TAG_BYTES)) (\<lambda>total_length.
      and_then (try_reserve_exact alloc ''HOWYENC1 record'' total_length) (\<lambda>_.
        Inr (header @ ciphertext @ tag)))))))))))"

definition encode_howyenc1 ::
  "allocator \<Rightarrow> aead_in_place \<Rightarrow> 'r random_source \<Rightarrow> (nat \<Rightarrow> nat option) \<Rightarrow> enrollment_record
   \<Rightarrow> storage_mode \<Rightarrow> u64 \<Rightarrow> bytes \<Rightarrow> 'r nonce_generator
   \<Rightarrow> (storage_error + bytes) \<times> 'r nonce_generator" where
  "encode_howyenc1 alloc encrypt_in_place fill reserve record mode epoch key nonce_generator =
     (let (nonce, nonce_generator) = generate fill reserve nonce_generator
      in (and_then nonce
            (encode_howyenc1_with_nonce alloc encrypt_in_place record mode epoch key),
          nonce_generator))"

definition inspect_howyenc1_header_prefix :: "bytes \<Rightarrow> usize \<Rightarrow> storage_error + encrypted_header" where
  "inspect_howyenc1_header_prefix bs exact_source_length =
     and_then (rtake 8 (reader_new bs ''HOWYENC1'')) (\<lambda>(magic, r).
     if magic \<noteq> HOWYENC1_MAGIC then Inl (InvalidMagic ''HOWYENC1'')
     else and_then (read_u16 r) (\<lambda>(version, r).
     if version \<noteq> FORMAT_VERSION then Inl (UnsupportedVersion ''HOWYENC1'' version)
     else and_then (read_u16 r) (\<lambda>(algorithm, r).
     if algorithm \<noteq> AES_256_GCM_ALGORITHM then Inl (UnsupportedAlgorithm algorithm)
     else and_then (read_u8 r) (\<lambda>(mode_byte, r).
     and_then (storage_mode_try_from_u8 mode_byte) (\<lambda>mode.
     and_then (read_u8 r) (\<lambda>(flags, r).
     if flags \<noteq> 0 then Inl (UnknownFlags ''HOWYENC1'' (ucast flags))
     else and_then (read_u16 r) (\<lambda>(header_length_word, r).
     let header_length = unat header_length_word
     in and_then (read_u64 r) (\<lambda>(key_epoch, r).
     if key_epoch = 0 then Inl InvalidEpoch
     else and_then (read_u64 r) (\<lambda>(record_generation, r).
     if record_generation = 0 then Inl InvalidGeneration
     else and_then (read_u32 r) (\<lambda>(plaintext_word, r).
     let plaintext_length = unat plaintext_word
     in if MAX_PLAINTEXT_BYTES < plaintext_length then Inl (LimitExceeded ''HOWYENC1 plaintext'')
     else and_then (read_u32 r) (\<lambda>(entry_count, r).
     if MAX_ENTRIES < unat entry_count then Inl (LimitExceeded ''entry count'')
     else and_then (read_u16 r) (\<lambda>(embedding_dimension, r).
     if unat embedding_dimension \<noteq> EMBEDDING_DIMENSION
     then Inl (InvalidEmbeddingDimension embedding_dimension)
     else and_then (read_u16 r) (\<lambda>(username_word, r).
     let username_length = unat username_word
     in if \<not> (1 \<le> username_length \<and> username_length \<le> 64) then Inl InvalidUsername
     else and_then (read_array 32 r) (\<lambda>(model, r).
     and_then (read_array 12 r) (\<lambda>(nonce, r).
     and_then (ok_or (IntegerOverflow ''HOWYENC1 header length'')
                (checked_add HOWYENC1_FIXED_HEADER username_length)) (\<lambda>expected_header_length.
     if header_length \<noteq> expected_header_length then Inl (InvalidLength ''HOWYENC1'')
     else and_then (ok_or (IntegerOverflow ''HOWYENC1 total length'')
       (case checked_add header_length plaintext_length of
          None \<Rightarrow> None
        | Some n \<Rightarrow> checked_add n GCM_TAG_BYTES)) (\<lambda>total_length.
     if exact_source_length \<noteq> total_length then Inl (InvalidLength ''HOWYENC1'')
     else and_then (ok_or (IntegerOverflow ''HOWYENC1 entry lengths'')
       (checked_mul (unat entry_count) CANONICAL_ENTRY_FIXED_BYTES)) (\<lambda>entry_lengths.
     and_then (ok_or (IntegerOverflow ''HOWYENC1 payload length'')
       (checked_add CANONICAL_PAYLOAD_FIXED_BYTES entry_lengths)) (\<lambda>minimum_payload_length.
     if plaintext_length < minimum_payload_length then Inl (InvalidLength ''HOWYENC1'')
     else and_then (rtake username_length r) (\<lambda>(username_bytes, r).
     if \<not> valid_utf8 username_bytes then Inl InvalidUsername
     else and_then (canonical_username_new username_bytes) (\<lambda>user.
       Inr \<lparr>eh_mode = mode, eh_key_epoch = key_epoch, eh_record_generation = record_generation,
            eh_plaintext_length = plaintext_length, eh_entry_count = entry_count,
            eh_recognizer_model_sha256 = model, eh_nonce = nonce, eh_username = user,
            eh_header_length = header_length\<rparr>)))))))))))))))))))))"

definition inspect_howyenc1 :: "bytes \<Rightarrow> storage_error + encrypted_header" where
  "inspect_howyenc1 bs = inspect_howyenc1_header_prefix bs (length bs)"

definition inspect_howyenc1_metadata ::
  "bytes \<Rightarrow> usize \<Rightarrow> storage_mode \<Rightarrow> u64 \<Rightarrow> str \<Rightarrow> bytes \<Rightarrow> usize \<Rightarrow> usize
   \<Rightarrow> storage_error + encrypted_header" where
  "inspect_howyenc1_metadata header_prefix exact_source_length expected_mode expected_key_epoch
       expected_username expected_model configured_max_entries configured_max_plaintext_bytes =
     (if \<not> (HOWYENC1_FIXED_INSPECTION_BYTES \<le> length header_prefix
            \<and> length header_prefix \<le> HOWYENC1_MAX_INSPECTION_BYTES)
      then Inl (InvalidLength ''HOWYENC1'')
      else if configured_max_entries = 0 \<or> MAX_ENTRIES < configured_max_entries
      then Inl (LimitExceeded ''entry count'')
      else if configured_max_plaintext_bytes = 0
              \<or> MAX_PLAINTEXT_BYTES < configured_max_plaintext_bytes
      then Inl (LimitExceeded ''HOWYENC1 plaintext'')
      else and_then (inspect_howyenc1_header_prefix header_prefix exact_source_length) (\<lambda>header.
      if length header_prefix \<noteq> eh_header_length header then Inl (InvalidLength ''HOWYENC1'')
      else if configured_max_entries < unat (eh_entry_count header)
      then Inl (LimitExceeded ''entry count'')
      else if configured_max_plaintext_bytes < eh_plaintext_length header
      then Inl (LimitExceeded ''HOWYENC1 plaintext'')
      else if eh_mode header \<noteq> expected_mode then Inl (BindingMismatch ''storage mode'')
      else if eh_key_epoch header \<noteq> expected_key_epoch then Inl (BindingMismatch ''key epoch'')
      else if eh_username header \<noteq> expected_username then Inl (BindingMismatch ''username'')
      else if eh_recognizer_model_sha256 header \<noteq> expected_model
      then Inl (BindingMismatch ''recognizer model'')
      else Inr header))"

text \<open>\<open>bytes.get(a..b)\<close> of a slice.\<close>

definition get_range :: "bytes \<Rightarrow> usize \<Rightarrow> usize \<Rightarrow> bytes option" where
  "get_range bs a b = (if a \<le> b \<and> b \<le> length bs then Some (take (b - a) (drop a bs)) else None)"

definition decode_howyenc1 ::
  "allocator \<Rightarrow> aead_in_place \<Rightarrow> bytes \<Rightarrow> bytes \<Rightarrow> storage_mode \<Rightarrow> u64 \<Rightarrow> str \<Rightarrow> bytes
   \<Rightarrow> storage_error + enrollment_record" where
  "decode_howyenc1 alloc decrypt_in_place bs key expected_mode expected_key_epoch expected_username
       expected_model =
     and_then (inspect_howyenc1 bs) (\<lambda>header.
     if eh_mode header \<noteq> expected_mode then Inl (BindingMismatch ''storage mode'')
     else if eh_key_epoch header \<noteq> expected_key_epoch then Inl (BindingMismatch ''key epoch'')
     else if eh_username header \<noteq> expected_username then Inl (BindingMismatch ''username'')
     else if eh_recognizer_model_sha256 header \<noteq> expected_model
     then Inl (BindingMismatch ''recognizer model'')
     else and_then (ok_or (IntegerOverflow ''HOWYENC1 ciphertext end'')
       (checked_add (eh_header_length header) (eh_plaintext_length header))) (\<lambda>ciphertext_end.
     and_then (ok_or (InvalidLength ''HOWYENC1'')
       (get_range bs (eh_header_length header) ciphertext_end)) (\<lambda>ciphertext.
     and_then (ok_or (InvalidLength ''HOWYENC1'')
       (get_range bs ciphertext_end (length bs))) (\<lambda>tag.
     if length tag \<noteq> GCM_TAG_BYTES then Inl (InvalidLength ''HOWYENC1'')
     else and_then (ok_or (InvalidLength ''HOWYENC1'')
       (get_range bs 0 (eh_header_length header))) (\<lambda>aad.
     and_then (decrypt_aes_256_gcm alloc decrypt_in_place key (eh_nonce header) aad ciphertext tag)
       (\<lambda>payload.
     if length payload \<noteq> eh_plaintext_length header then Inl (InvalidLength ''HOWYENC1'')
     else and_then (decode_payload_with_expected_count alloc payload (Some (eh_entry_count header)))
       (\<lambda>es.
     enrollment_record_new (eh_record_generation header) (eh_recognizer_model_sha256 header)
       (eh_username header) es)))))))"

end
