(* ===== verification/Codec_Correct.thy ===== *)
theory Codec_Correct
  imports Codec
begin

section \<open>Correctness of the record formats\<close>

text \<open>
  The facts about \<open>Codec\<close>: the entry is an instance of the field contract, the payload, the HOWYPLN1
  record and the HOWYENC1 header are characterised by their reference encodings, and the encoders
  produce exactly these.
\<close>

subsection \<open>Embeddings\<close>

lemma concat_u32_length [simp]: "length (concat (map u32_to_le vs)) = 4 * length vs"
  by (induction vs) auto

lemma length_4_cases: "length w = 4 \<Longrightarrow> \<exists>a b c d. w = [a, b, c, d]"
  by (simp add: eval_nat_numeral length_Suc_conv) blast

lemma chunks_exact4_append: "length w = 4 \<Longrightarrow> chunks_exact4 (w @ bs) = w # chunks_exact4 bs"
  by (auto dest: length_4_cases)

lemma decode_embedding_encode [simp]: "decode_embedding (concat (map u32_to_le vs)) = vs"
  by (induction vs) (auto simp: decode_embedding_def chunks_exact4_append)

lemma chunks_exact4_encode:
  "length bs = 4 * n \<Longrightarrow>
     concat (map u32_to_le (decode_embedding bs)) = bs \<and> length (decode_embedding bs) = n"
proof (induction n arbitrary: bs)
  case (Suc n)
  then have "length (take 4 bs) = 4" and rest: "length (drop 4 bs) = 4 * n" by simp_all
  then have "decode_embedding bs = u32_from_le (take 4 bs) # decode_embedding (drop 4 bs)"
    using chunks_exact4_append [of "take 4 bs" "drop 4 bs"] by (simp add: decode_embedding_def)
  with Suc.IH [OF rest] \<open>length (take 4 bs) = 4\<close> show ?case
    by (simp add: u32_to_from_le)
qed (simp add: decode_embedding_def)

subsection \<open>Entries\<close>

text \<open>An entry may follow the entries \<open>decoded\<close> before it.\<close>

definition entry_after :: "enrollment_entry list \<Rightarrow> enrollment_entry \<Rightarrow> bool" where
  "entry_after decoded e \<longleftrightarrow> entry_wf e \<and> enrollment_id e \<notin> enrollment_id ` set decoded"

lemma id_decoded_iff:
  "list_ex (\<lambda>d. enrollment_id d = i) decoded \<longleftrightarrow> i \<in> enrollment_id ` set decoded"
  by (auto simp: list_ex_iff)

lemma label_word: "length l \<le> MAX_LABEL_BYTES \<Longrightarrow> unat (word_of_nat (length l) :: u16) = length l"
  by (simp add: storage_consts unat_of_nat)

lemma length_encode_entry:
  "entry_wf e \<Longrightarrow> length (encode_entry e) = CANONICAL_ENTRY_FIXED_BYTES + length (label e)"
  by (simp add: encode_entry_def entry_wf_def enrollment_id_wf_def storage_consts)

lemma entry_sizes [simp]:
  "16 < slice_limit" "EMBEDDING_DIMENSION * 4 < slice_limit" "4 * EMBEDDING_DIMENSION < slice_limit"
  "n \<le> MAX_LABEL_BYTES \<Longrightarrow> n < slice_limit"
  by (simp_all add: slice_limit_def storage_consts)

lemmas reader_eqs = read_int_eqs read_array_eq rtake_eq

lemma decode_entry_encode:
  assumes wf: "wf_reader r" and ok: "entry_after decoded e" and bytes: "rest r = encode_entry e @ t"
  shows "decode_entry decoded r = Inr (e, advance (length (encode_entry e)) r)"
proof -
  from ok have id: "length (enrollment_id e) = 16" "enrollment_id e \<noteq> replicate 16 0"
    and utf8: "valid_utf8 (label e)" and lab: "length (label e) \<le> MAX_LABEL_BYTES"
    and emb: "length (embedding e) = EMBEDDING_DIMENSION" "list_all f32_is_finite (embedding e)"
    and new: "\<not> list_ex (\<lambda>d. enrollment_id d = enrollment_id e) decoded"
    by (auto simp: entry_after_def entry_wf_def enrollment_id_wf_def id_decoded_iff)
  have len: "length (encode_entry e) = 16 + 8 + 2 + 2 + length (label e) + EMBEDDING_DIMENSION * 4"
    using id emb by (simp add: encode_entry_def)
  have fields: "new_zeroizing_fields (enrollment_id e) (created_unix_seconds e) (label e)
      (embedding e) = Inr e"
    using lab emb by (simp add: new_zeroizing_fields_Inr_iff)
  have idn: "enrollment_id_new (enrollment_id e) = Inr (enrollment_id e)"
    using id by simp
  show ?thesis
    using wf id utf8 lab emb new len label_word [OF lab]
    by (simp add: decode_entry_def reader_eqs bytes encode_entry_def add.assoc fields idn
        mult.commute [of EMBEDDING_DIMENSION])
qed

lemmas reader_iffs =
  f_u8.get_Inr_iff f_u16.get_Inr_iff f_u32.get_Inr_iff f_u64.get_Inr_iff f_id.get_Inr_iff
  f_digest.get_Inr_iff f_nonce.get_Inr_iff f_magic.get_Inr_iff
  field_codec.get_Inr_iff [OF slice_codec]

lemma decode_entry_inv:
  assumes wf: "wf_reader r" and dec: "decode_entry decoded r = Inr (e, r')"
  shows "entry_after decoded e \<and> r' = advance (length (encode_entry e)) r
    \<and> (\<exists>t. rest r = encode_entry e @ t)"
proof -
  from dec wf obtain i c n l v t where
    i: "length i = 16" "i \<noteq> replicate 16 0" "i \<notin> enrollment_id ` set decoded"
    and l: "unat n \<le> MAX_LABEL_BYTES" "length l = unat (n :: u16)" "valid_utf8 l"
    and v: "length v = EMBEDDING_DIMENSION * 4"
    and e: "new_zeroizing_fields i c l (decode_embedding v) = Inr e"
    and r: "rest r = i @ u64_to_le c @ u16_to_le n @ u16_to_le 0 @ l @ v @ t"
    and r': "r' = advance (16 + 8 + 2 + 2 + length l + EMBEDDING_DIMENSION * 4) r"
    by (auto simp: decode_entry_def and_then_Inr_iff Let_def reader_iffs id_decoded_iff add.assoc
        not_less)
  have v2: "length (decode_embedding v) = EMBEDDING_DIMENSION"
    "concat (map u32_to_le (decode_embedding v)) = v"
    using chunks_exact4_encode [of v EMBEDDING_DIMENSION] v by simp_all
  from e have e2: "e = \<lparr>enrollment_id = i, created_unix_seconds = c, label = l,
      embedding = decode_embedding v\<rparr>"
    by (simp add: new_zeroizing_fields_Inr_iff)
  have "entry_wf e" using e i l v2
    by (intro new_zeroizing_fields_wf) (auto simp: enrollment_id_wf_def)
  moreover have "rest r = encode_entry e @ t"
    using r v2 l by (simp add: e2 encode_entry_def)
  moreover have "r' = advance (length (encode_entry e)) r"
    using r' i v by (simp add: e2 encode_entry_def v2 add.assoc)
  ultimately show ?thesis using i(3) e2 by (auto simp: entry_after_def)
qed

interpretation f_entry: field_codec encode_entry "decode_entry decoded" "entry_after decoded"
  for decoded
proof
  show "length (encode_entry e) < slice_limit" if "entry_after decoded e" for e
    using that length_encode_entry [of e]
    by (simp add: entry_after_def entry_wf_def storage_consts slice_limit_def)
qed (use decode_entry_encode decode_entry_inv in blast)+

subsection \<open>The canonical payload\<close>

definition entries_after :: "enrollment_entry list \<Rightarrow> enrollment_entry list \<Rightarrow> bool" where
  "entries_after decoded es \<longleftrightarrow>
     list_all entry_wf es \<and> distinct (map enrollment_id es)
     \<and> enrollment_id ` set decoded \<inter> enrollment_id ` set es = {}"

lemma entries_after_Cons:
  "entries_after decoded (e # es) \<longleftrightarrow> entry_after decoded e \<and> entries_after (decoded @ [e]) es"
  by (auto simp: entries_after_def entry_after_def)

lemma decode_entries_encode:
  assumes "wf_reader r" and "entries_after decoded es"
    and "rest r = concat (map encode_entry es) @ t"
  shows "decode_entries (length es) decoded r =
    Inr (decoded @ es, advance (length (concat (map encode_entry es))) r)"
  using assms
proof (induction es arbitrary: decoded r)
  case Nil
  then show ?case by (simp add: advance_def)
next
  case (Cons e es)
  let ?r = "advance (length (encode_entry e)) r"
  from Cons.prems have "decode_entry decoded r = Inr (e, ?r)"
    by (intro f_entry.get_put [where t = "concat (map encode_entry es) @ t"])
      (simp_all add: entries_after_Cons)
  moreover have "decode_entries (length es) (decoded @ [e]) ?r =
      Inr ((decoded @ [e]) @ es, advance (length (concat (map encode_entry es))) ?r)"
    using Cons.prems by (intro Cons.IH) (simp_all add: entries_after_Cons)
  ultimately show ?case by simp
qed

lemma decode_entries_inv:
  assumes "wf_reader r" and "decode_entries n decoded r = Inr (es, r')"
  shows "\<exists>new t. es = decoded @ new \<and> length new = n \<and> entries_after decoded new
    \<and> r' = advance (length (concat (map encode_entry new))) r
    \<and> rest r = concat (map encode_entry new) @ t"
  using assms
proof (induction n arbitrary: decoded r)
  case 0
  then show ?case by (auto simp: entries_after_def advance_def)
next
  case (Suc n)
  then obtain e r1 where e: "decode_entry decoded r = Inr (e, r1)"
    and es: "decode_entries n (decoded @ [e]) r1 = Inr (es, r')"
    by (auto elim!: and_then_InrE split: prod.splits)
  from f_entry.put_get [OF Suc.prems(1) e] obtain t where ok: "entry_after decoded e"
    and r1: "r1 = advance (length (encode_entry e)) r" and t: "rest r = encode_entry e @ t"
    by blast
  from Suc.IH [OF f_entry.get_wf [OF Suc.prems(1) e] es] obtain new u where
    new: "es = (decoded @ [e]) @ new" "length new = n" "entries_after (decoded @ [e]) new"
    and r': "r' = advance (length (concat (map encode_entry new))) r1"
    and u: "rest r1 = concat (map encode_entry new) @ u"
    by blast
  have "t = concat (map encode_entry new) @ u" using u t by (simp add: r1)
  with new ok r' t show ?case
    by (intro exI [of _ "e # new"] exI [of _ u]) (simp add: entries_after_Cons r1)
qed

definition payload_bytes :: "enrollment_entry list \<Rightarrow> bytes" where
  "payload_bytes es =
     u16_to_le PAYLOAD_VERSION @ u16_to_le 0 @ u32_to_le (word_of_nat (length es))
     @ concat (map encode_entry es)"

definition entries_wf :: "enrollment_entry list \<Rightarrow> bool" where
  "entries_wf es \<longleftrightarrow>
     length es \<le> MAX_ENTRIES \<and> distinct (map enrollment_id es) \<and> list_all entry_wf es"

lemma length_concat_entries:
  assumes "list_all entry_wf es"
  shows "length es * CANONICAL_ENTRY_FIXED_BYTES \<le> length (concat (map encode_entry es))"
    and "length (concat (map encode_entry es))
      \<le> length es * (CANONICAL_ENTRY_FIXED_BYTES + MAX_LABEL_BYTES)"
  using assms by (induction es) (auto simp: length_encode_entry entry_wf_def)

lemma length_payload_bytes:
  "length (payload_bytes es) = CANONICAL_PAYLOAD_FIXED_BYTES + length (concat (map encode_entry es))"
  by (simp add: payload_bytes_def storage_consts)

lemma payload_bytes_bounds:
  assumes "entries_wf es"
  shows "length (payload_bytes es) \<le> MAX_PLAINTEXT_BYTES"
    and "CANONICAL_PAYLOAD_FIXED_BYTES + length es * CANONICAL_ENTRY_FIXED_BYTES
      \<le> length (payload_bytes es)"
proof -
  have "length es * (CANONICAL_ENTRY_FIXED_BYTES + MAX_LABEL_BYTES)
      \<le> MAX_ENTRIES * (CANONICAL_ENTRY_FIXED_BYTES + MAX_LABEL_BYTES)"
    using assms by (intro mult_le_mono1) (simp add: entries_wf_def)
  also have "\<dots> = 2332000" by (simp add: storage_consts)
  finally show "length (payload_bytes es) \<le> MAX_PLAINTEXT_BYTES"
    using length_concat_entries(2) [of es] assms
    by (simp add: length_payload_bytes entries_wf_def MAX_PLAINTEXT_BYTES_def
        CANONICAL_PAYLOAD_FIXED_BYTES_def)
  show "CANONICAL_PAYLOAD_FIXED_BYTES + length es * CANONICAL_ENTRY_FIXED_BYTES
      \<le> length (payload_bytes es)"
    using length_concat_entries(1) [of es] assms
    by (simp add: length_payload_bytes entries_wf_def)
qed

lemma plaintext_slice: "n \<le> MAX_PLAINTEXT_BYTES \<Longrightarrow> n < slice_limit"
  by (simp add: MAX_PLAINTEXT_BYTES_def slice_limit_def)

lemma count_word:
  "n \<le> MAX_ENTRIES \<Longrightarrow> unat (word_of_nat n :: u32) = n"
  by (simp add: MAX_ENTRIES_def unat_of_nat)

lemma decode_payload_encode:
  assumes es: "entries_wf es" and room: "alloc ''payload entries'' (length es)"
    and count: "\<And>c. expected = Some c \<Longrightarrow> unat c = length es"
  shows "decode_payload_with_expected_count alloc (payload_bytes es) expected = Inr es"
proof -
  define r where "r = reader_new (payload_bytes es) ''canonical payload''"
  have wf: "wf_reader r" and rest: "rest r = payload_bytes es"
    using payload_bytes_bounds(1) [OF es] by (simp_all add: r_def plaintext_slice)
  have n: "unat (word_of_nat (length es) :: u32) = length es"
    using es by (intro count_word) (simp add: entries_wf_def)
  have expected: "\<not> (case expected of None \<Rightarrow> False | Some x \<Rightarrow> x \<noteq> word_of_nat (length es))"
    using count by (cases expected) (simp_all add: word_unat_eq_iff n)
  have wf8: "wf_reader (advance 8 r)" and rest8: "rest (advance 8 r) = concat (map encode_entry es)"
    using wf rest by (simp_all add: payload_bytes_def)
  have loop: "decode_entries (length es) [] (advance 8 r) =
      Inr (es, advance (8 + length (concat (map encode_entry es))) r)"
    using decode_entries_encode [OF wf8, of "[]" es "[]"] rest8 es
    by (simp add: entries_after_def entries_wf_def)
  have fin: "finish (advance (8 + length (concat (map encode_entry es))) r) = Inr ()"
    using wf rest by (subst finish_eq) (simp_all add: payload_bytes_def)
  have reads: "read_u16 r = Inr (PAYLOAD_VERSION, advance 2 r)"
    "read_u16 (advance 2 r) = Inr (0, advance 4 r)"
    "read_u32 (advance 4 r) = Inr (word_of_nat (length es), advance 8 r)"
    using wf rest by (simp_all add: read_int_eqs payload_bytes_def)
  have len: "\<not> MAX_ENTRIES < length es" "\<not> MAX_PLAINTEXT_BYTES < length (payload_bytes es)"
    "length es * CANONICAL_ENTRY_FIXED_BYTES \<le> remaining (advance 8 r)"
    using payload_bytes_bounds [OF es] length_concat_entries(1) [of es] es
    unfolding remaining_eq [OF wf8] rest8 by (simp_all add: entries_wf_def)
  have mul: "checked_mul (length es) CANONICAL_ENTRY_FIXED_BYTES
      = Some (length es * CANONICAL_ENTRY_FIXED_BYTES)"
    using len(1) by (intro checked_mul_small) (simp add: storage_consts usize_limit_def)
  have alloc: "try_reserve_exact alloc ''payload entries'' (length es) = Inr ()"
    using room by (simp add: try_reserve_exact_def)
  show ?thesis
    using len expected
    by (simp add: decode_payload_with_expected_count_def r_def [symmetric] reads n mul alloc loop fin)
qed

lemma decode_payload_inv:
  assumes dec: "decode_payload_with_expected_count alloc bs expected = Inr es"
  shows "entries_wf es \<and> bs = payload_bytes es \<and> (\<forall>c. expected = Some c \<longrightarrow> unat c = length es)
    \<and> alloc ''payload entries'' (length es)"
proof -
  let ?r = "reader_new bs ''canonical payload''"
  have small: "length bs \<le> MAX_PLAINTEXT_BYTES"
    using dec by (auto simp: decode_payload_with_expected_count_def split: if_splits)
  then have wf: "wf_reader ?r" by (simp add: plaintext_slice)
  with dec obtain c r' t where
    bs: "bs = u16_to_le PAYLOAD_VERSION @ u16_to_le 0 @ u32_to_le c @ t"
    and count: "\<And>x. expected = Some x \<Longrightarrow> x = c" "unat c \<le> MAX_ENTRIES"
    and room: "alloc ''payload entries'' (unat c)"
    and loop: "decode_entries (unat c) [] (advance 8 ?r) = Inr (es, r')"
    and fin: "finish r' = Inr ()"
    by (auto simp: decode_payload_with_expected_count_def and_then_Inr_iff reader_iffs not_less
        try_reserve_exact_def split: option.splits)
  have wf8: "wf_reader (advance 8 ?r)" using wf bs by simp
  from decode_entries_inv [OF wf8 loop] obtain u where
    len: "length es = unat c" and ok: "entries_after [] es"
    and r': "r' = advance (length (concat (map encode_entry es))) (advance 8 ?r)"
    and t: "rest (advance 8 ?r) = concat (map encode_entry es) @ u"
    by auto
  have tu: "t = concat (map encode_entry es) @ u" using t bs by simp
  have "wf_reader r'" using wf8 t unfolding r' by (subst wf_reader_advance) simp_all
  with fin have "u = []" using tu bs by (simp add: finish_eq r' split: if_splits)
  then have "bs = payload_bytes es" using bs tu len by (simp add: payload_bytes_def)
  with ok len count room show ?thesis
    by (auto simp: entries_wf_def entries_after_def)
qed

lemma decode_payload_iff:
  "decode_payload_with_expected_count alloc bs expected = Inr es \<longleftrightarrow>
     entries_wf es \<and> bs = payload_bytes es \<and> (\<forall>c. expected = Some c \<longrightarrow> unat c = length es)
     \<and> alloc ''payload entries'' (length es)"
  using decode_payload_inv [of alloc bs expected es] decode_payload_encode [of es alloc expected]
  by blast

subsection \<open>The encoders\<close>

lemma payload_length_from_wf:
  assumes "list_all entry_wf es" and "len + length (concat (map encode_entry es)) < usize_limit"
  shows "payload_length_from len es = Inr (len + length (concat (map encode_entry es)))"
  using assms
proof (induction es arbitrary: len)
  case (Cons e es)
  then have wf: "entry_wf e" by simp
  then have "\<not> MAX_LABEL_BYTES < length (label e)"
    and "\<not> list_ex (\<lambda>v. \<not> f32_is_finite v) (embedding e)"
    by (auto simp: entry_wf_def list_ex_iff list_all_iff)
  with Cons length_encode_entry [OF wf] show ?case
    by (simp add: checked_add_small add.assoc)
qed simp

lemma encode_canonical_payload_eq:
  assumes "entries_wf (entries r)"
  shows "encode_canonical_payload alloc r =
    (if alloc ''canonical payload'' (length (payload_bytes (entries r)))
     then Inr (payload_bytes (entries r)) else Inl (AllocationFailed ''canonical payload''))"
proof -
  let ?n = "length (payload_bytes (entries r))"
  have small: "?n \<le> MAX_PLAINTEXT_BYTES" by (rule payload_bytes_bounds(1) [OF assms])
  have "payload_length_from CANONICAL_PAYLOAD_FIXED_BYTES (entries r) = Inr ?n"
    using assms small payload_length_from_wf [of "entries r" CANONICAL_PAYLOAD_FIXED_BYTES]
    by (simp add: length_payload_bytes entries_wf_def usize_limit_def MAX_PLAINTEXT_BYTES_def)
  moreover have "u32_try_from (LimitExceeded ''entry count'') (length (entries r)) =
      Inr (word_of_nat (length (entries r)))"
    using assms by (simp add: u32_try_from_def entries_wf_def MAX_ENTRIES_def)
  ultimately show ?thesis
    using small by (simp add: encode_canonical_payload_def try_reserve_exact_def ensure_def
        payload_bytes_def)
qed

lemma record_wf_entries: "record_wf r \<Longrightarrow> entries_wf (entries r)"
  by (simp add: record_wf_def entries_wf_def)

definition pln1_bytes :: "enrollment_record \<Rightarrow> bytes" where
  "pln1_bytes r =
     HOWYPLN1_MAGIC @ u16_to_le FORMAT_VERSION @ u16_to_le 0 @ u64_to_le (generation r)
     @ recognizer_model_sha256 r @ u16_to_le (word_of_nat (length (username r))) @ username r
     @ payload_bytes (entries r)"

lemma length_pln1_bytes:
  "record_wf r \<Longrightarrow> length (pln1_bytes r) =
     HOWYPLN1_FIXED_HEADER + length (username r) + length (payload_bytes (entries r))"
  by (simp add: pln1_bytes_def record_wf_def codec_consts)

lemma pln1_bytes_small:
  assumes "record_wf r"
  shows "length (pln1_bytes r) < slice_limit" and "length (pln1_bytes r) < usize_limit"
  using payload_bytes_bounds(1) [OF record_wf_entries [OF assms]] length_pln1_bytes [OF assms]
    canonical_username_length [of "username r"] assms
  by (simp_all add: record_wf_def codec_consts MAX_PLAINTEXT_BYTES_def slice_limit_def
      usize_limit_def)

lemma encode_howypln1_eq:
  assumes "record_wf r"
    and "alloc ''canonical payload'' (length (payload_bytes (entries r)))"
    and "alloc ''HOWYPLN1 record'' (length (pln1_bytes r))"
  shows "encode_howypln1 alloc r = Inr (pln1_bytes r)"
  using assms(1,2) assms(3) [unfolded length_pln1_bytes [OF assms(1)]]
    pln1_bytes_small(2) [OF assms(1), unfolded length_pln1_bytes [OF assms(1)]]
  by (simp add: encode_howypln1_def encode_canonical_payload_eq record_wf_entries
      checked_add_small try_reserve_exact_def pln1_bytes_def)

lemma encode_howypln1_Inr:
  assumes "record_wf r" and "encode_howypln1 alloc r = Inr bs"
  shows "bs = pln1_bytes r"
  using assms
  by (auto simp: encode_howypln1_def encode_canonical_payload_eq record_wf_entries and_then_Inr_iff
      pln1_bytes_def split: if_splits)

subsection \<open>HOWYPLN1\<close>

text \<open>The header that both readers of HOWYPLN1 accept.\<close>

definition pln1_header :: "u64 \<Rightarrow> bytes \<Rightarrow> str \<Rightarrow> bytes" where
  "pln1_header g model user =
     HOWYPLN1_MAGIC @ u16_to_le FORMAT_VERSION @ u16_to_le 0 @ u64_to_le g @ model
     @ u16_to_le (word_of_nat (length user)) @ user"

lemma pln1_bytes_header:
  "pln1_bytes r = pln1_header (generation r) (recognizer_model_sha256 r) (username r)
     @ payload_bytes (entries r)"
  by (simp add: pln1_bytes_def pln1_header_def)

lemma length_pln1_header:
  "length model = 32 \<Longrightarrow> length (pln1_header g model user) = HOWYPLN1_FIXED_HEADER + length user"
  by (simp add: pln1_header_def codec_consts)

lemma username_word:
  "is_canonical_username u \<Longrightarrow> unat (word_of_nat (length u) :: u16) = length u"
  using canonical_username_length [of u] by (simp add: unat_of_nat)

lemma username_slice [simp]: "unat (n :: u16) < slice_limit"
  using unsigned_less [where 'a = nat, of n] by (simp add: slice_limit_def)

lemma small_slice [simp]: "n \<le> 64 \<Longrightarrow> n < slice_limit"
  by (simp add: slice_limit_def)

lemma read_howypln1_header_encode:
  assumes wf: "wf_reader r" and user: "is_canonical_username user" and model: "length model = 32"
    and gen: "g \<noteq> 0" and rest: "rest r = pln1_header g model user @ t"
  shows "read_howypln1_header user model r =
    Inr (g, model, user, advance (HOWYPLN1_FIXED_HEADER + length user) r)"
proof -
  have u: "\<not> length user < 1" "\<not> 64 < length user" "valid_utf8 user" "user \<noteq> []"
    using user canonical_username_length [OF user] canonical_username_utf8 [OF user] by auto
  have new: "canonical_username_new user = Inr user" using user by simp
  show ?thesis
    using wf u model gen username_word [OF user]
    by (simp add: read_howypln1_header_def reader_eqs rest pln1_header_def codec_consts
        add.assoc new slice_limit_def Suc_le_eq)
qed

lemma read_howypln1_header_inv:
  assumes wf: "wf_reader r"
    and dec: "read_howypln1_header user model r = Inr (g, m, u, r')"
  shows "m = model \<and> u = user \<and> g \<noteq> 0 \<and> length model = 32 \<and> is_canonical_username user
    \<and> r' = advance (HOWYPLN1_FIXED_HEADER + length user) r
    \<and> (\<exists>t. rest r = pln1_header g model user @ t)"
proof -
  from dec wf obtain n t where
    r: "rest r = HOWYPLN1_MAGIC @ u16_to_le FORMAT_VERSION @ u16_to_le 0 @ u64_to_le g @ model
          @ u16_to_le n @ user @ t"
    and eq: "m = model" "u = user" "g \<noteq> 0" "length model = 32" "is_canonical_username user"
    and n: "length user = unat n"
    and r': "r' = advance (54 + length user) r"
    by (auto simp: read_howypln1_header_def and_then_Inr_iff Let_def reader_iffs)
  have "word_of_nat (length user) = n" using n by simp
  with r eq r' show ?thesis by (auto simp: pln1_header_def codec_consts)
qed

lemma decode_howypln1_encode:
  assumes wf: "record_wf r" and room: "alloc ''payload entries'' (length (entries r))"
  shows "decode_howypln1 alloc (pln1_bytes r) (username r) (recognizer_model_sha256 r) = Inr r"
proof -
  let ?d = "reader_new (pln1_bytes r) ''HOWYPLN1''"
  have "wf_reader ?d" using pln1_bytes_small(1) [OF wf] by simp
  then have head: "read_howypln1_header (username r) (recognizer_model_sha256 r) ?d =
      Inr (generation r, recognizer_model_sha256 r, username r,
           advance (HOWYPLN1_FIXED_HEADER + length (username r)) ?d)"
    using wf by (intro read_howypln1_header_encode [where t = "payload_bytes (entries r)"])
      (simp_all add: record_wf_def pln1_bytes_header)
  have "remainder (advance (HOWYPLN1_FIXED_HEADER + length (username r)) ?d) =
      payload_bytes (entries r)"
    using wf length_pln1_header [of "recognizer_model_sha256 r" "generation r" "username r"]
    by (simp add: remainder_eq pln1_bytes_header record_wf_def)
  moreover have "decode_canonical_payload alloc (payload_bytes (entries r)) = Inr (entries r)"
    using record_wf_entries [OF wf] room
    by (simp add: decode_canonical_payload_def decode_payload_iff)
  ultimately show ?thesis
    using wf head by (simp add: decode_howypln1_def enrollment_record_new_Inr_iff record_wf_def)
qed

lemma decode_howypln1_inv:
  assumes small: "length bs < slice_limit" and dec: "decode_howypln1 alloc bs user model = Inr r"
  shows "record_wf r \<and> username r = user \<and> recognizer_model_sha256 r = model
    \<and> bs = pln1_bytes r \<and> alloc ''payload entries'' (length (entries r))"
proof -
  let ?d = "reader_new bs ''HOWYPLN1''"
  have wf: "wf_reader ?d" using small by simp
  from dec obtain g m u d' es where
    head: "read_howypln1_header user model ?d = Inr (g, m, u, d')"
    and es: "decode_canonical_payload alloc (remainder d') = Inr es"
    and r: "enrollment_record_new g m u es = Inr r"
    by (auto simp: decode_howypln1_def and_then_Inr_iff)
  from read_howypln1_header_inv [OF wf head] obtain t where
    bind: "m = model" "u = user" "g \<noteq> 0" "length model = 32" "is_canonical_username user"
    and d': "d' = advance (HOWYPLN1_FIXED_HEADER + length user) ?d"
    and t: "bs = pln1_header g model user @ t"
    by auto
  have "remainder d' = t"
    using length_pln1_header [OF bind(4)] by (simp add: d' remainder_eq t)
  with es have "entries_wf es" "t = payload_bytes es" "alloc ''payload entries'' (length es)"
    by (auto simp: decode_canonical_payload_def decode_payload_iff)
  with r bind t show ?thesis
    by (auto simp: enrollment_record_new_Inr_iff record_wf_def entries_wf_def pln1_bytes_header)
qed

lemma decode_howypln1_iff:
  "length bs < slice_limit \<Longrightarrow> decode_howypln1 alloc bs user model = Inr r \<longleftrightarrow>
     record_wf r \<and> username r = user \<and> recognizer_model_sha256 r = model \<and> bs = pln1_bytes r
     \<and> alloc ''payload entries'' (length (entries r))"
  using decode_howypln1_inv [of bs alloc user model r] decode_howypln1_encode [of r alloc] by blast

end
