(* ===== verification/Envelope.thy ===== *)
theory Envelope
  imports Codec_Correct
begin

section \<open>Correctness of the encrypted envelope\<close>

text \<open>
  The facts about HOWYENC1 in \<open>Codec\<close>: the public header is characterised by its reference encoding
  \<open>enc1_header\<close>, decoding succeeds exactly on authenticated envelopes of a well-formed record with
  the expected bindings, and under the contract of the AES-GCM implementation encoding and decoding
  are inverse.
\<close>

definition enc1_header :: "encrypted_header \<Rightarrow> bytes" where
  "enc1_header h =
     HOWYENC1_MAGIC @ u16_to_le FORMAT_VERSION @ u16_to_le AES_256_GCM_ALGORITHM
     @ [storage_mode_identifier (eh_mode h)] @ [0] @ u16_to_le (word_of_nat (eh_header_length h))
     @ u64_to_le (eh_key_epoch h) @ u64_to_le (eh_record_generation h)
     @ u32_to_le (word_of_nat (eh_plaintext_length h)) @ u32_to_le (eh_entry_count h)
     @ u16_to_le (word_of_nat EMBEDDING_DIMENSION)
     @ u16_to_le (word_of_nat (length (eh_username h))) @ eh_recognizer_model_sha256 h
     @ eh_nonce h @ eh_username h"

definition header_wf :: "encrypted_header \<Rightarrow> bool" where
  "header_wf h \<longleftrightarrow>
     eh_key_epoch h \<noteq> 0 \<and> eh_record_generation h \<noteq> 0
     \<and> eh_plaintext_length h \<le> MAX_PLAINTEXT_BYTES \<and> unat (eh_entry_count h) \<le> MAX_ENTRIES
     \<and> length (eh_recognizer_model_sha256 h) = 32 \<and> length (eh_nonce h) = 12
     \<and> is_canonical_username (eh_username h)
     \<and> eh_header_length h = HOWYENC1_FIXED_HEADER + length (eh_username h)
     \<and> CANONICAL_PAYLOAD_FIXED_BYTES + unat (eh_entry_count h) * CANONICAL_ENTRY_FIXED_BYTES
         \<le> eh_plaintext_length h"

definition envelope_length :: "encrypted_header \<Rightarrow> usize" where
  "envelope_length h = eh_header_length h + eh_plaintext_length h + GCM_TAG_BYTES"

lemma length_enc1_header: "header_wf h \<Longrightarrow> length (enc1_header h) = eh_header_length h"
  by (simp add: enc1_header_def header_wf_def codec_consts)

lemma header_words:
  assumes "header_wf h"
  shows "unat (word_of_nat (eh_header_length h) :: u16) = eh_header_length h"
    and "unat (word_of_nat (eh_plaintext_length h) :: u32) = eh_plaintext_length h"
    and "unat (word_of_nat (length (eh_username h)) :: u16) = length (eh_username h)"
  using assms canonical_username_length [of "eh_username h"]
  by (auto intro!: word_of_small_nat simp: header_wf_def codec_consts MAX_PLAINTEXT_BYTES_def
      simp del: of_nat_add)

lemma dimension_word: "unat (word_of_nat EMBEDDING_DIMENSION :: u16) = EMBEDDING_DIMENSION"
  by (simp add: EMBEDDING_DIMENSION_def)

lemma inspect_prefix_encode:
  assumes wf: "header_wf h" and small: "length bs < slice_limit" and bs: "bs = enc1_header h @ t"
  shows "inspect_howyenc1_header_prefix bs (envelope_length h) = Inr h"
proof -
  define r where "r = reader_new bs ''HOWYENC1''"
  have r: "wf_reader r" "rest r = enc1_header h @ t" using small by (simp_all add: r_def bs)
  have u: "\<not> 64 < length (eh_username h)" "valid_utf8 (eh_username h)" "eh_username h \<noteq> []"
    "canonical_username_new (eh_username h) = Inr (eh_username h)"
    using wf canonical_username_length [of "eh_username h"] canonical_username_utf8
    by (auto simp: header_wf_def)
  have adds: "checked_add HOWYENC1_FIXED_HEADER (length (eh_username h)) = Some (eh_header_length h)"
    "checked_add (eh_header_length h) (eh_plaintext_length h) =
      Some (eh_header_length h + eh_plaintext_length h)"
    "checked_add (eh_header_length h + eh_plaintext_length h) GCM_TAG_BYTES =
      Some (envelope_length h)"
    "checked_mul (unat (eh_entry_count h)) CANONICAL_ENTRY_FIXED_BYTES =
      Some (unat (eh_entry_count h) * CANONICAL_ENTRY_FIXED_BYTES)"
    "checked_add CANONICAL_PAYLOAD_FIXED_BYTES
        (unat (eh_entry_count h) * CANONICAL_ENTRY_FIXED_BYTES) =
      Some (CANONICAL_PAYLOAD_FIXED_BYTES + unat (eh_entry_count h) * CANONICAL_ENTRY_FIXED_BYTES)"
    using wf u(1)
    by (simp_all add: header_wf_def codec_consts storage_consts usize_limit_def envelope_length_def)
  have f: "eh_key_epoch h \<noteq> 0" "eh_record_generation h \<noteq> 0"
    "\<not> MAX_PLAINTEXT_BYTES < eh_plaintext_length h" "\<not> MAX_ENTRIES < unat (eh_entry_count h)"
    "length (eh_recognizer_model_sha256 h) = 32" "length (eh_nonce h) = 12"
    "\<not> eh_plaintext_length h <
      CANONICAL_PAYLOAD_FIXED_BYTES + unat (eh_entry_count h) * CANONICAL_ENTRY_FIXED_BYTES"
    using wf by (auto simp: header_wf_def)
  show ?thesis
    using r f u header_words [OF wf] dimension_word
    by (simp add: inspect_howyenc1_header_prefix_def r_def [symmetric] reader_eqs enc1_header_def
        slice_limit_def Suc_le_eq adds Let_def u(4))
qed

lemma inspect_prefix_inv:
  assumes small: "length bs < slice_limit" and ins: "inspect_howyenc1_header_prefix bs n = Inr h"
  shows "header_wf h \<and> n = envelope_length h \<and> (\<exists>t. bs = enc1_header h @ t)"
proof -
  have "wf_reader (reader_new bs ''HOWYENC1'')" using small by simp
  with ins obtain hl pl ec ul e g m nc u t md dim where
    h: "h = \<lparr>eh_mode = md, eh_key_epoch = e, eh_record_generation = g,
      eh_plaintext_length = unat (pl :: u32), eh_entry_count = ec,
      eh_recognizer_model_sha256 = m, eh_nonce = nc, eh_username = u,
      eh_header_length = unat (hl :: u16)\<rparr>"
    and bs: "bs = HOWYENC1_MAGIC @ u16_to_le FORMAT_VERSION @ u16_to_le AES_256_GCM_ALGORITHM
      @ [storage_mode_identifier md] @ [0] @ u16_to_le hl @ u64_to_le e @ u64_to_le g
      @ u32_to_le pl @ u32_to_le ec @ u16_to_le dim @ u16_to_le ul @ m @ nc @ u @ t"
    and conds: "e \<noteq> 0" "g \<noteq> 0" "unat pl \<le> MAX_PLAINTEXT_BYTES" "unat ec \<le> MAX_ENTRIES"
      "length m = 32" "length nc = 12" "is_canonical_username u" "length u = unat ul"
      "unat hl = HOWYENC1_FIXED_HEADER + unat (ul :: u16)"
      "CANONICAL_PAYLOAD_FIXED_BYTES + unat ec * CANONICAL_ENTRY_FIXED_BYTES \<le> unat pl"
      "n = unat hl + unat pl + GCM_TAG_BYTES"
    and dim: "unat (dim :: u16) = EMBEDDING_DIMENSION"
    by (auto simp: inspect_howyenc1_header_prefix_def and_then_Inr_iff Let_def reader_iffs not_less
        storage_mode_try_from_u8_Inr split: option.splits)
  have words: "word_of_nat (unat hl) = hl" "word_of_nat (unat pl) = pl"
    "word_of_nat (length u) = ul" "word_of_nat EMBEDDING_DIMENSION = dim"
    using conds(8) by (simp_all flip: dim)
  have "bs = enc1_header h @ t"
    by (simp add: bs enc1_header_def h words)
  moreover have "header_wf h" using conds by (simp add: h header_wf_def)
  moreover have "n = envelope_length h" using conds(11) by (simp add: h envelope_length_def)
  ultimately show ?thesis by blast
qed

lemma inspect_howyenc1_header_prefix_iff:
  "length bs < slice_limit \<Longrightarrow> inspect_howyenc1_header_prefix bs n = Inr h \<longleftrightarrow>
     header_wf h \<and> n = envelope_length h \<and> (\<exists>t. bs = enc1_header h @ t)"
  using inspect_prefix_inv [of bs n h] inspect_prefix_encode [of h bs] by blast

lemma inspect_howyenc1_iff:
  assumes "length bs < slice_limit"
  shows "inspect_howyenc1 bs = Inr h \<longleftrightarrow>
    header_wf h \<and> (\<exists>ct tag. bs = enc1_header h @ ct @ tag
      \<and> length ct = eh_plaintext_length h \<and> length tag = GCM_TAG_BYTES)" (is "?l \<longleftrightarrow> ?r")
proof
  assume ?l
  then obtain t where h: "header_wf h" and bs: "bs = enc1_header h @ t"
    and len: "length bs = envelope_length h"
    using assms by (auto simp: inspect_howyenc1_def inspect_howyenc1_header_prefix_iff)
  from len bs length_enc1_header [OF h] have t: "length t = eh_plaintext_length h + GCM_TAG_BYTES"
    by (simp add: envelope_length_def)
  with h bs show ?r
    by (intro conjI exI [of _ "take (eh_plaintext_length h) t"]
        exI [of _ "drop (eh_plaintext_length h) t"]) simp_all
next
  assume ?r
  then show ?l
    using assms length_enc1_header [of h]
    by (auto simp: inspect_howyenc1_def inspect_howyenc1_header_prefix_iff envelope_length_def)
qed

subsection \<open>Decoding\<close>

text \<open>The public header of a record.\<close>

definition header_of ::
  "enrollment_record \<Rightarrow> storage_mode \<Rightarrow> u64 \<Rightarrow> bytes \<Rightarrow> encrypted_header" where
  "header_of r mode epoch nonce =
     \<lparr>eh_mode = mode, eh_key_epoch = epoch, eh_record_generation = generation r,
      eh_plaintext_length = length (payload_bytes (entries r)),
      eh_entry_count = word_of_nat (length (entries r)),
      eh_recognizer_model_sha256 = recognizer_model_sha256 r, eh_nonce = nonce,
      eh_username = username r, eh_header_length = HOWYENC1_FIXED_HEADER + length (username r)\<rparr>"

lemma header_of_wf:
  assumes "record_wf r" and "epoch \<noteq> 0" and "length nonce = 12"
  shows "header_wf (header_of r mode epoch nonce)"
  using assms payload_bytes_bounds [OF record_wf_entries [OF assms(1)]]
  by (simp add: header_of_def header_wf_def record_wf_def count_word)

text \<open>What an authenticated envelope of the record \<open>r\<close> is, relative to the decryption function.\<close>

definition envelope_of ::
  "aead_in_place \<Rightarrow> bytes \<Rightarrow> encrypted_header \<Rightarrow> enrollment_entry list \<Rightarrow> bytes \<Rightarrow> bool" where
  "envelope_of dec key h es bs \<longleftrightarrow>
     (\<exists>ct tag. bs = enc1_header h @ ct @ tag \<and> length ct = eh_plaintext_length h
        \<and> length tag = GCM_TAG_BYTES
        \<and> dec key (eh_nonce h) (enc1_header h) (ct @ tag) = Some (payload_bytes es))"

lemma decode_howyenc1_header:
  assumes wf: "header_wf h" and bs: "bs = enc1_header h @ ct @ tag"
    and ct: "length ct = eh_plaintext_length h" and tag: "length tag = GCM_TAG_BYTES"
  shows "decode_howyenc1 alloc dec bs key (eh_mode h) (eh_key_epoch h) (eh_username h)
      (eh_recognizer_model_sha256 h) =
    and_then (decrypt_aes_256_gcm alloc dec key (eh_nonce h) (enc1_header h) ct tag) (\<lambda>payload.
      if length payload \<noteq> eh_plaintext_length h then Inl (InvalidLength ''HOWYENC1'')
      else and_then (decode_payload_with_expected_count alloc payload (Some (eh_entry_count h)))
        (\<lambda>es. enrollment_record_new (eh_record_generation h) (eh_recognizer_model_sha256 h)
          (eh_username h) es))"
proof -
  have len: "length (enc1_header h) = eh_header_length h" by (rule length_enc1_header [OF wf])
  have small: "eh_header_length h + eh_plaintext_length h + GCM_TAG_BYTES < slice_limit"
    using wf canonical_username_length [of "eh_username h"]
    by (simp add: header_wf_def codec_consts storage_consts slice_limit_def)
  then have "length bs < slice_limit" using len ct tag by (simp add: bs)
  with wf bs ct tag have ins: "inspect_howyenc1 bs = Inr h"
    by (simp add: inspect_howyenc1_iff) blast
  have ranges: "get_range bs (eh_header_length h) (eh_header_length h + eh_plaintext_length h) = Some ct"
    "get_range bs (eh_header_length h + eh_plaintext_length h) (length bs) = Some tag"
    "get_range bs 0 (eh_header_length h) = Some (enc1_header h)"
    using len ct by (simp_all add: get_range_def bs flip: len)
  have add: "checked_add (eh_header_length h) (eh_plaintext_length h) =
      Some (eh_header_length h + eh_plaintext_length h)"
    using small by (intro checked_add_small) (simp add: slice_limit_def usize_limit_def)
  show ?thesis using tag by (simp add: decode_howyenc1_def ins add ranges)
qed

lemma decode_howyenc1_inspect:
  assumes "decode_howyenc1 alloc dec bs key mode epoch user model = Inr r"
  obtains h where "inspect_howyenc1 bs = Inr h" and "eh_mode h = mode" and "eh_key_epoch h = epoch"
    and "eh_username h = user" and "eh_recognizer_model_sha256 h = model"
  using assms by (auto simp: decode_howyenc1_def elim!: and_then_InrE split: if_splits)

lemma decrypt_aes_256_gcm_Inr:
  "decrypt_aes_256_gcm alloc dec key nonce aad ct tag = Inr text \<longleftrightarrow>
     length key = AES_256_KEY_BYTES \<and> length ct + GCM_TAG_BYTES < usize_limit
     \<and> alloc ''AES-GCM input'' (length ct + GCM_TAG_BYTES)
     \<and> dec key nonce aad (ct @ tag) = Some text"
  by (auto simp: decrypt_aes_256_gcm_def and_then_Inr_iff try_reserve_exact_def)

lemma decode_howyenc1_inv:
  assumes small: "length bs < slice_limit"
    and dec: "decode_howyenc1 alloc dec bs key mode epoch user model = Inr r"
  shows "\<exists>nonce. let h = header_of r mode epoch nonce in
    record_wf r \<and> username r = user \<and> recognizer_model_sha256 r = model \<and> header_wf h
    \<and> length key = AES_256_KEY_BYTES \<and> envelope_of dec key h (entries r) bs"
proof -
  from decode_howyenc1_inspect [OF dec] obtain h where ins: "inspect_howyenc1 bs = Inr h"
    and bind: "eh_mode h = mode" "eh_key_epoch h = epoch" "eh_username h = user"
      "eh_recognizer_model_sha256 h = model" .
  from ins small obtain ct tag where h: "header_wf h" and bs: "bs = enc1_header h @ ct @ tag"
    and len: "length ct = eh_plaintext_length h" "length tag = GCM_TAG_BYTES"
    by (auto simp: inspect_howyenc1_iff)
  from dec [folded bind, unfolded decode_howyenc1_header [OF h bs len]] obtain plain es where
    pt: "dec key (eh_nonce h) (enc1_header h) (ct @ tag) = Some plain"
    and key: "length key = AES_256_KEY_BYTES" and tl: "length plain = eh_plaintext_length h"
    and es: "decode_payload_with_expected_count alloc plain (Some (eh_entry_count h)) = Inr es"
    and r: "enrollment_record_new (eh_record_generation h) (eh_recognizer_model_sha256 h)
      (eh_username h) es = Inr r"
    by (auto simp: and_then_Inr_iff decrypt_aes_256_gcm_Inr)
  from es have ok: "entries_wf es" "plain = payload_bytes es" "unat (eh_entry_count h) = length es"
    by (auto simp: decode_payload_iff)
  have "word_of_nat (length es) = eh_entry_count h" by (simp flip: ok(3))
  with r ok tl bind h have eq: "header_of r mode epoch (eh_nonce h) = h"
    by (auto simp: header_of_def enrollment_record_new_Inr_iff header_wf_def)
  have "envelope_of dec key h (entries r) bs"
    using bs len pt ok(2) r by (auto simp: envelope_of_def enrollment_record_new_Inr_iff)
  moreover have "record_wf r"
    using r ok(1) h by (auto simp: record_wf_def enrollment_record_new_Inr_iff entries_wf_def
        header_wf_def)
  moreover have "username r = user" "recognizer_model_sha256 r = model"
    using r bind by (auto simp: enrollment_record_new_Inr_iff)
  ultimately show ?thesis using h key by (intro exI [of _ "eh_nonce h"]) (simp add: Let_def eq)
qed

lemma decode_howyenc1_envelope:
  assumes r: "record_wf r" and h: "h = header_of r mode epoch nonce" "header_wf h"
    and key: "length key = AES_256_KEY_BYTES" and env: "envelope_of dec key h (entries r) bs"
    and room: "alloc ''AES-GCM input'' (eh_plaintext_length h + GCM_TAG_BYTES)"
      "alloc ''payload entries'' (length (entries r))"
  shows "decode_howyenc1 alloc dec bs key mode epoch (username r) (recognizer_model_sha256 r) = Inr r"
proof -
  from env obtain ct tag where bs: "bs = enc1_header h @ ct @ tag"
    and len: "length ct = eh_plaintext_length h" "length tag = GCM_TAG_BYTES"
    and dec: "dec key (eh_nonce h) (enc1_header h) (ct @ tag) = Some (payload_bytes (entries r))"
    by (auto simp: envelope_of_def)
  have bind: "eh_mode h = mode" "eh_key_epoch h = epoch" "eh_username h = username r"
    "eh_recognizer_model_sha256 h = recognizer_model_sha256 r"
    "eh_record_generation h = generation r" "eh_entry_count h = word_of_nat (length (entries r))"
    "eh_plaintext_length h = length (payload_bytes (entries r))"
    by (simp_all add: h(1) header_of_def)
  have small: "length ct + GCM_TAG_BYTES < usize_limit"
    using h(2) len by (simp add: header_wf_def storage_consts usize_limit_def)
  have "decrypt_aes_256_gcm alloc dec key (eh_nonce h) (enc1_header h) ct tag =
      Inr (payload_bytes (entries r))"
    using key small room dec len by (simp add: decrypt_aes_256_gcm_Inr)
  moreover have "decode_payload_with_expected_count alloc (payload_bytes (entries r))
      (Some (word_of_nat (length (entries r)))) = Inr (entries r)"
    using r room record_wf_entries [OF r]
    by (simp add: decode_payload_iff count_word record_wf_def)
  moreover have "enrollment_record_new (generation r) (recognizer_model_sha256 r) (username r)
      (entries r) = Inr r"
    using r by (simp add: enrollment_record_new_Inr_iff record_wf_def)
  ultimately show ?thesis
    using decode_howyenc1_header [OF h(2) bs len, of alloc dec key] by (simp add: bind)
qed

subsection \<open>Encoding\<close>

lemma encode_howyenc1_with_nonce_Inr:
  assumes r: "record_wf r" and enc: "encode_howyenc1_with_nonce alloc enc r mode epoch key nonce = Inr bs"
  shows "epoch \<noteq> 0 \<and> (\<exists>ct tag. bs = enc1_header (header_of r mode epoch nonce) @ ct @ tag
    \<and> encrypt_aes_256_gcm alloc enc key nonce (enc1_header (header_of r mode epoch nonce))
        (payload_bytes (entries r)) = Inr (ct, tag))"
proof -
  have small: "length (payload_bytes (entries r)) < 2 ^ 32" "length (entries r) < 2 ^ 32"
    using payload_bytes_bounds(1) [OF record_wf_entries [OF r]] r
    by (simp_all add: record_wf_def storage_consts)
  from enc r small show ?thesis
    by (auto simp: encode_howyenc1_with_nonce_def encode_canonical_payload_eq record_wf_entries
        and_then_Inr_iff u32_try_from_def Let_def header_of_def enc1_header_def split: if_splits)
qed

lemma encode_howyenc1_with_nonce_eq:
  assumes r: "record_wf r" and epoch: "epoch \<noteq> 0"
    and enc: "encrypt_aes_256_gcm (\<lambda>_ _. True) enc key nonce
      (enc1_header (header_of r mode epoch nonce)) (payload_bytes (entries r)) = Inr (ct, tag)"
    and ct: "length ct = length (payload_bytes (entries r))"
  shows "encode_howyenc1_with_nonce (\<lambda>_ _. True) enc r mode epoch key nonce =
    Inr (enc1_header (header_of r mode epoch nonce) @ ct @ tag)"
proof -
  let ?n = "length (payload_bytes (entries r))" and ?u = "length (username r)"
  have bounds: "?n \<le> 2621440" "length (entries r) \<le> 1000" "?u \<le> 64"
    using payload_bytes_bounds(1) [OF record_wf_entries [OF r]] r
      canonical_username_length [of "username r"]
    by (auto simp: record_wf_def storage_consts)
  have head: "checked_add HOWYENC1_FIXED_HEADER ?u = Some (HOWYENC1_FIXED_HEADER + ?u)"
    "HOWYENC1_FIXED_HEADER + ?u < 65536" "?n < 4294967296" "length (entries r) < 4294967296"
    "checked_add (HOWYENC1_FIXED_HEADER + ?u) ?n = Some (HOWYENC1_FIXED_HEADER + ?u + ?n)"
    "checked_add (HOWYENC1_FIXED_HEADER + ?u + ?n) GCM_TAG_BYTES =
      Some (HOWYENC1_FIXED_HEADER + ?u + ?n + GCM_TAG_BYTES)"
    using bounds by (simp_all add: codec_consts GCM_TAG_BYTES_def usize_limit_def)
  show ?thesis
    using epoch enc ct
    by (simp add: encode_howyenc1_with_nonce_def encode_canonical_payload_eq record_wf_entries [OF r]
        u32_try_from_def try_reserve_exact_def head enc1_header_def header_of_def Let_def
        del: of_nat_add)
qed

lemma decode_encode_howyenc1:
  assumes aead: "aead_contract enc dec" and r: "record_wf r" and nonce: "length nonce = 12"
    and enc: "encode_howyenc1_with_nonce alloc enc r mode epoch key nonce = Inr bs"
    and room: "alloc' ''AES-GCM input'' (length (payload_bytes (entries r)) + GCM_TAG_BYTES)"
      "alloc' ''payload entries'' (length (entries r))"
  shows "decode_howyenc1 alloc' dec bs key mode epoch (username r) (recognizer_model_sha256 r) = Inr r"
proof -
  let ?h = "header_of r mode epoch nonce"
  from encode_howyenc1_with_nonce_Inr [OF r enc] obtain ct tag where
    epoch: "epoch \<noteq> 0" and bs: "bs = enc1_header ?h @ ct @ tag"
    and aes: "encrypt_aes_256_gcm alloc enc key nonce (enc1_header ?h)
      (payload_bytes (entries r)) = Inr (ct, tag)"
    by blast
  note dec = decrypt_encrypt_aes_256_gcm [OF aead aes, of alloc', OF room(1)]
  have "envelope_of dec key ?h (entries r) bs"
    using bs dec by (auto simp: envelope_of_def decrypt_aes_256_gcm_Inr header_of_def)
  moreover have "length key = AES_256_KEY_BYTES" using dec(3) by (simp add: decrypt_aes_256_gcm_Inr)
  ultimately show ?thesis
    using r header_of_wf [OF r epoch nonce] room
    by (intro decode_howyenc1_envelope [OF r refl]) (simp_all add: header_of_def)
qed

end
