(* ===== verification/Metadata.thy ===== *)
theory Metadata
  imports Envelope
begin

section \<open>Metadata inspection\<close>

text \<open>
  The two inspectors of \<open>Codec\<close> that see only a bounded prefix of a record file and its length.
  Each is characterised exactly, and what it reports agrees with what the complete decoder of the
  same file returns.
\<close>

lemma inspect_howyenc1_metadata_iff:
  "inspect_howyenc1_metadata p n mode epoch user model max_entries max_bytes = Inr h \<longleftrightarrow>
     0 < max_entries \<and> max_entries \<le> MAX_ENTRIES \<and> 0 < max_bytes \<and> max_bytes \<le> MAX_PLAINTEXT_BYTES
     \<and> header_wf h \<and> p = enc1_header h \<and> n = envelope_length h
     \<and> unat (eh_entry_count h) \<le> max_entries \<and> eh_plaintext_length h \<le> max_bytes
     \<and> eh_mode h = mode \<and> eh_key_epoch h = epoch \<and> eh_username h = user
     \<and> eh_recognizer_model_sha256 h = model" (is "?l \<longleftrightarrow> ?r")
proof
  assume l: ?l
  then have "length p \<le> HOWYENC1_MAX_INSPECTION_BYTES"
    by (auto simp: inspect_howyenc1_metadata_def split: if_splits)
  then have "length p < slice_limit" by (simp add: codec_consts slice_limit_def)
  with l length_enc1_header [of h] show ?r
    by (auto simp: inspect_howyenc1_metadata_def and_then_Inr_iff
        inspect_howyenc1_header_prefix_iff not_less split: if_splits)
next
  assume r: ?r
  then have len: "length p = eh_header_length h" using length_enc1_header [of h] by simp
  have "HOWYENC1_FIXED_INSPECTION_BYTES \<le> length p" "length p \<le> HOWYENC1_MAX_INSPECTION_BYTES"
    using r canonical_username_length [of "eh_username h"] unfolding len
    by (auto simp: header_wf_def codec_consts)
  moreover from this have "inspect_howyenc1_header_prefix p n = Inr h"
    using r by (simp add: inspect_howyenc1_header_prefix_iff codec_consts slice_limit_def)
  ultimately show ?l using r len by (simp add: inspect_howyenc1_metadata_def)
qed

lemma inspect_metadata_agrees:
  assumes small: "length bs < slice_limit"
    and meta: "inspect_howyenc1_metadata (take k bs) (length bs) mode epoch user model m b = Inr h"
    and ins: "inspect_howyenc1 bs = Inr h'"
  shows "h' = h"
proof -
  from meta have h: "header_wf h" "take k bs = enc1_header h" "length bs = envelope_length h"
    by (auto simp: inspect_howyenc1_metadata_iff)
  have "bs = enc1_header h @ drop k bs" using append_take_drop_id [of k bs] h(2) by simp
  from inspect_prefix_encode [OF h(1) small this] ins h(3) show ?thesis
    by (simp add: inspect_howyenc1_def)
qed

subsection \<open>HOWYPLN1 metadata\<close>

definition pln1_prefix :: "u64 \<Rightarrow> bytes \<Rightarrow> str \<Rightarrow> u32 \<Rightarrow> bytes" where
  "pln1_prefix g model user count =
     pln1_header g model user @ u16_to_le PAYLOAD_VERSION @ u16_to_le 0 @ u32_to_le count"

lemma length_pln1_prefix:
  "length model = 32 \<Longrightarrow> length (pln1_prefix g model user c) = HOWYPLN1_FIXED_HEADER + length user + 8"
  by (simp add: pln1_prefix_def length_pln1_header)

lemma inspect_howypln1_metadata_iff:
  "inspect_howypln1_metadata p n user model max_entries = Inr i \<longleftrightarrow>
     0 < max_entries \<and> max_entries \<le> MAX_ENTRIES
     \<and> phi_generation i \<noteq> 0 \<and> length model = 32 \<and> is_canonical_username user
     \<and> p = pln1_prefix (phi_generation i) model user (phi_entry_count i)
     \<and> unat (phi_entry_count i) \<le> max_entries
     \<and> length p + unat (phi_entry_count i) * CANONICAL_ENTRY_FIXED_BYTES \<le> n
     \<and> n \<le> length p + unat (phi_entry_count i) * (CANONICAL_ENTRY_FIXED_BYTES + MAX_LABEL_BYTES)"
  (is "?l \<longleftrightarrow> ?r")
proof
  assume l: ?l
  then have max: "0 < max_entries" "max_entries \<le> MAX_ENTRIES"
    and len: "length p \<le> HOWYPLN1_MAX_INSPECTION_BYTES"
    by (auto simp: inspect_howypln1_metadata_def split: if_splits)
  let ?d = "reader_new p ''HOWYPLN1 metadata''"
  have wf: "wf_reader ?d" using len by (simp add: codec_consts storage_consts slice_limit_def)
  from l obtain g m u r' where head: "read_howypln1_header user model ?d = Inr (g, m, u, r')"
    by (auto simp: inspect_howypln1_metadata_def elim!: and_then_InrE split: if_splits)
  from read_howypln1_header_inv [OF wf head] obtain t where
    ok: "g \<noteq> 0" "length model = 32" "is_canonical_username user"
    and r': "r' = advance (length (pln1_header g model user)) ?d"
    and t: "rest ?d = pln1_header g model user @ t"
    by (auto simp: length_pln1_header)
  have wf': "wf_reader r'" and rest': "rest r' = t" using wf t by (simp_all add: r')
  from l head wf' rest' obtain c where
    c: "t = u16_to_le PAYLOAD_VERSION @ u16_to_le 0 @ u32_to_le c" "unat c \<le> max_entries"
    and n: "length p + unat c * CANONICAL_ENTRY_FIXED_BYTES \<le> n"
      "n \<le> length p + unat c * CANONICAL_ENTRY_FIXED_BYTES + unat c * MAX_LABEL_BYTES"
    and i: "i = \<lparr>phi_generation = g, phi_entry_count = c\<rparr>"
    by (auto simp: inspect_howypln1_metadata_def and_then_Inr_iff reader_iffs finish_eq not_less
        split: if_splits)
  with ok max t show ?r by (simp add: pln1_prefix_def algebra_simps)
next
  assume r: ?r
  let ?c = "phi_entry_count i" and ?d = "reader_new p ''HOWYPLN1 metadata''"
  let ?h = "length (pln1_header (phi_generation i) model user)"
  have len: "length p = HOWYPLN1_FIXED_HEADER + length user + 8" and c: "unat ?c \<le> MAX_ENTRIES"
    using r length_pln1_prefix [of model "phi_generation i" user ?c] by auto
  then have max: "length p \<le> HOWYPLN1_MAX_INSPECTION_BYTES" and wf: "wf_reader ?d"
    using r canonical_username_length [of user]
    by (auto simp: codec_consts storage_consts slice_limit_def)
  have "read_howypln1_header user model ?d =
      Inr (phi_generation i, model, user, advance (HOWYPLN1_FIXED_HEADER + length user) ?d)"
    using r wf by (intro read_howypln1_header_encode) (auto simp: pln1_prefix_def)
  then have head: "read_howypln1_header user model ?d =
      Inr (phi_generation i, model, user, advance ?h ?d)"
    using r by (simp add: length_pln1_header)
  have rest: "rest (advance ?h ?d) = u16_to_le PAYLOAD_VERSION @ u16_to_le 0 @ u32_to_le ?c"
    using r by (simp add: pln1_prefix_def)
  have wf': "wf_reader (advance ?h ?d)" using wf r by (simp add: pln1_prefix_def)
  have len': "0 < max_entries" "max_entries \<le> MAX_ENTRIES" "unat ?c \<le> max_entries"
    "length p + unat ?c * CANONICAL_ENTRY_FIXED_BYTES \<le> n"
    "n \<le> length p + unat ?c * CANONICAL_ENTRY_FIXED_BYTES + unat ?c * MAX_LABEL_BYTES"
    using r unfolding add_mult_distrib2 add.assoc by blast+
  define d where "d = advance ?h ?d"
  have reads: "read_u16 d = Inr (PAYLOAD_VERSION, advance 2 d)"
    "read_u16 (advance 2 d) = Inr (0, advance 4 d)"
    "read_u32 (advance 4 d) = Inr (?c, advance 8 d)" "finish (advance 8 d) = Inr ()"
    using wf' rest unfolding d_def [symmetric] by (simp_all add: read_int_eqs finish_eq)
  have bounds: "checked_mul (unat ?c) CANONICAL_ENTRY_FIXED_BYTES =
      Some (unat ?c * CANONICAL_ENTRY_FIXED_BYTES)"
    "checked_add (length p) (unat ?c * CANONICAL_ENTRY_FIXED_BYTES) =
      Some (length p + unat ?c * CANONICAL_ENTRY_FIXED_BYTES)"
    "checked_mul (unat ?c) MAX_LABEL_BYTES = Some (unat ?c * MAX_LABEL_BYTES)"
    "checked_add (length p + unat ?c * CANONICAL_ENTRY_FIXED_BYTES) (unat ?c * MAX_LABEL_BYTES) =
      Some (length p + unat ?c * CANONICAL_ENTRY_FIXED_BYTES + unat ?c * MAX_LABEL_BYTES)"
    using c max by (simp_all add: codec_consts storage_consts usize_limit_def)
  show ?l
    using len' c max
    by (simp add: inspect_howypln1_metadata_def head [folded d_def] reads bounds)
qed

end
