(* ===== verification/Samples.thy ===== *)
theory Samples
  imports Metadata
begin

section \<open>Sample values\<close>

text \<open>A concrete entry, record, plaintext file and encrypted file, with the facts about them that the
  witnesses of the properties use.\<close>

definition sample_entry :: enrollment_entry where
  "sample_entry =
     \<lparr>enrollment_id = replicate 15 0 @ [1], created_unix_seconds = 1700000000,
      label = ascii ''default'', embedding = replicate 512 0x3F800000\<rparr>"

definition sample_record :: enrollment_record where
  "sample_record =
     \<lparr>generation = 1, recognizer_model_sha256 = replicate 32 7, username = ascii ''alice'',
      entries = [sample_entry]\<rparr>"

lemma sample_entry_wf: "entry_wf sample_entry"
proof -
  have "valid_utf8 (ascii ''default'')" by (simp add: ascii_def)
  moreover have "replicate 15 0 @ [1] \<noteq> (replicate 16 0 :: bytes)"
    by (simp add: numeral_eq_Suc)
  ultimately show ?thesis
    by (simp add: entry_wf_def sample_entry_def enrollment_id_wf_def storage_consts list_all_iff
        f32_is_finite_def)
qed

lemma sample_user: "is_canonical_username (ascii ''alice'')"
  by (simp add: is_canonical_username_def ascii_def is_ascii_alphanumeric_def)

lemma sample_record_wf: "record_wf sample_record"
  using sample_entry_wf sample_user
  by (simp add: record_wf_def sample_record_def storage_consts)

lemma sample_pln1_decodes:
  "decode_howypln1 (\<lambda>_ _. True) (pln1_bytes sample_record) (username sample_record)
     (recognizer_model_sha256 sample_record) = Inr sample_record"
  by (rule decode_howypln1_encode) (simp_all add: sample_record_wf)

text \<open>A toy pair that meets the contract, for evaluation: the tag is a fixed block and decryption checks
  it.\<close>

definition sample_encrypt :: aead_in_place where
  "sample_encrypt key nonce aad text = Some (map (\<lambda>b. b XOR 0x55) text @ replicate 16 0xAA)"

definition sample_decrypt :: aead_in_place where
  "sample_decrypt key nonce aad buf =
     (let n = length buf - 16
      in if length buf < 16 \<or> drop n buf \<noteq> replicate 16 0xAA then None
         else Some (map (\<lambda>b. b XOR 0x55) (take n buf)))"

lemma sample_aead_contract: "aead_contract sample_encrypt sample_decrypt"
  by (simp add: aead_contract_def sample_encrypt_def sample_decrypt_def GCM_TAG_BYTES_def comp_def
      xor.assoc)

definition sample_envelope :: bytes where
  "sample_envelope =
     enc1_header (header_of sample_record ModeAeadCached 1 (replicate 12 9))
     @ map (\<lambda>b. b XOR 0x55) (payload_bytes (entries sample_record)) @ replicate 16 0xAA"

lemma sample_encodes:
  "encode_howyenc1_with_nonce (\<lambda>_ _. True) sample_encrypt sample_record ModeAeadCached 1
     (replicate 32 3) (replicate 12 9) = Inr sample_envelope"
proof -
  let ?t = "payload_bytes (entries sample_record)"
  have "length ?t + 16 < usize_limit"
    using payload_bytes_bounds(1) [OF record_wf_entries [OF sample_record_wf]]
    by (simp add: MAX_PLAINTEXT_BYTES_def usize_limit_def)
  then have "encrypt_aes_256_gcm (\<lambda>_ _. True) sample_encrypt (replicate 32 3) nonce aad ?t =
      Inr (map (\<lambda>b. b XOR 0x55) ?t, replicate 16 0xAA)" for nonce aad
    by (simp add: encrypt_aes_256_gcm_def sample_encrypt_def storage_consts try_reserve_exact_def
        checked_add_small checked_sub_def Let_def)
  then show ?thesis
    unfolding sample_envelope_def
    by (intro encode_howyenc1_with_nonce_eq [OF sample_record_wf]) simp_all
qed

lemma sample_envelope_small: "length sample_envelope < slice_limit"
  using payload_bytes_bounds(1) [OF record_wf_entries [OF sample_record_wf]]
    header_of_wf [OF sample_record_wf, of 1 "replicate 12 9" ModeAeadCached]
    canonical_username_length [OF sample_user]
  by (simp add: sample_envelope_def length_enc1_header MAX_PLAINTEXT_BYTES_def slice_limit_def
      header_of_def sample_record_def codec_consts)

lemma sample_decodes:
  "decode_howyenc1 (\<lambda>_ _. True) sample_decrypt sample_envelope (replicate 32 3) ModeAeadCached 1
     (username sample_record) (recognizer_model_sha256 sample_record) = Inr sample_record"
  by (rule decode_encode_howyenc1 [OF sample_aead_contract sample_record_wf _ sample_encodes]) simp_all

lemma sample_inspects:
  "inspect_howyenc1 sample_envelope =
     Inr (header_of sample_record ModeAeadCached 1 (replicate 12 9))"
proof -
  have "header_wf (header_of sample_record ModeAeadCached 1 (replicate 12 9))"
    by (rule header_of_wf [OF sample_record_wf]) simp_all
  moreover have "length (payload_bytes (entries sample_record)) =
      eh_plaintext_length (header_of sample_record ModeAeadCached 1 (replicate 12 9))"
    by (simp add: header_of_def)
  ultimately show ?thesis
    unfolding inspect_howyenc1_iff [OF sample_envelope_small]
    by (auto simp: sample_envelope_def GCM_TAG_BYTES_def intro!: exI)
qed

end
