(* ===== verification/AesGcm.thy ===== *)
theory AesGcm
  imports Crypto
begin

section \<open>The vendored AES-GCM\<close>

text \<open>
  The patched copies under \<^verbatim>\<open>vendor/\<close> of aes-gcm, ghash and the portable 64-bit path of polyval.
  \<open>AesGcm<Aes, NonceSize, TagSize>\<close> is generic in its block cipher, so the block cipher is a parameter
  (\<open>aes key block\<close>); the instance used is the one with 12-byte nonces and 16-byte tags.  The crates
  that are not vendored are parameters too:
  \<^item> \<open>keystream cipher j0 n\<close> is byte \<open>n\<close> of the key stream of counter mode with a 32-bit big-endian
    counter started at the block \<open>j0\<close> (crate ctr);
  \<^item> \<open>padded bs\<close> are the blocks that \<open>UniversalHash::update_padded\<close> hashes for \<open>bs\<close>
    (crate universal-hash).

  \<open>gcm_aead_contract\<close> discharges the contract that \<open>Crypto\<close> asks of the AEAD: with the tag after the
  text, decryption inverts encryption, whatever the cipher, the key stream and the padding are.
\<close>

type_synonym u128 = "128 word"

subsection \<open>POLYVAL field elements\<close>

definition fe_to_u128 :: "bytes \<Rightarrow> u128" where
  "fe_to_u128 fe = word_of_nat (nat_of_le fe)"

definition fe_of_u128 :: "u128 \<Rightarrow> bytes" where
  "fe_of_u128 x = le_of_nat 16 (unat x)"

definition fe_add :: "bytes \<Rightarrow> bytes \<Rightarrow> bytes" where
  "fe_add a b = fe_of_u128 (fe_to_u128 a XOR fe_to_u128 b)"

definition reverse_bits :: "u64 \<Rightarrow> u64" where
  "reverse_bits x = horner_sum of_bool 2 (rev (map (bit x) [0..<64]))"

definition bmul :: "u64 \<Rightarrow> u64 \<Rightarrow> u64 \<Rightarrow> u64" where
  "bmul x y m0 =
     (let m1 = push_bit 1 m0; m2 = push_bit 1 m1; m3 = push_bit 1 m2;
          x0 = x AND m0; x1 = x AND m1; x2 = x AND m2; x3 = x AND m3;
          y0 = y AND m0; y1 = y AND m1; y2 = y AND m2; y3 = y AND m3;
          z0 = (x0 * y0) XOR (x1 * y3) XOR (x2 * y2) XOR (x3 * y1);
          z1 = (x0 * y1) XOR (x1 * y0) XOR (x2 * y3) XOR (x3 * y2);
          z2 = (x0 * y2) XOR (x1 * y1) XOR (x2 * y0) XOR (x3 * y3);
          z3 = (x0 * y3) XOR (x1 * y2) XOR (x2 * y1) XOR (x3 * y0)
      in (z0 AND m0) OR (z1 AND m1) OR (z2 AND m2) OR (z3 AND m3))"

definition bmul64 :: "u64 \<Rightarrow> u64 \<Rightarrow> u64" where
  "bmul64 x y = bmul x y 0x1111111111111111"

definition to_u64x2 :: "bytes \<Rightarrow> u64 \<times> u64" where
  "to_u64x2 fe =
     (let x = fe_to_u128 fe in (ucast (x AND 0xFFFFFFFFFFFFFFFF), ucast (drop_bit 64 x)))"

type_synonym product = "u64 \<times> u64 \<times> u64 \<times> u64"

definition karatsuba_mul :: "bytes \<Rightarrow> bytes \<Rightarrow> product" where
  "karatsuba_mul self rhs =
     (let (h0, h1) = to_u64x2 self;
          h0r = reverse_bits h0; h1r = reverse_bits h1; h2 = h0 XOR h1; h2r = h0r XOR h1r;
          (y0, y1) = to_u64x2 rhs;
          y0r = reverse_bits y0; y1r = reverse_bits y1; y2 = y0 XOR y1; y2r = y0r XOR y1r;
          z0 = bmul64 y0 h0; z1 = bmul64 y1 h1; z2 = bmul64 y2 h2;
          z0h = bmul64 y0r h0r; z1h = bmul64 y1r h1r; z2h = bmul64 y2r h2r;
          z2 = z2 XOR (z0 XOR z1);
          z2h = z2h XOR (z0h XOR z1h);
          z0h = drop_bit 1 (reverse_bits z0h);
          z1h = drop_bit 1 (reverse_bits z1h);
          z2h = drop_bit 1 (reverse_bits z2h)
      in (z0, z0h XOR z2, z1 XOR z2h, z1h))"

definition mont_reduce :: "product \<Rightarrow> bytes" where
  "mont_reduce p =
     (let (v0, v1, v2, v3) = p;
          v2 = v2 XOR (v0 XOR drop_bit 1 v0 XOR drop_bit 2 v0 XOR drop_bit 7 v0);
          v1 = v1 XOR (push_bit 63 v0 XOR push_bit 62 v0 XOR push_bit 57 v0);
          v3 = v3 XOR (v1 XOR drop_bit 1 v1 XOR drop_bit 2 v1 XOR drop_bit 7 v1);
          v2 = v2 XOR (push_bit 63 v1 XOR push_bit 62 v1 XOR push_bit 57 v1)
      in fe_of_u128 (ucast v2 OR push_bit 64 (ucast v3)))"

definition fe_mul :: "bytes \<Rightarrow> bytes \<Rightarrow> bytes" where
  "fe_mul a b = mont_reduce (karatsuba_mul a b)"

definition mulx :: "bytes \<Rightarrow> bytes" where
  "mulx fe =
     (let v = fe_to_u128 fe; v_hi = drop_bit 127 v;
          v = push_bit 1 v
      in fe_of_u128 (v XOR (v_hi XOR push_bit 127 v_hi XOR push_bit 126 v_hi XOR push_bit 121 v_hi)))"

subsection \<open>POLYVAL and GHASH\<close>

record polyval =
  ps_h :: bytes
  ps_y :: bytes

definition polyval_new :: "bytes \<Rightarrow> polyval" where
  "polyval_new h = \<lparr>ps_h = h, ps_y = replicate 16 0\<rparr>"

definition polyval_proc_block :: "polyval \<Rightarrow> bytes \<Rightarrow> polyval" where
  "polyval_proc_block s block = s\<lparr>ps_y := fe_mul (fe_add (ps_y s) block) (ps_h s)\<rparr>"

definition polyval_finalize :: "polyval \<Rightarrow> bytes" where
  "polyval_finalize s = ps_y s"

definition ghash_new :: "bytes \<Rightarrow> polyval" where
  "ghash_new h = polyval_new (mulx (rev h))"

definition ghash_proc_block :: "polyval \<Rightarrow> bytes \<Rightarrow> polyval" where
  "ghash_proc_block s x = polyval_proc_block s (rev x)"

definition ghash_update :: "polyval \<Rightarrow> bytes list \<Rightarrow> polyval" where
  "ghash_update s blocks = foldl ghash_proc_block s blocks"

definition ghash_finalize :: "polyval \<Rightarrow> bytes" where
  "ghash_finalize s = rev (polyval_finalize s)"

subsection \<open>AES-GCM\<close>

definition A_MAX :: nat where "A_MAX = 2 ^ 61 - 1"
definition P_MAX :: nat where "P_MAX = 2 ^ 36 - 32"

record aes_gcm =
  gcm_cipher :: "bytes \<Rightarrow> bytes"
  gcm_ghash :: polyval

definition aes_gcm_new :: "(bytes \<Rightarrow> bytes \<Rightarrow> bytes) \<Rightarrow> bytes \<Rightarrow> aes_gcm" where
  "aes_gcm_new aes key =
     (let cipher = aes key; ghash_key = cipher (replicate 16 0)
      in \<lparr>gcm_cipher = cipher, gcm_ghash = ghash_new ghash_key\<rparr>)"

type_synonym ctr_keystream = "(bytes \<Rightarrow> bytes) \<Rightarrow> bytes \<Rightarrow> nat \<Rightarrow> u8"

text \<open>The counter after \<open>init_ctr\<close> has given away its first block as the tag mask: the key stream that
  is left starts at byte 16.\<close>

definition init_ctr :: "ctr_keystream \<Rightarrow> aes_gcm \<Rightarrow> bytes \<Rightarrow> (nat \<Rightarrow> u8) \<times> bytes" where
  "init_ctr keystream self nonce =
     (let j0 = nonce @ [0, 0, 0, 1]; ks = keystream (gcm_cipher self) j0
      in (\<lambda>n. ks (16 + n), map ks [0..<16]))"

definition apply_keystream_partial :: "(nat \<Rightarrow> u8) \<Rightarrow> bytes \<Rightarrow> bytes" where
  "apply_keystream_partial ks buf = map2 (XOR) buf (map ks [0..<length buf])"

definition u64_to_be :: "u64 \<Rightarrow> bytes" where
  "u64_to_be w = rev (u64_to_le w)"

definition compute_tag ::
  "(bytes \<Rightarrow> bytes list) \<Rightarrow> aes_gcm \<Rightarrow> bytes \<Rightarrow> bytes \<Rightarrow> bytes \<Rightarrow> bytes" where
  "compute_tag padded self tag_mask associated_data buffer =
     (let ghash = ghash_update (gcm_ghash self) (padded associated_data);
          ghash = ghash_update ghash (padded buffer);
          associated_data_bits = word_of_nat (length associated_data) * 8;
          buffer_bits = word_of_nat (length buffer) * 8;
          ghash = ghash_update ghash [u64_to_be associated_data_bits @ u64_to_be buffer_bits]
      in map2 (XOR) (ghash_finalize ghash) tag_mask)"

definition encrypt_inout_detached ::
  "ctr_keystream \<Rightarrow> (bytes \<Rightarrow> bytes list) \<Rightarrow> aes_gcm \<Rightarrow> bytes \<Rightarrow> bytes \<Rightarrow> bytes
   \<Rightarrow> (bytes \<times> bytes) option" where
  "encrypt_inout_detached keystream padded self nonce associated_data buffer =
     (if P_MAX < length buffer \<or> A_MAX < length associated_data then None
      else let (ctr, tag_mask) = init_ctr keystream self nonce;
               buffer = apply_keystream_partial ctr buffer;
               full_tag = compute_tag padded self tag_mask associated_data buffer
           in Some (buffer, take 16 full_tag))"

definition decrypt_inout_detached ::
  "ctr_keystream \<Rightarrow> (bytes \<Rightarrow> bytes list) \<Rightarrow> aes_gcm \<Rightarrow> bytes \<Rightarrow> bytes \<Rightarrow> bytes \<Rightarrow> bytes
   \<Rightarrow> bytes option" where
  "decrypt_inout_detached keystream padded self nonce associated_data buffer tag =
     (if P_MAX < length buffer \<or> A_MAX < length associated_data then None
      else let (ctr, tag_mask) = init_ctr keystream self nonce;
               expected_tag = compute_tag padded self tag_mask associated_data buffer
           in if take 16 expected_tag = tag then Some (apply_keystream_partial ctr buffer)
              else None)"

subsection \<open>The contract of the AEAD\<close>

text \<open>The in-place methods of the aead crate for a postfix tag, which \<open>encrypt_aes_256_gcm\<close> and
  \<open>decrypt_aes_256_gcm\<close> call: encryption appends the tag to the buffer, decryption splits the last
  16 bytes off as the tag and fails on a shorter buffer.\<close>

definition postfix_in_place ::
  "ctr_keystream \<Rightarrow> (bytes \<Rightarrow> bytes list) \<Rightarrow> (bytes \<Rightarrow> bytes \<Rightarrow> bytes)
   \<Rightarrow> aead_in_place \<Rightarrow> aead_in_place \<Rightarrow> bool" where
  "postfix_in_place keystream padded aes enc dec \<longleftrightarrow>
     (\<forall>key nonce aad buf.
        enc key nonce aad buf =
          map_option (\<lambda>(ct, tag). ct @ tag)
            (encrypt_inout_detached keystream padded (aes_gcm_new aes key) nonce aad buf)
        \<and> dec key nonce aad buf =
          (if length buf < 16 then None
           else decrypt_inout_detached keystream padded (aes_gcm_new aes key) nonce aad
             (take (length buf - 16) buf) (drop (length buf - 16) buf)))"

lemma length_fe_of_u128 [simp]: "length (fe_of_u128 x) = 16"
  by (simp add: fe_of_u128_def)

lemma length_fe_mul [simp]: "length (fe_mul a b) = 16"
  by (simp add: fe_mul_def mont_reduce_def Let_def split: prod.splits)

lemma length_ps_y_update: "length (ps_y s) = 16 \<Longrightarrow> length (ps_y (ghash_update s bs)) = 16"
  by (induction bs arbitrary: s)
    (simp_all add: ghash_update_def ghash_proc_block_def polyval_proc_block_def)

lemma length_compute_tag:
  "length tag_mask = 16 \<Longrightarrow> length (compute_tag padded (aes_gcm_new aes key) tag_mask aad buf) = 16"
  by (simp add: compute_tag_def Let_def ghash_finalize_def polyval_finalize_def
      length_ps_y_update aes_gcm_new_def ghash_new_def polyval_new_def)

lemma length_apply_keystream [simp]: "length (apply_keystream_partial ks buf) = length buf"
  by (simp add: apply_keystream_partial_def)

lemma apply_keystream_involution:
  "apply_keystream_partial ks (apply_keystream_partial ks buf) = buf"
  by (rule nth_equalityI) (simp_all add: apply_keystream_partial_def xor.assoc)

lemma decrypt_encrypt_detached:
  assumes "encrypt_inout_detached keystream padded (aes_gcm_new aes key) nonce aad buf = Some (ct, tag)"
  shows "length ct = length buf" and "length tag = 16"
    and "decrypt_inout_detached keystream padded (aes_gcm_new aes key) nonce aad ct tag = Some buf"
  using assms
  by (auto simp: encrypt_inout_detached_def decrypt_inout_detached_def Let_def init_ctr_def
      length_compute_tag apply_keystream_involution split: if_splits)

lemma gcm_aead_contract:
  assumes "postfix_in_place keystream padded aes enc dec"
  shows "aead_contract enc dec"
  unfolding aead_contract_def
proof (intro allI impI)
  fix key nonce aad buf out
  assume "enc key nonce aad buf = Some out"
  then obtain ct tag where out: "out = ct @ tag"
    and det: "encrypt_inout_detached keystream padded (aes_gcm_new aes key) nonce aad buf = Some (ct, tag)"
    using assms by (auto simp: postfix_in_place_def)
  note det = decrypt_encrypt_detached [OF det]
  have "dec key nonce aad out = Some buf"
    using assms det by (simp add: postfix_in_place_def out)
  with det show "length out = length buf + GCM_TAG_BYTES \<and> dec key nonce aad out = Some buf"
    by (simp add: out GCM_TAG_BYTES_def)
qed

end
