(* ===== verification/Storage_Properties.thy ===== *)
theory Storage_Properties
  imports Samples AesGcm
begin

section \<open>Properties of the record formats and of the nonce generator\<close>

text \<open>
  The properties of \<open>Records\<close>, \<open>Crypto\<close> and \<open>Codec\<close>, each with a witness on a sample record
  where it has hypotheses.
\<close>

subsection \<open>HOWYPLN1\<close>

text \<open>C25. Round trip of the plaintext format: a well-formed record is encoded, and the decoder returns
  the same record from these bytes when it is given the record's username and model digest.\<close>

theorem howypln1_roundtrip:
  assumes "record_wf r"
    and "alloc ''canonical payload'' (length (payload_bytes (entries r)))"
    and "alloc ''HOWYPLN1 record'' (length (pln1_bytes r))"
    and "alloc' ''payload entries'' (length (entries r))"
  shows "\<exists>bs. encode_howypln1 alloc r = Inr bs
    \<and> decode_howypln1 alloc' bs (username r) (recognizer_model_sha256 r) = Inr r"
  using encode_howypln1_eq [of r alloc, OF assms(1-3)]
    decode_howypln1_encode [of r alloc', OF assms(1,4)] by blast

theorem howypln1_roundtrip_witness:
  "\<exists>bs. encode_howypln1 (\<lambda>_ _. True) sample_record = Inr bs
    \<and> decode_howypln1 (\<lambda>_ _. True) bs (username sample_record)
        (recognizer_model_sha256 sample_record) = Inr sample_record"
  by (rule howypln1_roundtrip) (simp_all add: sample_record_wf)

text \<open>C24. Canonicality of the plaintext format: whatever bytes the decoder accepts are the encoding of
  the record it returns, and that record is well formed and carries the expected username and model.
  No two byte strings decode to the same record, and no trailing or padding byte is ignored.\<close>

theorem howypln1_canonical:
  assumes "length bs < slice_limit" and "decode_howypln1 alloc bs user model = Inr r"
  shows "record_wf r \<and> username r = user \<and> recognizer_model_sha256 r = model
    \<and> encode_howypln1 (\<lambda>_ _. True) r = Inr bs"
proof -
  from decode_howypln1_inv [OF assms] have r: "record_wf r" "username r = user"
    "recognizer_model_sha256 r = model" "bs = pln1_bytes r" by blast+
  with encode_howypln1_eq [of r "\<lambda>_ _. True"] show ?thesis by simp
qed

theorem howypln1_canonical_witness:
  "encode_howypln1 (\<lambda>_ _. True) sample_record = Inr (pln1_bytes sample_record)"
  using howypln1_canonical [OF pln1_bytes_small(1) [OF sample_record_wf] sample_pln1_decodes]
  by blast

subsection \<open>The canonical payload\<close>

text \<open>C26. The payload decoder accepts exactly the encodings of well-formed entry lists: at most 1000
  entries, distinct nonzero identifiers, UTF-8 labels of at most 256 bytes and 512 finite values each,
  with no byte left over.\<close>

theorem decode_canonical_payload_exact:
  "decode_canonical_payload alloc bs = Inr es \<longleftrightarrow>
     entries_wf es \<and> bs = payload_bytes es \<and> alloc ''payload entries'' (length es)"
  by (simp add: decode_canonical_payload_def decode_payload_iff)

lemma payload_length_from_Inr_iff:
  "payload_length_from len es = Inr n \<longleftrightarrow>
     list_all (\<lambda>e. length (label e) \<le> MAX_LABEL_BYTES \<and> list_all f32_is_finite (embedding e)) es
     \<and> n = len + sum_list (map (\<lambda>e. CANONICAL_ENTRY_FIXED_BYTES + length (label e)) es)
     \<and> (es = [] \<or> n < usize_limit)"
proof (induction es arbitrary: len)
  case (Cons e es)
  show ?case
    by (auto simp: Cons.IH and_then_Inr_iff list_ex_iff list_all_iff not_less checked_add2_Some_iff)
qed auto

definition payload_size :: "enrollment_entry list \<Rightarrow> usize" where
  "payload_size es =
     CANONICAL_PAYLOAD_FIXED_BYTES
     + sum_list (map (\<lambda>e. CANONICAL_ENTRY_FIXED_BYTES + length (label e)) es)"

text \<open>The payload encoder on an arbitrary record, well formed or not: it succeeds exactly when no
  label is longer than 256 bytes, every embedding value is finite, the payload size computed from the
  labels is at most \<open>MAX_PLAINTEXT_BYTES\<close> and its allocation succeeds, and then it writes the
  reference encoding of the entries.\<close>

theorem encode_canonical_payload_exact:
  "encode_canonical_payload alloc r = Inr bs \<longleftrightarrow>
     list_all (\<lambda>e. length (label e) \<le> MAX_LABEL_BYTES \<and> list_all f32_is_finite (embedding e))
       (entries r)
     \<and> payload_size (entries r) \<le> MAX_PLAINTEXT_BYTES
     \<and> alloc ''canonical payload'' (payload_size (entries r)) \<and> bs = payload_bytes (entries r)"
proof -
  have "length es * CANONICAL_ENTRY_FIXED_BYTES \<le> payload_size es" for es
    by (induction es) (auto simp: payload_size_def)
  then have "length (entries r) < 2 ^ 32" if "payload_size (entries r) \<le> MAX_PLAINTEXT_BYTES"
    using that [unfolded MAX_PLAINTEXT_BYTES_def] le_trans
    by (fastforce simp: storage_consts)
  moreover have "payload_size (entries r) < usize_limit"
    if "payload_size (entries r) \<le> MAX_PLAINTEXT_BYTES"
    using that by (simp add: MAX_PLAINTEXT_BYTES_def usize_limit_def)
  ultimately show ?thesis
    by (auto simp: encode_canonical_payload_def and_then_Inr_iff u32_try_from_def
        payload_length_from_Inr_iff try_reserve_exact_def payload_bytes_def not_less
        simp flip: payload_size_def)
qed

subsection \<open>HOWYENC1\<close>

lemma gcm_encode_decode:
  assumes gcm: "postfix_in_place keystream padded aes enc dec" and r: "record_wf r"
    and key: "length key = AES_256_KEY_BYTES" and nonce: "length nonce = GCM_NONCE_BYTES"
    and epoch: "epoch \<noteq> 0"
  shows "\<exists>bs. encode_howyenc1_with_nonce (\<lambda>_ _. True) enc r mode epoch key nonce = Inr bs
    \<and> decode_howyenc1 (\<lambda>_ _. True) dec bs key mode epoch (username r) (recognizer_model_sha256 r)
        = Inr r"
proof -
  let ?h = "header_of r mode epoch nonce" and ?t = "payload_bytes (entries r)"
  have wf: "header_wf ?h" using nonce by (intro header_of_wf r epoch) (simp add: GCM_NONCE_BYTES_def)
  have t: "length ?t \<le> 2621440"
    using payload_bytes_bounds(1) [OF record_wf_entries [OF r]] by (simp add: MAX_PLAINTEXT_BYTES_def)
  have "length (enc1_header ?h) \<le> 152"
    using r canonical_username_length [of "username r"] length_enc1_header [OF wf]
    by (auto simp: header_of_def record_wf_def codec_consts)
  with t have "\<exists>ct tag. encrypt_inout_detached keystream padded (aes_gcm_new aes key) nonce
      (enc1_header ?h) ?t = Some (ct, tag)"
    by (simp add: encrypt_inout_detached_def P_MAX_def A_MAX_def Let_def split: prod.splits)
  then obtain ct tag where det: "encrypt_inout_detached keystream padded (aes_gcm_new aes key) nonce
      (enc1_header ?h) ?t = Some (ct, tag)" by blast
  note ok = decrypt_encrypt_detached [OF det]
  have "encrypt_aes_256_gcm (\<lambda>_ _. True) enc key nonce (enc1_header ?h) ?t = Inr (ct, tag)"
    using gcm det ok key t
    by (simp add: encrypt_aes_256_gcm_def postfix_in_place_def try_reserve_exact_def GCM_TAG_BYTES_def
        checked_add_small checked_sub_def usize_limit_def)
  then have "encode_howyenc1_with_nonce (\<lambda>_ _. True) enc r mode epoch key nonce =
      Inr (enc1_header ?h @ ct @ tag)"
    using ok by (intro encode_howyenc1_with_nonce_eq r epoch) simp_all
  moreover from this have "decode_howyenc1 (\<lambda>_ _. True) dec (enc1_header ?h @ ct @ tag) key mode epoch
      (username r) (recognizer_model_sha256 r) = Inr r"
    using nonce by (intro decode_encode_howyenc1 [OF gcm_aead_contract [OF gcm] r])
      (simp_all add: GCM_NONCE_BYTES_def)
  ultimately show ?thesis by blast
qed

text \<open>C13. Round trip of the encrypted format over the vendored AES-GCM, whatever its block cipher: every
  well-formed record is encrypted under every 32-byte key, nonzero epoch, mode and nonce, and decodes
  to itself when the decoder expects that key, mode, epoch, username and model.\<close>

theorem howyenc1_roundtrip:
  assumes "postfix_in_place keystream padded aes enc dec" and "record_wf r"
    and "length key = AES_256_KEY_BYTES" and "length nonce = GCM_NONCE_BYTES" and "epoch \<noteq> 0"
  shows "\<exists>bs. encode_howyenc1_with_nonce (\<lambda>_ _. True) enc r mode epoch key nonce = Inr bs
    \<and> decode_howyenc1 (\<lambda>_ _. True) dec bs key mode epoch (username r) (recognizer_model_sha256 r)
        = Inr r"
  by (rule gcm_encode_decode [OF assms])

definition gcm_encrypt :: aead_in_place where
  "gcm_encrypt key nonce aad buf =
     map_option (\<lambda>(ct, tag). ct @ tag)
       (encrypt_inout_detached (\<lambda>c j n. c j ! (n mod 16)) (\<lambda>bs. [bs])
         (aes_gcm_new (\<lambda>k b. take 16 (k @ b)) key) nonce aad buf)"

definition gcm_decrypt :: aead_in_place where
  "gcm_decrypt key nonce aad buf =
     (if length buf < 16 then None
      else decrypt_inout_detached (\<lambda>c j n. c j ! (n mod 16)) (\<lambda>bs. [bs])
        (aes_gcm_new (\<lambda>k b. take 16 (k @ b)) key) nonce aad
        (take (length buf - 16) buf) (drop (length buf - 16) buf))"

lemma gcm_postfix:
  "postfix_in_place (\<lambda>c j n. c j ! (n mod 16)) (\<lambda>bs. [bs]) (\<lambda>k b. take 16 (k @ b))
     gcm_encrypt gcm_decrypt"
  by (simp add: postfix_in_place_def gcm_encrypt_def gcm_decrypt_def)

theorem howyenc1_roundtrip_witness:
  "\<exists>bs. encode_howyenc1_with_nonce (\<lambda>_ _. True) gcm_encrypt sample_record ModeAeadCached 1
       (replicate 32 3) (replicate 12 9) = Inr bs
     \<and> decode_howyenc1 (\<lambda>_ _. True) gcm_decrypt bs (replicate 32 3) ModeAeadCached 1
         (username sample_record) (recognizer_model_sha256 sample_record) = Inr sample_record"
  by (rule howyenc1_roundtrip [OF gcm_postfix sample_record_wf])
    (simp_all add: AES_256_KEY_BYTES_def GCM_NONCE_BYTES_def)

text \<open>C5. What the encrypted decoder returned is authenticated and bound: the bytes are the public
  header of exactly this record under the expected mode and epoch, followed by a ciphertext and a tag
  that the AES-GCM implementation accepted with the whole header as associated data and that decrypt
  to the canonical payload of the record; the username and model are the expected ones.\<close>

theorem howyenc1_authenticated:
  assumes "length bs < slice_limit"
    and "decode_howyenc1 alloc dec bs key mode epoch user model = Inr r"
  shows "\<exists>nonce ct tag. let header = enc1_header (header_of r mode epoch nonce) in
    record_wf r \<and> username r = user \<and> recognizer_model_sha256 r = model \<and> epoch \<noteq> 0
    \<and> length nonce = GCM_NONCE_BYTES \<and> length key = AES_256_KEY_BYTES
    \<and> length tag = GCM_TAG_BYTES \<and> bs = header @ ct @ tag
    \<and> dec key nonce header (ct @ tag) = Some (payload_bytes (entries r))"
  using decode_howyenc1_inv [OF assms]
  by (auto simp: Let_def envelope_of_def header_wf_def GCM_NONCE_BYTES_def
      header_of_def [of r mode epoch, THEN arg_cong [where f = eh_nonce]]
      header_of_def [of r mode epoch, THEN arg_cong [where f = eh_key_epoch]])

theorem howyenc1_authenticated_witness:
  "\<exists>nonce ct tag. length tag = GCM_TAG_BYTES
     \<and> sample_envelope = enc1_header (header_of sample_record ModeAeadCached 1 nonce) @ ct @ tag"
  using howyenc1_authenticated [OF sample_envelope_small sample_decodes] by (auto simp: Let_def)

subsection \<open>Nonces\<close>

text \<open>The nonce field of an encoded record: it follows 44 bytes of fixed fields and the model digest.\<close>

definition nonce_field :: "enrollment_record \<Rightarrow> bytes \<Rightarrow> bytes" where
  "nonce_field r bs = take GCM_NONCE_BYTES (drop (44 + length (recognizer_model_sha256 r)) bs)"

definition encode_op ::
  "allocator \<Rightarrow> aead_in_place \<Rightarrow> 'r random_source \<Rightarrow> (nat \<Rightarrow> nat option) \<Rightarrow> bytes
   \<Rightarrow> enrollment_record \<times> storage_mode \<times> u64 \<Rightarrow> 'r nonce_generator
   \<Rightarrow> bytes option \<times> 'r nonce_generator" where
  "encode_op alloc enc fill reserve key p g =
     (let (r, mode, epoch) = p
      in case encode_howyenc1 alloc enc fill reserve r mode epoch key g of
           (Inl e, g') \<Rightarrow> (None, g')
         | (Inr bs, g') \<Rightarrow> (Some (nonce_field r bs), g'))"

lemma encode_howyenc1_with_nonce_field:
  assumes "encode_howyenc1_with_nonce alloc enc r mode epoch key nonce = Inr bs"
    and "length nonce = GCM_NONCE_BYTES"
  shows "nonce_field r bs = nonce"
  using assms
  by (auto simp: encode_howyenc1_with_nonce_def and_then_Inr_iff Let_def nonce_field_def
      GCM_NONCE_BYTES_def drop_Cons' split: if_splits)

lemma encode_op_generate:
  assumes "encode_op alloc enc fill reserve key p g = (r, g')"
  shows "\<exists>q. generate_op fill reserve () g = (q, g') \<and> (\<forall>n. r = Some n \<longrightarrow> q = Some n)"
proof -
  obtain rec mode epoch where p: "p = (rec, mode, epoch)" by (cases p)
  obtain q where q: "generate fill reserve g = (q, g')"
    and r: "\<And>n. r = Some n \<Longrightarrow> \<exists>nonce bs. q = Inr nonce \<and> n = nonce_field rec bs
      \<and> encode_howyenc1_with_nonce alloc enc rec mode epoch key nonce = Inr bs"
    using assms
    by (auto simp: encode_op_def p encode_howyenc1_def Let_def and_then_Inr_iff
        split: prod.splits sum.splits)
  show ?thesis
  proof (cases r)
    case None
    with q show ?thesis by (auto simp: generate_op_def split: sum.splits)
  next
    case (Some n)
    with r obtain nonce bs where "q = Inr nonce" "n = nonce_field rec bs"
      "encode_howyenc1_with_nonce alloc enc rec mode epoch key nonce = Inr bs" by blast
    with q have "q = Inr n"
      using encode_howyenc1_with_nonce_field generate_length by metis
    with q Some show ?thesis by (auto simp: generate_op_def)
  qed
qed

lemma encode_op_step:
  assumes "nonce_inv_at c g" and "encode_op alloc enc fill reserve key p g = (r, g')"
  shows "nonce_inv_at c g'" and "set (seen g) \<subseteq> set (seen g')"
    and "r = Some n \<Longrightarrow> n \<notin> set (seen g) \<and> n \<in> set (seen g')"
proof -
  obtain q where q: "generate_op fill reserve () g = (q, g')" and "\<forall>n. r = Some n \<longrightarrow> q = Some n"
    using encode_op_generate [OF assms(2)] by blast
  with generate_op_step [OF assms(1) q] show "nonce_inv_at c g'"
    and "set (seen g) \<subseteq> set (seen g')"
    and "r = Some n \<Longrightarrow> n \<notin> set (seen g) \<and> n \<in> set (seen g')"
    by blast+
qed

interpretation enc_nonces:
  fresh_issuer "encode_op alloc enc fill reserve key" "\<lambda>g. set (seen g)" "nonce_inv_at c"
  for alloc enc and fill :: "'r random_source" and reserve key c
  by unfold_locales (fact encode_op_step(1) encode_op_step(2) | blast dest: encode_op_step(3))+

lemma from_source_inv_at: "nonce_inv_at MAX_ENCRYPTIONS_PER_KEY_V1 (from_source src)"
  by (simp add: nonce_inv_at_def nonce_inv_from_source) (simp add: from_source_def)

text \<open>C6. No nonce is used twice under one key, whatever the random source, the allocator and the AEAD
  implementation do: over any sequence of encryptions with one generator the nonces in the records
  that were produced are pairwise distinct, and at most 65536 records are produced.\<close>

theorem encryptions_never_reuse_nonce:
  "distinct (fst (issue_run (encode_op alloc enc fill reserve key) ps (from_source src)))
   \<and> length (fst (issue_run (encode_op alloc enc fill reserve key) ps (from_source src))) \<le> 65536"
proof -
  obtain ns g where run: "issue_run (encode_op alloc enc fill reserve key) ps (from_source src) = (ns, g)"
    by (cases "issue_run (encode_op alloc enc fill reserve key) ps (from_source src)")
  have "card (set (seen (from_source src))) + length ns \<le> card (set (seen g))"
    by (rule enc_nonces.run_count [OF from_source_inv_at run]) simp
  moreover have "card (set (seen g)) \<le> unat MAX_ENCRYPTIONS_PER_KEY_V1"
    using enc_nonces.run_fresh [OF from_source_inv_at run] by (intro nonce_inv_at_count) blast
  ultimately have "length ns \<le> 65536"
    by (simp add: MAX_ENCRYPTIONS_PER_KEY_V1_def)
  then show ?thesis
    using enc_nonces.run_distinct [OF from_source_inv_at, of alloc enc fill reserve key ps src] run
    by simp
qed

text \<open>The write limit is reached, not undershot: a generator that is below its limit and has its
  tracker returns the nonce the source wrote whenever the source answers with one not seen before,
  and counts it; at the limit every call is refused and nothing is drawn.\<close>

theorem generate_progress:
  assumes "nonce_inv g" and "allocated_capacity g \<noteq> None"
    and "fill (source g) GCM_NONCE_BYTES = (Inr n, src)" and "length n = GCM_NONCE_BYTES"
    and "n \<notin> set (seen g)"
  shows "generate fill reserve g =
    (if accepted g = ceiling g then (Inl NonceWriteLimitExceeded, g)
     else (Inr n, g\<lparr>source := src, seen := n # seen g, accepted := accepted g + 1\<rparr>))"
proof (cases "accepted g = ceiling g")
  case True
  then show ?thesis by (simp add: generate_def)
next
  case False
  with assms(1) have lt: "accepted g < ceiling g"
    by (auto simp: nonce_inv_def order.strict_iff_order)
  have "filled GCM_NONCE_BYTES n = n" using assms(4) by (simp add: filled_def)
  with lt assms False below_ceiling_room(1) [OF lt] show ?thesis
    by (auto simp: generate_def reserve_tracker_def draw_nonce_def Let_def not_le)
qed

theorem generate_progress_witness:
  "generate (\<lambda>s n. (Inr (replicate n s), s + 1)) Some
     \<lparr>source = 5, seen = [], accepted = 0, ceiling = 2, allocated_capacity = Some 2\<rparr> =
   (Inr (replicate 12 5), \<lparr>source = 6, seen = [replicate 12 5], accepted = 1, ceiling = 2,
      allocated_capacity = Some 2\<rparr>)"
  using generate_progress [of "\<lparr>source = 5, seen = [], accepted = 0, ceiling = 2,
      allocated_capacity = Some 2\<rparr>" "\<lambda>s n. (Inr (replicate n s), s + 1)" "replicate 12 5" 6 Some]
  by (simp add: nonce_inv_def GCM_NONCE_BYTES_def)

subsection \<open>Metadata\<close>

text \<open>The bounded inspection of an encrypted record agrees with its complete decoding: when both
  accept the same file, the header that the inspection reported carries the generation, the number of
  entries, the username and the model of the decoded record, within the configured limits.\<close>

theorem howyenc1_metadata_agrees:
  assumes small: "length bs < slice_limit"
    and meta: "inspect_howyenc1_metadata (take k bs) (length bs) mode epoch user model
      max_entries max_bytes = Inr h"
    and dec: "decode_howyenc1 alloc dec bs key mode' epoch' user' model' = Inr r"
  shows "mode' = mode \<and> epoch' = epoch \<and> username r = user \<and> recognizer_model_sha256 r = model
    \<and> eh_record_generation h = generation r \<and> unat (eh_entry_count h) = length (entries r)
    \<and> length (entries r) \<le> max_entries
    \<and> length (payload_bytes (entries r)) \<le> max_bytes"
proof -
  from decode_howyenc1_inv [OF small dec] obtain nonce where r: "record_wf r"
    and wf: "header_wf (header_of r mode' epoch' nonce)"
    and env: "envelope_of dec key (header_of r mode' epoch' nonce) (entries r) bs"
    by (auto simp: Let_def)
  from env wf have "inspect_howyenc1 bs = Inr (header_of r mode' epoch' nonce)"
    using small by (auto simp: inspect_howyenc1_iff envelope_of_def)
  from inspect_metadata_agrees [OF small meta this] have h: "h = header_of r mode' epoch' nonce"
    by simp
  from meta have "unat (eh_entry_count h) \<le> max_entries" "eh_plaintext_length h \<le> max_bytes"
    "eh_mode h = mode" "eh_key_epoch h = epoch" "eh_username h = user"
    "eh_recognizer_model_sha256 h = model"
    by (auto simp: inspect_howyenc1_metadata_iff)
  with r show ?thesis by (simp add: h header_of_def count_word record_wf_def)
qed

lemma sample_metadata:
  "inspect_howyenc1_metadata (take 93 sample_envelope) (length sample_envelope) ModeAeadCached 1
     (username sample_record) (recognizer_model_sha256 sample_record) 5 MAX_PLAINTEXT_BYTES =
   Inr (header_of sample_record ModeAeadCached 1 (replicate 12 9))"
proof -
  let ?h = "header_of sample_record ModeAeadCached 1 (replicate 12 9)"
  have wf: "header_wf ?h" by (rule header_of_wf [OF sample_record_wf]) simp_all
  have len: "length (enc1_header ?h) = 93"
    by (simp add: length_enc1_header [OF wf]) (simp add: header_of_def sample_record_def codec_consts)
  have "eh_plaintext_length ?h \<le> MAX_PLAINTEXT_BYTES"
    using wf by (simp add: header_wf_def)
  moreover have "envelope_length ?h = length sample_envelope"
    using length_enc1_header [OF wf]
    by (simp add: envelope_length_def sample_envelope_def GCM_TAG_BYTES_def)
      (simp add: header_of_def)
  moreover have "take 93 sample_envelope = enc1_header ?h"
    using len by (simp add: sample_envelope_def)
  moreover have "unat (eh_entry_count ?h) \<le> 5"
    by (simp add: header_of_def sample_record_def)
  ultimately show ?thesis
    using wf by (simp add: inspect_howyenc1_metadata_iff MAX_ENTRIES_def)
      (simp add: header_of_def MAX_PLAINTEXT_BYTES_def)
qed

theorem howyenc1_metadata_agrees_witness:
  "unat (eh_entry_count (header_of sample_record ModeAeadCached 1 (replicate 12 9))) =
     length (entries sample_record) \<and> length (entries sample_record) \<le> 5"
  using howyenc1_metadata_agrees [OF sample_envelope_small sample_metadata sample_decodes] by blast

text \<open>The bounded inspection of a plaintext record is complete and truthful: on the metadata
  prefix of an encoded record it reports that record's generation and number of entries whenever the
  number is within the configured limit, and refuses the record otherwise.\<close>

theorem howypln1_metadata_agrees:
  assumes "record_wf r" and "0 < max_entries" and "max_entries \<le> MAX_ENTRIES"
    and "k = HOWYPLN1_FIXED_HEADER + length (username r) + CANONICAL_PAYLOAD_FIXED_BYTES"
  shows "inspect_howypln1_metadata (take k (pln1_bytes r)) (length (pln1_bytes r)) (username r)
      (recognizer_model_sha256 r) max_entries = Inr i \<longleftrightarrow>
    i = \<lparr>phi_generation = generation r, phi_entry_count = word_of_nat (length (entries r))\<rparr>
    \<and> length (entries r) \<le> max_entries"
proof -
  let ?p = "pln1_prefix (generation r) (recognizer_model_sha256 r) (username r)"
  let ?c = "word_of_nat (length (entries r)) :: u32"
  have r: "generation r \<noteq> 0" "length (recognizer_model_sha256 r) = 32"
    "is_canonical_username (username r)" "list_all entry_wf (entries r)"
    and c: "unat ?c = length (entries r)"
    using assms(1) by (simp_all add: record_wf_def count_word)
  have split: "pln1_bytes r = ?p ?c @ concat (map encode_entry (entries r))"
    by (simp add: pln1_bytes_header pln1_prefix_def payload_bytes_def)
  have len: "length (?p ?c) = k"
    using r assms(4) by (simp add: length_pln1_prefix CANONICAL_PAYLOAD_FIXED_BYTES_def)
  have prefix: "take k (pln1_bytes r) = ?p ?c" using len by (simp add: split)
  have bounds: "k + length (entries r) * CANONICAL_ENTRY_FIXED_BYTES \<le> length (pln1_bytes r)"
    "length (pln1_bytes r)
      \<le> k + length (entries r) * (CANONICAL_ENTRY_FIXED_BYTES + MAX_LABEL_BYTES)"
    using length_concat_entries [OF r(4)] by (simp_all add: split len)
  have inj: "?p ?c = pln1_prefix g (recognizer_model_sha256 r) (username r) d \<longleftrightarrow>
      generation r = g \<and> ?c = d" for g d
    by (auto simp: pln1_prefix_def pln1_header_def)
  show ?thesis
    unfolding inspect_howypln1_metadata_iff prefix len inj using r assms(2,3) bounds c
    by (cases i) auto
qed

theorem howypln1_metadata_agrees_witness:
  "inspect_howypln1_metadata (take 67 (pln1_bytes sample_record)) (length (pln1_bytes sample_record))
     (username sample_record) (recognizer_model_sha256 sample_record) 5 =
   Inr \<lparr>phi_generation = 1, phi_entry_count = 1\<rparr>"
  using howypln1_metadata_agrees [OF sample_record_wf, of 5 67
      "\<lparr>phi_generation = 1, phi_entry_count = 1\<rparr>"]
  by (simp add: sample_record_def codec_consts storage_consts)

end
