(* ===== verification/Contracts.thy ===== *)
theory Contracts
  imports Codec
begin

section \<open>Storage contracts: estimates, models and the plaintext budget\<close>

text \<open>
  \<^verbatim>\<open>crates/howy-common/src/storage/contracts.rs\<close>: the errors and snapshots of the storage backends,
  the memory estimates that a backend reserves before it touches plaintext, the flat authentication
  model, and the plaintext budget with its permits.

  A permit is a unique owner, so it is modelled by the number of bytes it holds and every operation
  that consumes it takes it as an argument.  Dropping a permit and shrinking it can panic on an
  accounting underflow; those operations return \<open>None\<close> for the panic, and \<open>Budget\<close> shows that it
  cannot happen.
\<close>

definition ABSENT_GENERATION :: u64 where "ABSENT_GENERATION = 0"

datatype io_operation =
  IoInspect | IoOpen | IoRead | IoCreate | IoWrite | IoSync | IoRename | IoRemove

datatype storage_backend_error =
    BackendAbsent
  | Conflict u64
  | ModeMismatch
  | KeyMismatch
  | ModelMismatch
  | Corrupt
  | BackendAuthenticationFailed
  | BackendGenerationOverflow
  | BackendUnavailable
  | MemoryBudgetExceeded usize usize
  | InvalidInput string
  | BackendIo io_operation

datatype backend_unavailable = NotInitialized | KeyUnavailable | BackendPermissionDenied | UnavailableIo | Integrity

datatype backend_health = Ready | HealthUnavailable backend_unavailable

datatype candidate_presence = CandidateAbsent | Candidate u64

fun candidate_generation :: "candidate_presence \<Rightarrow> u64" where
  "candidate_generation CandidateAbsent = ABSENT_GENERATION"
| "candidate_generation (Candidate g) = g"

record prompt_storage_snapshot =
  pss_health :: backend_health
  pss_candidate :: candidate_presence
  pss_backend_identity :: bytes
  pss_policy_generation :: bytes

subsection \<open>Metadata lists\<close>

record enrollment_metadata =
  em_enrollment_id :: bytes
  em_label :: str
  em_created_unix_seconds :: u64
  em_generation :: u64

record metadata_list =
  ml_generation :: u64
  ml_entries :: "enrollment_metadata list"

definition metadata_from_entry :: "enrollment_entry \<Rightarrow> u64 \<Rightarrow> enrollment_metadata" where
  "metadata_from_entry e gen =
     \<lparr>em_enrollment_id = enrollment_id e, em_label = label e,
      em_created_unix_seconds = created_unix_seconds e, em_generation = gen\<rparr>"

definition metadata_list_from_record :: "enrollment_record \<Rightarrow> metadata_list" where
  "metadata_list_from_record r =
     \<lparr>ml_generation = generation r,
      ml_entries = map (\<lambda>e. metadata_from_entry e (generation r)) (entries r)\<rparr>"

subsection \<open>Sizes\<close>

text \<open>The sizes of the types on a 64-bit target: an entry holds its 16-byte id, a \<open>u64\<close>, a boxed string
  (pointer and length) and 512 inline values.\<close>

definition SIZE_OF_F32 :: usize where "SIZE_OF_F32 = 4"
definition SIZE_OF_ENROLLMENT_ID :: usize where "SIZE_OF_ENROLLMENT_ID = 16"
definition SIZE_OF_BOXED_STR :: usize where "SIZE_OF_BOXED_STR = 16"
definition SIZE_OF_ENROLLMENT_ENTRY :: usize where
  "SIZE_OF_ENROLLMENT_ENTRY =
     SIZE_OF_ENROLLMENT_ID + 8 + SIZE_OF_BOXED_STR + EMBEDDING_DIMENSION * SIZE_OF_F32"

lemmas size_consts =
  SIZE_OF_F32_def SIZE_OF_ENROLLMENT_ID_def SIZE_OF_BOXED_STR_def SIZE_OF_ENROLLMENT_ENTRY_def

definition entry_plaintext_allocation_bytes :: "enrollment_entry \<Rightarrow> usize" where
  "entry_plaintext_allocation_bytes e = SIZE_OF_ENROLLMENT_ENTRY + length (label e)"

definition record_plaintext_allocation_bytes :: "enrollment_record \<Rightarrow> usize" where
  "record_plaintext_allocation_bytes r =
     foldl (\<lambda>bytes e. saturating_add bytes (entry_plaintext_allocation_bytes e)) 0 (entries r)"

text \<open>Chains of \<open>Option::and_then\<close> over checked arithmetic.\<close>

abbreviation opt_and_then :: "'a option \<Rightarrow> ('a \<Rightarrow> 'b option) \<Rightarrow> 'b option" where
  "opt_and_then \<equiv> Option.bind"

definition auth_model_allocation_bytes :: "usize \<Rightarrow> usize \<Rightarrow> storage_backend_error + usize" where
  "auth_model_allocation_bytes entry_count label_bytes =
     ok_or (InvalidInput ''model byte length'')
       (opt_and_then (checked_mul entry_count EMBEDDING_DIMENSION) (\<lambda>values.
        opt_and_then (checked_mul values SIZE_OF_F32) (\<lambda>bytes.
        opt_and_then (opt_and_then (checked_mul entry_count SIZE_OF_ENROLLMENT_ID)
                        (\<lambda>id_bytes. checked_add bytes id_bytes)) (\<lambda>bytes.
        opt_and_then (opt_and_then (checked_mul entry_count SIZE_OF_BOXED_STR)
                        (\<lambda>label_owner_bytes. checked_add bytes label_owner_bytes)) (\<lambda>bytes.
        checked_add bytes label_bytes)))))"

subsection \<open>Allocation estimates\<close>

record plaintext_allocation_estimate =
  encoded_payload_bytes :: usize
  aead_staging_bytes :: usize
  source_decoded_record_bytes :: usize
  decoded_record_bytes :: usize
  flat_auth_model_bytes :: usize
  cold_load_peak_bytes :: usize
  mutation_peak_bytes :: usize
  peak_bytes :: usize

definition from_payload_shape ::
  "usize \<Rightarrow> u32 \<Rightarrow> storage_backend_error + plaintext_allocation_estimate" where
  "from_payload_shape payload entry_count_word =
     (let entry_count = unat entry_count_word
      in if MAX_PLAINTEXT_BYTES < payload then Inl (InvalidInput ''payload byte length'')
      else if MAX_ENTRIES < entry_count then Inl (InvalidInput ''entry count'')
      else and_then (ok_or (InvalidInput ''payload byte length'')
        (opt_and_then (checked_mul entry_count CANONICAL_ENTRY_FIXED_BYTES)
          (\<lambda>bytes. checked_add bytes CANONICAL_PAYLOAD_FIXED_BYTES))) (\<lambda>fixed_payload.
      and_then (ok_or (InvalidInput ''payload byte length'') (checked_sub payload fixed_payload))
        (\<lambda>label_bytes.
      and_then (ok_or (InvalidInput ''record byte length'')
        (opt_and_then (checked_mul entry_count SIZE_OF_ENROLLMENT_ENTRY)
          (\<lambda>bytes. checked_add bytes label_bytes))) (\<lambda>decoded.
      and_then (auth_model_allocation_bytes entry_count label_bytes) (\<lambda>flat.
      and_then (ok_or (InvalidInput ''AEAD staging byte length'')
        (checked_add payload GCM_TAG_BYTES)) (\<lambda>staging.
      and_then (ok_or (InvalidInput ''plaintext cold-load byte length'')
        (checked_add staging decoded)) (\<lambda>decrypt_and_decode.
      and_then (ok_or (InvalidInput ''plaintext cold-load byte length'')
        (checked_add decoded flat)) (\<lambda>decode_and_flatten.
      and_then (ok_or (InvalidInput ''plaintext peak byte length'')
        (opt_and_then (checked_add decoded flat) (\<lambda>bytes.
         opt_and_then (checked_add bytes payload) (\<lambda>bytes. checked_add bytes staging)))) (\<lambda>mutation.
        Inr \<lparr>encoded_payload_bytes = payload, aead_staging_bytes = staging,
             source_decoded_record_bytes = 0, decoded_record_bytes = decoded,
             flat_auth_model_bytes = flat,
             cold_load_peak_bytes = max decrypt_and_decode decode_and_flatten,
             mutation_peak_bytes = mutation, peak_bytes = mutation\<rparr>)))))))))"

definition for_plaintext_limits ::
  "usize \<Rightarrow> usize \<Rightarrow> storage_backend_error + plaintext_allocation_estimate" where
  "for_plaintext_limits max_payload_bytes configured_max_entries =
     (if MAX_PLAINTEXT_BYTES < max_payload_bytes \<or> MAX_ENTRIES < configured_max_entries
      then Inl (InvalidInput ''plaintext limits'')
      else let possible_entries =
             saturating_sub max_payload_bytes CANONICAL_PAYLOAD_FIXED_BYTES
               div CANONICAL_ENTRY_FIXED_BYTES;
             entry_count = min configured_max_entries possible_entries
           in and_then (u32_try_from (InvalidInput ''entry count'') entry_count)
                (from_payload_shape max_payload_bytes))"

definition for_encrypted_header ::
  "encrypted_header \<Rightarrow> storage_backend_error + plaintext_allocation_estimate" where
  "for_encrypted_header h = from_payload_shape (eh_plaintext_length h) (eh_entry_count h)"

definition try_sum :: "usize list \<Rightarrow> usize option" where
  "try_sum ns = foldl (\<lambda>total n. opt_and_then total (\<lambda>t. checked_add t n)) (Some 0) ns"

definition for_record ::
  "enrollment_record \<Rightarrow> storage_backend_error + plaintext_allocation_estimate" where
  "for_record r =
     and_then (u32_try_from (InvalidInput ''entry count'') (length (entries r))) (\<lambda>entry_count.
     and_then (ok_or (InvalidInput ''record byte length'')
       (try_sum (map (\<lambda>e. length (label e)) (entries r)))) (\<lambda>labels.
     and_then (ok_or (InvalidInput ''record byte length'')
       (checked_mul (length (entries r)) CANONICAL_ENTRY_FIXED_BYTES)) (\<lambda>fixed_entries.
     and_then (ok_or (InvalidInput ''record byte length'')
       (opt_and_then (checked_add CANONICAL_PAYLOAD_FIXED_BYTES fixed_entries)
         (\<lambda>bytes. checked_add bytes labels))) (\<lambda>payload.
       from_payload_shape payload entry_count))))"

definition for_payload_shape ::
  "usize \<Rightarrow> usize \<Rightarrow> storage_backend_error + plaintext_allocation_estimate" where
  "for_payload_shape payload entry_count =
     and_then (u32_try_from (InvalidInput ''entry count'') entry_count)
       (from_payload_shape payload)"

definition add_source ::
  "plaintext_allocation_estimate \<Rightarrow> usize
   \<Rightarrow> storage_backend_error + plaintext_allocation_estimate" where
  "add_source estimate source_bytes =
     and_then (ok_or (InvalidInput ''plaintext mutation byte length'')
       (checked_add (mutation_peak_bytes estimate) source_bytes)) (\<lambda>mutation.
       Inr (estimate\<lparr>source_decoded_record_bytes := source_bytes,
                     mutation_peak_bytes := mutation, peak_bytes := mutation\<rparr>))"

definition for_append_shape ::
  "encrypted_header option \<Rightarrow> usize \<Rightarrow> usize
   \<Rightarrow> storage_backend_error + plaintext_allocation_estimate" where
  "for_append_shape current new_entries new_label_bytes =
     (if new_entries = 0 \<or> MAX_ENTRIES < new_entries
      then Inl (InvalidInput ''append entry count'')
      else and_then (ok_or (InvalidInput ''append label bytes'')
        (checked_mul new_entries MAX_LABEL_BYTES)) (\<lambda>maximum_labels.
      if maximum_labels < new_label_bytes then Inl (InvalidInput ''append label bytes'')
      else let current_entries = (case current of None \<Rightarrow> 0 | Some h \<Rightarrow> unat (eh_entry_count h))
      in and_then (ok_or (InvalidInput ''entry count'') (checked_add current_entries new_entries))
        (\<lambda>entry_count.
      if MAX_ENTRIES < entry_count then Inl (InvalidInput ''entry count'')
      else let current_payload =
        (case current of None \<Rightarrow> CANONICAL_PAYLOAD_FIXED_BYTES | Some h \<Rightarrow> eh_plaintext_length h)
      in and_then (ok_or (InvalidInput ''payload byte length'')
        (opt_and_then (checked_mul new_entries CANONICAL_ENTRY_FIXED_BYTES) (\<lambda>bytes.
         opt_and_then (checked_add bytes new_label_bytes)
           (\<lambda>bytes. checked_add bytes current_payload)))) (\<lambda>payload.
      and_then (for_payload_shape payload entry_count) (\<lambda>estimate.
        case current of
          None \<Rightarrow> Inr estimate
        | Some h \<Rightarrow>
            and_then (for_encrypted_header h)
              (\<lambda>source. add_source estimate (decoded_record_bytes source)))))))"

definition for_replacement_of_encrypted_header ::
  "encrypted_header \<Rightarrow> storage_backend_error + plaintext_allocation_estimate" where
  "for_replacement_of_encrypted_header current =
     and_then (for_encrypted_header current)
       (\<lambda>estimate. add_source estimate (decoded_record_bytes estimate))"

subsection \<open>The flat authentication model\<close>

record auth_model =
  am_generation :: u64
  am_model_digest :: bytes
  am_dimension :: usize
  am_enrollment_ids :: "bytes list"
  am_labels :: "str list"
  am_flat_embeddings :: "f32 list"
  am_plaintext_bytes :: usize

fun contains_duplicate :: "'a list \<Rightarrow> 'a list \<Rightarrow> bool" where
  "contains_duplicate prior [] = False"
| "contains_duplicate prior (x # xs) = (x \<in> set prior \<or> contains_duplicate (prior @ [x]) xs)"

definition auth_model_new_exact ::
  "u64 \<Rightarrow> bytes \<Rightarrow> usize \<Rightarrow> bytes list \<Rightarrow> str list \<Rightarrow> f32 list
   \<Rightarrow> storage_backend_error + auth_model" where
  "auth_model_new_exact gen digest dimension ids labels flat =
     and_then
       (if gen = ABSENT_GENERATION then Inl (InvalidInput ''generation'')
        else if dimension \<noteq> EMBEDDING_DIMENSION then Inl (InvalidInput ''embedding dimension'')
        else if length ids \<noteq> length labels then Inl (InvalidInput ''model metadata count'')
        else if MAX_ENTRIES < length ids then Inl (InvalidInput ''entry count'')
        else and_then (ok_or (InvalidInput ''embedding count'') (checked_mul (length ids) dimension))
          (\<lambda>embedding_count.
        if length flat \<noteq> embedding_count then Inl (InvalidInput ''flat embedding length'')
        else if list_ex (\<lambda>v. \<not> f32_is_finite v) flat then Inl (InvalidInput ''non-finite embedding'')
        else if list_ex (\<lambda>l. MAX_LABEL_BYTES < length l) labels then Inl (InvalidInput ''label'')
        else if contains_duplicate [] ids then Inl (InvalidInput ''duplicate enrollment ID'')
        else and_then (ok_or (InvalidInput ''model byte length'') (try_sum (map length labels)))
          (auth_model_allocation_bytes (length ids))))
       (\<lambda>plaintext.
         Inr \<lparr>am_generation = gen, am_model_digest = digest, am_dimension = dimension,
              am_enrollment_ids = ids, am_labels = labels, am_flat_embeddings = flat,
              am_plaintext_bytes = plaintext\<rparr>)"

definition auth_model_new ::
  "u64 \<Rightarrow> bytes \<Rightarrow> usize \<Rightarrow> bytes list \<Rightarrow> str list \<Rightarrow> f32 list
   \<Rightarrow> storage_backend_error + auth_model" where
  "auth_model_new gen digest dimension ids labels flat =
     auth_model_new_exact gen digest dimension ids labels flat"

text \<open>\<open>chunks_exact_mut(512)\<close> zipped with the entries: the entries overwrite the zero buffer from the
  front, one row each.\<close>

fun copy_rows :: "f32 list \<Rightarrow> enrollment_entry list \<Rightarrow> f32 list" where
  "copy_rows buf [] = buf"
| "copy_rows buf (e # es) =
     (if length buf < EMBEDDING_DIMENSION then buf
      else embedding e @ copy_rows (drop EMBEDDING_DIMENSION buf) es)"

definition auth_model_from_record :: "enrollment_record \<Rightarrow> storage_backend_error + auth_model" where
  "auth_model_from_record r =
     and_then (ok_or (InvalidInput ''embedding count'')
       (checked_mul (length (entries r)) EMBEDDING_DIMENSION)) (\<lambda>embedding_count.
       auth_model_new_exact (generation r) (recognizer_model_sha256 r) EMBEDDING_DIMENSION
         (map enrollment_id (entries r)) (map label (entries r))
         (copy_rows (replicate embedding_count 0) (entries r)))"

definition auth_model_embedding :: "auth_model \<Rightarrow> usize \<Rightarrow> f32 list option" where
  "auth_model_embedding m index =
     opt_and_then (checked_mul index (am_dimension m)) (\<lambda>start.
     opt_and_then (checked_add start (am_dimension m)) (\<lambda>end'.
     if start \<le> end' \<and> end' \<le> length (am_flat_embeddings m)
     then Some (take (end' - start) (drop start (am_flat_embeddings m)))
     else None))"

subsection \<open>The plaintext budget\<close>

record budget =
  limit :: usize
  used :: usize

definition budget_new :: "usize \<Rightarrow> storage_backend_error + budget" where
  "budget_new lim =
     (if lim = 0 then Inl (InvalidInput ''plaintext budget'') else Inr \<lparr>limit = lim, used = 0\<rparr>)"

definition budget_available :: "budget \<Rightarrow> usize" where
  "budget_available b = saturating_sub (limit b) (used b)"

type_synonym permit = usize

definition budget_reserve :: "budget \<Rightarrow> usize \<Rightarrow> storage_backend_error + permit \<times> budget" where
  "budget_reserve b bytes =
     (if bytes = 0 then Inl (InvalidInput ''zero-byte reservation'')
      else let available = budget_available b
      in and_then (ok_or (MemoryBudgetExceeded bytes available) (checked_add (used b) bytes))
        (\<lambda>new_used.
      if limit b < new_used then Inl (MemoryBudgetExceeded bytes available)
      else Inr (bytes, b\<lparr>used := new_used\<rparr>)))"

definition permit_drop :: "budget \<Rightarrow> permit \<Rightarrow> budget option" where
  "permit_drop b p = map_option (\<lambda>u. b\<lparr>used := u\<rparr>) (checked_sub (used b) p)"

text \<open>\<open>shrink_to\<close> consumes the permit: on an error the whole permit is dropped.\<close>

definition permit_shrink_to ::
  "budget \<Rightarrow> permit \<Rightarrow> usize \<Rightarrow> ((storage_backend_error + permit) \<times> budget) option" where
  "permit_shrink_to b p bytes =
     (if bytes = 0 \<or> p < bytes then
        map_option (\<lambda>b'. (Inl (InvalidInput ''permit shrink size''), b')) (permit_drop b p)
      else let released = p - bytes
      in if released \<noteq> 0 then
           map_option (\<lambda>u. (Inr bytes, b\<lparr>used := u\<rparr>)) (checked_sub (used b) released)
         else Some (Inr p, b))"

definition permit_split_off :: "permit \<Rightarrow> usize \<Rightarrow> storage_backend_error + permit \<times> permit" where
  "permit_split_off p bytes =
     (if bytes = 0 \<or> p \<le> bytes then Inl (InvalidInput ''permit split size'')
      else Inr (p - bytes, bytes))"

text \<open>An admission is the pair of its operation permit and its input permit.  An error of
  \<open>split_off\<close> would drop the combined permit.\<close>

definition budget_reserve_enrollment ::
  "budget \<Rightarrow> usize \<Rightarrow> usize
   \<Rightarrow> ((storage_backend_error + permit \<times> permit) \<times> budget) option" where
  "budget_reserve_enrollment b operation_bytes input_bytes =
     (if operation_bytes = 0 \<or> input_bytes = 0
      then Some (Inl (InvalidInput ''enrollment reservation''), b)
      else case checked_add operation_bytes input_bytes of
        None \<Rightarrow> Some (Inl (MemoryBudgetExceeded usize_max (budget_available b)), b)
      | Some total_bytes \<Rightarrow>
          (case budget_reserve b total_bytes of
             Inl e \<Rightarrow> Some (Inl e, b)
           | Inr (combined, b') \<Rightarrow>
               (case permit_split_off combined input_bytes of
                  Inl e \<Rightarrow> map_option (\<lambda>b''. (Inl e, b'')) (permit_drop b' combined)
                | Inr (operation, input) \<Rightarrow> Some (Inr (operation, input), b'))))"

text \<open>\<open>BudgetedAuthModel::new\<close>: a model and the permit that pays for it; on an error the permit is
  dropped by the caller's scope.\<close>

definition budgeted_auth_model_new ::
  "auth_model \<Rightarrow> permit \<Rightarrow> storage_backend_error + auth_model \<times> permit" where
  "budgeted_auth_model_new m p =
     (if p < am_plaintext_bytes m then Inl (InvalidInput ''model reservation is too small'')
      else Inr (m, p))"

subsection \<open>Requests\<close>

record append_request =
  ar_username :: str
  ar_expected_generation :: u64
  ar_entries :: "enrollment_entry list"

definition append_request_new ::
  "str \<Rightarrow> u64 \<Rightarrow> enrollment_entry list \<Rightarrow> storage_backend_error + append_request" where
  "append_request_new user gen es =
     (if es = [] then Inl (InvalidInput ''empty append'')
      else Inr \<lparr>ar_username = user, ar_expected_generation = gen, ar_entries = es\<rparr>)"

record append_admission_shape =
  max_new_entries :: usize
  max_new_label_bytes :: usize

definition append_admission_shape_new ::
  "usize \<Rightarrow> usize \<Rightarrow> storage_backend_error + append_admission_shape" where
  "append_admission_shape_new n labels =
     (if n = 0 \<or> MAX_ENTRIES < n then Inl (InvalidInput ''admitted append entry count'')
      else and_then (ok_or (InvalidInput ''admitted append label bytes'')
        (checked_mul n MAX_LABEL_BYTES)) (\<lambda>maximum_labels.
      if maximum_labels < labels then Inl (InvalidInput ''admitted append label bytes'')
      else Inr \<lparr>max_new_entries = n, max_new_label_bytes = labels\<rparr>))"

record remove_request =
  rr_username :: str
  rr_expected_generation :: u64
  rr_enrollment_id :: bytes

definition remove_request_new ::
  "str \<Rightarrow> u64 \<Rightarrow> bytes \<Rightarrow> storage_backend_error + remove_request" where
  "remove_request_new user gen eid =
     (if gen = ABSENT_GENERATION then Inl (InvalidInput ''remove generation'')
      else Inr \<lparr>rr_username = user, rr_expected_generation = gen, rr_enrollment_id = eid\<rparr>)"

record clear_request =
  clr_username :: str
  clr_expected_generation :: u64

definition clear_request_new :: "str \<Rightarrow> u64 \<Rightarrow> storage_backend_error + clear_request" where
  "clear_request_new user gen =
     (if gen = ABSENT_GENERATION then Inl (InvalidInput ''clear generation'')
      else Inr \<lparr>clr_username = user, clr_expected_generation = gen\<rparr>)"

end
