(* ===== verification/Budget.thy ===== *)
theory Budget
  imports Contracts Samples
begin

section \<open>Correctness of the memory accounting\<close>

text \<open>
  Facts about \<open>Contracts\<close>.  First the budget: \<open>budget_exec\<close> lets any number of owners reserve, shrink,
  split and drop permits in any order, a panic of the code being the state \<open>None\<close>.  The
  invariant is that the charge is the sum of the outstanding permits and never above the limit, and
  the operations are an instance of \<open>safe_machine\<close>.  Then the estimates: what a
  backend reserves from the public header of a record is what the decoded record and its flat model
  occupy.
\<close>

subsection \<open>Permits\<close>

definition budget_inv :: "budget \<Rightarrow> permit list \<Rightarrow> bool" where
  "budget_inv b ps \<longleftrightarrow> used b = sum_list ps \<and> used b \<le> limit b \<and> limit b < usize_limit"

datatype budget_op =
    OpReserve usize
  | OpReserveEnrollment usize usize
  | OpShrink nat usize
  | OpSplit nat usize
  | OpDrop nat

definition remove_nth :: "nat \<Rightarrow> 'a list \<Rightarrow> 'a list" where
  "remove_nth i xs = take i xs @ drop (Suc i) xs"

text \<open>One step of the owners.  The state is the budget and the outstanding permits; an operation on a
  permit names it by its position, and one that does not exist is no step.\<close>

fun budget_exec :: "budget_op \<Rightarrow> budget \<times> permit list \<Rightarrow> (budget \<times> permit list) option" where
  "budget_exec (OpReserve n) (b, ps) =
     (case budget_reserve b n of
        Inl e \<Rightarrow> Some (b, ps)
      | Inr (p, b') \<Rightarrow> Some (b', p # ps))"
| "budget_exec (OpReserveEnrollment n m) (b, ps) =
     map_option (\<lambda>(r, b'). case r of Inl e \<Rightarrow> (b', ps) | Inr (p, q) \<Rightarrow> (b', p # q # ps))
       (budget_reserve_enrollment b n m)"
| "budget_exec (OpShrink i n) (b, ps) =
     (if i < length ps then
        map_option (\<lambda>(r, b'). case r of Inl e \<Rightarrow> (b', remove_nth i ps) | Inr p \<Rightarrow> (b', ps[i := p]))
          (permit_shrink_to b (ps ! i) n)
      else Some (b, ps))"
| "budget_exec (OpSplit i n) (b, ps) =
     (if i < length ps then
        (case permit_split_off (ps ! i) n of
           Inl e \<Rightarrow> Some (b, ps)
         | Inr (p, q) \<Rightarrow> Some (b, q # ps[i := p]))
      else Some (b, ps))"
| "budget_exec (OpDrop i) (b, ps) =
     (if i < length ps then map_option (\<lambda>b'. (b', remove_nth i ps)) (permit_drop b (ps ! i))
      else Some (b, ps))"

lemma sum_remove_nth:
  fixes ps :: "nat list"
  assumes "i < length ps"
  shows "sum_list (remove_nth i ps) + ps ! i = sum_list ps"
proof -
  have "ps = take i ps @ ps ! i # drop (Suc i) ps" using assms by (rule id_take_nth_drop)
  then have "sum_list ps = sum_list (take i ps) + ps ! i + sum_list (drop (Suc i) ps)"
    by (metis add.assoc sum_list.Cons sum_list.append)
  then show ?thesis by (simp add: remove_nth_def)
qed

lemma sum_update_nth:
  fixes ps :: "nat list"
  assumes "i < length ps"
  shows "sum_list (ps[i := p]) + ps ! i = sum_list ps + p"
  using assms elem_le_sum_list [OF assms] by (simp add: sum_list_update)

lemma nth_le_sum: "i < length ps \<Longrightarrow> ps ! i \<le> sum_list (ps :: nat list)"
  by (rule elem_le_sum_list)

lemma budget_reserve_Inr:
  "budget_reserve b n = Inr (p, b') \<longleftrightarrow>
     n \<noteq> 0 \<and> p = n \<and> used b + n \<le> limit b \<and> used b + n < usize_limit
     \<and> b' = b\<lparr>used := used b + n\<rparr>"
  by (auto simp: budget_reserve_def Let_def and_then_Inr_iff)

lemma permit_drop_eq: "p \<le> used b \<Longrightarrow> permit_drop b p = Some (b\<lparr>used := used b - p\<rparr>)"
  by (simp add: permit_drop_def checked_sub_def)

lemma budget_reserve_eq:
  "budget_reserve b n =
     (if n = 0 then Inl (InvalidInput ''zero-byte reservation'')
      else if used b + n < usize_limit \<and> used b + n \<le> limit b
      then Inr (n, b\<lparr>used := used b + n\<rparr>)
      else Inl (MemoryBudgetExceeded n (budget_available b)))"
  by (auto simp: budget_reserve_def checked_add_def Let_def)

lemma budget_reserve_enrollment_eq:
  "budget_reserve_enrollment b n m =
     (if n = 0 \<or> m = 0 then Some (Inl (InvalidInput ''enrollment reservation''), b)
      else if usize_limit \<le> n + m
      then Some (Inl (MemoryBudgetExceeded usize_max (budget_available b)), b)
      else if used b + (n + m) < usize_limit \<and> used b + (n + m) \<le> limit b
      then Some (Inr (n, m), b\<lparr>used := used b + (n + m)\<rparr>)
      else Some (Inl (MemoryBudgetExceeded (n + m) (budget_available b)), b))"
  by (simp add: budget_reserve_enrollment_def budget_reserve_eq checked_add_def permit_split_off_def)

lemma budget_exec_safe:
  assumes "budget_inv b ps"
  shows "\<exists>b' ps'. budget_exec op (b, ps) = Some (b', ps') \<and> budget_inv b' ps' \<and> limit b' = limit b"
proof (cases op)
  case (OpReserve n)
  then show ?thesis using assms by (simp add: budget_reserve_eq budget_inv_def)
next
  case (OpReserveEnrollment n m)
  then show ?thesis using assms by (simp add: budget_reserve_enrollment_eq budget_inv_def)
next
  case (OpShrink i n)
  show ?thesis
  proof (cases "i < length ps")
    case True
    with assms have le: "ps ! i \<le> used b" using nth_le_sum [of i ps] by (simp add: budget_inv_def)
    show ?thesis
      using assms OpShrink True le sum_remove_nth [OF True] sum_update_nth [OF True, of n]
      by (auto simp: permit_shrink_to_def permit_drop_def checked_sub_def budget_inv_def Let_def)
  qed (use OpShrink assms in simp)
next
  case (OpSplit i n)
  then show ?thesis
    using assms sum_update_nth [of i ps "ps ! i - n"]
    by (auto simp: permit_split_off_def budget_inv_def split: sum.splits prod.splits)
next
  case (OpDrop i)
  show ?thesis
  proof (cases "i < length ps")
    case True
    with assms have le: "ps ! i \<le> used b" using nth_le_sum [of i ps] by (simp add: budget_inv_def)
    show ?thesis
      using assms OpDrop True le sum_remove_nth [OF True]
      by (auto simp: permit_drop_def checked_sub_def budget_inv_def)
  qed (use OpDrop assms in simp)
qed

interpretation budget_machine:
  safe_machine budget_exec "\<lambda>(b, ps). budget_inv b ps \<and> limit b = lim" for lim
proof
  fix s p
  assume "case s of (b, ps) \<Rightarrow> budget_inv b ps \<and> limit b = lim"
  then show "\<exists>s'. budget_exec p s = Some s' \<and> (case s' of (b, ps) \<Rightarrow> budget_inv b ps \<and> limit b = lim)"
    using budget_exec_safe [of "fst s" "snd s" p] by (cases s) auto
qed

text \<open>C27. The plaintext budget never panics and never overcommits: after any sequence of reservations,
  enrollment admissions, shrinks, splits and drops, in any interleaving of owners, no accounting
  underflow has happened, the charge is exactly the sum of the permits still owned, and that sum is
  at most the configured limit.\<close>

theorem budget_never_overcommits:
  assumes "budget_new lim = Inr b" and "lim < usize_limit"
  shows "\<exists>b' ps. run_ops budget_exec ops (b, []) = Some (b', ps)
    \<and> used b' = sum_list ps \<and> sum_list ps \<le> lim"
proof -
  from assms have "budget_inv b [] \<and> limit b = lim"
    by (auto simp: budget_new_def budget_inv_def)
  then obtain s where "run_ops budget_exec ops (b, []) = Some s"
    and "case s of (b', ps) \<Rightarrow> budget_inv b' ps \<and> limit b' = lim"
    using budget_machine.run_safe [of lim "(b, [])" ops] by auto
  then show ?thesis by (cases s) (auto simp: budget_inv_def)
qed

theorem budget_never_overcommits_witness:
  "\<exists>b' ps. run_ops budget_exec
       [OpReserve 60, OpReserveEnrollment 20 10, OpReserve 40, OpShrink 2 50, OpDrop 0]
       (\<lparr>limit = 100, used = 0\<rparr>, []) = Some (b', ps)
     \<and> used b' = sum_list ps \<and> sum_list ps \<le> 100"
  by (rule budget_never_overcommits) (simp_all add: budget_new_def usize_limit_def)

subsection \<open>Estimates\<close>

lemma auth_model_allocation_bytes_eq:
  assumes "n \<le> MAX_ENTRIES" and "labels \<le> MAX_PLAINTEXT_BYTES"
  shows "auth_model_allocation_bytes n labels =
    Inr (n * EMBEDDING_DIMENSION * SIZE_OF_F32 + n * SIZE_OF_ENROLLMENT_ID + n * SIZE_OF_BOXED_STR
         + labels)"
  using assms
  by (simp add: auth_model_allocation_bytes_def checked_mul_def checked_add_def usize_limit_def
      size_consts storage_consts)

definition shape_estimate :: "nat \<Rightarrow> nat \<Rightarrow> plaintext_allocation_estimate" where
  "shape_estimate n labels =
     (let payload = 8 + n * 2076 + labels; staging = payload + 16; decoded = n * 2088 + labels;
          flat = n * 2080 + labels; mutation = decoded + flat + payload + staging
      in \<lparr>encoded_payload_bytes = payload, aead_staging_bytes = staging,
          source_decoded_record_bytes = 0, decoded_record_bytes = decoded,
          flat_auth_model_bytes = flat,
          cold_load_peak_bytes = max (staging + decoded) (decoded + flat),
          mutation_peak_bytes = mutation, peak_bytes = mutation\<rparr>)"

lemma from_payload_shape_eq:
  assumes "unat n \<le> MAX_ENTRIES"
    and "payload = CANONICAL_PAYLOAD_FIXED_BYTES + unat n * CANONICAL_ENTRY_FIXED_BYTES + labels"
    and "payload \<le> MAX_PLAINTEXT_BYTES"
  shows "from_payload_shape payload n = Inr (shape_estimate (unat n) labels)"
proof -
  have "labels \<le> MAX_PLAINTEXT_BYTES" using assms by linarith
  then have model: "auth_model_allocation_bytes (unat n) labels = Inr (unat n * 2080 + labels)"
    using assms(1) by (simp add: auth_model_allocation_bytes_eq size_consts storage_consts)
  show ?thesis
    using assms
    by (simp add: from_payload_shape_def Let_def checked_mul_def checked_add_def checked_sub_def
        usize_limit_def model size_consts storage_consts shape_estimate_def)
qed

lemma try_sum_small:
  "sum_list ns < usize_limit \<Longrightarrow> try_sum ns = Some (sum_list ns)"
proof -
  have "k + sum_list ns < usize_limit \<Longrightarrow>
      foldl (\<lambda>total n. opt_and_then total (\<lambda>t. checked_add t n)) (Some k) ns = Some (k + sum_list ns)"
    for k
    by (induction ns arbitrary: k) (auto simp: checked_add_def add.assoc)
  from this [of 0] show "sum_list ns < usize_limit \<Longrightarrow> try_sum ns = Some (sum_list ns)"
    by (simp add: try_sum_def)
qed

definition label_total :: "enrollment_entry list \<Rightarrow> nat" where
  "label_total es = sum_list (map (\<lambda>e. length (label e)) es)"

lemma payload_bytes_label_total:
  "list_all entry_wf es \<Longrightarrow> length (payload_bytes es) =
     CANONICAL_PAYLOAD_FIXED_BYTES + length es * CANONICAL_ENTRY_FIXED_BYTES + label_total es"
  by (induction es)
    (auto simp: length_payload_bytes label_total_def length_encode_entry)

lemma record_sizes:
  assumes "record_wf r"
  shows "length (entries r) \<le> MAX_ENTRIES"
    and "length (payload_bytes (entries r)) =
      CANONICAL_PAYLOAD_FIXED_BYTES + length (entries r) * CANONICAL_ENTRY_FIXED_BYTES
      + label_total (entries r)"
    and "length (payload_bytes (entries r)) \<le> MAX_PLAINTEXT_BYTES"
    and "label_total (entries r) < usize_limit"
proof -
  show n: "length (entries r) \<le> MAX_ENTRIES" using assms by (simp add: record_wf_def)
  show len: "length (payload_bytes (entries r)) =
      CANONICAL_PAYLOAD_FIXED_BYTES + length (entries r) * CANONICAL_ENTRY_FIXED_BYTES
      + label_total (entries r)"
    using assms by (intro payload_bytes_label_total) (simp add: record_wf_def)
  show max: "length (payload_bytes (entries r)) \<le> MAX_PLAINTEXT_BYTES"
    by (rule payload_bytes_bounds(1) [OF record_wf_entries [OF assms]])
  from len max show "label_total (entries r) < usize_limit"
    by (simp add: MAX_PLAINTEXT_BYTES_def usize_limit_def)
qed

lemma for_record_eq:
  assumes "record_wf r"
  shows "for_record r = Inr (shape_estimate (length (entries r)) (label_total (entries r)))"
proof -
  note s = record_sizes [OF assms]
  let ?n = "length (entries r)"
  have labels: "try_sum (map (\<lambda>e. length (label e)) (entries r)) = Some (label_total (entries r))"
    using s(4) by (simp add: label_total_def try_sum_small)
  have n: "?n \<le> 1000" using s(1) by (simp add: MAX_ENTRIES_def)
  have shape: "from_payload_shape
      (CANONICAL_PAYLOAD_FIXED_BYTES + ?n * CANONICAL_ENTRY_FIXED_BYTES + label_total (entries r))
      (word_of_nat ?n) = Inr (shape_estimate ?n (label_total (entries r)))"
    using s from_payload_shape_eq [of "word_of_nat ?n", OF _ refl, of "label_total (entries r)"]
    by (simp add: count_word)
  have adds: "checked_mul ?n CANONICAL_ENTRY_FIXED_BYTES = Some (?n * CANONICAL_ENTRY_FIXED_BYTES)"
    "checked_add CANONICAL_PAYLOAD_FIXED_BYTES (?n * CANONICAL_ENTRY_FIXED_BYTES) =
      Some (CANONICAL_PAYLOAD_FIXED_BYTES + ?n * CANONICAL_ENTRY_FIXED_BYTES)"
    "checked_add (CANONICAL_PAYLOAD_FIXED_BYTES + ?n * CANONICAL_ENTRY_FIXED_BYTES)
        (label_total (entries r)) =
      Some (CANONICAL_PAYLOAD_FIXED_BYTES + ?n * CANONICAL_ENTRY_FIXED_BYTES + label_total (entries r))"
    using s n by (simp_all add: storage_consts usize_limit_def checked_mul_def checked_add_def)
  show ?thesis
    using n by (simp add: for_record_def u32_try_from_def labels adds shape)
qed

lemma for_encrypted_header_eq:
  assumes "record_wf r"
  shows "for_encrypted_header (header_of r mode epoch nonce) = for_record r"
proof -
  note s = record_sizes [OF assms]
  have "from_payload_shape (length (payload_bytes (entries r))) (word_of_nat (length (entries r))) =
      Inr (shape_estimate (length (entries r)) (label_total (entries r)))"
    using s from_payload_shape_eq [of "word_of_nat (length (entries r))" _ "label_total (entries r)"]
    by (simp add: count_word)
  then show ?thesis using for_record_eq [OF assms]
    by (simp add: for_encrypted_header_def header_of_def)
qed

lemma record_allocation_eq:
  assumes "record_wf r"
  shows "record_plaintext_allocation_bytes r =
    length (entries r) * SIZE_OF_ENROLLMENT_ENTRY + label_total (entries r)"
proof -
  have fold: "foldl (\<lambda>bytes e. saturating_add bytes (entry_plaintext_allocation_bytes e)) k es =
      k + length es * SIZE_OF_ENROLLMENT_ENTRY + label_total es"
    if "k + length es * SIZE_OF_ENROLLMENT_ENTRY + label_total es < usize_limit" for k es
    using that
    by (induction es arbitrary: k)
      (auto simp: label_total_def entry_plaintext_allocation_bytes_def saturating_add_small add.assoc
        add.left_commute)
  have "length (entries r) * SIZE_OF_ENROLLMENT_ENTRY + label_total (entries r) < usize_limit"
    using record_sizes [OF assms] by (simp add: size_consts storage_consts usize_limit_def)
  with fold [of 0 "entries r"] show ?thesis by (simp add: record_plaintext_allocation_bytes_def)
qed

subsection \<open>The flat model\<close>

lemma copy_rows_eq:
  assumes "list_all (\<lambda>e. length (embedding e) = EMBEDDING_DIMENSION) es"
  shows "copy_rows (replicate (length es * EMBEDDING_DIMENSION) 0) es = concat (map embedding es)"
  using assms by (induction es) (auto simp: EMBEDDING_DIMENSION_def)

lemma contains_duplicate_iff:
  "contains_duplicate prior xs \<longleftrightarrow> \<not> (distinct xs \<and> set prior \<inter> set xs = {})"
  by (induction prior xs rule: contains_duplicate.induct) auto

lemma length_concat_rows:
  "list_all (\<lambda>e. length (embedding e) = n) es \<Longrightarrow> length (concat (map embedding es)) = length es * n"
  by (induction es) auto

lemma take_drop_concat_rows:
  assumes "list_all (\<lambda>e. length (embedding e) = n) es" and "i < length es"
  shows "take n (drop (i * n) (concat (map embedding es))) = embedding (es ! i)"
  using assms
proof (induction es arbitrary: i)
  case (Cons e es)
  then show ?case by (cases i) auto
qed simp

lemma auth_model_from_record_eq:
  assumes "record_wf r"
  shows "auth_model_from_record r = Inr
    \<lparr>am_generation = generation r, am_model_digest = recognizer_model_sha256 r,
     am_dimension = EMBEDDING_DIMENSION, am_enrollment_ids = map enrollment_id (entries r),
     am_labels = map label (entries r), am_flat_embeddings = concat (map embedding (entries r)),
     am_plaintext_bytes = length (entries r) * 2080 + label_total (entries r)\<rparr>"
proof -
  note s = record_sizes [OF assms]
  have rows: "list_all (\<lambda>e. length (embedding e) = EMBEDDING_DIMENSION) (entries r)"
    and finite: "list_all (\<lambda>e. list_all f32_is_finite (embedding e)) (entries r)"
    and labels: "list_all (\<lambda>e. length (label e) \<le> MAX_LABEL_BYTES) (entries r)"
    and ids: "distinct (map enrollment_id (entries r))" and gen: "generation r \<noteq> 0"
    using assms by (auto simp: record_wf_def entry_wf_def list_all_iff)
  have small: "length (entries r) * EMBEDDING_DIMENSION < usize_limit"
    using s(1) by (simp add: storage_consts usize_limit_def)
  have sum: "try_sum (map length (map label (entries r))) = Some (label_total (entries r))"
    using s(4) by (simp add: label_total_def comp_def try_sum_small)
  have "label_total (entries r) \<le> MAX_PLAINTEXT_BYTES" using s(2,3) by linarith
  then have bytes: "auth_model_allocation_bytes (length (entries r)) (label_total (entries r)) =
      Inr (length (entries r) * 2080 + label_total (entries r))"
    using s(1) by (simp add: auth_model_allocation_bytes_eq size_consts EMBEDDING_DIMENSION_def)
  have "\<not> list_ex (\<lambda>v. \<not> f32_is_finite v) (concat (map embedding (entries r)))"
    "\<not> list_ex (\<lambda>l. MAX_LABEL_BYTES < length l) (map label (entries r))"
    using finite labels by (auto simp: list_ex_iff list_all_iff)
  with gen s(1) ids small rows show ?thesis
    by (simp add: auth_model_from_record_def auth_model_new_exact_def ABSENT_GENERATION_def
        checked_mul_small copy_rows_eq length_concat_rows contains_duplicate_iff sum bytes
        del: map_map)
qed

text \<open>C36. What is reserved before decryption pays for what decryption produces: the estimate computed
  from the public header of an encrypted record covers, exactly, the payload, the decoded record and
  the flat model that the record decodes to; the cold-load peak covers both overlapping phases; and
  a permit of that size can be shrunk to the model and is accepted with it.\<close>

theorem header_estimate_covers_decode:
  assumes small: "length bs < slice_limit" and ins: "inspect_howyenc1 bs = Inr h"
    and dec: "decode_howyenc1 alloc dec bs key mode epoch user model = Inr r"
  shows "\<exists>e m. for_encrypted_header h = Inr e \<and> for_record r = Inr e
    \<and> auth_model_from_record r = Inr m
    \<and> encoded_payload_bytes e = length (payload_bytes (entries r))
    \<and> decoded_record_bytes e = record_plaintext_allocation_bytes r
    \<and> flat_auth_model_bytes e = am_plaintext_bytes m
    \<and> aead_staging_bytes e + decoded_record_bytes e \<le> cold_load_peak_bytes e
    \<and> decoded_record_bytes e + flat_auth_model_bytes e \<le> cold_load_peak_bytes e
    \<and> cold_load_peak_bytes e \<le> mutation_peak_bytes e
    \<and> budgeted_auth_model_new m (am_plaintext_bytes m) = Inr (m, am_plaintext_bytes m)"
proof -
  from decode_howyenc1_inv [OF small dec] obtain nonce where r: "record_wf r"
    and wf: "header_wf (header_of r mode epoch nonce)"
    and env: "envelope_of dec key (header_of r mode epoch nonce) (entries r) bs"
    by (auto simp: Let_def)
  from env wf small have "inspect_howyenc1 bs = Inr (header_of r mode epoch nonce)"
    by (auto simp: inspect_howyenc1_iff envelope_of_def)
  with ins have h: "h = header_of r mode epoch nonce" by simp
  show ?thesis
    using for_record_eq [OF r] for_encrypted_header_eq [OF r, of mode epoch nonce]
      auth_model_from_record_eq [OF r] record_allocation_eq [OF r] record_sizes(2) [OF r]
    by (simp add: h shape_estimate_def Let_def size_consts storage_consts budgeted_auth_model_new_def)
qed

theorem header_estimate_covers_decode_witness:
  "\<exists>e m. for_encrypted_header (header_of sample_record ModeAeadCached 1 (replicate 12 9)) = Inr e
     \<and> auth_model_from_record sample_record = Inr m
     \<and> flat_auth_model_bytes e = am_plaintext_bytes m"
  using header_estimate_covers_decode [OF sample_envelope_small sample_inspects sample_decodes] by blast

text \<open>The flat model is the record: row \<open>i\<close> of the model built from a well-formed record is the
  embedding of entry \<open>i\<close>, beside its identifier and label, and there are no other rows.\<close>

theorem auth_model_rows:
  assumes "record_wf r" and "auth_model_from_record r = Inr m"
  shows "am_enrollment_ids m = map enrollment_id (entries r) \<and> am_labels m = map label (entries r)
    \<and> auth_model_embedding m i =
        (if i < length (entries r) then Some (embedding (entries r ! i)) else None)"
proof -
  have m: "am_dimension m = EMBEDDING_DIMENSION" "am_enrollment_ids m = map enrollment_id (entries r)"
    "am_labels m = map label (entries r)" "am_flat_embeddings m = concat (map embedding (entries r))"
    using assms(2) auth_model_from_record_eq [OF assms(1)] by auto
  have rows: "list_all (\<lambda>e. length (embedding e) = EMBEDDING_DIMENSION) (entries r)"
    using assms(1) by (auto simp: record_wf_def entry_wf_def list_all_iff)
  note len = length_concat_rows [OF rows]
  show ?thesis
  proof (cases "i < length (entries r)")
    case True
    then have "i < 1000" using record_sizes(1) [OF assms(1)] by (simp add: MAX_ENTRIES_def)
    then have small: "i * EMBEDDING_DIMENSION < usize_limit"
      "i * EMBEDDING_DIMENSION + EMBEDDING_DIMENSION < usize_limit"
      by (simp_all add: EMBEDDING_DIMENSION_def usize_limit_def)
    have "Suc i * EMBEDDING_DIMENSION \<le> length (entries r) * EMBEDDING_DIMENSION"
      using True by (intro mult_le_mono1) simp
    with small True m show ?thesis
      by (simp add: auth_model_embedding_def checked_mul_small checked_add_small len
          take_drop_concat_rows [OF rows])
  next
    case False
    then have "length (entries r) * EMBEDDING_DIMENSION \<le> i * EMBEDDING_DIMENSION"
      by (intro mult_le_mono1) simp
    then have "length (entries r) * EMBEDDING_DIMENSION < i * EMBEDDING_DIMENSION + EMBEDDING_DIMENSION"
      by (simp add: EMBEDDING_DIMENSION_def)
    with False m show ?thesis
      by (auto simp: auth_model_embedding_def len checked_mul_def checked_add_def)
  qed
qed

theorem auth_model_rows_witness:
  "\<exists>m. auth_model_from_record sample_record = Inr m
     \<and> auth_model_embedding m 0 = Some (replicate 512 0x3F800000) \<and> auth_model_embedding m 1 = None"
proof -
  obtain m where m: "auth_model_from_record sample_record = Inr m"
    using auth_model_from_record_eq [OF sample_record_wf] by blast
  from auth_model_rows [OF sample_record_wf m, of 0] auth_model_rows [OF sample_record_wf m, of 1] m
  show ?thesis by (simp add: sample_record_def sample_entry_def)
qed

end
