(* ===== verification/Authorization.thy ===== *)
theory Authorization
  imports Records
begin

section \<open>Request authorization\<close>

text \<open>
  \<^verbatim>\<open>crates/howy-daemon/src/authorization.rs\<close>: the policy that every daemon request passes before its
  body runs.  The identity lookup (NSS) is the parameter \<open>resolve\<close>; the buffer loop around
  \<open>getpwnam_r\<close> is modelled separately in \<open>system_resolve\<close> with the system call as a parameter.

  \<open>authorize\<close> translates the code.  \<open>policy\<close> is the intended access matrix, stated as one condition per
  operation, and \<open>authorize_iff_policy\<close> shows that the code grants exactly it.
\<close>

record canonical_identity =
  ci_username :: str
  ci_uid :: u32

datatype identity_lookup_error = System int | InvalidRecord | BufferLimit

type_synonym resolver = "str \<Rightarrow> identity_lookup_error + canonical_identity option"

datatype connection_phase =
    Initial
  | PendingAuth u32 canonical_identity
  | Finished

record authorization_context =
  peer_uid :: u32
  confirmation_required :: bool
  connection_phase :: connection_phase

definition authorization_context_initial :: "u32 \<Rightarrow> bool \<Rightarrow> authorization_context" where
  "authorization_context_initial uid confirm =
     \<lparr>peer_uid = uid, confirmation_required = confirm, connection_phase = Initial\<rparr>"

datatype operation =
    Ping
  | PublicInfo
  | Authenticate str
  | BeginAuth str
  | CommitAuth
  | CancelAuth
  | EnrollmentPresence str
  | CheckCredential str
  | RevokeCredential str
  | Enroll str
  | EnrollBatch str
  | Detect
  | ListEnrollments str
  | RemoveEnrollment str
  | ClearEnrollments str
  | SecurityInfo
  | Reload
  | Shutdown
  | Unknown
  | WrongPhase

fun operation_target :: "operation \<Rightarrow> str option" where
  "operation_target (Authenticate t) = Some t"
| "operation_target (BeginAuth t) = Some t"
| "operation_target (EnrollmentPresence t) = Some t"
| "operation_target (CheckCredential t) = Some t"
| "operation_target (RevokeCredential t) = Some t"
| "operation_target (Enroll t) = Some t"
| "operation_target (EnrollBatch t) = Some t"
| "operation_target (ListEnrollments t) = Some t"
| "operation_target (RemoveEnrollment t) = Some t"
| "operation_target (ClearEnrollments t) = Some t"
| "operation_target _ = None"

datatype denial_reason =
    InvalidTarget
  | UnknownTarget
  | NonCanonicalTarget
  | IdentityLookupFailed
  | PermissionDenied
  | ConfirmationRequired
  | DenyWrongPhase
  | UnknownOperation

datatype decision = Allow "canonical_identity option" | Deny denial_reason

definition resolve_canonical_target :: "resolver \<Rightarrow> str \<Rightarrow> denial_reason + canonical_identity" where
  "resolve_canonical_target resolve requested =
     (if \<not> validate_username requested then Inl InvalidTarget
      else and_then (map_err (\<lambda>_. IdentityLookupFailed) (resolve requested)) (\<lambda>found.
      and_then (ok_or UnknownTarget found) (\<lambda>resolved.
      if \<not> validate_username (ci_username resolved) \<or> requested \<noteq> ci_username resolved
      then Inl NonCanonicalTarget
      else Inr resolved)))"

definition peer_may_target :: "u32 \<Rightarrow> canonical_identity \<Rightarrow> bool" where
  "peer_may_target uid target \<longleftrightarrow> uid = 0 \<or> uid = ci_uid target"

fun connection_is_bound :: "authorization_context \<Rightarrow> canonical_identity \<Rightarrow> bool" where
  "connection_is_bound context target =
     (case connection_phase context of
        PendingAuth uid pending_target \<Rightarrow> uid = peer_uid context \<and> pending_target = target
      | _ \<Rightarrow> False)"

definition is_some_and :: "'a option \<Rightarrow> ('a \<Rightarrow> bool) \<Rightarrow> bool" where
  "is_some_and v p = (case v of None \<Rightarrow> False | Some x \<Rightarrow> p x)"

text \<open>The last match of \<open>authorize\<close>: the grant for an operation whose target, if it has one, was
  resolved, or an immediate denial.\<close>

fun operation_allowed ::
  "operation \<Rightarrow> authorization_context \<Rightarrow> canonical_identity option \<Rightarrow> denial_reason + bool" where
  "operation_allowed Ping context target = Inr True"
| "operation_allowed PublicInfo context target = Inr True"
| "operation_allowed (Authenticate _) context target =
     (if confirmation_required context then Inl ConfirmationRequired
      else Inr (is_some_and target (peer_may_target (peer_uid context))))"
| "operation_allowed (BeginAuth _) context target =
     (if \<not> confirmation_required context then Inl DenyWrongPhase
      else Inr (is_some_and target (peer_may_target (peer_uid context))))"
| "operation_allowed (EnrollmentPresence _) context target =
     Inr (is_some_and target (peer_may_target (peer_uid context)))"
| "operation_allowed (CheckCredential _) context target =
     Inr (is_some_and target (peer_may_target (peer_uid context)))"
| "operation_allowed (RevokeCredential _) context target =
     Inr (is_some_and target (peer_may_target (peer_uid context)))"
| "operation_allowed CommitAuth context target =
     (if \<not> confirmation_required context then Inl DenyWrongPhase
      else Inr (is_some_and target (\<lambda>t. peer_may_target (peer_uid context) t
                                          \<and> connection_is_bound context t)))"
| "operation_allowed CancelAuth context target =
     (if \<not> confirmation_required context then Inl DenyWrongPhase
      else Inr (is_some_and target (\<lambda>t. peer_may_target (peer_uid context) t
                                          \<and> connection_is_bound context t)))"
| "operation_allowed (Enroll _) context target = Inr (peer_uid context = 0 \<and> target \<noteq> None)"
| "operation_allowed (EnrollBatch _) context target = Inr (peer_uid context = 0 \<and> target \<noteq> None)"
| "operation_allowed (ListEnrollments _) context target =
     Inr (peer_uid context = 0 \<and> target \<noteq> None)"
| "operation_allowed (RemoveEnrollment _) context target =
     Inr (peer_uid context = 0 \<and> target \<noteq> None)"
| "operation_allowed (ClearEnrollments _) context target =
     Inr (peer_uid context = 0 \<and> target \<noteq> None)"
| "operation_allowed Detect context target = Inr (peer_uid context = 0)"
| "operation_allowed SecurityInfo context target = Inr (peer_uid context = 0)"
| "operation_allowed Reload context target = Inr (peer_uid context = 0)"
| "operation_allowed Shutdown context target = Inr (peer_uid context = 0)"
| "operation_allowed Unknown context target = Inr False"
| "operation_allowed WrongPhase context target = Inr False"

definition requested_target ::
  "operation \<Rightarrow> authorization_context \<Rightarrow> denial_reason + str option" where
  "requested_target operation context =
     (if operation = CommitAuth \<or> operation = CancelAuth then
        (case connection_phase context of
           PendingAuth _ target \<Rightarrow> Inr (Some (ci_username target))
         | _ \<Rightarrow> Inl DenyWrongPhase)
      else Inr (operation_target operation))"

definition authorize_result ::
  "resolver \<Rightarrow> operation \<Rightarrow> authorization_context \<Rightarrow> denial_reason + canonical_identity option" where
  "authorize_result resolve operation context =
     (if operation = Unknown then Inl UnknownOperation
      else if operation = WrongPhase then Inl DenyWrongPhase
      else and_then (requested_target operation context) (\<lambda>requested.
      and_then (case requested of
                  Some target \<Rightarrow> map_ok Some (resolve_canonical_target resolve target)
                | None \<Rightarrow> Inr None) (\<lambda>canonical_target.
      and_then (operation_allowed operation context canonical_target) (\<lambda>allowed.
      if allowed then Inr canonical_target
      else if operation = CommitAuth \<or> operation = CancelAuth then Inl DenyWrongPhase
      else Inl PermissionDenied))))"

definition authorize :: "resolver \<Rightarrow> operation \<Rightarrow> authorization_context \<Rightarrow> decision" where
  "authorize resolve operation context =
     (case authorize_result resolve operation context of
        Inl reason \<Rightarrow> Deny reason
      | Inr canonical_target \<Rightarrow> Allow canonical_target)"

definition authorize_and_then ::
  "resolver \<Rightarrow> operation \<Rightarrow> authorization_context \<Rightarrow> (canonical_identity option \<Rightarrow> 'a)
   \<Rightarrow> denial_reason + 'a" where
  "authorize_and_then resolve operation context run =
     (case authorize resolve operation context of
        Allow authorization \<Rightarrow> Inr (run authorization)
      | Deny reason \<Rightarrow> Inl reason)"

subsection \<open>The NSS buffer loop\<close>

text \<open>
  \<open>SystemIdentityResolver::resolve\<close>.  The environment answers the successive calls of
  \<open>getpwnam_r\<close>: \<open>call i size\<close> is the outcome of the \<open>i\<close>-th call with a buffer of \<open>size\<close> bytes.  A call
  that is interrupted is repeated with the same buffer, so the loop need not end; \<open>fuel\<close> bounds the
  number of calls.
\<close>

definition DEFAULT_NSS_BUFFER_SIZE :: usize where "DEFAULT_NSS_BUFFER_SIZE = 16 * 1024"
definition MAX_NSS_BUFFER_SIZE :: usize where "MAX_NSS_BUFFER_SIZE = 1024 * 1024"

datatype nss_outcome =
    Interrupted
  | ERange
  | Status int
  | NotFound
  | Entry "bytes option" u32

text \<open>An entry is the bytes from \<open>pw_name\<close> to the end of the buffer, or \<open>None\<close> when the pointer is
  outside the buffer, and the user id.\<close>

definition bounded_name :: "bytes \<Rightarrow> bytes option" where
  "bounded_name bs = (if 0 \<in> set bs then Some (takeWhile (\<lambda>b. b \<noteq> 0) bs) else None)"

definition initial_buffer_size :: "int \<Rightarrow> usize" where
  "initial_buffer_size suggested =
     (if suggested > 0 then max 1 (min (nat suggested) MAX_NSS_BUFFER_SIZE)
      else DEFAULT_NSS_BUFFER_SIZE)"

fun nss_loop ::
  "nat \<Rightarrow> (nat \<Rightarrow> usize \<Rightarrow> nss_outcome) \<Rightarrow> nat \<Rightarrow> usize
   \<Rightarrow> (identity_lookup_error + canonical_identity option) option" where
  "nss_loop 0 call i buffer_size = None"
| "nss_loop (Suc fuel) call i buffer_size =
     (case call i buffer_size of
        Interrupted \<Rightarrow> nss_loop fuel call (Suc i) buffer_size
      | ERange \<Rightarrow>
          if buffer_size = MAX_NSS_BUFFER_SIZE then Some (Inl BufferLimit)
          else nss_loop fuel call (Suc i) (min (buffer_size * 2) MAX_NSS_BUFFER_SIZE)
      | Status status \<Rightarrow> Some (Inl (System status))
      | NotFound \<Rightarrow> Some (Inr None)
      | Entry name uid \<Rightarrow>
          Some (and_then (ok_or InvalidRecord name) (\<lambda>bs.
                and_then (ok_or InvalidRecord (bounded_name bs)) (\<lambda>canonical.
                if \<not> valid_utf8 canonical then Inl InvalidRecord
                else Inr (Some \<lparr>ci_username = canonical, ci_uid = uid\<rparr>)))))"

definition system_resolve ::
  "nat \<Rightarrow> int \<Rightarrow> (str \<Rightarrow> nat \<Rightarrow> usize \<Rightarrow> nss_outcome) \<Rightarrow> str
   \<Rightarrow> (identity_lookup_error + canonical_identity option) option" where
  "system_resolve fuel suggested call requested =
     (if 0 \<in> set requested then Some (Inl InvalidRecord)
      else nss_loop fuel (call requested) 0 (initial_buffer_size suggested))"

subsection \<open>The access policy\<close>

text \<open>A target name is usable when it is canonical and the lookup returns an identity of that very name.\<close>

definition resolves :: "resolver \<Rightarrow> str \<Rightarrow> canonical_identity \<Rightarrow> bool" where
  "resolves resolve name t \<longleftrightarrow>
     is_canonical_username name \<and> resolve name = Inr (Some t) \<and> ci_username t = name"

lemma resolve_canonical_target_Inr [simp]:
  "resolve_canonical_target resolve name = Inr t \<longleftrightarrow> resolves resolve name t"
  by (auto simp: resolve_canonical_target_def resolves_def validate_username_def and_then_Inr_iff)

definition targets_self_or_root :: "resolver \<Rightarrow> u32 \<Rightarrow> str \<Rightarrow> canonical_identity option \<Rightarrow> bool" where
  "targets_self_or_root resolve uid name target \<longleftrightarrow>
     (\<exists>t. target = Some t \<and> resolves resolve name t \<and> (uid = 0 \<or> uid = ci_uid t))"

definition targets_as_root :: "resolver \<Rightarrow> u32 \<Rightarrow> str \<Rightarrow> canonical_identity option \<Rightarrow> bool" where
  "targets_as_root resolve uid name target \<longleftrightarrow>
     uid = 0 \<and> (\<exists>t. target = Some t \<and> resolves resolve name t)"

text \<open>A pending confirmation is continued by the peer that began it, for the identity it was begun for,
  which still resolves to the same name and user id.\<close>

definition continues_pending ::
  "resolver \<Rightarrow> authorization_context \<Rightarrow> canonical_identity option \<Rightarrow> bool" where
  "continues_pending resolve context target \<longleftrightarrow>
     confirmation_required context
     \<and> (\<exists>t. target = Some t \<and> connection_phase context = PendingAuth (peer_uid context) t
            \<and> resolves resolve (ci_username t) t
            \<and> (peer_uid context = 0 \<or> peer_uid context = ci_uid t))"

fun policy ::
  "resolver \<Rightarrow> operation \<Rightarrow> authorization_context \<Rightarrow> canonical_identity option \<Rightarrow> bool" where
  "policy resolve Ping c t = (t = None)"
| "policy resolve PublicInfo c t = (t = None)"
| "policy resolve (Authenticate n) c t =
     (\<not> confirmation_required c \<and> targets_self_or_root resolve (peer_uid c) n t)"
| "policy resolve (BeginAuth n) c t =
     (confirmation_required c \<and> targets_self_or_root resolve (peer_uid c) n t)"
| "policy resolve CommitAuth c t = continues_pending resolve c t"
| "policy resolve CancelAuth c t = continues_pending resolve c t"
| "policy resolve (EnrollmentPresence n) c t = targets_self_or_root resolve (peer_uid c) n t"
| "policy resolve (CheckCredential n) c t = targets_self_or_root resolve (peer_uid c) n t"
| "policy resolve (RevokeCredential n) c t = targets_self_or_root resolve (peer_uid c) n t"
| "policy resolve (Enroll n) c t = targets_as_root resolve (peer_uid c) n t"
| "policy resolve (EnrollBatch n) c t = targets_as_root resolve (peer_uid c) n t"
| "policy resolve (ListEnrollments n) c t = targets_as_root resolve (peer_uid c) n t"
| "policy resolve (RemoveEnrollment n) c t = targets_as_root resolve (peer_uid c) n t"
| "policy resolve (ClearEnrollments n) c t = targets_as_root resolve (peer_uid c) n t"
| "policy resolve Detect c t = (peer_uid c = 0 \<and> t = None)"
| "policy resolve SecurityInfo c t = (peer_uid c = 0 \<and> t = None)"
| "policy resolve Reload c t = (peer_uid c = 0 \<and> t = None)"
| "policy resolve Shutdown c t = (peer_uid c = 0 \<and> t = None)"
| "policy resolve Unknown c t = False"
| "policy resolve WrongPhase c t = False"

lemma authorize_Allow_iff:
  "authorize resolve op c = Allow t \<longleftrightarrow> authorize_result resolve op c = Inr t"
  by (simp add: authorize_def split: sum.splits)

lemma authorize_result_policy:
  "authorize_result resolve op c = Inr t \<longleftrightarrow> policy resolve op c t"
proof (cases op)
  case CommitAuth
  then show ?thesis
    by (cases "connection_phase c")
      (auto simp: authorize_result_def requested_target_def and_then_Inr_iff map_ok_Inr_iff
        is_some_and_def peer_may_target_def continues_pending_def)
next
  case CancelAuth
  then show ?thesis
    by (cases "connection_phase c")
      (auto simp: authorize_result_def requested_target_def and_then_Inr_iff map_ok_Inr_iff
        is_some_and_def peer_may_target_def continues_pending_def)
qed (auto simp: authorize_result_def requested_target_def and_then_Inr_iff map_ok_Inr_iff
      is_some_and_def peer_may_target_def targets_self_or_root_def targets_as_root_def)

text \<open>C7. The code grants exactly the access matrix: an operation is allowed with a canonical target if
  and only if the policy allows it; Ping and PublicInfo for everyone, user operations for the user
  themselves or root on a canonical name that resolves to itself, enrollment changes and
  administration for root only, Authenticate only without and BeginAuth, CommitAuth and CancelAuth
  only with confirmation, and unknown operations never.\<close>

theorem authorize_iff_policy:
  "authorize resolve op c = Allow t \<longleftrightarrow> policy resolve op c t"
  by (simp add: authorize_Allow_iff authorize_result_policy)

definition root_only :: "operation \<Rightarrow> bool" where
  "root_only op \<longleftrightarrow>
     (case op of
        Enroll _ \<Rightarrow> True | EnrollBatch _ \<Rightarrow> True | ListEnrollments _ \<Rightarrow> True
      | RemoveEnrollment _ \<Rightarrow> True | ClearEnrollments _ \<Rightarrow> True | Detect \<Rightarrow> True
      | SecurityInfo \<Rightarrow> True | Reload \<Rightarrow> True | Shutdown \<Rightarrow> True | _ \<Rightarrow> False)"

text \<open>C14. No peer acts on another user: when an operation of a peer other than root is allowed, every
  target it was granted has the peer's own user id, and the operation is not one of enrollment,
  listing, removal, detection, security information, reload or shutdown.\<close>

theorem unprivileged_peer_confined:
  assumes "authorize_and_then resolve op c run = Inr v" and "peer_uid c \<noteq> 0"
  shows "\<not> root_only op \<and> (\<exists>t. v = run t \<and> (\<forall>i. t = Some i \<longrightarrow> ci_uid i = peer_uid c))"
proof -
  from assms(1) obtain t where "authorize resolve op c = Allow t" and v: "v = run t"
    by (auto simp: authorize_and_then_def split: decision.splits)
  then have p: "policy resolve op c t" by (simp add: authorize_Allow_iff authorize_result_policy)
  have "\<not> root_only op" using p assms(2)
    by (cases op) (auto simp: root_only_def targets_as_root_def)
  moreover have "\<forall>i. t = Some i \<longrightarrow> ci_uid i = peer_uid c" using p assms(2)
    by (cases op) (auto simp: targets_self_or_root_def targets_as_root_def continues_pending_def)
  ultimately show ?thesis using v by blast
qed

definition sample_resolver :: resolver where
  "sample_resolver name =
     (if name = ascii ''alice'' then Inr (Some \<lparr>ci_username = name, ci_uid = 1000\<rparr>)
      else if name = ascii ''bob'' then Inr (Some \<lparr>ci_username = name, ci_uid = 1001\<rparr>)
      else Inr None)"

theorem unprivileged_peer_confined_witness:
  "\<not> root_only (BeginAuth (ascii ''alice''))
   \<and> (\<exists>t. \<lparr>ci_username = ascii ''alice'', ci_uid = 1000\<rparr> = the t
          \<and> (\<forall>i. t = Some i \<longrightarrow> ci_uid i = peer_uid (authorization_context_initial 1000 True)))"
proof -
  have "authorize_and_then sample_resolver (BeginAuth (ascii ''alice''))
      (authorization_context_initial 1000 True) the = Inr \<lparr>ci_username = ascii ''alice'', ci_uid = 1000\<rparr>"
    by (simp add: authorize_and_then_def authorize_def authorize_result_def requested_target_def
        resolve_canonical_target_def validate_username_def is_canonical_username_def
        is_ascii_alphanumeric_def sample_resolver_def ascii_def is_some_and_def peer_may_target_def
        authorization_context_initial_def)
  from unprivileged_peer_confined [OF this] show ?thesis
    by (simp add: authorization_context_initial_def)
qed

subsection \<open>The NSS loop ends\<close>

lemma nss_loop_returns:
  assumes "\<And>j b. n \<le> j \<Longrightarrow> call j b \<noteq> Interrupted"
    and "MAX_NSS_BUFFER_SIZE \<le> buffer_size * 2 ^ d" and "buffer_size \<le> MAX_NSS_BUFFER_SIZE"
    and "(n - i) + d < fuel"
  shows "nss_loop fuel call i buffer_size \<noteq> None"
  using assms
proof (induction fuel arbitrary: i buffer_size d)
  case (Suc fuel)
  show ?case
  proof (cases "call i buffer_size")
    case Interrupted
    with Suc.prems(1) have "i < n" by (meson not_le)
    then have "(n - Suc i) + d < fuel" using Suc.prems(4) by linarith
    with Suc.IH [OF Suc.prems(1) Suc.prems(2,3)] Interrupted show ?thesis by simp
  next
    case ERange
    show ?thesis
    proof (cases "buffer_size = MAX_NSS_BUFFER_SIZE")
      case False
      with Suc.prems(2,3) have "d \<noteq> 0" by (intro notI) simp
      then obtain e where e: "d = Suc e" by (cases d) auto
      have "MAX_NSS_BUFFER_SIZE \<le> min (buffer_size * 2) MAX_NSS_BUFFER_SIZE * 2 ^ e"
        using Suc.prems(2) by (simp add: e min_def algebra_simps)
      moreover have "(n - Suc i) + e < fuel" using Suc.prems(4) by (simp add: e)
      ultimately show ?thesis using Suc.IH [OF Suc.prems(1)] ERange False by simp
    qed (use ERange in simp)
  qed simp_all
qed simp

text \<open>The lookup ends: if the system interrupts no call after the first \<open>n\<close>, then \<open>n + 21\<close> calls
  suffice, because a buffer is doubled at most 20 times before the 1 MiB limit is reported.\<close>

theorem system_resolve_returns:
  assumes "\<And>j b. n \<le> j \<Longrightarrow> call requested j b \<noteq> Interrupted" and "n + 21 \<le> fuel"
  shows "system_resolve fuel suggested call requested \<noteq> None"
proof -
  let ?b = "initial_buffer_size suggested"
  have "MAX_NSS_BUFFER_SIZE \<le> ?b * 2 ^ 20" "?b \<le> MAX_NSS_BUFFER_SIZE"
    by (auto simp: initial_buffer_size_def MAX_NSS_BUFFER_SIZE_def DEFAULT_NSS_BUFFER_SIZE_def)
  with assms have "nss_loop fuel (call requested) 0 ?b \<noteq> None"
    by (intro nss_loop_returns [where n = n and d = 20]) auto
  then show ?thesis by (simp add: system_resolve_def)
qed

theorem system_resolve_returns_witness:
  "system_resolve 23 0 (\<lambda>_ i b. if i < 2 then Interrupted else if b < 65536 then ERange
     else Entry (Some (ascii ''alice'' @ [0, 0])) 1000) (ascii ''alice'') \<noteq> None"
  by (rule system_resolve_returns [where n = 2]) simp_all

end
