(* ===== verification/PromptDigest.thy ===== *)
theory PromptDigest
  imports Authorization Contracts
begin

section \<open>Digests and snapshots of the prompt manager\<close>

text \<open>
  The hashing helpers and \<open>SecuritySnapshot\<close> of \<^verbatim>\<open>crates/howy-daemon/src/prompt_state.rs\<close>.  SHA-256
  is the parameter \<open>sha256\<close>; a digest is the 32-byte array its result is copied into.  What is fed to
  the hash is a concatenation of length-framed fields.  The framing is an instance of
  \<open>prefix_free\<close>, so distinct inputs of \<open>keyed_digest\<close>, \<open>derive_token\<close> and \<open>capture\<close> are distinct byte
  strings, and equal digests mean equal inputs or a collision of the hash.
\<close>

type_synonym digest = bytes
type_synonym hash = "bytes \<Rightarrow> bytes"

definition SECRET_BYTES :: usize where "SECRET_BYTES = 32"

definition finalize :: "hash \<Rightarrow> bytes \<Rightarrow> digest" where
  "finalize sha256 input = filled 32 (sha256 input)"

definition hash_field :: "bytes \<Rightarrow> bytes" where
  "hash_field f =
     u64_to_le (if length f < 2 ^ 64 then word_of_nat (length f) else - 1) @ f"

definition hash_u64 :: "u64 \<Rightarrow> bytes" where
  "hash_u64 value = hash_field (u64_to_le value)"

definition keyed_input :: "bytes \<Rightarrow> bytes \<Rightarrow> bytes \<Rightarrow> bytes" where
  "keyed_input secret domain value =
     hash_field (ascii ''howy-prompt-keyed-v2'') @ hash_field secret @ hash_field domain
     @ hash_field value"

definition keyed_digest :: "hash \<Rightarrow> bytes \<Rightarrow> bytes \<Rightarrow> bytes \<Rightarrow> digest" where
  "keyed_digest sha256 secret domain value = finalize sha256 (keyed_input secret domain value)"

definition connection_binding :: "hash \<Rightarrow> bytes \<Rightarrow> u64 \<Rightarrow> digest" where
  "connection_binding sha256 secret connection =
     keyed_digest sha256 secret (ascii ''connection-binding-v2'') (u64_to_le connection)"

definition token_input :: "bytes \<Rightarrow> u64 \<Rightarrow> bytes \<Rightarrow> bytes" where
  "token_input secret counter random =
     hash_field (ascii ''howy-prompt-token-v2'') @ hash_field secret
     @ hash_field (u64_to_le counter) @ hash_field random"

definition derive_token :: "hash \<Rightarrow> bytes \<Rightarrow> u64 \<Rightarrow> bytes \<Rightarrow> bytes" where
  "derive_token sha256 secret counter random = finalize sha256 (token_input secret counter random)"

text \<open>\<open>constant_time_eq\<close> accumulates the differences of the 32 positions.\<close>

definition constant_time_eq :: "bytes \<Rightarrow> bytes \<Rightarrow> bool" where
  "constant_time_eq left right \<longleftrightarrow>
     foldl (\<lambda>difference index. difference OR ((left ! index) XOR (right ! index))) 0 [0..<32] = 0"

subsection \<open>Security snapshots\<close>

record security_snapshot =
  ss_policy_generation :: digest
  ss_storage :: prompt_storage_snapshot

fun presence_mode_byte :: "presence_mode \<Rightarrow> u8" where
  "presence_mode_byte Off = 0"
| "presence_mode_byte Confirm = 1"

definition bool_byte :: "bool \<Rightarrow> u8" where
  "bool_byte b = (if b then 1 else 0)"

definition policy_input :: "presence_config \<Rightarrow> security_config \<Rightarrow> bytes" where
  "policy_input p s =
     hash_field (ascii ''howy-prompt-policy-v2'')
     @ hash_field [presence_mode_byte (presence_mode p)]
     @ hash_field [bool_byte (local_only p)]
     @ hash_u64 (prompt_timeout_ms p)
     @ hash_u64 (commit_to_camera_ms p)
     @ hash_u64 (scan_timeout_ms p)
     @ hash_u64 (ucast (max_pending_per_uid p))
     @ hash_u64 (ucast (max_pending_global p))
     @ hash_u64 (if length (allowed_pam_services p) < 2 ^ 64
                 then word_of_nat (length (allowed_pam_services p)) else - 1)
     @ concat (map hash_field (allowed_pam_services p))
     @ hash_field [embedding_mode_u8 (embedding_mode s)]
     @ hash_u64 (key_epoch s)
     @ hash_u64 (ucast (max_embeddings_per_user s))
     @ hash_u64 (max_record_bytes s)
     @ hash_u64 (max_plaintext_bytes s)
     @ hash_field (credential_name (cached s))
     @ hash_u64 (ucast (max_cached_users (cached s)))
     @ hash_u64 (max_cache_bytes (cached s))
     @ hash_field [bool_byte (require_mlock (cached s))]
     @ hash_field (sealed_key_blob (ephemeral s))
     @ hash_field (key_description (ephemeral s))
     @ hash_field (tpm_parent_handle (ephemeral s))"

definition capture :: "hash \<Rightarrow> howy_config \<Rightarrow> prompt_storage_snapshot \<Rightarrow> security_snapshot" where
  "capture sha256 config storage =
     \<lparr>ss_policy_generation = finalize sha256 (policy_input (presence config) (security config)),
      ss_storage = storage\<rparr>"

definition snapshot_eq :: "security_snapshot \<Rightarrow> security_snapshot \<Rightarrow> bool" where
  "snapshot_eq a b \<longleftrightarrow>
     constant_time_eq (ss_policy_generation a) (ss_policy_generation b)
     \<and> pss_health (ss_storage a) = pss_health (ss_storage b)
     \<and> pss_candidate (ss_storage a) = pss_candidate (ss_storage b)
     \<and> constant_time_eq (pss_backend_identity (ss_storage a)) (pss_backend_identity (ss_storage b))
     \<and> constant_time_eq (pss_policy_generation (ss_storage a))
          (pss_policy_generation (ss_storage b))"

subsection \<open>Comparison\<close>

lemma or_fold_zero:
  "foldl (\<lambda>d i. d OR f i) (a :: u8) is = 0 \<longleftrightarrow> a = 0 \<and> (\<forall>i \<in> set is. f i = 0)"
  by (induction "is" arbitrary: a) (auto simp: or_eq_0_iff)

lemma xor_zero_iff: "(a :: 'a :: len word) XOR b = 0 \<longleftrightarrow> a = b"
  by (metis xor.assoc xor.left_neutral xor_self_eq)

lemma constant_time_eq_iff:
  "length a = 32 \<Longrightarrow> length b = 32 \<Longrightarrow> constant_time_eq a b \<longleftrightarrow> a = b"
  by (auto simp: constant_time_eq_def or_fold_zero xor_zero_iff intro: nth_equalityI)

lemma length_finalize [simp]: "length (finalize sha256 bs) = 32"
  by (simp add: finalize_def)

lemma length_keyed_digest [simp]: "length (keyed_digest sha256 s d v) = 32"
  by (simp add: keyed_digest_def)

lemma length_connection_binding [simp]: "length (connection_binding sha256 s c) = 32"
  by (simp add: connection_binding_def)

definition snapshot_wf :: "security_snapshot \<Rightarrow> bool" where
  "snapshot_wf s \<longleftrightarrow>
     length (ss_policy_generation s) = 32 \<and> length (pss_backend_identity (ss_storage s)) = 32
     \<and> length (pss_policy_generation (ss_storage s)) = 32"

lemma snapshot_eq_iff:
  assumes "snapshot_wf a" and "snapshot_wf b"
  shows "snapshot_eq a b \<longleftrightarrow> a = b"
  using assms by (cases a; cases b; cases "ss_storage a"; cases "ss_storage b")
    (auto simp: snapshot_eq_def snapshot_wf_def constant_time_eq_iff)

subsection \<open>Framing\<close>

text \<open>A field of the program is a slice, so its length fits \<open>usize\<close>.\<close>

definition field_ok :: "bytes \<Rightarrow> bool" where
  "field_ok f \<longleftrightarrow> length f < 2 ^ 64"

interpretation framing: prefix_free hash_field field_ok
proof
  fix x y r s
  assume ok: "field_ok x" "field_ok y" and eq: "hash_field x @ r = hash_field y @ s"
  then have "(word_of_nat (length x) :: u64) = word_of_nat (length y)" and rest: "x @ r = y @ s"
    by (auto simp: hash_field_def field_ok_def)
  moreover have "unat (word_of_nat (length x) :: u64) = length x"
    "unat (word_of_nat (length y) :: u64) = length y"
    using ok by (simp_all add: field_ok_def unat_of_nat)
  ultimately have "length x = length y" by metis
  with rest show "x = y \<and> r = s" by simp
qed

lemma field_ok_small [simp]: "field_ok [b]" "field_ok (u64_to_le w)" "field_ok (ascii s) \<longleftrightarrow> length s < 2 ^ 64"
  by (simp_all add: field_ok_def)

lemma hash_field_cancel:
  "field_ok x \<Longrightarrow> field_ok y \<Longrightarrow> hash_field x @ r = hash_field y @ s \<longleftrightarrow> x = y \<and> r = s"
  using framing.put_cancel [of x y r s] by auto

lemma hash_u64_cancel: "hash_u64 a @ r = hash_u64 b @ s \<longleftrightarrow> a = b \<and> r = s"
  by (simp add: hash_u64_def hash_field_cancel)

lemma hash_field_cancel_end:
  "field_ok x \<Longrightarrow> field_ok y \<Longrightarrow> hash_field x = hash_field y \<longleftrightarrow> x = y"
  using hash_field_cancel [of x y "[]" "[]"] by simp

end
