(* ===== verification/PromptState.thy ===== *)
theory PromptState
  imports PromptDigest
begin

section \<open>The prompt transaction manager\<close>

text \<open>
  \<^verbatim>\<open>crates/howy-daemon/src/prompt_state.rs\<close>: the manager's tables, its locked operations and the guards
  it hands out.  The source's \<open>ManagerInner\<close> is split into its constant limits (\<open>manager_inner\<close>) and
  the \<open>prompt_world\<close> its operations update: the state behind the mutex, the mutex's poison flag, the
  heap of \<open>ActiveControl\<close> objects (an \<open>Arc\<close> is an index into it), and a log of the two outward
  effects, \<open>cancel_resource\<close> calls and socket shutdowns.  A condition-variable notification has no
  effect on the state and no counterpart.

  An \<open>Instant\<close> is a number of nanoseconds; the clock is sampled once by an operation and the sample is
  its argument \<open>now\<close>.  The entropy source and SHA-256 are the parameters \<open>fill\<close> and \<open>sha256\<close>.
\<close>

definition ENTROPY_ATTEMPTS :: nat where "ENTROPY_ATTEMPTS = 16"

datatype prompt_state_error = Unavailable | Invalid
datatype prompt_origin = OriginUnspecified | OriginLocal | OriginRemote
datatype manager_error = InvalidLimits | OsRandomSourceFailed | OsRandomSourceInvalid

type_synonym connection_id = u64
type_synonym instant = nat
type_synonym duration = nat
type_synonym 's entropy_source = "'s \<Rightarrow> nat \<Rightarrow> bytes option \<times> 's"

text \<open>A \<open>Timespec\<close> holds its seconds in an \<open>i64\<close>; \<open>checked_add\<close> fails past it.\<close>

definition instant_checked_add :: "instant \<Rightarrow> duration \<Rightarrow> instant option" where
  "instant_checked_add now d = (if now + d < 2 ^ 63 * 1000000000 then Some (now + d) else None)"

definition from_millis :: "u64 \<Rightarrow> duration" where
  "from_millis ms = unat ms * 1000000"

record pending_binding =
  pb_connection :: connection_id
  pb_peer_uid :: u32
  pb_target :: canonical_identity
  pb_client_nonce :: bytes
  pb_pam_service :: str
  pb_origin :: prompt_origin
  pb_snapshot :: security_snapshot

record commit_binding =
  cb_connection :: connection_id
  cb_peer_uid :: u32
  cb_target :: canonical_identity
  cb_pam_service :: str
  cb_origin :: prompt_origin
  cb_snapshot :: security_snapshot

record provisional_record =
  prov_peer_uid :: u32
  prov_target :: canonical_identity

record pending_record =
  pr_connection_binding :: digest
  pr_peer_uid :: u32
  pr_target :: canonical_identity
  pr_nonce_binding :: digest
  pr_pam_service :: str
  pr_origin :: prompt_origin
  pr_snapshot :: security_snapshot
  pr_expires_at :: "instant option"
  pr_shutdown_waker :: "nat option"

datatype active_record =
  Claim (ar_control: nat) (ar_token_lookup: digest)
| Active (ar_control: nat) (ar_token_lookup: digest)

record 's manager_state =
  ms_entropy :: 's
  ms_instance_secret :: bytes
  ms_next_connection :: u64
  ms_issuance_counter :: u64
  ms_next_active :: u64
  ms_provisional :: "(digest, provisional_record) hashmap"
  ms_pending :: "(digest, pending_record) hashmap"
  ms_pending_by_connection :: "(digest, digest) hashmap"
  ms_active :: "(u64, active_record) hashmap"
  ms_terminal :: bool

record manager_inner =
  mi_prompt_timeout :: duration
  mi_active_timeout :: duration
  mi_commit_to_camera_timeout :: duration
  mi_max_pending_per_uid :: usize
  mi_max_pending_global :: usize
  mi_max_active :: usize

record active_control =
  ac_cancelled :: bool
  ac_deadline :: instant
  ac_camera_ready_deadline :: instant
  ac_resources :: "nat list"

record 's prompt_world =
  pw_state :: "'s manager_state"
  pw_poisoned :: bool
  pw_heap :: "active_control list"
  pw_signalled :: "nat list"
  pw_shut :: "nat list"

record begin_reservation =
  br_connection_binding :: digest
  br_armed :: bool

record pending_issue =
  pi_connection_binding :: digest
  pi_lookup :: "digest option"
  pi_token :: bytes

record commit_claim =
  cc_active_id :: "u64 option"
  cc_control :: nat
  cc_peer_uid :: u32
  cc_target :: canonical_identity
  cc_pam_service :: str
  cc_origin :: prompt_origin
  cc_snapshot :: security_snapshot

record active_lease =
  al_active_id :: "u64 option"
  al_control :: nat

type_synonym ('s, 'a) prompt_op = "'s prompt_world \<Rightarrow> (prompt_state_error + 'a) \<times> 's prompt_world"

subsection \<open>Active controls\<close>

definition active_control_new :: "instant \<Rightarrow> instant \<Rightarrow> active_control" where
  "active_control_new deadline camera_ready_deadline =
     \<lparr>ac_cancelled = False, ac_deadline = deadline,
      ac_camera_ready_deadline = camera_ready_deadline, ac_resources = []\<rparr>"

definition control_cancel :: "nat \<Rightarrow> 's prompt_world \<Rightarrow> bool \<times> 's prompt_world" where
  "control_cancel a w =
     (let c = pw_heap w ! a; changed = (\<not> ac_cancelled c)
      in (changed, w\<lparr>pw_heap := (pw_heap w)[a := c\<lparr>ac_cancelled := True\<rparr>],
                     pw_signalled := pw_signalled w @ ac_resources c\<rparr>))"

definition control_register_resource :: "nat \<Rightarrow> nat \<Rightarrow> 's prompt_world \<Rightarrow> 's prompt_world" where
  "control_register_resource a resource w =
     (let c = pw_heap w ! a
      in if ac_cancelled c then w\<lparr>pw_signalled := pw_signalled w @ [resource]\<rparr>
         else w\<lparr>pw_heap := (pw_heap w)[a := c\<lparr>ac_resources := ac_resources c @ [resource]\<rparr>]\<rparr>)"

definition control_is_cancelled :: "nat \<Rightarrow> 's prompt_world \<Rightarrow> bool" where
  "control_is_cancelled a w \<longleftrightarrow> ac_cancelled (pw_heap w ! a)"

text \<open>\<open>ActiveCancellation::is_cancelled\<close> and \<open>ActiveLease::check_deadline\<close> both first cancel a control
  whose deadline has passed.\<close>

definition cancellation_is_cancelled :: "nat \<Rightarrow> instant \<Rightarrow> 's prompt_world \<Rightarrow> bool \<times> 's prompt_world" where
  "cancellation_is_cancelled a now w =
     (let w' = (if ac_deadline (pw_heap w ! a) \<le> now then snd (control_cancel a w) else w)
      in (control_is_cancelled a w', w'))"

definition check_deadline :: "active_lease \<Rightarrow> instant \<Rightarrow> 's prompt_world \<Rightarrow> bool \<times> 's prompt_world" where
  "check_deadline l now w =
     (let w' = (if ac_deadline (pw_heap w ! al_control l) \<le> now
                then snd (control_cancel (al_control l) w) else w)
      in (control_is_cancelled (al_control l) w', w'))"

text \<open>
  \<open>wait_cancelled\<close> sleeps on the control's condition variable.  Its environment is the list of its
  wake-ups: what other threads did to the world before each, and the clock sample taken after it.
  The result is \<open>None\<close> while it is still waiting when the list ends.
\<close>

fun wait_loop ::
  "nat \<Rightarrow> (('s prompt_world \<Rightarrow> 's prompt_world) \<times> instant) list \<Rightarrow> 's prompt_world
   \<Rightarrow> 's prompt_world option" where
  "wait_loop a [] w = None"
| "wait_loop a ((others, now) # wakes) w =
     (let w = others w
      in if control_is_cancelled a w then Some w
         else if ac_deadline (pw_heap w ! a) - now = 0 then Some (snd (control_cancel a w))
         else wait_loop a wakes w)"

definition wait_cancelled ::
  "active_lease \<Rightarrow> (('s prompt_world \<Rightarrow> 's prompt_world) \<times> instant) list \<Rightarrow> 's prompt_world
   \<Rightarrow> 's prompt_world option" where
  "wait_cancelled l wakes w =
     (if control_is_cancelled (al_control l) w then Some w else wait_loop (al_control l) wakes w)"

subsection \<open>Table helpers\<close>

definition pending_total :: "'s manager_state \<Rightarrow> usize" where
  "pending_total st = saturating_add (length (ms_provisional st)) (length (ms_pending st))"

definition pending_for_uid :: "'s manager_state \<Rightarrow> u32 \<Rightarrow> usize" where
  "pending_for_uid st uid =
     saturating_add (length (filter (\<lambda>r. prov_peer_uid r = uid) (map snd (ms_provisional st))))
       (length (filter (\<lambda>r. pr_peer_uid r = uid) (map snd (ms_pending st))))"

definition remove_provisional :: "digest \<Rightarrow> 's manager_state \<Rightarrow> 's manager_state" where
  "remove_provisional connection st =
     st\<lparr>ms_provisional := hm_remove connection (ms_provisional st)\<rparr>"

definition remove_pending ::
  "digest \<Rightarrow> digest \<Rightarrow> 's manager_state \<Rightarrow> pending_record option \<times> 's manager_state" where
  "remove_pending connection lookup st =
     (let st1 = (if hm_get (ms_pending_by_connection st) connection = Some lookup
                 then st\<lparr>ms_pending_by_connection :=
                           hm_remove connection (ms_pending_by_connection st)\<rparr>
                 else st)
      in (hm_get (ms_pending st1) lookup,
          st1\<lparr>ms_pending := hm_remove lookup (ms_pending st1)\<rparr>))"

record fail_closed_cleanup =
  fc_controls :: "nat list"
  fc_shutdown_wakers :: "nat list"

definition fail_closed_locked :: "'s manager_state \<Rightarrow> fail_closed_cleanup \<times> 's manager_state" where
  "fail_closed_locked st =
     (\<lparr>fc_controls = map (ar_control \<circ> snd) (ms_active st),
       fc_shutdown_wakers = List.map_filter (pr_shutdown_waker \<circ> snd) (ms_pending st)\<rparr>,
      st\<lparr>ms_terminal := True, ms_provisional := [], ms_pending := [],
         ms_pending_by_connection := [], ms_active := []\<rparr>)"

definition run_cleanup :: "fail_closed_cleanup \<Rightarrow> 's prompt_world \<Rightarrow> 's prompt_world" where
  "run_cleanup cleanup w =
     fold (\<lambda>a w. snd (control_cancel a w)) (fc_controls cleanup)
       (w\<lparr>pw_shut := pw_shut w @ fc_shutdown_wakers cleanup\<rparr>)"

definition fail_closed :: "'s prompt_world \<Rightarrow> 's prompt_world" where
  "fail_closed w =
     (let (cleanup, st) = fail_closed_locked (pw_state w)
      in run_cleanup cleanup (w\<lparr>pw_state := st\<rparr>))"

definition lock_state :: "('s, 's manager_state) prompt_op" where
  "lock_state w =
     (if pw_poisoned w then (Inl Unavailable, fail_closed w)
      else if ms_terminal (pw_state w) then (Inl Unavailable, w)
      else (Inr (pw_state w), w))"

text \<open>What an operation does while it holds the guard, and the release of the guard.\<close>

definition locked ::
  "('s manager_state \<Rightarrow> (prompt_state_error + 'a) \<times> 's manager_state) \<Rightarrow> ('s, 'a) prompt_op" where
  "locked body w =
     (case lock_state w of
        (Inl e, w') \<Rightarrow> (Inl e, w')
      | (Inr st, w') \<Rightarrow> (let (r, st') = body st in (r, w'\<lparr>pw_state := st'\<rparr>)))"

subsection \<open>Randomness\<close>

fun generate_nonzero_loop ::
  "'s entropy_source \<Rightarrow> nat \<Rightarrow> 's \<Rightarrow> (manager_error + bytes) \<times> 's" where
  "generate_nonzero_loop fill 0 e = (Inl OsRandomSourceInvalid, e)"
| "generate_nonzero_loop fill (Suc n) e =
     (case fill e SECRET_BYTES of
        (None, e') \<Rightarrow> (Inl OsRandomSourceFailed, e')
      | (Some bs, e') \<Rightarrow>
          (let b = filled SECRET_BYTES bs
           in if \<exists>x \<in> set b. x \<noteq> 0 then (Inr b, e') else generate_nonzero_loop fill n e'))"

definition generate_nonzero :: "'s entropy_source \<Rightarrow> 's \<Rightarrow> (manager_error + bytes) \<times> 's" where
  "generate_nonzero fill e = generate_nonzero_loop fill ENTROPY_ATTEMPTS e"

definition lookup_of :: "hash \<Rightarrow> bytes \<Rightarrow> bytes \<Rightarrow> digest" where
  "lookup_of sha256 secret token = keyed_digest sha256 secret (ascii ''token-lookup-v2'') token"

fun generate_token_loop ::
  "hash \<Rightarrow> 's entropy_source \<Rightarrow> nat \<Rightarrow> 's manager_state
   \<Rightarrow> (prompt_state_error + bytes \<times> digest) \<times> 's manager_state" where
  "generate_token_loop sha256 fill 0 st = (Inl Unavailable, st)"
| "generate_token_loop sha256 fill (Suc n) st =
     (if ms_issuance_counter st = - 1 then (Inl Unavailable, st)
      else
        let counter = ms_issuance_counter st + 1;
            st = st\<lparr>ms_issuance_counter := counter\<rparr>
        in case generate_nonzero fill (ms_entropy st) of
             (Inl _, e) \<Rightarrow> (Inl Unavailable, st\<lparr>ms_entropy := e\<rparr>)
           | (Inr random, e) \<Rightarrow>
               (let st = st\<lparr>ms_entropy := e\<rparr>;
                    token = derive_token sha256 (ms_instance_secret st) counter random
                in if \<forall>b \<in> set token. b = 0 then generate_token_loop sha256 fill n st
                   else
                     let lookup = lookup_of sha256 (ms_instance_secret st) token
                     in if \<not> hm_contains (ms_pending st) lookup
                           \<and> \<not> (\<exists>p \<in> set (ms_active st). constant_time_eq (ar_token_lookup (snd p)) lookup)
                        then (Inr (token, lookup), st)
                        else generate_token_loop sha256 fill n st))"

definition generate_token ::
  "hash \<Rightarrow> 's entropy_source \<Rightarrow> 's manager_state
   \<Rightarrow> (prompt_state_error + bytes \<times> digest) \<times> 's manager_state" where
  "generate_token sha256 fill st = generate_token_loop sha256 fill ENTROPY_ATTEMPTS st"

subsection \<open>Manager operations\<close>

definition manager_new ::
  "'s entropy_source \<Rightarrow> 's \<Rightarrow> manager_inner \<Rightarrow> u64 \<Rightarrow> manager_error + 's prompt_world" where
  "manager_new fill e inner counter =
     (if mi_prompt_timeout inner = 0 \<or> mi_active_timeout inner = 0
         \<or> mi_commit_to_camera_timeout inner = 0 \<or> mi_max_pending_per_uid inner = 0
         \<or> mi_max_pending_global inner < mi_max_pending_per_uid inner \<or> mi_max_active inner = 0
      then Inl InvalidLimits
      else case generate_nonzero fill e of
             (Inl err, _) \<Rightarrow> Inl err
           | (Inr instance_secret, e') \<Rightarrow>
               Inr \<lparr>pw_state =
                      \<lparr>ms_entropy = e', ms_instance_secret = instance_secret,
                       ms_next_connection = 1, ms_issuance_counter = counter, ms_next_active = 1,
                       ms_provisional = [], ms_pending = [], ms_pending_by_connection = [],
                       ms_active = [], ms_terminal = False\<rparr>,
                    pw_poisoned = False, pw_heap = [], pw_signalled = [], pw_shut = []\<rparr>)"

definition production_inner :: "howy_config \<Rightarrow> duration \<Rightarrow> usize \<Rightarrow> manager_inner" where
  "production_inner config active_timeout max_active =
     \<lparr>mi_prompt_timeout = from_millis (prompt_timeout_ms (presence config)),
      mi_active_timeout = active_timeout,
      mi_commit_to_camera_timeout = from_millis (commit_to_camera_ms (presence config)),
      mi_max_pending_per_uid = unat (max_pending_per_uid (presence config)),
      mi_max_pending_global = unat (max_pending_global (presence config)),
      mi_max_active = max_active\<rparr>"

definition production ::
  "'s entropy_source \<Rightarrow> 's \<Rightarrow> howy_config \<Rightarrow> duration \<Rightarrow> usize \<Rightarrow> manager_error + 's prompt_world" where
  "production fill e config active_timeout max_active =
     manager_new fill e (production_inner config active_timeout max_active) 0"

definition new_connection :: "('s, connection_id) prompt_op" where
  "new_connection =
     locked (\<lambda>st.
       let value = ms_next_connection st
       in if value = - 1 then (Inl Unavailable, st)
          else (Inr value, st\<lparr>ms_next_connection := value + 1\<rparr>))"

definition reserve_begin ::
  "hash \<Rightarrow> manager_inner \<Rightarrow> connection_id \<Rightarrow> u32 \<Rightarrow> canonical_identity
   \<Rightarrow> ('s, begin_reservation) prompt_op" where
  "reserve_begin sha256 inner connection peer target =
     locked (\<lambda>st.
       let binding = connection_binding sha256 (ms_instance_secret st) connection
       in if hm_contains (ms_provisional st) binding
             \<or> hm_contains (ms_pending_by_connection st) binding
             \<or> mi_max_pending_global inner \<le> pending_total st
             \<or> mi_max_pending_per_uid inner \<le> pending_for_uid st peer
          then (Inl Unavailable, st)
          else (Inr \<lparr>br_connection_binding = binding, br_armed = True\<rparr>,
                st\<lparr>ms_provisional :=
                     hm_insert binding \<lparr>prov_peer_uid = peer, prov_target = target\<rparr>
                       (ms_provisional st)\<rparr>))"

definition nonce_binding_of :: "hash \<Rightarrow> bytes \<Rightarrow> bytes \<Rightarrow> digest" where
  "nonce_binding_of sha256 secret nonce = keyed_digest sha256 secret (ascii ''nonce-v2'') nonce"

definition issue_reserved ::
  "hash \<Rightarrow> 's entropy_source \<Rightarrow> digest \<Rightarrow> pending_binding \<Rightarrow> ('s, pending_issue) prompt_op" where
  "issue_reserved sha256 fill reserved binding =
     locked (\<lambda>st.
       let expected = connection_binding sha256 (ms_instance_secret st) (pb_connection binding)
       in if \<not> constant_time_eq reserved expected then (Inl Invalid, remove_provisional reserved st)
          else case hm_get (ms_provisional st) reserved of
            None \<Rightarrow> (Inl Invalid, st)
          | Some provisional \<Rightarrow>
              (let st = remove_provisional reserved st
               in if prov_peer_uid provisional \<noteq> pb_peer_uid binding
                     \<or> prov_target provisional \<noteq> pb_target binding then (Inl Invalid, st)
                  else case generate_token sha256 fill st of
                    (Inl e, st) \<Rightarrow> (Inl e, st)
                  | (Inr (token, lookup), st) \<Rightarrow>
                      (Inr \<lparr>pi_connection_binding = reserved, pi_lookup = Some lookup,
                            pi_token = token\<rparr>,
                       st\<lparr>ms_pending :=
                            hm_insert lookup
                              \<lparr>pr_connection_binding = reserved, pr_peer_uid = pb_peer_uid binding,
                               pr_target = prov_target provisional,
                               pr_nonce_binding =
                                 nonce_binding_of sha256 (ms_instance_secret st)
                                   (pb_client_nonce binding),
                               pr_pam_service = pb_pam_service binding,
                               pr_origin = pb_origin binding, pr_snapshot = pb_snapshot binding,
                               pr_expires_at = None, pr_shutdown_waker = None\<rparr>
                              (ms_pending st),
                          ms_pending_by_connection :=
                            hm_insert reserved lookup (ms_pending_by_connection st)\<rparr>)))"

definition activate_pending ::
  "manager_inner \<Rightarrow> instant \<Rightarrow> digest \<Rightarrow> digest \<Rightarrow> nat option \<Rightarrow> ('s, instant) prompt_op" where
  "activate_pending inner now connection lookup waker w =
     (case instant_checked_add now (mi_prompt_timeout inner) of
        None \<Rightarrow> (Inl Unavailable, w)
      | Some deadline \<Rightarrow>
          locked (\<lambda>st.
            if hm_get (ms_pending_by_connection st) connection \<noteq> Some lookup
            then (Inl Invalid, snd (remove_pending connection lookup st))
            else case hm_get (ms_pending st) lookup of
              None \<Rightarrow>
                (Inl Invalid,
                 st\<lparr>ms_pending_by_connection :=
                      hm_remove connection (ms_pending_by_connection st)\<rparr>)
            | Some rec \<Rightarrow>
                (let replaced = rec\<lparr>pr_expires_at := Some deadline\<rparr>
                 in if pr_expires_at rec \<noteq> None
                    then (Inl Invalid,
                          st\<lparr>ms_pending := hm_insert lookup replaced (ms_pending st)\<rparr>)
                    else (Inr deadline,
                          st\<lparr>ms_pending := hm_insert lookup
                               (replaced\<lparr>pr_shutdown_waker := waker\<rparr>) (ms_pending st)\<rparr>))) w)"

text \<open>
  The common beginning of \<open>claim_commit\<close> and \<open>cancel_pending\<close>: the supplied token must hash to the
  lookup the guard holds and the connection must own it, and the record leaves the table before
  anything else is checked.
\<close>

definition take_pending ::
  "hash \<Rightarrow> digest \<Rightarrow> digest \<Rightarrow> bytes \<Rightarrow> 's manager_state
   \<Rightarrow> pending_record option \<times> 's manager_state" where
  "take_pending sha256 connection expected token st =
     (let supplied = lookup_of sha256 (ms_instance_secret st) token;
          own = hm_get (ms_pending_by_connection st) connection
      in if own \<noteq> Some expected \<or> \<not> constant_time_eq supplied expected
         then (None, case own of None \<Rightarrow> st | Some l \<Rightarrow> snd (remove_pending connection l st))
         else remove_pending connection expected st)"

definition not_expired :: "pending_record \<Rightarrow> instant \<Rightarrow> bool" where
  "not_expired rec now \<longleftrightarrow> (case pr_expires_at rec of None \<Rightarrow> False | Some expiry \<Rightarrow> now < expiry)"

definition claim_commit ::
  "hash \<Rightarrow> manager_inner \<Rightarrow> instant \<Rightarrow> digest \<Rightarrow> digest \<Rightarrow> bytes \<Rightarrow> bytes \<Rightarrow> u32 \<Rightarrow> u32
   \<Rightarrow> ('s, commit_claim) prompt_op" where
  "claim_commit sha256 inner now connection expected token nonce peer target_uid w =
     (case lock_state w of
        (Inl e, w) \<Rightarrow> (Inl e, w)
      | (Inr st, w) \<Rightarrow>
          (case take_pending sha256 connection expected token st of
             (None, st) \<Rightarrow> (Inl Invalid, w\<lparr>pw_state := st\<rparr>)
           | (Some rec, st) \<Rightarrow>
               (let nonce_binding = nonce_binding_of sha256 (ms_instance_secret st) nonce;
                    active_id = ms_next_active st;
                    next = st\<lparr>ms_next_active := active_id + 1\<rparr>
                in if pr_connection_binding rec \<noteq> connection \<or> pr_peer_uid rec \<noteq> peer
                      \<or> ci_uid (pr_target rec) \<noteq> target_uid
                      \<or> \<not> constant_time_eq (pr_nonce_binding rec) nonce_binding
                      \<or> \<not> not_expired rec now
                   then (Inl Invalid, w\<lparr>pw_state := st\<rparr>)
                   else if mi_max_active inner \<le> length (ms_active st)
                   then (Inl Unavailable, w\<lparr>pw_state := st\<rparr>)
                   else if active_id = - 1 then (Inl Unavailable, w\<lparr>pw_state := st\<rparr>)
                   else case instant_checked_add now (mi_active_timeout inner) of
                     None \<Rightarrow> (Inl Unavailable, w\<lparr>pw_state := next\<rparr>)
                   | Some deadline \<Rightarrow>
                       (case instant_checked_add now (mi_commit_to_camera_timeout inner) of
                          None \<Rightarrow> (Inl Unavailable, w\<lparr>pw_state := next\<rparr>)
                        | Some ready \<Rightarrow>
                            (let control = length (pw_heap w)
                             in (Inr \<lparr>cc_active_id = Some active_id, cc_control = control,
                                      cc_peer_uid = pr_peer_uid rec, cc_target = pr_target rec,
                                      cc_pam_service = pr_pam_service rec,
                                      cc_origin = pr_origin rec, cc_snapshot = pr_snapshot rec\<rparr>,
                                 w\<lparr>pw_state := next\<lparr>ms_active :=
                                     hm_insert active_id (Claim control expected)
                                       (ms_active next)\<rparr>,
                                   pw_heap := pw_heap w
                                     @ [active_control_new deadline (min ready deadline)]\<rparr>))))))"

definition live_claim :: "u64 \<Rightarrow> instant \<Rightarrow> 's prompt_world \<Rightarrow> bool" where
  "live_claim active_id now w \<longleftrightarrow>
     (case hm_get (ms_active (pw_state w)) active_id of
        Some (Claim control _) \<Rightarrow>
          \<not> control_is_cancelled control w \<and> now < ac_deadline (pw_heap w ! control)
      | _ \<Rightarrow> False)"

definition promote_claim ::
  "instant \<Rightarrow> u64 \<Rightarrow> commit_claim \<Rightarrow> commit_binding \<Rightarrow> ('s, unit) prompt_op" where
  "promote_claim now active_id expected binding w =
     (case lock_state w of
        (Inl e, w) \<Rightarrow> (Inl e, w)
      | (Inr st, w) \<Rightarrow>
          (if \<not> (live_claim active_id now w
                  \<and> cc_peer_uid expected = cb_peer_uid binding
                  \<and> cc_target expected = cb_target binding
                  \<and> cc_pam_service expected = cb_pam_service binding
                  \<and> cc_origin expected = cb_origin binding
                  \<and> snapshot_eq (cc_snapshot expected) (cb_snapshot binding))
           then (Inl Invalid,
                 case hm_get (ms_active st) active_id of
                   None \<Rightarrow> w
                 | Some rec \<Rightarrow>
                     snd (control_cancel (ar_control rec)
                       (w\<lparr>pw_state := st\<lparr>ms_active := hm_remove active_id (ms_active st)\<rparr>\<rparr>)))
           else case hm_get (ms_active st) active_id of
             Some (Claim control token_lookup) \<Rightarrow>
               (Inr (), w\<lparr>pw_state := st\<lparr>ms_active :=
                  hm_insert active_id (Active control token_lookup) (ms_active st)\<rparr>\<rparr>)
           | _ \<Rightarrow> (Inl Invalid, w)))"

definition cancel_pending ::
  "hash \<Rightarrow> instant \<Rightarrow> digest \<Rightarrow> digest \<Rightarrow> bytes \<Rightarrow> bytes \<Rightarrow> u32 \<Rightarrow> u32 \<Rightarrow> ('s, unit) prompt_op" where
  "cancel_pending sha256 now connection expected token nonce peer target_uid =
     locked (\<lambda>st.
       case take_pending sha256 connection expected token st of
         (None, st) \<Rightarrow> (Inl Invalid, st)
       | (Some rec, st) \<Rightarrow>
           (if pr_peer_uid rec = peer \<and> ci_uid (pr_target rec) = target_uid
               \<and> constant_time_eq (pr_nonce_binding rec)
                   (nonce_binding_of sha256 (ms_instance_secret st) nonce)
               \<and> not_expired rec now
            then (Inr (), st) else (Inl Invalid, st)))"

definition release_provisional :: "digest \<Rightarrow> 's prompt_world \<Rightarrow> 's prompt_world" where
  "release_provisional connection w = snd (locked (\<lambda>st. (Inr (), remove_provisional connection st)) w)"

definition release_pending :: "digest \<Rightarrow> digest \<Rightarrow> 's prompt_world \<Rightarrow> 's prompt_world" where
  "release_pending connection lookup w =
     snd (locked (\<lambda>st. (Inr (), snd (remove_pending connection lookup st))) w)"

definition release_active :: "u64 \<Rightarrow> 's prompt_world \<Rightarrow> 's prompt_world" where
  "release_active active_id w =
     snd (locked (\<lambda>st. (Inr (), st\<lparr>ms_active := hm_remove active_id (ms_active st)\<rparr>)) w)"

definition shutdown :: "'s prompt_world \<Rightarrow> 's prompt_world" where
  "shutdown w = fail_closed w"

definition is_terminated :: "'s prompt_world \<Rightarrow> bool \<times> 's prompt_world" where
  "is_terminated w = (let (r, w') = lock_state w in (isl r, w'))"

subsection \<open>Guards\<close>

text \<open>The methods that take \<open>self\<close> end with the drop of what is left of the guard.\<close>

definition drop_begin_reservation :: "begin_reservation \<Rightarrow> 's prompt_world \<Rightarrow> 's prompt_world" where
  "drop_begin_reservation g w =
     (if br_armed g then release_provisional (br_connection_binding g) w else w)"

definition begin_reservation_issue ::
  "hash \<Rightarrow> 's entropy_source \<Rightarrow> begin_reservation \<Rightarrow> pending_binding \<Rightarrow> ('s, pending_issue) prompt_op" where
  "begin_reservation_issue sha256 fill g binding w =
     (let g = g\<lparr>br_armed := False\<rparr>;
          (r, w) = issue_reserved sha256 fill (br_connection_binding g) binding w
      in (r, drop_begin_reservation g w))"

definition drop_pending_issue :: "pending_issue \<Rightarrow> 's prompt_world \<Rightarrow> 's prompt_world" where
  "drop_pending_issue g w =
     (case pi_lookup g of None \<Rightarrow> w
      | Some lookup \<Rightarrow> release_pending (pi_connection_binding g) lookup w)"

definition activate_with_waker ::
  "manager_inner \<Rightarrow> instant \<Rightarrow> pending_issue \<Rightarrow> nat option \<Rightarrow> ('s, instant) prompt_op" where
  "activate_with_waker inner now g waker w =
     (case pi_lookup g of
        None \<Rightarrow> (Inl Invalid, w)
      | Some lookup \<Rightarrow> activate_pending inner now (pi_connection_binding g) lookup waker w)"

definition pending_issue_claim_commit ::
  "hash \<Rightarrow> manager_inner \<Rightarrow> instant \<Rightarrow> pending_issue \<Rightarrow> bytes \<Rightarrow> bytes \<Rightarrow> u32 \<Rightarrow> u32
   \<Rightarrow> ('s, commit_claim) prompt_op" where
  "pending_issue_claim_commit sha256 inner now g token nonce peer target_uid w =
     (case pi_lookup g of
        None \<Rightarrow> (Inl Invalid, drop_pending_issue g w)
      | Some lookup \<Rightarrow>
          (let g = g\<lparr>pi_lookup := None\<rparr>;
               (r, w) = claim_commit sha256 inner now (pi_connection_binding g) lookup token nonce
                          peer target_uid w
           in (r, drop_pending_issue g w)))"

definition pending_issue_cancel ::
  "hash \<Rightarrow> instant \<Rightarrow> pending_issue \<Rightarrow> bytes \<Rightarrow> bytes \<Rightarrow> u32 \<Rightarrow> u32 \<Rightarrow> ('s, unit) prompt_op" where
  "pending_issue_cancel sha256 now g token nonce peer target_uid w =
     (case pi_lookup g of
        None \<Rightarrow> (Inl Invalid, drop_pending_issue g w)
      | Some lookup \<Rightarrow>
          (let g = g\<lparr>pi_lookup := None\<rparr>;
               (r, w) = cancel_pending sha256 now (pi_connection_binding g) lookup token nonce
                          peer target_uid w
           in (r, drop_pending_issue g w)))"

definition drop_commit_claim :: "commit_claim \<Rightarrow> 's prompt_world \<Rightarrow> 's prompt_world" where
  "drop_commit_claim g w =
     (case cc_active_id g of None \<Rightarrow> w
      | Some active_id \<Rightarrow> release_active active_id (snd (control_cancel (cc_control g) w)))"

definition commit_claim_promote ::
  "instant \<Rightarrow> commit_claim \<Rightarrow> commit_binding \<Rightarrow> ('s, active_lease) prompt_op" where
  "commit_claim_promote now g binding w =
     (case cc_active_id g of
        None \<Rightarrow> (Inl Invalid, drop_commit_claim g w)
      | Some active_id \<Rightarrow>
          (case promote_claim now active_id g binding w of
             (Inl e, w) \<Rightarrow> (Inl e, drop_commit_claim g w)
           | (Inr _, w) \<Rightarrow>
               (Inr \<lparr>al_active_id = Some active_id, al_control = cc_control g\<rparr>,
                drop_commit_claim (g\<lparr>cc_active_id := None\<rparr>) w)))"

definition drop_active_lease :: "active_lease \<Rightarrow> 's prompt_world \<Rightarrow> 's prompt_world" where
  "drop_active_lease g w =
     (let w = snd (control_cancel (al_control g) w)
      in case al_active_id g of None \<Rightarrow> w | Some active_id \<Rightarrow> release_active active_id w)"

end
