(* ===== verification/PromptSystem.thy ===== *)
theory PromptSystem
  imports PromptState "HOL-Library.Multiset"
begin

section \<open>The prompt manager and its clients\<close>

text \<open>
  All programs over the prompt manager.  A \<open>prompt_system\<close> is the manager's world together with the
  guards its clients hold; a step is one call on a held guard (or on the manager), and Rust's move
  semantics is the removal of a consumed guard from the multiset it was in.  The log is a ghost
  history of the calls that matter for authorization.  The central invariant says that the
  manager's four tables are exactly the guards held, so no reservation, token or active slot
  outlives its guard, and none is lost while its guard lives.
\<close>

datatype prompt_event =
  Issued (ev_lookup: digest) (ev_token: bytes) pending_binding
| Activated (ev_lookup: digest) instant
| Claimed commit_claim (ev_lookup: digest) (ev_token: bytes) bytes u32 u32 instant
| Promoted commit_claim commit_binding instant
| Registered nat nat

record 's prompt_system =
  sys_world :: "'s prompt_world"
  sys_connections :: "connection_id list"
  sys_reservations :: "begin_reservation multiset"
  sys_issues :: "pending_issue multiset"
  sys_claims :: "commit_claim multiset"
  sys_leases :: "active_lease multiset"
  sys_log :: "prompt_event list"

definition system_new :: "'s prompt_world \<Rightarrow> 's prompt_system" where
  "system_new w =
     \<lparr>sys_world = w, sys_connections = [], sys_reservations = {#}, sys_issues = {#},
      sys_claims = {#}, sys_leases = {#}, sys_log = []\<rparr>"

fun add_ok :: "'e + 'a \<Rightarrow> 'a multiset \<Rightarrow> 'a multiset" where
  "add_ok (Inl _) M = M"
| "add_ok (Inr x) M = add_mset x M"

fun log_ok :: "('a \<Rightarrow> prompt_event) \<Rightarrow> 'e + 'a \<Rightarrow> prompt_event list \<Rightarrow> prompt_event list" where
  "log_ok f (Inl _) es = es"
| "log_ok f (Inr x) es = f x # es"

fun issued_event :: "pending_binding \<Rightarrow> pending_issue \<Rightarrow> prompt_event" where
  "issued_event b g = Issued (the (pi_lookup g)) (pi_token g) b"

inductive prompt_step ::
  "hash \<Rightarrow> 's entropy_source \<Rightarrow> manager_inner \<Rightarrow> 's prompt_system \<Rightarrow> 's prompt_system \<Rightarrow> bool"
  for sha256 fill inner where
  connect:
    "new_connection (sys_world s) = (r, w) \<Longrightarrow>
     prompt_step sha256 fill inner s
       (s\<lparr>sys_world := w,
          sys_connections := (case r of Inl _ \<Rightarrow> sys_connections s | Inr c \<Rightarrow> c # sys_connections s)\<rparr>)"
| reserve:
    "reserve_begin sha256 inner connection peer target (sys_world s) = (r, w) \<Longrightarrow>
     prompt_step sha256 fill inner s
       (s\<lparr>sys_world := w, sys_reservations := add_ok r (sys_reservations s)\<rparr>)"
| drop_reservation:
    "sys_reservations s = add_mset g R \<Longrightarrow>
     prompt_step sha256 fill inner s
       (s\<lparr>sys_world := drop_begin_reservation g (sys_world s), sys_reservations := R\<rparr>)"
| issue:
    "sys_reservations s = add_mset g R \<Longrightarrow>
     begin_reservation_issue sha256 fill g b (sys_world s) = (r, w) \<Longrightarrow>
     prompt_step sha256 fill inner s
       (s\<lparr>sys_world := w, sys_reservations := R, sys_issues := add_ok r (sys_issues s),
          sys_log := log_ok (issued_event b) r (sys_log s)\<rparr>)"
| activate:
    "g \<in># sys_issues s \<Longrightarrow>
     activate_with_waker inner now g waker (sys_world s) = (r, w) \<Longrightarrow>
     prompt_step sha256 fill inner s
       (s\<lparr>sys_world := w, sys_log := Activated (the (pi_lookup g)) now # sys_log s\<rparr>)"
| claim:
    "sys_issues s = add_mset g I \<Longrightarrow>
     pending_issue_claim_commit sha256 inner now g token nonce peer target_uid (sys_world s) = (r, w) \<Longrightarrow>
     prompt_step sha256 fill inner s
       (s\<lparr>sys_world := w, sys_issues := I, sys_claims := add_ok r (sys_claims s),
          sys_log := log_ok (\<lambda>c. Claimed c (the (pi_lookup g)) token nonce peer target_uid now) r (sys_log s)\<rparr>)"
| cancel_issue:
    "sys_issues s = add_mset g I \<Longrightarrow>
     pending_issue_cancel sha256 now g token nonce peer target_uid (sys_world s) = (r, w) \<Longrightarrow>
     prompt_step sha256 fill inner s (s\<lparr>sys_world := w, sys_issues := I\<rparr>)"
| drop_issue:
    "sys_issues s = add_mset g I \<Longrightarrow>
     prompt_step sha256 fill inner s
       (s\<lparr>sys_world := drop_pending_issue g (sys_world s), sys_issues := I\<rparr>)"
| promote:
    "sys_claims s = add_mset g C \<Longrightarrow>
     commit_claim_promote now g b (sys_world s) = (r, w) \<Longrightarrow>
     prompt_step sha256 fill inner s
       (s\<lparr>sys_world := w, sys_claims := C, sys_leases := add_ok r (sys_leases s),
          sys_log := log_ok (\<lambda>_. Promoted g b now) r (sys_log s)\<rparr>)"
| drop_claim:
    "sys_claims s = add_mset g C \<Longrightarrow>
     prompt_step sha256 fill inner s
       (s\<lparr>sys_world := drop_commit_claim g (sys_world s), sys_claims := C\<rparr>)"
| cancel_control:
    "a < length (pw_heap (sys_world s)) \<Longrightarrow>
     prompt_step sha256 fill inner s (s\<lparr>sys_world := snd (control_cancel a (sys_world s))\<rparr>)"
| poll_control:
    "a < length (pw_heap (sys_world s)) \<Longrightarrow>
     prompt_step sha256 fill inner s
       (s\<lparr>sys_world := snd (cancellation_is_cancelled a now (sys_world s))\<rparr>)"
| check_lease:
    "g \<in># sys_leases s \<Longrightarrow>
     prompt_step sha256 fill inner s (s\<lparr>sys_world := snd (check_deadline g now (sys_world s))\<rparr>)"
| register:
    "a < length (pw_heap (sys_world s)) \<Longrightarrow>
     prompt_step sha256 fill inner s
       (s\<lparr>sys_world := control_register_resource a resource (sys_world s),
          sys_log := Registered a resource # sys_log s\<rparr>)"
| drop_lease:
    "sys_leases s = add_mset g L \<Longrightarrow>
     prompt_step sha256 fill inner s
       (s\<lparr>sys_world := drop_active_lease g (sys_world s), sys_leases := L\<rparr>)"
| stop:
    "prompt_step sha256 fill inner s (s\<lparr>sys_world := shutdown (sys_world s)\<rparr>)"
| poll_terminated:
    "prompt_step sha256 fill inner s (s\<lparr>sys_world := snd (is_terminated (sys_world s))\<rparr>)"
| poison:
    "prompt_step sha256 fill inner s
       (s\<lparr>sys_world := (sys_world s)\<lparr>pw_poisoned := True\<rparr>\<rparr>)"

inductive prompt_reachable ::
  "hash \<Rightarrow> 's entropy_source \<Rightarrow> manager_inner \<Rightarrow> 's prompt_system \<Rightarrow> bool"
  for sha256 fill inner where
  start: "manager_new fill e inner counter = Inr w \<Longrightarrow> prompt_reachable sha256 fill inner (system_new w)"
| step:
    "prompt_reachable sha256 fill inner s \<Longrightarrow> prompt_step sha256 fill inner s s' \<Longrightarrow>
     prompt_reachable sha256 fill inner s'"

subsection \<open>Controls and failing closed\<close>

lemma control_cancel_simps [simp]:
  "pw_state (snd (control_cancel a w)) = pw_state w"
  "pw_poisoned (snd (control_cancel a w)) = pw_poisoned w"
  "pw_shut (snd (control_cancel a w)) = pw_shut w"
  "length (pw_heap (snd (control_cancel a w))) = length (pw_heap w)"
  by (simp_all add: control_cancel_def Let_def)

lemma control_cancel_nth:
  "b < length (pw_heap w) \<Longrightarrow>
   pw_heap (snd (control_cancel a w)) ! b =
     (if b = a then (pw_heap w ! b)\<lparr>ac_cancelled := True\<rparr> else pw_heap w ! b)"
  by (auto simp: control_cancel_def Let_def nth_list_update)

abbreviation cancel_all :: "nat list \<Rightarrow> 's prompt_world \<Rightarrow> 's prompt_world" where
  "cancel_all \<equiv> fold (\<lambda>a w. snd (control_cancel a w))"

lemma cancel_all_simps [simp]:
  "pw_state (cancel_all as w) = pw_state w"
  "pw_poisoned (cancel_all as w) = pw_poisoned w"
  "pw_shut (cancel_all as w) = pw_shut w"
  "length (pw_heap (cancel_all as w)) = length (pw_heap w)"
  by (induction as arbitrary: w) simp_all

lemma cancel_all_nth:
  "b < length (pw_heap w) \<Longrightarrow>
   pw_heap (cancel_all as w) ! b =
     (if b \<in> set as then (pw_heap w ! b)\<lparr>ac_cancelled := True\<rparr> else pw_heap w ! b)"
  by (induction as arbitrary: w) (auto simp: control_cancel_nth)

lemma fail_closed_simps [simp]:
  "pw_state (fail_closed w) = snd (fail_closed_locked (pw_state w))"
  "pw_poisoned (fail_closed w) = pw_poisoned w"
  "length (pw_heap (fail_closed w)) = length (pw_heap w)"
  by (simp_all add: fail_closed_def fail_closed_locked_def run_cleanup_def)

lemma fail_closed_nth:
  "b < length (pw_heap w) \<Longrightarrow>
   pw_heap (fail_closed w) ! b =
     (if b \<in> ar_control ` snd ` set (ms_active (pw_state w))
      then (pw_heap w ! b)\<lparr>ac_cancelled := True\<rparr> else pw_heap w ! b)"
  by (auto simp: fail_closed_def fail_closed_locked_def run_cleanup_def cancel_all_nth image_image)

text \<open>The three ways a locked operation runs.\<close>

lemma locked_cases:
  assumes "locked body w = (r, w')"
  obtains (poisoned) "pw_poisoned w" "r = Inl Unavailable" "w' = fail_closed w"
  | (terminal) "\<not> pw_poisoned w" "ms_terminal (pw_state w)" "r = Inl Unavailable" "w' = w"
  | (opened) st' where "\<not> pw_poisoned w" "\<not> ms_terminal (pw_state w)"
      "body (pw_state w) = (r, st')" "w' = w\<lparr>pw_state := st'\<rparr>"
  using assms by (auto simp: locked_def lock_state_def split: if_splits prod.splits)

lemma locked_poisoned: "pw_poisoned w \<Longrightarrow> locked body w = (Inl Unavailable, fail_closed w)"
  and locked_terminal:
    "\<not> pw_poisoned w \<Longrightarrow> ms_terminal (pw_state w) \<Longrightarrow> locked body w = (Inl Unavailable, w)"
  and locked_opened:
    "\<not> pw_poisoned w \<Longrightarrow> \<not> ms_terminal (pw_state w) \<Longrightarrow>
     locked body w = (fst (body (pw_state w)), w\<lparr>pw_state := snd (body (pw_state w))\<rparr>)"
  by (simp_all add: locked_def lock_state_def split: prod.splits)

lemmas locked_run = locked_poisoned locked_terminal locked_opened

end
