(* ===== verification/PromptTables.thy ===== *)
theory PromptTables
  imports PromptSystem
begin

section \<open>The manager's tables are the guards held\<close>

text \<open>
  The invariant of the prompt manager and its preservation by every operation.  While the manager is
  open, its tables are in one-to-one correspondence with the guards its clients hold, the two
  pending tables are inverse to each other, the configured limits hold, and no token lookup is in
  two places; once it is terminal its tables are empty and every transaction still held is
  cancelled.
\<close>

definition reservation_key :: "begin_reservation \<Rightarrow> digest \<times> bool" where
  "reservation_key g = (br_connection_binding g, br_armed g)"

definition issue_key :: "pending_issue \<Rightarrow> digest \<times> digest option" where
  "issue_key g = (pi_connection_binding g, pi_lookup g)"

definition claim_key :: "commit_claim \<Rightarrow> u64 option \<times> nat \<times> bool" where
  "claim_key g = (cc_active_id g, cc_control g, True)"

definition lease_key :: "active_lease \<Rightarrow> u64 option \<times> nat \<times> bool" where
  "lease_key g = (al_active_id g, al_control g, False)"

definition pending_key :: "digest \<times> pending_record \<Rightarrow> digest \<times> digest option" where
  "pending_key p = (pr_connection_binding (snd p), Some (fst p))"

definition active_key :: "u64 \<times> active_record \<Rightarrow> u64 option \<times> nat \<times> bool" where
  "active_key p = (Some (fst p), ar_control (snd p), is_Claim (snd p))"

definition inverse_entry :: "digest \<times> pending_record \<Rightarrow> digest \<times> digest" where
  "inverse_entry p = (pr_connection_binding (snd p), fst p)"

definition limits_hold :: "manager_inner \<Rightarrow> 's manager_state \<Rightarrow> bool" where
  "limits_hold inner st \<longleftrightarrow>
     length (ms_provisional st) + length (ms_pending st) \<le> mi_max_pending_global inner
     \<and> (\<forall>uid. length (filter (\<lambda>p. prov_peer_uid (snd p) = uid) (ms_provisional st))
              + length (filter (\<lambda>p. pr_peer_uid (snd p) = uid) (ms_pending st))
              \<le> mi_max_pending_per_uid inner)
     \<and> length (ms_active st) \<le> mi_max_active inner"

definition tables_wf :: "'s manager_state \<Rightarrow> bool" where
  "tables_wf st \<longleftrightarrow>
     distinct (map fst (ms_provisional st) @ map fst (ms_pending_by_connection st))
     \<and> distinct (map fst (ms_pending st) @ map (ar_token_lookup \<circ> snd) (ms_active st))
     \<and> distinct (map fst (ms_active st))
     \<and> (\<forall>p \<in> set (ms_active st). fst p < ms_next_active st)
     \<and> (\<forall>l \<in> set (map fst (ms_pending st) @ map (ar_token_lookup \<circ> snd) (ms_active st)).
          length l = 32)
     \<and> mset (ms_pending_by_connection st) = image_mset inverse_entry (mset (ms_pending st))"

definition guards_match ::
  "'s manager_state \<Rightarrow> begin_reservation multiset \<Rightarrow> pending_issue multiset
   \<Rightarrow> commit_claim multiset \<Rightarrow> active_lease multiset \<Rightarrow> bool" where
  "guards_match st R I C L \<longleftrightarrow>
     image_mset reservation_key R = image_mset (\<lambda>p. (fst p, True)) (mset (ms_provisional st))
     \<and> image_mset issue_key I = image_mset pending_key (mset (ms_pending st))
     \<and> image_mset claim_key C + image_mset lease_key L = image_mset active_key (mset (ms_active st))"

definition tables_empty :: "'s manager_state \<Rightarrow> bool" where
  "tables_empty st \<longleftrightarrow>
     ms_provisional st = [] \<and> ms_pending st = [] \<and> ms_pending_by_connection st = []
     \<and> ms_active st = []"

definition prompt_inv ::
  "manager_inner \<Rightarrow> 's prompt_world \<Rightarrow> begin_reservation multiset \<Rightarrow> pending_issue multiset
   \<Rightarrow> commit_claim multiset \<Rightarrow> active_lease multiset \<Rightarrow> bool" where
  "prompt_inv inner w R I C L \<longleftrightarrow>
     (\<forall>g \<in># C. cc_control g < length (pw_heap w))
     \<and> (\<forall>g \<in># L. al_control g < length (pw_heap w))
     \<and> (if ms_terminal (pw_state w)
         then tables_empty (pw_state w)
              \<and> (\<forall>g \<in># C. control_is_cancelled (cc_control g) w)
              \<and> (\<forall>g \<in># L. control_is_cancelled (al_control g) w)
         else limits_hold inner (pw_state w) \<and> tables_wf (pw_state w)
              \<and> guards_match (pw_state w) R I C L)"

definition inner_wf :: "manager_inner \<Rightarrow> bool" where
  "inner_wf inner \<longleftrightarrow> mi_max_pending_per_uid inner \<le> usize_max \<and> mi_max_pending_global inner \<le> usize_max"

subsection \<open>Consequences of the match\<close>

lemma mset_remove1_key:
  assumes "distinct (map fst m)" and "(k, v) \<in> set m"
  shows "mset m = add_mset (k, v) (mset (hm_remove k m))"
proof -
  have "filter (\<lambda>p. fst p = k) m = [(k, v)]"
    using assms by (induction m) (auto simp: image_iff intro!: filter_False)
  moreover have "mset m = mset (filter (\<lambda>p. fst p = k) m) + mset (filter (\<lambda>p. fst p \<noteq> k) m)"
    unfolding mset_filter by (rule multiset_partition)
  ultimately show ?thesis by (simp add: hm_remove_filter del: mset_filter)
qed

lemma guards_match_reservation:
  assumes "guards_match st (add_mset g R) I C L"
  obtains p where "(br_connection_binding g, p) \<in> set (ms_provisional st)" and "br_armed g"
proof -
  have "reservation_key g \<in># image_mset reservation_key (add_mset g R)"
    by simp
  then have "reservation_key g \<in># image_mset (\<lambda>p. (fst p, True)) (mset (ms_provisional st))"
    using assms by (simp only: guards_match_def)
  then show ?thesis using that by (auto simp: reservation_key_def)
qed

lemma guards_match_issue:
  assumes "guards_match st R (add_mset g I) C L"
  obtains l rec where "pi_lookup g = Some l" and "(l, rec) \<in> set (ms_pending st)"
    and "pr_connection_binding rec = pi_connection_binding g"
proof -
  have "issue_key g \<in># image_mset issue_key (add_mset g I)"
    by simp
  then have "issue_key g \<in># image_mset pending_key (mset (ms_pending st))"
    using assms by (simp only: guards_match_def)
  then show ?thesis using that by (auto simp: issue_key_def pending_key_def)
qed

lemma guards_match_claim:
  assumes "guards_match st R I (add_mset g C) L"
  obtains i l where "cc_active_id g = Some i" and "(i, Claim (cc_control g) l) \<in> set (ms_active st)"
proof -
  have "claim_key g \<in># image_mset claim_key (add_mset g C) + image_mset lease_key L"
    by simp
  then have "claim_key g \<in># image_mset active_key (mset (ms_active st))"
    using assms by (simp only: guards_match_def)
  then obtain i r where "claim_key g = active_key (i, r)" and "(i, r) \<in> set (ms_active st)" by auto
  then show ?thesis using that by (cases r) (auto simp: claim_key_def active_key_def)
qed

lemma guards_match_lease:
  assumes "guards_match st R I C (add_mset g L)"
  obtains i l where "al_active_id g = Some i" and "(i, Active (al_control g) l) \<in> set (ms_active st)"
proof -
  have "lease_key g \<in># image_mset claim_key C + image_mset lease_key (add_mset g L)"
    by simp
  then have "lease_key g \<in># image_mset active_key (mset (ms_active st))"
    using assms by (simp only: guards_match_def)
  then obtain i r where "lease_key g = active_key (i, r)" and "(i, r) \<in> set (ms_active st)" by auto
  then show ?thesis using that by (cases r) (auto simp: lease_key_def active_key_def)
qed

subsection \<open>Changes that keep the invariant\<close>

lemma prompt_inv_state_only:
  assumes "prompt_inv inner w R I C L" and "\<not> ms_terminal (pw_state w)"
    and "\<not> ms_terminal st" and "limits_hold inner st" and "tables_wf st" and "guards_match st R' I' C L"
  shows "prompt_inv inner (w\<lparr>pw_state := st\<rparr>) R' I' C L"
  using assms by (simp add: prompt_inv_def)

lemma prompt_inv_weaken:
  assumes "prompt_inv inner w R I C L" and "ms_terminal (pw_state w)" and "C' \<subseteq># C" and "L' \<subseteq># L"
  shows "prompt_inv inner w R' I' C' L'"
  using assms by (auto simp: prompt_inv_def dest: mset_subset_eqD)

lemma prompt_inv_fail_closed:
  assumes inv: "prompt_inv inner w R I C L"
  shows "prompt_inv inner (fail_closed w) R' I' C L"
proof -
  have ctl: "control_is_cancelled b (fail_closed w) \<longleftrightarrow>
      control_is_cancelled b w \<or> b \<in> ar_control ` snd ` set (ms_active (pw_state w))"
    if "b < length (pw_heap w)" for b
    using that by (simp add: control_is_cancelled_def fail_closed_nth)
  have closed: "ms_terminal (pw_state (fail_closed w))" "tables_empty (pw_state (fail_closed w))"
    by (simp_all add: fail_closed_locked_def tables_empty_def)
  have C: "control_is_cancelled (cc_control g) (fail_closed w)" if g: "g \<in># C" for g
  proof (cases "ms_terminal (pw_state w)")
    case True
    with inv g show ?thesis by (simp add: prompt_inv_def ctl)
  next
    case False
    with inv have "guards_match (pw_state w) R I (add_mset g (C - {#g#})) L"
      using g by (simp add: prompt_inv_def)
    then obtain i l where "(i, Claim (cc_control g) l) \<in> set (ms_active (pw_state w))"
      by (rule guards_match_claim)
    with inv g show ?thesis by (force simp: prompt_inv_def ctl)
  qed
  have L: "control_is_cancelled (al_control g) (fail_closed w)" if g: "g \<in># L" for g
  proof (cases "ms_terminal (pw_state w)")
    case True
    with inv g show ?thesis by (simp add: prompt_inv_def ctl)
  next
    case False
    with inv have "guards_match (pw_state w) R I C (add_mset g (L - {#g#}))"
      using g by (simp add: prompt_inv_def)
    then obtain i l where "(i, Active (al_control g) l) \<in> set (ms_active (pw_state w))"
      by (rule guards_match_lease)
    with inv g show ?thesis by (force simp: prompt_inv_def ctl)
  qed
  show ?thesis using inv closed C L by (simp add: prompt_inv_def)
qed

lemma prompt_inv_control_cancel:
  assumes "prompt_inv inner w R I C L"
  shows "prompt_inv inner (snd (control_cancel a w)) R I C L"
  using assms by (auto simp: prompt_inv_def control_is_cancelled_def control_cancel_nth)

lemma prompt_inv_subset:
  assumes "prompt_inv inner w R I C L" and "ms_terminal (pw_state w)"
  shows "prompt_inv inner w R' I' C L"
  using assms by (rule prompt_inv_weaken) simp_all

subsection \<open>Table updates of an open manager\<close>

abbreviation open_inv ::
  "manager_inner \<Rightarrow> 's manager_state \<Rightarrow> begin_reservation multiset \<Rightarrow> pending_issue multiset
   \<Rightarrow> commit_claim multiset \<Rightarrow> active_lease multiset \<Rightarrow> bool" where
  "open_inv inner st R I C L \<equiv> limits_hold inner st \<and> tables_wf st \<and> guards_match st R I C L"

lemmas open_defs = limits_hold_def tables_wf_def guards_match_def

lemma tables_wf_unique:
  assumes "tables_wf st"
  shows "hm_inv (ms_provisional st)" and "hm_inv (ms_pending st)" and "hm_inv (ms_active st)"
    and "hm_inv (ms_pending_by_connection st)"
  using assms by (simp_all add: tables_wf_def hm_inv_def)

lemma length_filter_remove:
  assumes "distinct (map fst m)" and "(k, v) \<in> set m"
  shows "length (filter P m) = (if P (k, v) then 1 else 0) + length (filter P (hm_remove k m))"
proof -
  have "size (filter_mset P (mset m)) =
      (if P (k, v) then 1 else 0) + size (filter_mset P (mset (hm_remove k m)))"
    by (simp add: mset_remove1_key [OF assms])
  then show ?thesis by (simp flip: mset_filter)
qed

lemma length_remove_key:
  assumes "distinct (map fst m)" and "(k, v) \<in> set m"
  shows "length m = Suc (length (hm_remove k m))"
  using length_filter_remove [OF assms, of "\<lambda>_. True"] by simp

lemma set_remove_key: "set (hm_remove k m) = {p \<in> set m. fst p \<noteq> k}"
  by (auto simp: hm_remove_filter)

lemma map_fst_remove: "map fst (hm_remove k m) = filter (\<lambda>j. j \<noteq> k) (map fst m)"
  by (simp add: hm_remove_filter filter_map comp_def)

lemma not_in_keys: "hm_get m k = None \<longleftrightarrow> k \<notin> fst ` set m"
  by (rule map_of_eq_None_iff)

lemma open_reserve:
  assumes inv: "open_inv inner st R I C L" and wf: "inner_wf inner"
    and free: "\<not> hm_contains (ms_provisional st) c" "\<not> hm_contains (ms_pending_by_connection st) c"
    and room: "pending_total st < mi_max_pending_global inner"
      "pending_for_uid st (prov_peer_uid v) < mi_max_pending_per_uid inner"
  shows "open_inv inner (st\<lparr>ms_provisional := hm_insert c v (ms_provisional st)\<rparr>)
           (add_mset \<lparr>br_connection_binding = c, br_armed = True\<rparr> R) I C L"
proof -
  have new: "hm_insert c v (ms_provisional st) = ms_provisional st @ [(c, v)]"
    using free by (simp add: hm_contains_def hm_insert_fresh)
  have keys: "c \<notin> fst ` set (ms_provisional st)" "c \<notin> fst ` set (ms_pending_by_connection st)"
    using free by (simp_all add: hm_contains_def not_in_keys)
  have "length (ms_provisional st) + length (ms_pending st) < mi_max_pending_global inner"
    using room(1) wf by (simp add: pending_total_def saturating_add_def inner_wf_def min_def split: if_splits)
  moreover have "length (filter (\<lambda>p. prov_peer_uid (snd p) = prov_peer_uid v) (ms_provisional st))
      + length (filter (\<lambda>p. pr_peer_uid (snd p) = prov_peer_uid v) (ms_pending st))
      < mi_max_pending_per_uid inner"
    using room(2) wf
    by (simp add: pending_for_uid_def saturating_add_def inner_wf_def min_def filter_map comp_def
        split: if_splits)
  ultimately have "limits_hold inner (st\<lparr>ms_provisional := ms_provisional st @ [(c, v)]\<rparr>)"
    using inv by (auto simp: limits_hold_def)
  then show ?thesis
    using inv keys unfolding new by (auto simp: tables_wf_def guards_match_def reservation_key_def)
qed

lemma open_remove_provisional:
  assumes inv: "open_inv inner st (add_mset g R) I C L"
  shows "open_inv inner (remove_provisional (br_connection_binding g) st) R I C L"
proof -
  obtain p where p: "(br_connection_binding g, p) \<in> set (ms_provisional st)" and "br_armed g"
    using inv by (auto elim: guards_match_reservation)
  have d: "distinct (map fst (ms_provisional st))" using inv by (simp add: tables_wf_def)
  have "image_mset reservation_key R =
      image_mset (\<lambda>p. (fst p, True)) (mset (hm_remove (br_connection_binding g) (ms_provisional st)))"
    using inv \<open>br_armed g\<close>
    by (simp add: guards_match_def mset_remove1_key [OF d p] reservation_key_def)
  moreover have "limits_hold inner (remove_provisional (br_connection_binding g) st)"
    using inv unfolding limits_hold_def remove_provisional_def
    by (auto simp: length_remove_key [OF d p] length_filter_remove [OF d p])
       (meson add_leD1 add_leD2 add_le_mono le_trans le_add2 order_refl)
  ultimately show ?thesis
    using inv by (auto simp: tables_wf_def guards_match_def remove_provisional_def map_fst_remove)
qed

lemma generate_token_loop_tables:
  "generate_token_loop sha256 fill n st = (r, st') \<Longrightarrow>
     st' = st\<lparr>ms_entropy := ms_entropy st', ms_issuance_counter := ms_issuance_counter st'\<rparr>"
proof (induction n arbitrary: st)
  case (Suc n)
  show ?case
    using Suc.prems Suc.IH by (auto simp: Let_def split: if_splits prod.splits sum.splits) fastforce+
qed simp

lemma generate_token_loop_fresh:
  "generate_token_loop sha256 fill n st = (Inr (token, l), st') \<Longrightarrow>
     l = lookup_of sha256 (ms_instance_secret st) token \<and> l \<notin> fst ` set (ms_pending st)
     \<and> (\<forall>p \<in> set (ms_active st). \<not> constant_time_eq (ar_token_lookup (snd p)) l)"
proof (induction n arbitrary: st)
  case (Suc n)
  show ?case
    using Suc.prems
    by (auto simp: Let_def hm_contains_def not_in_keys split: if_splits prod.splits sum.splits
        dest!: Suc.IH)
qed simp

lemma length_lookup_of [simp]: "length (lookup_of sha256 secret token) = 32"
  by (simp add: lookup_of_def)

lemma generate_token_fresh:
  assumes "generate_token sha256 fill st = (Inr (token, l), st')" and "tables_wf st"
  shows "l = lookup_of sha256 (ms_instance_secret st) token" and "l \<notin> fst ` set (ms_pending st)"
    and "l \<notin> (ar_token_lookup \<circ> snd) ` set (ms_active st)"
proof -
  note fresh = generate_token_loop_fresh [OF assms(1) [unfolded generate_token_def]]
  then show "l = lookup_of sha256 (ms_instance_secret st) token" "l \<notin> fst ` set (ms_pending st)"
    by blast+
  have "length (ar_token_lookup (snd p)) = 32" if "p \<in> set (ms_active st)" for p
    using assms(2) that by (auto simp: tables_wf_def)
  with fresh show "l \<notin> (ar_token_lookup \<circ> snd) ` set (ms_active st)"
    by (auto simp: constant_time_eq_iff)
qed

lemma open_entropy:
  "open_inv inner (st\<lparr>ms_entropy := e, ms_issuance_counter := n\<rparr>) R I C L \<longleftrightarrow> open_inv inner st R I C L"
  by (simp add: open_defs)

text \<open>Turning a reservation into a pending token keeps the totals.\<close>

lemma open_issue:
  assumes inv: "open_inv inner st (add_mset g R) I C L"
    and c: "c = br_connection_binding g" and p: "hm_get (ms_provisional st) c = Some p"
    and rec: "pr_connection_binding rec = c" "pr_peer_uid rec = prov_peer_uid p"
    and l: "l \<notin> fst ` set (ms_pending st)" "l \<notin> (ar_token_lookup \<circ> snd) ` set (ms_active st)"
      "length l = 32"
    and h: "pi_connection_binding h = c" "pi_lookup h = Some l"
  shows "open_inv inner
           (st\<lparr>ms_provisional := hm_remove c (ms_provisional st),
               ms_pending := hm_insert l rec (ms_pending st),
               ms_pending_by_connection := hm_insert c l (ms_pending_by_connection st)\<rparr>)
           R (add_mset h I) C L" (is "open_inv inner ?st _ _ _ _")
proof -
  have m: "(c, p) \<in> set (ms_provisional st)" using p by (rule map_of_SomeD)
  have d: "distinct (map fst (ms_provisional st))" using inv by (simp add: tables_wf_def)
  have "fst ` set (ms_provisional st) \<inter> fst ` set (ms_pending_by_connection st) = {}"
    using inv by (simp add: tables_wf_def)
  with m have free: "c \<notin> fst ` set (ms_pending_by_connection st)" by (metis IntI empty_iff fst_conv imageI)
  have ins: "hm_insert l rec (ms_pending st) = ms_pending st @ [(l, rec)]"
    "hm_insert c l (ms_pending_by_connection st) = ms_pending_by_connection st @ [(c, l)]"
    using l(1) free by (simp_all add: hm_insert_fresh not_in_keys)
  have lim: "limits_hold inner st" using inv by simp
  have "length (filter (\<lambda>q. prov_peer_uid (snd q) = uid) (hm_remove c (ms_provisional st)))
      + length (filter (\<lambda>q. pr_peer_uid (snd q) = uid) (ms_pending st @ [(l, rec)]))
      \<le> mi_max_pending_per_uid inner" for uid
    using lim [unfolded limits_hold_def, THEN conjunct2, THEN conjunct1, rule_format, of uid] rec(2)
    by (simp add: length_filter_remove [OF d m] split: if_splits)
  with lim have "limits_hold inner ?st"
    unfolding limits_hold_def by (simp add: ins length_remove_key [OF d m])
  moreover have "tables_wf ?st"
    using inv l free rec unfolding tables_wf_def ins
    by (auto simp: map_fst_remove inverse_entry_def comp_def)
  moreover have "guards_match ?st R (add_mset h I) C L"
    using open_remove_provisional [OF inv] rec h unfolding guards_match_def ins
    by (simp add: remove_provisional_def c issue_key_def pending_key_def)
  ultimately show ?thesis by simp
qed

lemma inverse_lookup:
  assumes "tables_wf st" and "(l, rec) \<in> set (ms_pending st)"
  shows "hm_get (ms_pending_by_connection st) (pr_connection_binding rec) = Some l"
    and "hm_get (ms_pending st) l = Some rec"
proof -
  have "(pr_connection_binding rec, l) \<in># image_mset inverse_entry (mset (ms_pending st))"
    using assms(2) by (force simp: inverse_entry_def)
  then have "(pr_connection_binding rec, l) \<in> set (ms_pending_by_connection st)"
    using assms(1) by (metis tables_wf_def set_mset_mset)
  then show "hm_get (ms_pending_by_connection st) (pr_connection_binding rec) = Some l"
    using assms(1) by (simp add: hm_get_Some_in tables_wf_unique)
  show "hm_get (ms_pending st) l = Some rec"
    using assms by (simp add: hm_get_Some_in tables_wf_unique)
qed

lemma open_remove_pending:
  assumes inv: "open_inv inner st R (add_mset g I) C L" and g: "pi_lookup g = Some l"
  obtains rec where
    "remove_pending (pi_connection_binding g) l st =
       (Some rec, st\<lparr>ms_pending := hm_remove l (ms_pending st),
          ms_pending_by_connection :=
            hm_remove (pi_connection_binding g) (ms_pending_by_connection st)\<rparr>)"
    and "hm_get (ms_pending st) l = Some rec"
    and "hm_get (ms_pending_by_connection st) (pi_connection_binding g) = Some l"
    and "pr_connection_binding rec = pi_connection_binding g"
    and "open_inv inner (snd (remove_pending (pi_connection_binding g) l st)) R I C L"
proof -
  obtain rec where m: "(l, rec) \<in> set (ms_pending st)"
    and c: "pr_connection_binding rec = pi_connection_binding g"
    using inv g by (auto elim: guards_match_issue)
  have wf: "tables_wf st" using inv by simp
  note get = inverse_lookup [OF wf m, unfolded c]
  have d: "distinct (map fst (ms_pending st))" and dc: "distinct (map fst (ms_pending_by_connection st))"
    using wf by (simp_all add: tables_wf_def)
  have mc: "(pi_connection_binding g, l) \<in> set (ms_pending_by_connection st)"
    using get(1) by (rule map_of_SomeD)
  have eq: "remove_pending (pi_connection_binding g) l st =
      (Some rec, st\<lparr>ms_pending := hm_remove l (ms_pending st),
         ms_pending_by_connection :=
           hm_remove (pi_connection_binding g) (ms_pending_by_connection st)\<rparr>)" (is "_ = (_, ?st)")
    using get by (simp add: remove_pending_def)
  have "limits_hold inner ?st"
    using inv unfolding limits_hold_def
    by (auto simp: length_remove_key [OF d m] length_filter_remove [OF d m])
       (meson add_leD1 add_leD2 add_le_mono le_trans le_add2 order_refl)
  moreover have "tables_wf ?st"
    using wf unfolding tables_wf_def
    by (auto simp: map_fst_remove set_remove_key mset_remove1_key [OF d m]
        mset_remove1_key [OF dc mc] inverse_entry_def c)
  moreover have "guards_match ?st R I C L"
    using inv g by (simp add: guards_match_def mset_remove1_key [OF d m] issue_key_def pending_key_def c)
  ultimately show ?thesis using that [OF eq get(2) get(1) c] eq by simp
qed

lemma mset_update_key:
  assumes "distinct (map fst m)" and "(k, v) \<in> set m"
  shows "mset (hm_insert k u m) = add_mset (k, u) (mset (hm_remove k m))"
proof -
  have "distinct (map fst (hm_insert k u m))" using assms(1) by (rule distinct_update)
  moreover have "(k, u) \<in> set (hm_insert k u m)" by (simp add: map_of_SomeD)
  moreover have "hm_remove k (hm_insert k u m) = hm_remove k m" by (induction m) auto
  ultimately show ?thesis using mset_remove1_key [of "hm_insert k u m" k u] by simp
qed

lemma open_update_pending:
  assumes inv: "open_inv inner st R I C L" and get: "hm_get (ms_pending st) l = Some rec"
    and same: "pr_connection_binding rec' = pr_connection_binding rec" "pr_peer_uid rec' = pr_peer_uid rec"
  shows "open_inv inner (st\<lparr>ms_pending := hm_insert l rec' (ms_pending st)\<rparr>) R I C L"
    (is "open_inv _ ?st _ _ _ _")
proof -
  have m: "(l, rec) \<in> set (ms_pending st)" using get by (rule map_of_SomeD)
  have d: "distinct (map fst (ms_pending st))" using inv by (simp add: tables_wf_def)
  note old = mset_remove1_key [OF d m] and new = mset_update_key [OF d m, of rec']
  have keys: "map fst (hm_insert l rec' (ms_pending st)) = map fst (ms_pending st)"
    using m by (force simp: update_keys)
  then have len: "length (hm_insert l rec' (ms_pending st)) = length (ms_pending st)"
    by (metis length_map)
  have "size (filter_mset (\<lambda>p. pr_peer_uid (snd p) = uid) (mset (hm_insert l rec' (ms_pending st)))) =
      size (filter_mset (\<lambda>p. pr_peer_uid (snd p) = uid) (mset (ms_pending st)))" for uid
    by (simp add: old new same)
  then have "limits_hold inner ?st"
    using inv by (simp add: limits_hold_def len flip: mset_filter)
  moreover have "tables_wf ?st"
    using inv by (simp add: tables_wf_def keys new old inverse_entry_def same del: map_update)
  moreover have "guards_match ?st R I C L"
    using inv by (simp add: guards_match_def new old pending_key_def same)
  ultimately show ?thesis by simp
qed

lemma open_claim:
  assumes inv: "open_inv inner st R I C L" and room: "length (ms_active st) < mi_max_active inner"
    and i: "i = ms_next_active st" "i \<noteq> - 1"
    and l: "l \<notin> fst ` set (ms_pending st)" "l \<notin> (ar_token_lookup \<circ> snd) ` set (ms_active st)"
      "length l = 32"
    and g: "cc_active_id g = Some i" "cc_control g = a"
  shows "open_inv inner
           (st\<lparr>ms_next_active := i + 1, ms_active := hm_insert i (Claim a l) (ms_active st)\<rparr>)
           R I (add_mset g C) L" (is "open_inv _ ?st _ _ _ _")
proof -
  have old: "fst p < i" if "p \<in> set (ms_active st)" for p
    using inv that i by (simp add: tables_wf_def)
  then have new: "hm_insert i (Claim a l) (ms_active st) = ms_active st @ [(i, Claim a l)]"
    by (intro hm_insert_fresh) (auto simp: not_in_keys)
  have lt: "i < i + 1" using i(2) by (rule word_less_increment)
  have bound: "\<forall>p \<in> set (ms_active st). fst p < i + 1" using old lt by fastforce
  have key: "i \<notin> fst ` set (ms_active st)" using old by auto
  have wf: "tables_wf st" using inv by simp
  have "tables_wf ?st"
    using wf l lt bound key by (simp add: tables_wf_def new Ball_def)
  moreover have "limits_hold inner ?st" using inv room by (simp add: limits_hold_def new)
  moreover have "guards_match ?st R I (add_mset g C) L"
    using inv g by (simp add: guards_match_def new claim_key_def active_key_def)
  ultimately show ?thesis by simp
qed

lemma open_remove_active:
  assumes inv: "open_inv inner st R I C' L'" and m: "(i, r) \<in> set (ms_active st)"
    and guard: "image_mset claim_key C' + image_mset lease_key L' =
      add_mset (active_key (i, r)) (image_mset claim_key C + image_mset lease_key L)"
  shows "open_inv inner (st\<lparr>ms_active := hm_remove i (ms_active st)\<rparr>) R I C L"
proof -
  have d: "distinct (map fst (ms_active st))" using inv by (simp add: tables_wf_def)
  have wf: "tables_wf st" using inv by simp
  have "distinct (map (ar_token_lookup \<circ> snd) (hm_remove i (ms_active st)))"
    using wf unfolding hm_remove_filter by (intro distinct_map_filter) (simp add: tables_wf_def)
  moreover have "distinct (map fst (hm_remove i (ms_active st)))" by (simp add: d distinct_delete)
  ultimately have "tables_wf (st\<lparr>ms_active := hm_remove i (ms_active st)\<rparr>)"
    using wf by (auto simp: tables_wf_def set_remove_key)
  moreover have "guards_match (st\<lparr>ms_active := hm_remove i (ms_active st)\<rparr>) R I C L"
    using inv guard by (simp add: guards_match_def mset_remove1_key [OF d m])
  ultimately show ?thesis
    using inv length_remove_key [OF d m] by (simp add: limits_hold_def)
qed

lemma open_promote:
  assumes inv: "open_inv inner st R I (add_mset g C) L"
    and g: "cc_active_id g = Some i" and get: "hm_get (ms_active st) i = Some (Claim a l)"
  shows "open_inv inner (st\<lparr>ms_active := hm_insert i (Active a l) (ms_active st)\<rparr>) R I C
           (add_mset \<lparr>al_active_id = Some i, al_control = cc_control g\<rparr> L)"
    (is "open_inv _ ?st _ _ _ _")
proof -
  have m: "(i, Claim a l) \<in> set (ms_active st)" using get by (rule map_of_SomeD)
  have wf: "tables_wf st" and lim: "limits_hold inner st" and gm: "guards_match st R I (add_mset g C) L"
    using inv by simp_all
  have d: "distinct (map fst (ms_active st))" using wf by (simp add: tables_wf_def)
  obtain l' where "(i, Claim (cc_control g) l') \<in> set (ms_active st)"
    using gm g by (auto elim!: guards_match_claim)
  with m d have a: "a = cc_control g"
    by (metis active_record.inject(1) eq_key_imp_eq_value)
  note old = mset_remove1_key [OF d m] and new = mset_update_key [OF d m, of "Active a l"]
  have keys: "map fst (hm_insert i (Active a l) (ms_active st)) = map fst (ms_active st)"
    using m by (force simp: update_keys)
  have look: "mset (map (ar_token_lookup \<circ> snd) (hm_insert i (Active a l) (ms_active st))) =
      mset (map (ar_token_lookup \<circ> snd) (ms_active st))"
    by (simp add: old new)
  have "distinct (map fst (ms_pending st) @ map (ar_token_lookup \<circ> snd) (ms_active st)) \<longleftrightarrow>
      distinct (map fst (ms_pending st)
        @ map (ar_token_lookup \<circ> snd) (hm_insert i (Active a l) (ms_active st)))"
    by (rule mset_eq_imp_distinct_iff) (simp only: mset_append look)
  then have dist: "distinct (map fst (ms_pending st)
      @ map (ar_token_lookup \<circ> snd) (hm_insert i (Active a l) (ms_active st)))"
    using wf by (simp only: tables_wf_def)
  have lens: "set (map (ar_token_lookup \<circ> snd) (hm_insert i (Active a l) (ms_active st))) =
      set (map (ar_token_lookup \<circ> snd) (ms_active st))"
    using look by (rule mset_eq_setD)
  have "fst p < ms_next_active st" if "p \<in> set (hm_insert i (Active a l) (ms_active st))" for p
  proof -
    have "fst p \<in> set (map fst (ms_active st))" using that by (metis keys in_set_conv_nth length_map nth_map)
    then show ?thesis using wf by (auto simp: tables_wf_def)
  qed
  then have ids: "\<forall>p \<in> set (hm_insert i (Active a l) (ms_active st)). fst p < ms_next_active st"
    by blast
  have "tables_wf ?st"
    using wf dist ids by (simp add: tables_wf_def keys lens [unfolded set_map o_def] del: map_update)
  moreover have "limits_hold inner ?st" using lim keys by (simp add: limits_hold_def) (metis length_map)
  moreover have "guards_match ?st R I C (add_mset \<lparr>al_active_id = Some i, al_control = cc_control g\<rparr> L)"
    using gm g by (simp add: guards_match_def new [unfolded a] old claim_key_def lease_key_def active_key_def a)
  ultimately show ?thesis by simp
qed

end
