(* ===== verification/PromptInvariant.thy ===== *)
theory PromptInvariant
  imports PromptTables
begin

section \<open>Every operation keeps the tables and guards matched\<close>

text \<open>
  Preservation of \<open>prompt_inv\<close> by each operation of the manager and of its guards, and by every step
  of the system.  The invariant then holds in every reachable system.
\<close>

lemma prompt_inv_locked:
  assumes inv: "prompt_inv inner w R I C L" and run: "locked body w = (r, w')"
    and body: "\<And>st'. \<not> ms_terminal (pw_state w) \<Longrightarrow> open_inv inner (pw_state w) R I C L \<Longrightarrow>
      body (pw_state w) = (r, st') \<Longrightarrow> \<not> ms_terminal st' \<and> open_inv inner st' R' I' C L"
  shows "prompt_inv inner w' R' I' C L"
  using run
proof (cases rule: locked_cases)
  case poisoned
  then show ?thesis using prompt_inv_fail_closed [OF inv] by simp
next
  case terminal
  then show ?thesis using prompt_inv_subset [OF inv] by simp
next
  case (opened st')
  moreover have "open_inv inner (pw_state w) R I C L" using inv opened(2) by (simp add: prompt_inv_def)
  ultimately show ?thesis using prompt_inv_state_only [OF inv opened(2)] body by blast
qed

lemma prompt_inv_new_connection:
  assumes "prompt_inv inner w R I C L" and "new_connection w = (r, w')"
  shows "prompt_inv inner w' R I C L"
  using assms unfolding new_connection_def
  by (rule prompt_inv_locked) (auto simp: Let_def open_defs split: if_splits)

lemma prompt_inv_reserve_begin:
  assumes "prompt_inv inner w R I C L" and wf: "inner_wf inner"
    and "reserve_begin sha256 inner connection peer target w = (r, w')"
  shows "prompt_inv inner w' (add_ok r R) I C L"
  using assms(1,3) unfolding reserve_begin_def
proof (rule prompt_inv_locked, goal_cases)
  case (1 st')
  note open_reserve [OF 1(2) wf, of "connection_binding sha256 (ms_instance_secret (pw_state w)) connection"
      "\<lparr>prov_peer_uid = peer, prov_target = target\<rparr>"]
  with 1 show ?case by (auto simp: Let_def not_le split: if_splits)
qed

lemma prompt_inv_drop_reservation:
  assumes inv: "prompt_inv inner w (add_mset g R) I C L"
  shows "prompt_inv inner (drop_begin_reservation g w) R I C L"
proof (cases "br_armed g")
  case True
  obtain r w' where run: "locked (\<lambda>st. (Inr (), remove_provisional (br_connection_binding g) st)) w
      = (r :: prompt_state_error + unit, w')" by (rule prod.exhaust)
  have "prompt_inv inner w' R I C L"
    using inv run
  proof (rule prompt_inv_locked, goal_cases)
    case (1 st')
    with open_remove_provisional [OF 1(2)] show ?case by (auto simp: remove_provisional_def)
  qed
  with run True show ?thesis by (simp add: drop_begin_reservation_def release_provisional_def)
next
  case False
  with inv have "ms_terminal (pw_state w)"
    by (auto simp: prompt_inv_def elim: guards_match_reservation split: if_splits)
  with inv False show ?thesis
    by (simp add: drop_begin_reservation_def prompt_inv_subset)
qed

lemma begin_reservation_issue_eq:
  "begin_reservation_issue sha256 fill g b w = issue_reserved sha256 fill (br_connection_binding g) b w"
  by (simp add: begin_reservation_issue_def drop_begin_reservation_def Let_def split: prod.splits)

lemma prompt_inv_issue:
  assumes "prompt_inv inner w (add_mset g R) I C L"
    and "begin_reservation_issue sha256 fill g b w = (r, w')"
  shows "prompt_inv inner w' R (add_ok r I) C L"
  using assms unfolding begin_reservation_issue_eq issue_reserved_def
proof (rule prompt_inv_locked, goal_cases)
  case (1 st')
  define st and c where "st = pw_state w" and "c = br_connection_binding g"
  note inv = 1(2) [folded st_def]
  have rem: "open_inv inner (remove_provisional c st) R I C L"
    "\<not> ms_terminal (remove_provisional c st)"
    using open_remove_provisional [OF inv] 1(1) by (simp_all add: c_def st_def remove_provisional_def)
  obtain p where "(c, p) \<in> set (ms_provisional st)"
    using inv by (auto simp: c_def elim: guards_match_reservation)
  then have p: "hm_get (ms_provisional st) c = Some p"
    using inv by (simp add: hm_get_Some_in tables_wf_unique)
  obtain t st2 where t: "generate_token sha256 fill (remove_provisional c st) = (t, st2)"
    by (rule prod.exhaust)
  obtain e n where st2: "st2 = (remove_provisional c st)\<lparr>ms_entropy := e, ms_issuance_counter := n\<rparr>"
    using generate_token_loop_tables [OF t [unfolded generate_token_def]] by blast
  have keep: "open_inv inner st2 R I C L" "\<not> ms_terminal st2"
    using rem unfolding st2 open_entropy by simp_all
  show ?case
  proof (cases t)
    case (Inl e)
    then show ?thesis
      using 1(3) p t rem keep by (auto simp: Let_def simp flip: st_def c_def split: if_splits)
  next
    case (Inr a)
    then obtain token l where tok: "t = Inr (token, l)" by (cases a) auto
    note fresh = generate_token_fresh [OF t [unfolded tok] rem(1) [THEN conjunct2, THEN conjunct1]]
    have issue: "open_inv inner
        (st2\<lparr>ms_pending := hm_insert l rec (ms_pending st2),
             ms_pending_by_connection := hm_insert c l (ms_pending_by_connection st2)\<rparr>)
        R (add_mset h I) C L"
      if "pr_connection_binding rec = c" "pr_peer_uid rec = prov_peer_uid p"
        "pi_connection_binding h = c" "pi_lookup h = Some l" for rec h
    proof -
      have "open_inv inner
          (st\<lparr>ms_provisional := hm_remove c (ms_provisional st),
              ms_pending := hm_insert l rec (ms_pending st),
              ms_pending_by_connection := hm_insert c l (ms_pending_by_connection st)\<rparr>)
          R (add_mset h I) C L"
        using fresh that by (intro open_issue [OF inv c_def p]) (simp_all add: remove_provisional_def)
      then show ?thesis by (simp add: st2 remove_provisional_def open_defs)
    qed
    show ?thesis
      using 1(3) p t tok rem keep
        issue [where h = "\<lparr>pi_connection_binding = c, pi_lookup = Some l, pi_token = token\<rparr>"]
      by (auto simp: Let_def simp flip: st_def c_def split: if_splits)
  qed
qed

lemma prompt_inv_no_lookup:
  assumes inv: "prompt_inv inner w R (add_mset g I) C L" and "pi_lookup g = None"
  shows "prompt_inv inner w R I C L"
proof -
  have "ms_terminal (pw_state w)"
    using assms by (auto simp: prompt_inv_def elim: guards_match_issue split: if_splits)
  with inv show ?thesis by (rule prompt_inv_subset)
qed

lemma prompt_inv_activate:
  assumes inv: "prompt_inv inner w R I C L" and g: "g \<in># I"
    and run: "activate_with_waker inner now g waker w = (r, w')"
  shows "prompt_inv inner w' R I C L"
proof (cases "pi_lookup g = None \<or> instant_checked_add now (mi_prompt_timeout inner) = None")
  case True
  with run inv show ?thesis by (auto simp: activate_with_waker_def activate_pending_def split: option.splits)
next
  case False
  then obtain l deadline where l: "pi_lookup g = Some l"
    and "instant_checked_add now (mi_prompt_timeout inner) = Some deadline" by auto
  with run have "locked (\<lambda>st.
      if hm_get (ms_pending_by_connection st) (pi_connection_binding g) \<noteq> Some l
      then (Inl Invalid, snd (remove_pending (pi_connection_binding g) l st))
      else case hm_get (ms_pending st) l of
        None \<Rightarrow> (Inl Invalid, st\<lparr>ms_pending_by_connection :=
                  hm_remove (pi_connection_binding g) (ms_pending_by_connection st)\<rparr>)
      | Some rec \<Rightarrow>
          (let replaced = rec\<lparr>pr_expires_at := Some deadline\<rparr>
           in if pr_expires_at rec \<noteq> None
              then (Inl Invalid, st\<lparr>ms_pending := hm_insert l replaced (ms_pending st)\<rparr>)
              else (Inr deadline, st\<lparr>ms_pending := hm_insert l
                   (replaced\<lparr>pr_shutdown_waker := waker\<rparr>) (ms_pending st)\<rparr>))) w = (r, w')"
    by (simp add: activate_with_waker_def activate_pending_def)
  with inv show ?thesis
  proof (rule prompt_inv_locked, goal_cases)
    case (1 st')
    obtain rec where get: "hm_get (ms_pending (pw_state w)) l = Some rec"
      "hm_get (ms_pending_by_connection (pw_state w)) (pi_connection_binding g) = Some l"
      using open_remove_pending [of inner "pw_state w" R g "I - {#g#}" C L l] 1(2) g l by auto
    show ?case
      using 1 get open_update_pending [OF 1(2) get(1)] by (auto simp: Let_def split: if_splits)
  qed
qed

lemma take_pending_guard:
  assumes inv: "open_inv inner st R (add_mset g I) C L" and l: "pi_lookup g = Some l"
  obtains rec where
    "hm_get (ms_pending st) l = Some rec" and "pr_connection_binding rec = pi_connection_binding g"
    and "take_pending sha256 (pi_connection_binding g) l token st =
       (if constant_time_eq (lookup_of sha256 (ms_instance_secret st) token) l then Some rec else None,
        st\<lparr>ms_pending := hm_remove l (ms_pending st),
           ms_pending_by_connection :=
             hm_remove (pi_connection_binding g) (ms_pending_by_connection st)\<rparr>)"
    and "open_inv inner
       (st\<lparr>ms_pending := hm_remove l (ms_pending st),
           ms_pending_by_connection :=
             hm_remove (pi_connection_binding g) (ms_pending_by_connection st)\<rparr>) R I C L"
proof -
  obtain rec where rec: "remove_pending (pi_connection_binding g) l st =
       (Some rec, st\<lparr>ms_pending := hm_remove l (ms_pending st),
          ms_pending_by_connection :=
            hm_remove (pi_connection_binding g) (ms_pending_by_connection st)\<rparr>)"
    and get: "hm_get (ms_pending st) l = Some rec"
    and own: "hm_get (ms_pending_by_connection st) (pi_connection_binding g) = Some l"
    and c: "pr_connection_binding rec = pi_connection_binding g"
    and o: "open_inv inner (snd (remove_pending (pi_connection_binding g) l st)) R I C L"
    by (rule open_remove_pending [OF inv l])
  show ?thesis
    using o rec own by (intro that [OF get c]) (simp_all add: take_pending_def Let_def)
qed

lemma pending_issue_cancel_eq:
  "pi_lookup g = Some l \<Longrightarrow>
   pending_issue_cancel sha256 now g token nonce peer target_uid w =
     cancel_pending sha256 now (pi_connection_binding g) l token nonce peer target_uid w"
  by (simp add: pending_issue_cancel_def drop_pending_issue_def Let_def split: prod.splits)

lemma pending_issue_claim_commit_eq:
  "pi_lookup g = Some l \<Longrightarrow>
   pending_issue_claim_commit sha256 inner now g token nonce peer target_uid w =
     claim_commit sha256 inner now (pi_connection_binding g) l token nonce peer target_uid w"
  by (simp add: pending_issue_claim_commit_def drop_pending_issue_def Let_def split: prod.splits)

lemma prompt_inv_cancel_issue:
  assumes inv: "prompt_inv inner w R (add_mset g I) C L"
    and run: "pending_issue_cancel sha256 now g token nonce peer target_uid w = (r, w')"
  shows "prompt_inv inner w' R I C L"
proof (cases "pi_lookup g")
  case None
  with inv run show ?thesis
    by (simp add: pending_issue_cancel_def drop_pending_issue_def prompt_inv_no_lookup)
next
  case (Some l)
  from inv run [unfolded pending_issue_cancel_eq [OF Some] cancel_pending_def] show ?thesis
  proof (rule prompt_inv_locked, goal_cases)
    case (1 st')
    from 1(2) Some show ?case
      by (rule take_pending_guard [of _ _ _ _ _ _ _ _ sha256 token])
        (use 1(1,3) in \<open>auto split: if_splits\<close>)
  qed
qed

lemma prompt_inv_drop_issue:
  assumes inv: "prompt_inv inner w R (add_mset g I) C L"
  shows "prompt_inv inner (drop_pending_issue g w) R I C L"
proof (cases "pi_lookup g")
  case None
  with inv show ?thesis by (simp add: drop_pending_issue_def prompt_inv_no_lookup)
next
  case (Some l)
  obtain r w' where run: "locked (\<lambda>st. (Inr (), snd (remove_pending (pi_connection_binding g) l st))) w
      = (r :: prompt_state_error + unit, w')" by (rule prod.exhaust)
  have "prompt_inv inner w' R I C L"
    using inv run
  proof (rule prompt_inv_locked, goal_cases)
    case (1 st')
    from 1(2) Some show ?case by (rule open_remove_pending) (use 1(1,3) in auto)
  qed
  with run Some show ?thesis by (simp add: drop_pending_issue_def release_pending_def)
qed

lemma pending_lookup_unique:
  assumes wf: "tables_wf st" and m: "(l, rec) \<in> set (ms_pending st)"
  shows "length l = 32" and "l \<notin> (ar_token_lookup \<circ> snd) ` set (ms_active st)"
proof -
  have l: "l \<in> set (map fst (ms_pending st))" using m by force
  then show "length l = 32" using wf unfolding tables_wf_def by (metis Un_iff set_append)
  have "set (map fst (ms_pending st)) \<inter> set (map (ar_token_lookup \<circ> snd) (ms_active st)) = {}"
    using wf unfolding tables_wf_def by (simp only: distinct_append)
  with l show "l \<notin> (ar_token_lookup \<circ> snd) ` set (ms_active st)" by (simp only: set_map) blast
qed

lemma open_next_active:
  assumes "open_inv inner st R I C L" and "ms_next_active st \<noteq> - 1"
  shows "open_inv inner (st\<lparr>ms_next_active := ms_next_active st + 1\<rparr>) R I C L"
proof -
  have "ms_next_active st < ms_next_active st + 1" using assms(2) by (rule word_less_increment)
  moreover have "\<forall>p \<in> set (ms_active st). fst p < ms_next_active st"
    using assms(1) by (simp add: tables_wf_def)
  ultimately have "\<forall>p \<in> set (ms_active st). fst p < ms_next_active st + 1" by (meson less_trans)
  with assms(1) show ?thesis by (simp add: open_defs)
qed

lemma prompt_inv_heap_append:
  assumes "prompt_inv inner w R I C L" and "\<not> ms_terminal (pw_state w)"
    and "\<not> ms_terminal st" and "open_inv inner st R I' (add_mset g C) L"
    and "cc_control g = length (pw_heap w)"
  shows "prompt_inv inner (w\<lparr>pw_state := st, pw_heap := pw_heap w @ [a]\<rparr>) R I' (add_mset g C) L"
  using assms by (auto simp: prompt_inv_def less_SucI)

lemma prompt_inv_claim:
  assumes inv: "prompt_inv inner w R (add_mset g I) C L"
    and run: "pending_issue_claim_commit sha256 inner now g token nonce peer target_uid w = (r, w')"
  shows "prompt_inv inner w' R I (add_ok r C) L"
proof (cases "pi_lookup g")
  case None
  with inv run show ?thesis
    by (auto simp: pending_issue_claim_commit_def drop_pending_issue_def prompt_inv_no_lookup)
next
  case (Some l)
  define st where "st = pw_state w"
  note run = run [unfolded pending_issue_claim_commit_eq [OF Some] claim_commit_def lock_state_def,
      folded st_def]
  consider "pw_poisoned w" | "\<not> pw_poisoned w" "ms_terminal st" | "\<not> pw_poisoned w" "\<not> ms_terminal st"
    by blast
  then show ?thesis
  proof cases
    case 1
    with run show ?thesis using prompt_inv_fail_closed [OF inv] by auto
  next
    case 2
    with run show ?thesis using prompt_inv_subset [OF inv] by (auto simp: st_def)
  next
    case 3
    then have o: "open_inv inner st R (add_mset g I) C L" using inv by (simp add: prompt_inv_def st_def)
    define st1 where "st1 = st\<lparr>ms_pending := hm_remove l (ms_pending st),
        ms_pending_by_connection := hm_remove (pi_connection_binding g) (ms_pending_by_connection st)\<rparr>"
    obtain rec where get: "hm_get (ms_pending st) l = Some rec"
      and take: "take_pending sha256 (pi_connection_binding g) l token st =
        (if constant_time_eq (lookup_of sha256 (ms_instance_secret st) token) l then Some rec else None, st1)"
      and o1: "open_inv inner st1 R I C L"
      using take_pending_guard [OF o Some, of sha256 token] unfolding st1_def by metis
    have t1: "\<not> ms_terminal st1" using 3 by (simp add: st1_def)
    have m: "(l, rec) \<in> set (ms_pending st)" using get by (rule map_of_SomeD)
    have wf: "tables_wf st" using o by simp
    have l: "l \<notin> fst ` set (ms_pending st1)" by (auto simp: st1_def set_remove_key)
    note look = pending_lookup_unique [OF wf m]
    have keep: "prompt_inv inner (w\<lparr>pw_state := st2\<rparr>) R I C L"
      if "open_inv inner st2 R I C L" "\<not> ms_terminal st2" for st2
      using that 3 by (intro prompt_inv_state_only [OF inv]) (simp_all add: st_def)
    have claim: "prompt_inv inner
        (w\<lparr>pw_state := st1\<lparr>ms_next_active := ms_next_active st1 + 1,
             ms_active := hm_insert (ms_next_active st1) (Claim (length (pw_heap w)) l) (ms_active st1)\<rparr>,
           pw_heap := pw_heap w @ [a]\<rparr>) R I (add_mset c C) L"
      if "length (ms_active st1) < mi_max_active inner" "ms_next_active st1 \<noteq> - 1"
        "cc_active_id c = Some (ms_next_active st1)" "cc_control c = length (pw_heap w)" for a c
      using that 3 t1 look l
      by (intro prompt_inv_heap_append [OF inv] open_claim [OF o1]) (simp_all add: st_def st1_def)
    show ?thesis
      using run 3 take keep [OF o1 t1] claim keep [OF open_next_active [OF o1]] t1
      by (auto simp: Let_def not_le split: if_splits option.splits)
  qed
qed

lemma prompt_inv_release_active:
  assumes inv: "prompt_inv inner w R I C L" and sub: "C' \<subseteq># C" "L' \<subseteq># L"
    and body: "\<not> ms_terminal (pw_state w) \<Longrightarrow> open_inv inner (pw_state w) R I C L \<Longrightarrow>
      open_inv inner ((pw_state w)\<lparr>ms_active := hm_remove i (ms_active (pw_state w))\<rparr>) R I C' L'"
  shows "prompt_inv inner (release_active i w) R I C' L'"
proof -
  consider "pw_poisoned w" | "\<not> pw_poisoned w" "ms_terminal (pw_state w)"
    | "\<not> pw_poisoned w" "\<not> ms_terminal (pw_state w)" by blast
  then show ?thesis
  proof cases
    case 1
    have "ms_terminal (pw_state (fail_closed w))" by (simp add: fail_closed_locked_def)
    with 1 show ?thesis
      using prompt_inv_weaken [OF prompt_inv_fail_closed [OF inv] _ sub]
      by (simp add: release_active_def locked_run)
  next
    case 2
    then show ?thesis
      using prompt_inv_weaken [OF inv _ sub] by (simp add: release_active_def locked_run)
  next
    case 3
    moreover have "open_inv inner (pw_state w) R I C L" using inv 3 by (simp add: prompt_inv_def)
    ultimately show ?thesis
      using inv sub body by (auto simp: release_active_def locked_run prompt_inv_def dest: mset_subset_eqD)
  qed
qed

lemma prompt_inv_drop_claim:
  assumes inv: "prompt_inv inner w R I (add_mset g C) L"
  shows "prompt_inv inner (drop_commit_claim g w) R I C L"
proof (cases "cc_active_id g")
  case None
  then have "ms_terminal (pw_state w)"
    using inv by (auto simp: prompt_inv_def elim: guards_match_claim split: if_splits)
  with None show ?thesis
    using prompt_inv_weaken [OF inv] by (simp add: drop_commit_claim_def)
next
  case (Some i)
  have "prompt_inv inner (release_active i (snd (control_cancel (cc_control g) w))) R I C L"
  proof (rule prompt_inv_release_active [OF prompt_inv_control_cancel [OF inv]], goal_cases)
    case 3
    then obtain l where "(i, Claim (cc_control g) l) \<in> set (ms_active (pw_state w))"
      using Some by (auto elim: guards_match_claim)
    from open_remove_active [OF 3(2) [simplified] this] Some show ?case
      by (simp add: claim_key_def active_key_def)
  qed simp_all
  with Some show ?thesis by (simp add: drop_commit_claim_def)
qed

lemma prompt_inv_drop_lease:
  assumes inv: "prompt_inv inner w R I C (add_mset g L)"
  shows "prompt_inv inner (drop_active_lease g w) R I C L"
proof (cases "al_active_id g")
  case None
  then have "ms_terminal (pw_state w)"
    using inv by (auto simp: prompt_inv_def elim: guards_match_lease split: if_splits)
  with None show ?thesis
    using prompt_inv_weaken [OF prompt_inv_control_cancel [OF inv]] by (simp add: drop_active_lease_def)
next
  case (Some i)
  have "prompt_inv inner (release_active i (snd (control_cancel (al_control g) w))) R I C L"
  proof (rule prompt_inv_release_active [OF prompt_inv_control_cancel [OF inv]], goal_cases)
    case 3
    then obtain l where "(i, Active (al_control g) l) \<in> set (ms_active (pw_state w))"
      using Some by (auto elim: guards_match_lease)
    from open_remove_active [OF 3(2) [simplified] this] Some show ?case
      by (simp add: lease_key_def active_key_def)
  qed simp_all
  with Some show ?thesis by (simp add: drop_active_lease_def)
qed

text \<open>A refused promotion has already removed the record, so the drop that follows finds none.\<close>

lemma prompt_inv_drop_removed_claim:
  assumes inv: "prompt_inv inner w R I C L" and g: "cc_active_id g = Some i"
    and gone: "i \<notin> fst ` set (ms_active (pw_state w))"
  shows "prompt_inv inner (drop_commit_claim g w) R I C L"
proof -
  have "hm_remove i (ms_active (pw_state w)) = ms_active (pw_state w)"
    using gone by (simp add: hm_remove_absent not_in_keys)
  then show ?thesis
    using prompt_inv_release_active [OF prompt_inv_control_cancel [OF inv, of "cc_control g"], of C L i] g
    by (simp add: drop_commit_claim_def)
qed

lemma promote_claim_refused:
  assumes inv: "prompt_inv inner w R I (add_mset g C) L" and g: "cc_active_id g = Some i"
    and run: "promote_claim now i g b w = (Inl e, w')"
  shows "prompt_inv inner (drop_commit_claim g w') R I C L"
proof -
  define st where "st = pw_state w"
  consider "pw_poisoned w" | "\<not> pw_poisoned w" "ms_terminal st" | "\<not> pw_poisoned w" "\<not> ms_terminal st"
    by blast
  then show ?thesis
  proof cases
    case 1
    with run have "w' = fail_closed w" by (simp add: promote_claim_def lock_state_def)
    then show ?thesis using prompt_inv_drop_claim [OF prompt_inv_fail_closed [OF inv]] by simp
  next
    case 2
    with run have "w' = w" by (simp add: promote_claim_def lock_state_def st_def)
    then show ?thesis using prompt_inv_drop_claim [OF inv] by simp
  next
    case 3
    then have o: "open_inv inner st R I (add_mset g C) L" using inv by (simp add: prompt_inv_def st_def)
    obtain l where m: "(i, Claim (cc_control g) l) \<in> set (ms_active st)"
      using o g by (auto elim: guards_match_claim)
    then have get: "hm_get (ms_active st) i = Some (Claim (cc_control g) l)"
      using o by (simp add: hm_get_Some_in tables_wf_unique)
    define w1 where "w1 = w\<lparr>pw_state := st\<lparr>ms_active := hm_remove i (ms_active st)\<rparr>\<rparr>"
    have "open_inv inner (st\<lparr>ms_active := hm_remove i (ms_active st)\<rparr>) R I C L"
      using open_remove_active [OF o m] g by (simp add: claim_key_def active_key_def)
    then have "prompt_inv inner w1 R I C L"
      using inv 3 by (auto simp: prompt_inv_def w1_def st_def)
    moreover have "w' = snd (control_cancel (cc_control g) w1)"
      using run 3 get by (auto simp: promote_claim_def lock_state_def w1_def st_def split: if_splits)
    moreover have "i \<notin> fst ` set (ms_active (pw_state w1))"
      by (auto simp: w1_def set_remove_key)
    ultimately show ?thesis
      using prompt_inv_drop_removed_claim [OF prompt_inv_control_cancel g] by simp
  qed
qed

lemma prompt_inv_promote:
  assumes inv: "prompt_inv inner w R I (add_mset g C) L"
    and run: "commit_claim_promote now g b w = (r, w')"
  shows "prompt_inv inner w' R I C (add_ok r L)"
proof (cases "cc_active_id g")
  case None
  with run show ?thesis using prompt_inv_drop_claim [OF inv] by (auto simp: commit_claim_promote_def)
next
  case (Some i)
  obtain p w1 where p: "promote_claim now i g b w = (p, w1)" by (rule prod.exhaust)
  show ?thesis
  proof (cases p)
    case (Inl e)
    with p run Some promote_claim_refused [OF inv Some] show ?thesis
      by (auto simp: commit_claim_promote_def)
  next
    case (Inr u)
    with p have o: "\<not> pw_poisoned w" "\<not> ms_terminal (pw_state w)"
      by (auto simp: promote_claim_def lock_state_def split: if_splits)
    with p Inr obtain a l where get: "hm_get (ms_active (pw_state w)) i = Some (Claim a l)"
      and w1: "w1 = w\<lparr>pw_state := (pw_state w)\<lparr>ms_active :=
          hm_insert i (Active a l) (ms_active (pw_state w))\<rparr>\<rparr>"
      by (auto simp: promote_claim_def lock_state_def split: if_splits option.splits active_record.splits)
    have "open_inv inner (pw_state w) R I (add_mset g C) L" using inv o by (simp add: prompt_inv_def)
    from open_promote [OF this Some get] inv o
    have "prompt_inv inner w1 R I C (add_mset \<lparr>al_active_id = Some i, al_control = cc_control g\<rparr> L)"
      by (auto simp: prompt_inv_def w1)
    with run p Inr Some show ?thesis by (auto simp: commit_claim_promote_def drop_commit_claim_def)
  qed
qed

subsection \<open>The remaining steps\<close>

lemma prompt_inv_poll:
  assumes "prompt_inv inner w R I C L"
  shows "prompt_inv inner (snd (cancellation_is_cancelled a now w)) R I C L"
    and "prompt_inv inner (snd (check_deadline g now w)) R I C L"
  using assms by (simp_all add: cancellation_is_cancelled_def check_deadline_def Let_def
      prompt_inv_control_cancel)

lemma register_resource_simps [simp]:
  "pw_state (control_register_resource a res w) = pw_state w"
  "pw_poisoned (control_register_resource a res w) = pw_poisoned w"
  "length (pw_heap (control_register_resource a res w)) = length (pw_heap w)"
  by (simp_all add: control_register_resource_def Let_def)

lemma register_resource_cancelled [simp]:
  "b < length (pw_heap w) \<Longrightarrow>
   ac_cancelled (pw_heap (control_register_resource a res w) ! b) = ac_cancelled (pw_heap w ! b)"
  by (cases "a = b") (auto simp: control_register_resource_def Let_def)

lemma prompt_inv_register:
  "prompt_inv inner w R I C L \<Longrightarrow> prompt_inv inner (control_register_resource a res w) R I C L"
  by (auto simp: prompt_inv_def control_is_cancelled_def)

lemma prompt_inv_is_terminated:
  "prompt_inv inner w R I C L \<Longrightarrow> prompt_inv inner (snd (is_terminated w)) R I C L"
  by (auto simp: is_terminated_def lock_state_def intro: prompt_inv_fail_closed)

lemma prompt_inv_poison:
  "prompt_inv inner w R I C L \<Longrightarrow> prompt_inv inner (w\<lparr>pw_poisoned := True\<rparr>) R I C L"
  by (auto simp: prompt_inv_def control_is_cancelled_def)

definition system_inv :: "manager_inner \<Rightarrow> 's prompt_system \<Rightarrow> bool" where
  "system_inv inner s \<longleftrightarrow>
     prompt_inv inner (sys_world s) (sys_reservations s) (sys_issues s) (sys_claims s) (sys_leases s)"

lemmas prompt_inv_ops =
  prompt_inv_new_connection prompt_inv_reserve_begin prompt_inv_drop_reservation prompt_inv_issue
  prompt_inv_activate prompt_inv_claim prompt_inv_cancel_issue prompt_inv_drop_issue
  prompt_inv_promote prompt_inv_drop_claim prompt_inv_control_cancel prompt_inv_poll
  prompt_inv_register prompt_inv_drop_lease prompt_inv_fail_closed prompt_inv_is_terminated
  prompt_inv_poison

lemma prompt_step_inv:
  assumes "prompt_step sha256 fill inner s s'" and "inner_wf inner" and "system_inv inner s"
  shows "system_inv inner s'"
  using assms
  by (cases rule: prompt_step.cases)
    (auto simp: system_inv_def shutdown_def intro: prompt_inv_ops)

lemma prompt_start_inv:
  assumes "manager_new fill e inner counter = Inr w"
  shows "system_inv inner (system_new w)"
  using assms
  by (auto simp: manager_new_def system_inv_def system_new_def prompt_inv_def open_defs
      split: if_splits prod.splits sum.splits)

lemma prompt_reachable_inv:
  assumes "prompt_reachable sha256 fill inner s" and "inner_wf inner"
  shows "system_inv inner s"
  using assms by induction (auto intro: prompt_start_inv prompt_step_inv)

end
