(* ===== verification/PromptHistory.thy ===== *)
theory PromptHistory
  imports PromptInvariant
begin

section \<open>What a granted transaction went through\<close>

text \<open>
  The history invariant of the prompt manager.  Every pending record is the one an \<open>Issued\<close> event
  describes, every claim goes back to an issue and an activation, and every promotion goes back to a
  claim; the promotions are the grants under which the camera is opened.  A token is claimed at most
  as often as it was issued.
\<close>

definition pending_justified ::
  "hash \<Rightarrow> manager_inner \<Rightarrow> bytes \<Rightarrow> prompt_event list \<Rightarrow> digest \<Rightarrow> pending_record \<Rightarrow> bool" where
  "pending_justified sha256 inner secret log l rec \<longleftrightarrow>
     (\<exists>token b. Issued l token b \<in> set log \<and> l = lookup_of sha256 secret token
        \<and> pr_peer_uid rec = pb_peer_uid b \<and> pr_target rec = pb_target b
        \<and> pr_nonce_binding rec = nonce_binding_of sha256 secret (pb_client_nonce b)
        \<and> pr_pam_service rec = pb_pam_service b \<and> pr_origin rec = pb_origin b
        \<and> pr_snapshot rec = pb_snapshot b)
     \<and> (\<forall>d. pr_expires_at rec = Some d \<longrightarrow>
          (\<exists>t. Activated l t \<in> set log \<and> d = t + mi_prompt_timeout inner))"

definition claim_justified ::
  "hash \<Rightarrow> manager_inner \<Rightarrow> bytes \<Rightarrow> prompt_event list \<Rightarrow> commit_claim \<Rightarrow> digest \<Rightarrow> bytes \<Rightarrow> bytes
   \<Rightarrow> u32 \<Rightarrow> u32 \<Rightarrow> instant \<Rightarrow> bool" where
  "claim_justified sha256 inner secret log g l token nonce peer target_uid now \<longleftrightarrow>
     (\<exists>token0 b t. Issued l token0 b \<in> set log \<and> Activated l t \<in> set log
        \<and> lookup_of sha256 secret token0 = l \<and> lookup_of sha256 secret token = l
        \<and> nonce_binding_of sha256 secret (pb_client_nonce b) = nonce_binding_of sha256 secret nonce
        \<and> now < t + mi_prompt_timeout inner
        \<and> pb_peer_uid b = peer \<and> ci_uid (pb_target b) = target_uid
        \<and> cc_peer_uid g = pb_peer_uid b \<and> cc_target g = pb_target b
        \<and> cc_pam_service g = pb_pam_service b \<and> cc_origin g = pb_origin b
        \<and> cc_snapshot g = pb_snapshot b)"

definition promotion_matches :: "commit_claim \<Rightarrow> commit_binding \<Rightarrow> bool" where
  "promotion_matches g b \<longleftrightarrow>
     cc_peer_uid g = cb_peer_uid b \<and> cc_target g = cb_target b \<and> cc_pam_service g = cb_pam_service b
     \<and> cc_origin g = cb_origin b \<and> snapshot_eq (cc_snapshot g) (cb_snapshot b)"

definition claimed_at :: "prompt_event list \<Rightarrow> commit_claim \<Rightarrow> instant \<Rightarrow> bool" where
  "claimed_at log g at \<longleftrightarrow>
     (\<exists>l token nonce peer target_uid. Claimed g l token nonce peer target_uid at \<in> set log)"

fun event_justified :: "hash \<Rightarrow> manager_inner \<Rightarrow> bytes \<Rightarrow> prompt_event list \<Rightarrow> prompt_event \<Rightarrow> bool" where
  "event_justified sha256 inner secret earlier (Claimed g l token nonce peer target_uid now) =
     claim_justified sha256 inner secret earlier g l token nonce peer target_uid now"
| "event_justified sha256 inner secret earlier (Promoted g b now) =
     (promotion_matches g b
      \<and> (\<exists>at. claimed_at earlier g at \<and> now < at + mi_active_timeout inner))"
| "event_justified sha256 inner secret earlier _ = True"

fun history_ok :: "hash \<Rightarrow> manager_inner \<Rightarrow> bytes \<Rightarrow> prompt_event list \<Rightarrow> bool" where
  "history_ok sha256 inner secret [] = True"
| "history_ok sha256 inner secret (e # earlier) =
     (event_justified sha256 inner secret earlier e \<and> history_ok sha256 inner secret earlier)"

definition issues_of :: "digest \<Rightarrow> prompt_event list \<Rightarrow> nat" where
  "issues_of l log = length (filter (\<lambda>e. case e of Issued l' _ _ \<Rightarrow> l' = l | _ \<Rightarrow> False) log)"

definition claims_of :: "digest \<Rightarrow> prompt_event list \<Rightarrow> nat" where
  "claims_of l log = length (filter (\<lambda>e. case e of Claimed _ l' _ _ _ _ _ \<Rightarrow> l' = l | _ \<Rightarrow> False) log)"

definition history_inv :: "hash \<Rightarrow> manager_inner \<Rightarrow> 's prompt_world \<Rightarrow> commit_claim multiset \<Rightarrow> prompt_event list \<Rightarrow> bool" where
  "history_inv sha256 inner w C log \<longleftrightarrow>
     history_ok sha256 inner (ms_instance_secret (pw_state w)) log
     \<and> (\<forall>(l, rec) \<in> set (ms_pending (pw_state w)).
          pending_justified sha256 inner (ms_instance_secret (pw_state w)) log l rec)
     \<and> (\<forall>g \<in># C. cc_control g < length (pw_heap w)
          \<and> claimed_at log g (ac_deadline (pw_heap w ! cc_control g) - mi_active_timeout inner)
          \<and> mi_active_timeout inner \<le> ac_deadline (pw_heap w ! cc_control g))
     \<and> (\<forall>l. claims_of l log + (if l \<in> fst ` set (ms_pending (pw_state w)) then 1 else 0)
          \<le> issues_of l log)"

subsection \<open>Growing the log\<close>

lemma pending_justified_mono:
  "pending_justified sha256 inner secret log l rec \<Longrightarrow> set log \<subseteq> set log' \<Longrightarrow>
   pending_justified sha256 inner secret log' l rec"
  unfolding pending_justified_def by blast

lemma claimed_at_Cons: "claimed_at log g at \<Longrightarrow> claimed_at (e # log) g at"
  unfolding claimed_at_def by (meson list.set_intros(2))

lemma counts_Cons [simp]:
  "issues_of l (Issued l' t b # log) = (if l' = l then Suc (issues_of l log) else issues_of l log)"
  "issues_of l (Activated l' at # log) = issues_of l log"
  "issues_of l (Claimed g l' t n p u at # log) = issues_of l log"
  "issues_of l (Promoted g cb at # log) = issues_of l log"
  "issues_of l (Registered a r # log) = issues_of l log"
  "claims_of l (Issued l' t b # log) = claims_of l log"
  "claims_of l (Activated l' at # log) = claims_of l log"
  "claims_of l (Claimed g l' t n p u at # log) = (if l' = l then Suc (claims_of l log) else claims_of l log)"
  "claims_of l (Promoted g cb at # log) = claims_of l log"
  "claims_of l (Registered a r # log) = claims_of l log"
  by (simp_all add: issues_of_def claims_of_def)

subsection \<open>Operations that only take away\<close>

definition shrinks :: "'s prompt_world \<Rightarrow> 's prompt_world \<Rightarrow> bool" where
  "shrinks w w' \<longleftrightarrow>
     ms_instance_secret (pw_state w') = ms_instance_secret (pw_state w)
     \<and> set (ms_pending (pw_state w')) \<subseteq> set (ms_pending (pw_state w))
     \<and> length (pw_heap w) \<le> length (pw_heap w')
     \<and> (\<forall>a < length (pw_heap w). ac_deadline (pw_heap w' ! a) = ac_deadline (pw_heap w ! a))"

lemma shrinks_refl [simp]: "shrinks w w"
  by (simp add: shrinks_def)

lemma shrinks_trans [trans]: "shrinks w w' \<Longrightarrow> shrinks w' w'' \<Longrightarrow> shrinks w w''"
  by (auto simp: shrinks_def dest: order_less_le_trans)

lemma history_inv_shrinks:
  assumes "history_inv sha256 inner w C log" and "shrinks w w'" and "C' \<subseteq># C"
  shows "history_inv sha256 inner w' C' log"
proof -
  have "claims_of l log + (if l \<in> fst ` set (ms_pending (pw_state w')) then 1 else 0) \<le> issues_of l log" for l
  proof -
    have "claims_of l log + (if l \<in> fst ` set (ms_pending (pw_state w)) then 1 else 0) \<le> issues_of l log"
      using assms(1) by (simp add: history_inv_def)
    moreover have "fst ` set (ms_pending (pw_state w')) \<subseteq> fst ` set (ms_pending (pw_state w))"
      using assms(2) by (auto simp: shrinks_def)
    ultimately show ?thesis by (auto split: if_splits)
  qed
  moreover have "cc_control g < length (pw_heap w')
      \<and> ac_deadline (pw_heap w' ! cc_control g) = ac_deadline (pw_heap w ! cc_control g)"
    if "g \<in># C'" for g
    using assms that mset_subset_eqD [OF assms(3) that]
    by (auto simp: history_inv_def shrinks_def intro: order_less_le_trans)
  ultimately show ?thesis
    using assms by (auto simp: history_inv_def shrinks_def dest: mset_subset_eqD)
qed

lemma shrinks_control_cancel [simp]: "shrinks w (snd (control_cancel a w))"
  by (simp add: shrinks_def control_cancel_nth)

lemma shrinks_fail_closed [simp]: "shrinks w (fail_closed w)"
  by (auto simp: shrinks_def fail_closed_locked_def fail_closed_nth)

lemma shrinks_locked:
  assumes "locked body w = (r, w')"
    and "\<And>st'. body (pw_state w) = (r, st') \<Longrightarrow>
      ms_instance_secret st' = ms_instance_secret (pw_state w)
      \<and> set (ms_pending st') \<subseteq> set (ms_pending (pw_state w))"
  shows "shrinks w w'"
  using assms(1)
proof (cases rule: locked_cases)
  case (opened st')
  with assms(2) [of st'] show ?thesis by (simp add: shrinks_def)
qed simp_all

lemma remove_pending_simps [simp]:
  "fst (remove_pending c l st) = hm_get (ms_pending st) l"
  "ms_instance_secret (snd (remove_pending c l st)) = ms_instance_secret st"
  "ms_pending (snd (remove_pending c l st)) = hm_remove l (ms_pending st)"
  by (simp_all add: remove_pending_def Let_def)

lemma take_pending_shrinks:
  assumes "take_pending sha256 c l token st = (r, st')"
  shows "ms_instance_secret st' = ms_instance_secret st \<and> set (ms_pending st') \<subseteq> set (ms_pending st)"
proof -
  have "st' = snd (take_pending sha256 c l token st)" using assms by simp
  then show ?thesis
    by (auto simp: take_pending_def Let_def set_remove_key split: option.splits)
qed

lemma shrinks_new_connection: "new_connection w = (r, w') \<Longrightarrow> shrinks w w'"
  unfolding new_connection_def by (erule shrinks_locked) (auto simp: Let_def split: if_splits)

lemma shrinks_reserve_begin: "reserve_begin sha256 inner c peer target w = (r, w') \<Longrightarrow> shrinks w w'"
  unfolding reserve_begin_def by (erule shrinks_locked) (auto simp: Let_def split: if_splits)

lemma shrinks_drop_reservation [simp]: "shrinks w (drop_begin_reservation g w)"
proof -
  obtain r w' where "locked (\<lambda>st. (Inr (), remove_provisional (br_connection_binding g) st)) w
      = (r :: prompt_state_error + unit, w')" by (rule prod.exhaust)
  moreover from this have "shrinks w w'" by (rule shrinks_locked) (auto simp: remove_provisional_def)
  ultimately show ?thesis by (simp add: drop_begin_reservation_def release_provisional_def)
qed

lemma shrinks_release_pending: "shrinks w (release_pending c l w)"
proof -
  obtain r w' where "locked (\<lambda>st. (Inr (), snd (remove_pending c l st))) w
      = (r :: prompt_state_error + unit, w')" by (rule prod.exhaust)
  moreover from this have "shrinks w w'"
    by (rule shrinks_locked) (auto simp: set_remove_key)
  ultimately show ?thesis by (simp add: release_pending_def)
qed

lemma shrinks_release_active: "shrinks w (release_active i w)"
proof -
  obtain r w' where "locked (\<lambda>st. (Inr (), st\<lparr>ms_active := hm_remove i (ms_active st)\<rparr>)) w
      = (r :: prompt_state_error + unit, w')" by (rule prod.exhaust)
  moreover from this have "shrinks w w'" by (rule shrinks_locked) auto
  ultimately show ?thesis by (simp add: release_active_def)
qed

lemma shrinks_drops [simp]:
  "shrinks w (drop_pending_issue i w)" "shrinks w (drop_commit_claim c w)" "shrinks w (drop_active_lease a w)"
  by (auto simp: drop_pending_issue_def drop_commit_claim_def drop_active_lease_def Let_def
      shrinks_release_pending split: option.splits
      intro: shrinks_trans [OF shrinks_control_cancel shrinks_release_active])

lemma shrinks_cancel_issue:
  "pending_issue_cancel sha256 now g token nonce peer target_uid w = (r, w') \<Longrightarrow> shrinks w w'"
proof (cases "pi_lookup g")
  case (Some l)
  assume "pending_issue_cancel sha256 now g token nonce peer target_uid w = (r, w')"
  then show ?thesis
    unfolding pending_issue_cancel_eq [OF Some] cancel_pending_def
    by (rule shrinks_locked) (auto split: prod.splits option.splits if_splits dest: take_pending_shrinks)
qed (simp add: pending_issue_cancel_def drop_pending_issue_def)

lemma shrinks_state_keep:
  assumes "ms_instance_secret st' = ms_instance_secret (pw_state w)"
    and "set (ms_pending st') \<subseteq> set (ms_pending (pw_state w))"
  shows "shrinks w (w\<lparr>pw_state := st'\<rparr>)" and "shrinks w (w\<lparr>pw_state := st', pw_heap := pw_heap w @ hs\<rparr>)"
  using assms by (auto simp: shrinks_def nth_append)

lemma shrinks_claim:
  "claim_commit sha256 inner now c l token nonce peer target_uid w = (r, w') \<Longrightarrow> shrinks w w'"
  unfolding claim_commit_def lock_state_def
  by (auto simp: Let_def split: if_splits prod.splits option.splits dest!: take_pending_shrinks
      intro!: shrinks_state_keep)

lemma shrinks_promote_claim: "promote_claim now i g b w = (r, w') \<Longrightarrow> shrinks w w'"
  unfolding promote_claim_def lock_state_def
  by (auto split: if_splits option.splits active_record.splits
      intro!: shrinks_state_keep shrinks_trans [OF _ shrinks_control_cancel])

lemma shrinks_promote: "commit_claim_promote now g b w = (r, w') \<Longrightarrow> shrinks w w'"
  unfolding commit_claim_promote_def
  by (auto split: option.splits prod.splits sum.splits
      intro: shrinks_trans [OF shrinks_promote_claim shrinks_drops(2)])

lemma shrinks_polls [simp]:
  "shrinks w (snd (cancellation_is_cancelled a now w))" "shrinks w (snd (check_deadline g now w))"
  "shrinks w (snd (is_terminated w))" "shrinks w (shutdown w)" "shrinks w (w\<lparr>pw_poisoned := True\<rparr>)"
  by (simp_all add: cancellation_is_cancelled_def check_deadline_def is_terminated_def lock_state_def
      Let_def shutdown_def) (simp add: shrinks_def)

lemma register_deadline [simp]:
  "b < length (pw_heap w) \<Longrightarrow>
   ac_deadline (pw_heap (control_register_resource a res w) ! b) = ac_deadline (pw_heap w ! b)"
  by (cases "a = b") (auto simp: control_register_resource_def Let_def)

lemma shrinks_register [simp]: "shrinks w (control_register_resource a res w)"
  by (simp add: shrinks_def)

subsection \<open>Operations that add to the history\<close>

lemma history_inv_log:
  assumes "history_inv sha256 inner w C log"
    and "event_justified sha256 inner (ms_instance_secret (pw_state w)) log e"
    and "\<And>l. issues_of l (e # log) = issues_of l log" and "\<And>l. claims_of l (e # log) = claims_of l log"
  shows "history_inv sha256 inner w C (e # log)"
  using assms
  by (auto simp: history_inv_def intro: claimed_at_Cons pending_justified_mono [of _ _ _ log])

text \<open>A successful issue inserts the record its event describes, under a fresh lookup.\<close>

lemma issue_reserved_Inr:
  assumes "issue_reserved sha256 fill c b w = (Inr g, w')"
  obtains l rec where "pi_lookup g = Some l" and "l = lookup_of sha256 (ms_instance_secret (pw_state w)) (pi_token g)"
    and "l \<notin> fst ` set (ms_pending (pw_state w))"
    and "ms_pending (pw_state w') = hm_insert l rec (ms_pending (pw_state w))"
    and "pr_peer_uid rec = pb_peer_uid b" and "pr_target rec = pb_target b"
    and "pr_nonce_binding rec = nonce_binding_of sha256 (ms_instance_secret (pw_state w)) (pb_client_nonce b)"
    and "pr_pam_service rec = pb_pam_service b" and "pr_origin rec = pb_origin b"
    and "pr_snapshot rec = pb_snapshot b" and "pr_expires_at rec = None"
    and "ms_instance_secret (pw_state w') = ms_instance_secret (pw_state w)" and "pw_heap w' = pw_heap w"
  using assms unfolding issue_reserved_def
proof (cases rule: locked_cases)
  case (opened st')
  define st0 where "st0 = remove_provisional c (pw_state w)"
  obtain t st2 where t: "generate_token sha256 fill st0 = (t, st2)" by (rule prod.exhaust)
  obtain e n where st2: "st2 = st0\<lparr>ms_entropy := e, ms_issuance_counter := n\<rparr>"
    using generate_token_loop_tables [OF t [unfolded generate_token_def]] by blast
  from opened(3) t obtain token l where tok: "t = Inr (token, l)"
    and g: "g = \<lparr>pi_connection_binding = c, pi_lookup = Some l, pi_token = token\<rparr>"
    and st': "st' = st2\<lparr>ms_pending := hm_insert l
        \<lparr>pr_connection_binding = c, pr_peer_uid = pb_peer_uid b, pr_target = pb_target b,
         pr_nonce_binding = nonce_binding_of sha256 (ms_instance_secret st2) (pb_client_nonce b),
         pr_pam_service = pb_pam_service b, pr_origin = pb_origin b, pr_snapshot = pb_snapshot b,
         pr_expires_at = None, pr_shutdown_waker = None\<rparr> (ms_pending st2),
        ms_pending_by_connection := hm_insert c l (ms_pending_by_connection st2)\<rparr>"
    by (cases t) (auto simp: Let_def simp flip: st0_def split: if_splits option.splits prod.splits)
  note fresh = generate_token_loop_fresh [OF t [unfolded tok generate_token_def]]
  show ?thesis
    by (rule that) (use fresh in \<open>auto simp: g st' st2 opened(4) st0_def remove_provisional_def\<close>)
qed simp_all

lemma history_inv_issue:
  assumes inv: "history_inv sha256 inner w C log"
    and run: "begin_reservation_issue sha256 fill g b w = (r, w')"
  shows "history_inv sha256 inner w' C (log_ok (issued_event b) r log)"
proof (cases r)
  case (Inl e)
  from run have "shrinks w w'" unfolding begin_reservation_issue_eq issue_reserved_def
  proof (rule shrinks_locked, goal_cases)
    case (1 st')
    obtain t st2 where t: "generate_token sha256 fill (remove_provisional (br_connection_binding g) (pw_state w)) = (t, st2)"
      by (rule prod.exhaust)
    obtain e n where "st2 = (remove_provisional (br_connection_binding g) (pw_state w))
        \<lparr>ms_entropy := e, ms_issuance_counter := n\<rparr>"
      using generate_token_loop_tables [OF t [unfolded generate_token_def]] by blast
    with 1 t Inl show ?case
      by (auto simp: Let_def remove_provisional_def split: if_splits option.splits prod.splits sum.splits)
  qed
  with inv Inl show ?thesis by (simp add: history_inv_shrinks)
next
  case (Inr h)
  let ?s = "ms_instance_secret (pw_state w)"
  from run Inr have "issue_reserved sha256 fill (br_connection_binding g) b w = (Inr h, w')"
    by (simp add: begin_reservation_issue_eq)
  then obtain l rec where l: "pi_lookup h = Some l" "l = lookup_of sha256 ?s (pi_token h)"
    and fresh: "l \<notin> fst ` set (ms_pending (pw_state w))"
    and pend: "ms_pending (pw_state w') = hm_insert l rec (ms_pending (pw_state w))"
    and rec: "pr_peer_uid rec = pb_peer_uid b" "pr_target rec = pb_target b"
      "pr_nonce_binding rec = nonce_binding_of sha256 ?s (pb_client_nonce b)"
      "pr_pam_service rec = pb_pam_service b" "pr_origin rec = pb_origin b"
      "pr_snapshot rec = pb_snapshot b" "pr_expires_at rec = None"
    and keep: "ms_instance_secret (pw_state w') = ?s" "pw_heap w' = pw_heap w"
    by (rule issue_reserved_Inr)
  have new: "set (ms_pending (pw_state w')) = insert (l, rec) (set (ms_pending (pw_state w)))"
    using fresh by (simp add: pend hm_insert_fresh not_in_keys)
  have "pending_justified sha256 inner ?s (Issued l (pi_token h) b # log) l rec"
    unfolding pending_justified_def using l rec by auto
  moreover have "claims_of l log \<le> issues_of l log"
    using inv unfolding history_inv_def by (meson add_leD1)
  ultimately show ?thesis
    using inv fresh by (auto simp: Inr l(1) history_inv_def new keep intro: claimed_at_Cons pending_justified_mono [of _ _ _ log])
qed

text \<open>An activation either takes away or renews the expiry of the guard's own record.\<close>

definition same_request :: "pending_record \<Rightarrow> pending_record \<Rightarrow> bool" where
  "same_request rec rec' \<longleftrightarrow>
     pr_peer_uid rec' = pr_peer_uid rec \<and> pr_target rec' = pr_target rec
     \<and> pr_nonce_binding rec' = pr_nonce_binding rec \<and> pr_pam_service rec' = pr_pam_service rec
     \<and> pr_origin rec' = pr_origin rec \<and> pr_snapshot rec' = pr_snapshot rec"

lemma activate_effect:
  assumes run: "activate_with_waker inner now g waker w = (r, w')"
  obtains "shrinks w w'"
  | l rec rec' where "pi_lookup g = Some l" "hm_get (ms_pending (pw_state w)) l = Some rec"
      "w' = w\<lparr>pw_state := (pw_state w)\<lparr>ms_pending := hm_insert l rec' (ms_pending (pw_state w))\<rparr>\<rparr>"
      "same_request rec rec'" "pr_expires_at rec' = Some (now + mi_prompt_timeout inner)"
proof (cases "pi_lookup g = None \<or> instant_checked_add now (mi_prompt_timeout inner) = None")
  case True
  with run have "w' = w" by (auto simp: activate_with_waker_def activate_pending_def split: option.splits)
  then show ?thesis using that(1) by simp
next
  case False
  then obtain l where l: "pi_lookup g = Some l"
    and d: "instant_checked_add now (mi_prompt_timeout inner) = Some (now + mi_prompt_timeout inner)"
    by (auto simp: instant_checked_add_def split: if_splits)
  from run [unfolded activate_with_waker_def activate_pending_def l option.case d] show ?thesis
  proof (cases rule: locked_cases)
    case (opened st')
    show ?thesis
    proof (cases "hm_get (ms_pending_by_connection (pw_state w)) (pi_connection_binding g) = Some l
        \<and> hm_get (ms_pending (pw_state w)) l \<noteq> None")
      case True
      then obtain rec where "hm_get (ms_pending (pw_state w)) l = Some rec" by auto
      with opened True show ?thesis
        by (auto simp: Let_def same_request_def split: if_splits intro!: that(2) [OF l])
    next
      case False
      with opened have "shrinks w w'"
        by (auto simp: set_remove_key split: if_splits intro!: shrinks_state_keep)
      then show ?thesis by (rule that(1))
    qed
  qed (use that(1) in simp_all)
qed

lemma history_inv_activate:
  assumes inv: "history_inv sha256 inner w C log" and wf: "hm_inv (ms_pending (pw_state w))"
    and run: "activate_with_waker inner now g waker w = (r, w')"
  shows "history_inv sha256 inner w' C (Activated (the (pi_lookup g)) now # log)"
proof -
  have logged: "history_inv sha256 inner w C (Activated (the (pi_lookup g)) now # log)"
    using inv by (rule history_inv_log) simp_all
  from run show ?thesis
  proof (cases rule: activate_effect)
    case 1
    with logged show ?thesis by (rule history_inv_shrinks) simp
  next
    case (2 l rec rec')
    let ?s = "ms_instance_secret (pw_state w)" and ?p = "ms_pending (pw_state w)"
    have m: "(l, rec) \<in> set ?p" using 2(2) by (rule map_of_SomeD)
    have d: "distinct (map fst ?p)" using wf by (simp add: hm_inv_def)
    have "set_mset (mset (hm_insert l rec' ?p)) = insert (l, rec') (set (hm_remove l ?p))"
      by (simp only: mset_update_key [OF d m]) simp
    then have set: "set (hm_insert l rec' ?p) = insert (l, rec') {p \<in> set ?p. fst p \<noteq> l}"
      by (simp add: set_remove_key)
    have keys: "fst ` set (hm_insert l rec' ?p) = fst ` set ?p"
      using m unfolding set by force
    have "pending_justified sha256 inner ?s (Activated l now # log) l rec"
      using logged m 2(1) by (auto simp: history_inv_def)
    then have "pending_justified sha256 inner ?s (Activated l now # log) l rec'"
      using 2(4,5) by (auto simp: pending_justified_def same_request_def)
    then show ?thesis
      using logged unfolding history_inv_def 2(3) by (auto simp: keys 2(1)) (auto simp: set)
  qed
qed

text \<open>What a successful claim found, and the state it leaves.\<close>

lemma claim_commit_Inr:
  assumes "claim_commit sha256 inner now c l token nonce peer target_uid w = (Inr g, w')"
  obtains rec where "hm_get (ms_pending (pw_state w)) l = Some rec"
    and "constant_time_eq (lookup_of sha256 (ms_instance_secret (pw_state w)) token) l"
    and "pr_peer_uid rec = peer" and "ci_uid (pr_target rec) = target_uid"
    and "constant_time_eq (pr_nonce_binding rec)
      (nonce_binding_of sha256 (ms_instance_secret (pw_state w)) nonce)"
    and "not_expired rec now"
    and "g = \<lparr>cc_active_id = Some (ms_next_active (pw_state w)), cc_control = length (pw_heap w),
      cc_peer_uid = pr_peer_uid rec, cc_target = pr_target rec, cc_pam_service = pr_pam_service rec,
      cc_origin = pr_origin rec, cc_snapshot = pr_snapshot rec\<rparr>"
    and "ms_pending (pw_state w') = hm_remove l (ms_pending (pw_state w))"
    and "pw_heap w' = pw_heap w @ [active_control_new (now + mi_active_timeout inner)
      (min (now + mi_commit_to_camera_timeout inner) (now + mi_active_timeout inner))]"
proof -
  define st where "st = pw_state w"
  obtain t st1 where t: "take_pending sha256 c l token st = (t, st1)" by (rule prod.exhaust)
  from assms t have o: "\<not> pw_poisoned w" "\<not> ms_terminal st" and "t \<noteq> None"
    by (cases t; auto simp: claim_commit_def lock_state_def st_def split: if_splits)+
  then obtain rec where rec: "t = Some rec" by blast
  with t have hit: "hm_get (ms_pending_by_connection st) c = Some l"
    "constant_time_eq (lookup_of sha256 (ms_instance_secret st) token) l"
    and rem: "remove_pending c l st = (Some rec, st1)"
    by (auto simp: take_pending_def Let_def split: if_splits)
  have st1: "ms_instance_secret st1 = ms_instance_secret st" "ms_next_active st1 = ms_next_active st"
    "ms_pending st1 = hm_remove l (ms_pending st)" and get: "hm_get (ms_pending st) l = Some rec"
    using rem by (auto simp: remove_pending_def Let_def split: if_splits)
  show ?thesis
    using assms o t rec hit get
    by (intro that)
      (auto simp: claim_commit_def lock_state_def Let_def st1 instant_checked_add_def simp flip: st_def
        split: if_splits option.splits)
qed

lemma history_inv_claim:
  assumes inv: "history_inv sha256 inner w C log"
    and run: "claim_commit sha256 inner now c l token nonce peer target_uid w = (r, w')"
  shows "history_inv sha256 inner w' (add_ok r C)
    (log_ok (\<lambda>g. Claimed g l token nonce peer target_uid now) r log)"
proof (cases r)
  case (Inl e)
  with inv shrinks_claim [OF run] show ?thesis by (simp add: history_inv_shrinks)
next
  case (Inr g)
  let ?s = "ms_instance_secret (pw_state w)" and ?e = "Claimed g l token nonce peer target_uid now"
  from run Inr obtain rec where get: "hm_get (ms_pending (pw_state w)) l = Some rec"
    and tok: "constant_time_eq (lookup_of sha256 ?s token) l"
    and ids: "pr_peer_uid rec = peer" "ci_uid (pr_target rec) = target_uid"
    and non: "constant_time_eq (pr_nonce_binding rec) (nonce_binding_of sha256 ?s nonce)"
    and exp: "not_expired rec now"
    and g: "g = \<lparr>cc_active_id = Some (ms_next_active (pw_state w)), cc_control = length (pw_heap w),
      cc_peer_uid = pr_peer_uid rec, cc_target = pr_target rec, cc_pam_service = pr_pam_service rec,
      cc_origin = pr_origin rec, cc_snapshot = pr_snapshot rec\<rparr>"
    and pend: "ms_pending (pw_state w') = hm_remove l (ms_pending (pw_state w))"
    and heap: "pw_heap w' = pw_heap w @ [active_control_new (now + mi_active_timeout inner)
      (min (now + mi_commit_to_camera_timeout inner) (now + mi_active_timeout inner))]"
    using claim_commit_Inr by blast
  have m: "(l, rec) \<in> set (ms_pending (pw_state w))" using get by (rule map_of_SomeD)
  then have just: "pending_justified sha256 inner ?s log l rec" using inv by (auto simp: history_inv_def)
  then have "claim_justified sha256 inner ?s log g l token nonce peer target_uid now"
    using tok non exp ids g
    by (auto simp: pending_justified_def claim_justified_def not_expired_def constant_time_eq_iff
        nonce_binding_of_def split: option.splits)
  moreover have later: "history_inv sha256 inner w' C log"
    using inv shrinks_claim [OF run] by (simp add: history_inv_shrinks)
  moreover have sec: "ms_instance_secret (pw_state w') = ?s"
    using shrinks_claim [OF run] by (simp add: shrinks_def)
  moreover have "claimed_at (?e # log) g now" unfolding claimed_at_def by (meson list.set_intros(1))
  then have "\<forall>h \<in># add_mset g C. cc_control h < length (pw_heap w')
      \<and> claimed_at (?e # log) h (ac_deadline (pw_heap w' ! cc_control h) - mi_active_timeout inner)
      \<and> mi_active_timeout inner \<le> ac_deadline (pw_heap w' ! cc_control h)"
    using later by (auto simp: history_inv_def heap active_control_new_def g intro: claimed_at_Cons)
  moreover have "claims_of k (?e # log) + (if k \<in> fst ` set (ms_pending (pw_state w')) then 1 else 0)
      \<le> issues_of k (?e # log)" for k
  proof (cases "k = l")
    case True
    have "claims_of l log + (if l \<in> fst ` set (ms_pending (pw_state w)) then 1 else 0) \<le> issues_of l log"
      using inv unfolding history_inv_def by blast
    moreover have "l \<in> fst ` set (ms_pending (pw_state w))" using m by force
    moreover have "l \<notin> fst ` set (ms_pending (pw_state w'))" by (auto simp: pend set_remove_key)
    ultimately show ?thesis using True by simp
  next
    case False
    have "claims_of k log + (if k \<in> fst ` set (ms_pending (pw_state w')) then 1 else 0) \<le> issues_of k log"
      using later unfolding history_inv_def by blast
    with False show ?thesis by (simp del: if_split)
  qed
  ultimately show ?thesis
    unfolding history_inv_def Inr add_ok.simps log_ok.simps
    by (auto intro: pending_justified_mono [of _ _ _ log])
qed

lemma promote_claim_Inr:
  assumes "promote_claim now i g b w = (Inr u, w')"
  shows "promotion_matches g b" and "live_claim i now w"
    and "\<not> pw_poisoned w" and "\<not> ms_terminal (pw_state w)"
  using assms by (auto simp: promote_claim_def lock_state_def promotion_matches_def split: if_splits)

lemma history_inv_promote:
  assumes inv: "history_inv sha256 inner w (add_mset g C) log"
    and tables: "prompt_inv inner w R I (add_mset g C) L"
    and run: "commit_claim_promote now g b w = (r, w')"
  shows "history_inv sha256 inner w' C (log_ok (\<lambda>_. Promoted g b now) r log)"
proof -
  have later: "history_inv sha256 inner w' C log"
    using inv shrinks_promote [OF run] by (rule history_inv_shrinks) simp
  have sec: "ms_instance_secret (pw_state w') = ms_instance_secret (pw_state w)"
    using shrinks_promote [OF run] by (simp add: shrinks_def)
  show ?thesis
  proof (cases r)
    case (Inr lease)
    with run obtain i u w1 where i: "cc_active_id g = Some i" and p: "promote_claim now i g b w = (Inr u, w1)"
      by (auto simp: commit_claim_promote_def split: option.splits prod.splits sum.splits)
    note ok = promote_claim_Inr [OF p]
    then have o: "open_inv inner (pw_state w) R I (add_mset g C) L"
      using tables by (simp add: prompt_inv_def)
    obtain l where "(i, Claim (cc_control g) l) \<in> set (ms_active (pw_state w))"
      using o i by (auto elim: guards_match_claim)
    then have "hm_get (ms_active (pw_state w)) i = Some (Claim (cc_control g) l)"
      using o by (simp add: hm_get_Some_in tables_wf_unique)
    with ok(2) have "now < ac_deadline (pw_heap w ! cc_control g)" by (simp add: live_claim_def)
    moreover have "claimed_at log g (ac_deadline (pw_heap w ! cc_control g) - mi_active_timeout inner)"
      "mi_active_timeout inner \<le> ac_deadline (pw_heap w ! cc_control g)"
      using inv by (simp_all add: history_inv_def)
    ultimately have "event_justified sha256 inner (ms_instance_secret (pw_state w')) log (Promoted g b now)"
      using ok(1) by (auto intro!: exI [of _ "ac_deadline (pw_heap w ! cc_control g) - mi_active_timeout inner"])
    from history_inv_log [OF later this] Inr show ?thesis by simp
  qed (use later in simp)
qed

subsection \<open>Every reachable system\<close>

lemma history_inv_step:
  assumes "prompt_step sha256 fill inner s s'" and "system_inv inner s"
    and inv: "history_inv sha256 inner (sys_world s) (sys_claims s) (sys_log s)"
  shows "history_inv sha256 inner (sys_world s') (sys_claims s') (sys_log s')"
  using assms(1)
proof cases
  case (activate g now waker r w)
  show ?thesis
  proof (cases "ms_terminal (pw_state (sys_world s))")
    case True
    then have "hm_inv (ms_pending (pw_state (sys_world s)))"
      using assms(2) by (simp add: system_inv_def prompt_inv_def tables_empty_def)
    with inv activate show ?thesis by (simp add: history_inv_activate)
  next
    case False
    then have "tables_wf (pw_state (sys_world s))"
      using assms(2) by (simp add: system_inv_def prompt_inv_def)
    with inv activate show ?thesis by (simp add: history_inv_activate tables_wf_unique)
  qed
next
  case (claim g I now token nonce peer target_uid r w)
  show ?thesis
  proof (cases "pi_lookup g")
    case None
    with claim inv show ?thesis by (auto simp: pending_issue_claim_commit_def drop_pending_issue_def)
  next
    case (Some l)
    with claim inv show ?thesis by (simp add: pending_issue_claim_commit_eq history_inv_claim)
  qed
next
  case (promote g C now b r w)
  with inv assms(2) show ?thesis by (simp add: system_inv_def history_inv_promote)
next
  case (register a resource)
  then show ?thesis
    using inv by (auto intro!: history_inv_log history_inv_shrinks [OF _ shrinks_register])
qed (use inv in \<open>auto intro: history_inv_issue history_inv_shrinks shrinks_new_connection
      shrinks_reserve_begin shrinks_cancel_issue\<close>)

lemma history_inv_start:
  "manager_new fill e inner counter = Inr w \<Longrightarrow> history_inv sha256 inner w {#} []"
  by (auto simp: manager_new_def history_inv_def issues_of_def claims_of_def
      split: if_splits prod.splits sum.splits)

lemma prompt_reachable_history:
  assumes "prompt_reachable sha256 fill inner s" and "inner_wf inner"
  shows "history_inv sha256 inner (sys_world s) (sys_claims s) (sys_log s)"
  using assms
proof induction
  case (start e counter w)
  then show ?case by (simp add: system_new_def history_inv_start)
next
  case (step s s')
  then show ?case using history_inv_step prompt_reachable_inv by blast
qed

lemma history_ok_append: "history_ok sha256 inner secret (later @ log) \<Longrightarrow> history_ok sha256 inner secret log"
  by (induction later) auto

end
