(* ===== verification/PromptControls.thy ===== *)
theory PromptControls
  imports PromptInvariant
begin

section \<open>Cancellation and counters of the prompt manager\<close>

text \<open>
  Two further invariants of every reachable system.  A resource registered with a transaction that is
  cancelled, before or after the registration, has been signalled; and the identifiers handed out to
  connections are all different.
\<close>

definition controls_ok :: "'s prompt_world \<Rightarrow> bool" where
  "controls_ok w \<longleftrightarrow>
     (\<forall>a < length (pw_heap w).
        (ac_cancelled (pw_heap w ! a) \<longrightarrow> set (ac_resources (pw_heap w ! a)) \<subseteq> set (pw_signalled w))
        \<and> ac_camera_ready_deadline (pw_heap w ! a) \<le> ac_deadline (pw_heap w ! a))"

definition grows :: "'s prompt_world \<Rightarrow> 's prompt_world \<Rightarrow> bool" where
  "grows w w' \<longleftrightarrow>
     set (pw_signalled w) \<subseteq> set (pw_signalled w') \<and> length (pw_heap w) \<le> length (pw_heap w')
     \<and> (\<forall>a < length (pw_heap w). set (ac_resources (pw_heap w ! a)) \<subseteq> set (ac_resources (pw_heap w' ! a)))
     \<and> (controls_ok w \<longrightarrow> controls_ok w')"

lemma grows_refl [simp]: "grows w w"
  by (simp add: grows_def)

lemma grows_trans [trans]: "grows w w' \<Longrightarrow> grows w' w'' \<Longrightarrow> grows w w''"
  unfolding grows_def by (meson order_less_le_trans order_trans subset_trans)

lemma grows_frame:
  "pw_signalled w' = pw_signalled w \<Longrightarrow> pw_heap w' = pw_heap w \<Longrightarrow> grows w w'"
  by (simp add: grows_def controls_ok_def)

lemma grows_control_cancel [simp]: "grows w (snd (control_cancel a w))"
proof (cases "a < length (pw_heap w)")
  case True
  then show ?thesis
    by (auto simp: grows_def controls_ok_def control_cancel_nth) (auto simp: control_cancel_def Let_def)
next
  case False
  then show ?thesis by (auto simp: grows_def controls_ok_def control_cancel_def Let_def)
qed

lemma grows_cancel_all: "grows w (cancel_all as w)"
  by (induction as arbitrary: w) (auto intro: grows_trans [OF grows_control_cancel])

lemma grows_fail_closed [simp]: "grows w (fail_closed w)"
proof -
  define w1 where "w1 = w\<lparr>pw_state := snd (fail_closed_locked (pw_state w)),
    pw_shut := pw_shut w @ fc_shutdown_wakers (fst (fail_closed_locked (pw_state w)))\<rparr>"
  have w1: "grows w w1" by (rule grows_frame) (simp_all add: w1_def)
  have eq: "fail_closed w = cancel_all (fc_controls (fst (fail_closed_locked (pw_state w)))) w1"
    by (simp add: fail_closed_def run_cleanup_def w1_def split: prod.splits)
  show ?thesis unfolding eq by (rule grows_trans [OF w1 grows_cancel_all])
qed

lemma grows_locked:
  assumes "locked body w = (r, w')"
  shows "grows w w'"
  using assms by (cases rule: locked_cases) (simp_all add: grows_frame)

lemma grows_snd_locked: "grows w (snd (locked body w))"
  using grows_locked [OF surjective_pairing] .

lemma grows_releases [simp]:
  "grows w (release_provisional c w)" "grows w (release_pending c l w)" "grows w (release_active i w)"
  by (simp_all add: release_provisional_def release_pending_def release_active_def grows_snd_locked)

lemma grows_ops:
  "new_connection w = (r1, w') \<Longrightarrow> grows w w'"
  "reserve_begin sha256 inner c peer target w = (r2, w') \<Longrightarrow> grows w w'"
  "begin_reservation_issue sha256 fill g b w = (r3, w') \<Longrightarrow> grows w w'"
  "activate_with_waker inner now i waker w = (r4, w') \<Longrightarrow> grows w w'"
  "pending_issue_cancel sha256 now i token nonce peer target_uid w = (r5, w') \<Longrightarrow> grows w w'"
  by (auto simp: new_connection_def reserve_begin_def begin_reservation_issue_eq issue_reserved_def
      activate_with_waker_def activate_pending_def pending_issue_cancel_def cancel_pending_def
      drop_pending_issue_def Let_def split: option.splits prod.splits dest: grows_locked)

lemma grows_claim: "pending_issue_claim_commit sha256 inner now g token nonce peer target_uid w = (r, w') \<Longrightarrow> grows w w'"
proof (cases "pi_lookup g")
  case (Some l)
  have new: "grows w (w\<lparr>pw_state := st, pw_heap := pw_heap w @ [active_control_new d (min k d)]\<rparr>)" for st d k
    by (auto simp: grows_def controls_ok_def nth_append active_control_new_def)
  assume "pending_issue_claim_commit sha256 inner now g token nonce peer target_uid w = (r, w')"
  then show ?thesis
    unfolding pending_issue_claim_commit_eq [OF Some] claim_commit_def lock_state_def
    by (auto simp: Let_def new split: if_splits prod.splits option.splits intro: grows_frame)
qed (simp add: pending_issue_claim_commit_def drop_pending_issue_def)

lemma grows_drops [simp]:
  "grows w (drop_begin_reservation g w)" "grows w (drop_pending_issue i w)"
  "grows w (drop_commit_claim c w)" "grows w (drop_active_lease l w)"
  by (auto simp: drop_begin_reservation_def drop_pending_issue_def drop_commit_claim_def
      drop_active_lease_def Let_def split: option.splits
      intro: grows_trans [OF grows_control_cancel grows_releases(3)])

lemma grows_promote: "commit_claim_promote now g b w = (r, w') \<Longrightarrow> grows w w'"
proof -
  have "grows w w1" if "promote_claim now i g b w = (q, w1)" for i q w1
    using that unfolding promote_claim_def lock_state_def
    by (auto split: if_splits option.splits active_record.splits
        intro: grows_frame grows_trans [OF grows_frame grows_control_cancel])
  then show "commit_claim_promote now g b w = (r, w') \<Longrightarrow> grows w w'"
    unfolding commit_claim_promote_def
    by (auto split: option.splits prod.splits sum.splits intro: grows_trans [OF _ grows_drops(3)])
qed

lemma grows_polls [simp]:
  "grows w (snd (cancellation_is_cancelled a now w))" "grows w (snd (check_deadline g now w))"
  "grows w (snd (is_terminated w))" "grows w (shutdown w)" "grows w (w\<lparr>pw_poisoned := True\<rparr>)"
  by (simp_all add: cancellation_is_cancelled_def check_deadline_def is_terminated_def lock_state_def
      Let_def shutdown_def grows_frame)

subsection \<open>Registered resources\<close>

definition registered_ok :: "'s prompt_world \<Rightarrow> prompt_event list \<Rightarrow> bool" where
  "registered_ok w log \<longleftrightarrow>
     (\<forall>a res. Registered a res \<in> set log \<longrightarrow>
        a < length (pw_heap w) \<and> res \<in> set (pw_signalled w) \<union> set (ac_resources (pw_heap w ! a)))"

lemma registered_ok_grows:
  assumes "registered_ok w log" and "grows w w'"
    and "\<And>a res. Registered a res \<in> set log' \<Longrightarrow> Registered a res \<in> set log"
  shows "registered_ok w' log'"
  using assms unfolding registered_ok_def grows_def by (meson Un_iff order_less_le_trans subsetD)

lemma in_log_ok [simp]: "(\<And>x. f x \<noteq> e) \<Longrightarrow> e \<in> set (log_ok f r log) \<longleftrightarrow> e \<in> set log"
  by (cases r) auto

lemma register_resource_nth:
  assumes "a < length (pw_heap w)"
  shows "res \<in> set (pw_signalled (control_register_resource a res w))
    \<union> set (ac_resources (pw_heap (control_register_resource a res w) ! a))"
  using assms by (simp add: control_register_resource_def Let_def)

lemma grows_register [simp]: "grows w (control_register_resource a res w)"
  by (cases "a < length (pw_heap w)")
    (auto simp: grows_def controls_ok_def control_register_resource_def Let_def nth_list_update)

lemma registered_step:
  assumes "prompt_step sha256 fill inner s s'"
    and inv: "registered_ok (sys_world s) (sys_log s)"
  shows "registered_ok (sys_world s') (sys_log s') \<and> grows (sys_world s) (sys_world s')"
  using assms(1)
proof cases
  case (register a resource)
  have "registered_ok (sys_world s') (sys_log s)"
    using inv register by (auto intro: registered_ok_grows [OF _ grows_register])
  with register register_resource_nth [of a "sys_world s" resource] show ?thesis
    by (auto simp: registered_ok_def)
qed (use inv in \<open>auto intro: registered_ok_grows grows_ops grows_claim grows_promote\<close>)

lemma prompt_reachable_controls:
  assumes "prompt_reachable sha256 fill inner s"
  shows "registered_ok (sys_world s) (sys_log s) \<and> controls_ok (sys_world s)"
  using assms
proof induction
  case (start e counter w)
  then show ?case
    by (auto simp: manager_new_def system_new_def registered_ok_def controls_ok_def
        split: if_splits prod.splits sum.splits)
next
  case (step s s')
  then show ?case using registered_step [OF step.hyps(2)] by (simp add: grows_def)
qed

subsection \<open>Connection identifiers\<close>

abbreviation next_connection :: "'s prompt_world \<Rightarrow> u64" where
  "next_connection w \<equiv> ms_next_connection (pw_state w)"

lemma next_connection_fail_closed [simp]:
  "ms_next_connection (snd (fail_closed_locked st)) = ms_next_connection st"
  by (simp add: fail_closed_locked_def)

lemma next_connection_locked:
  assumes "locked body w = (r, w')"
    and "\<And>st'. body (pw_state w) = (r, st') \<Longrightarrow> ms_next_connection st' = next_connection w"
  shows "next_connection w' = next_connection w"
  using assms(1) by (cases rule: locked_cases) (simp_all add: assms(2))

lemma next_connection_snd_locked:
  assumes "\<And>st. ms_next_connection (snd (body st)) = ms_next_connection st"
  shows "next_connection (snd (locked body w)) = next_connection w"
  by (rule next_connection_locked [OF surjective_pairing]) (metis assms snd_conv)

lemma next_connection_tables [simp]:
  "ms_next_connection (remove_provisional c st) = ms_next_connection st"
  "ms_next_connection (snd (remove_pending c l st)) = ms_next_connection st"
  by (simp_all add: remove_provisional_def remove_pending_def Let_def)

lemma next_connection_take:
  assumes "take_pending sha256 c l token st = (r, st')"
  shows "ms_next_connection st' = ms_next_connection st"
proof -
  have "st' = snd (take_pending sha256 c l token st)" using assms by simp
  then show ?thesis by (simp add: take_pending_def Let_def split: option.splits)
qed

lemma next_connection_token:
  assumes "generate_token sha256 fill st = (r, st')"
  shows "ms_next_connection st' = ms_next_connection st"
proof -
  obtain e n where "st' = st\<lparr>ms_entropy := e, ms_issuance_counter := n\<rparr>"
    using generate_token_loop_tables [OF assms [unfolded generate_token_def]] by blast
  then show ?thesis by simp
qed

lemma next_connection_releases [simp]:
  "next_connection (release_provisional c w) = next_connection w"
  "next_connection (release_pending c l w) = next_connection w"
  "next_connection (release_active i w) = next_connection w"
  by (simp_all add: release_provisional_def release_pending_def release_active_def next_connection_snd_locked)

lemma next_connection_drops [simp]:
  "next_connection (drop_begin_reservation g w) = next_connection w"
  "next_connection (drop_pending_issue i w) = next_connection w"
  "next_connection (drop_commit_claim c w) = next_connection w"
  "next_connection (drop_active_lease l w) = next_connection w"
  by (simp_all add: drop_begin_reservation_def drop_pending_issue_def drop_commit_claim_def
      drop_active_lease_def Let_def split: option.splits)

lemma next_connection_polls [simp]:
  "next_connection (snd (cancellation_is_cancelled a now w)) = next_connection w"
  "next_connection (snd (check_deadline g now w)) = next_connection w"
  "next_connection (snd (is_terminated w)) = next_connection w"
  "next_connection (shutdown w) = next_connection w"
  by (simp_all add: cancellation_is_cancelled_def check_deadline_def is_terminated_def lock_state_def
      Let_def shutdown_def)

lemma next_connection_reserve:
  "reserve_begin sha256 inner c peer target w = (r, w') \<Longrightarrow> next_connection w' = next_connection w"
  unfolding reserve_begin_def by (erule next_connection_locked) (auto simp: Let_def split: if_splits)

lemma next_connection_issue:
  "begin_reservation_issue sha256 fill g b w = (r, w') \<Longrightarrow> next_connection w' = next_connection w"
  unfolding begin_reservation_issue_eq issue_reserved_def
  by (erule next_connection_locked)
    (auto simp: Let_def split: if_splits option.splits prod.splits sum.splits dest!: next_connection_token)

lemma next_connection_activate:
  "activate_with_waker inner now g waker w = (r, w') \<Longrightarrow> next_connection w' = next_connection w"
  unfolding activate_with_waker_def activate_pending_def
  by (auto simp: Let_def split: option.splits if_splits elim!: next_connection_locked)

lemma next_connection_cancel:
  "pending_issue_cancel sha256 now g token nonce peer target_uid w = (r, w') \<Longrightarrow>
   next_connection w' = next_connection w"
  unfolding pending_issue_cancel_def cancel_pending_def
  by (auto simp: Let_def split: option.splits prod.splits if_splits elim!: next_connection_locked
      dest!: next_connection_take)

lemma next_connection_claim:
  "pending_issue_claim_commit sha256 inner now g token nonce peer target_uid w = (r, w') \<Longrightarrow>
   next_connection w' = next_connection w"
  unfolding pending_issue_claim_commit_def claim_commit_def lock_state_def
  by (auto simp: Let_def split: option.splits prod.splits if_splits dest!: next_connection_take)

lemma next_connection_promote:
  "commit_claim_promote now g b w = (r, w') \<Longrightarrow> next_connection w' = next_connection w"
  unfolding commit_claim_promote_def promote_claim_def lock_state_def
  by (auto split: option.splits prod.splits if_splits sum.splits active_record.splits)

lemmas next_connection_ops =
  next_connection_reserve next_connection_issue next_connection_activate next_connection_cancel
  next_connection_claim next_connection_promote

definition connections_ok :: "'s prompt_system \<Rightarrow> bool" where
  "connections_ok s \<longleftrightarrow>
     distinct (sys_connections s)
     \<and> (\<forall>c \<in> set (sys_connections s). c < next_connection (sys_world s))"

lemma connections_step:
  assumes "prompt_step sha256 fill inner s s'" and inv: "connections_ok s"
  shows "connections_ok s'"
  using assms(1)
proof cases
  case (connect r w)
  from connect(2) [unfolded new_connection_def] show ?thesis
  proof (cases rule: locked_cases)
    case (opened st')
    show ?thesis
    proof (cases "next_connection (sys_world s) = - 1")
      case True
      with opened connect inv show ?thesis by (auto simp: connections_ok_def)
    next
      case False
      then have up: "next_connection (sys_world s) < next_connection (sys_world s) + 1"
        by (rule word_less_increment)
      moreover have "\<forall>c \<in> set (sys_connections s). c < next_connection (sys_world s) + 1"
        using inv up unfolding connections_ok_def by (meson less_trans)
      ultimately show ?thesis
        using False opened connect inv by (auto simp: connections_ok_def Let_def)
    qed
  qed (use connect inv in \<open>simp_all add: connections_ok_def\<close>)
qed (use inv in \<open>auto simp: connections_ok_def next_connection_ops\<close>)

lemma prompt_reachable_connections: "prompt_reachable sha256 fill inner s \<Longrightarrow> connections_ok s"
  by (induction rule: prompt_reachable.induct)
    (auto simp: connections_ok_def system_new_def dest: connections_step [unfolded connections_ok_def])

end
