(* ===== verification/PromptSamples.thy ===== *)
theory PromptSamples
  imports PromptHistory PromptControls
begin

section \<open>A concrete transaction\<close>

text \<open>
  One transaction of the prompt manager from start to grant: a manager is created, a connection
  reserves, issues and activates a token, and the same connection claims and promotes it.  The hash
  and the entropy source of the run are constant.  Every step is computed, so the run is a
  reachable system at which the hypotheses of the manager's properties hold.
\<close>

definition one32 :: bytes where "one32 = replicate 32 1"

definition sample_hash :: hash where "sample_hash bs = one32"

definition sample_fill :: "unit entropy_source" where "sample_fill e n = (Some one32, e)"

definition sample_inner :: manager_inner where
  "sample_inner =
     \<lparr>mi_prompt_timeout = 100, mi_active_timeout = 50, mi_commit_to_camera_timeout = 80,
      mi_max_pending_per_uid = 1, mi_max_pending_global = 4, mi_max_active = 2\<rparr>"

definition sample_identity :: canonical_identity where
  "sample_identity = \<lparr>ci_username = [97], ci_uid = 7\<rparr>"

definition sample_snapshot :: security_snapshot where
  "sample_snapshot =
     \<lparr>ss_policy_generation = replicate 32 3,
      ss_storage = \<lparr>pss_health = Ready, pss_candidate = CandidateAbsent,
        pss_backend_identity = replicate 32 4, pss_policy_generation = replicate 32 5\<rparr>\<rparr>"

definition sample_pending :: pending_binding where
  "sample_pending =
     \<lparr>pb_connection = 1, pb_peer_uid = 7, pb_target = sample_identity,
      pb_client_nonce = replicate 32 9, pb_pam_service = [98], pb_origin = OriginLocal,
      pb_snapshot = sample_snapshot\<rparr>"

definition sample_commit :: commit_binding where
  "sample_commit =
     \<lparr>cb_connection = 1, cb_peer_uid = 7, cb_target = sample_identity, cb_pam_service = [98],
      cb_origin = OriginLocal, cb_snapshot = sample_snapshot\<rparr>"

definition sample_w0 :: "unit prompt_world" where
  "sample_w0 = projr (manager_new sample_fill () sample_inner 0)"

definition sample_w1 :: "unit prompt_world" where
  "sample_w1 = snd (new_connection sample_w0)"

definition sample_reservation :: begin_reservation where
  "sample_reservation = projr (fst (reserve_begin sample_hash sample_inner 1 7 sample_identity sample_w1))"

definition sample_w2 :: "unit prompt_world" where
  "sample_w2 = snd (reserve_begin sample_hash sample_inner 1 7 sample_identity sample_w1)"

definition sample_issue :: pending_issue where
  "sample_issue = projr (fst (begin_reservation_issue sample_hash sample_fill sample_reservation sample_pending sample_w2))"

definition sample_w3 :: "unit prompt_world" where
  "sample_w3 = snd (begin_reservation_issue sample_hash sample_fill sample_reservation sample_pending sample_w2)"

definition sample_w4 :: "unit prompt_world" where
  "sample_w4 = snd (activate_with_waker sample_inner 10 sample_issue (Some 0) sample_w3)"

definition sample_claim :: commit_claim where
  "sample_claim = projr (fst (pending_issue_claim_commit sample_hash sample_inner 20 sample_issue
     (pi_token sample_issue) (replicate 32 9) 7 7 sample_w4))"

definition sample_w5 :: "unit prompt_world" where
  "sample_w5 = snd (pending_issue_claim_commit sample_hash sample_inner 20 sample_issue
     (pi_token sample_issue) (replicate 32 9) 7 7 sample_w4)"

definition sample_lease :: active_lease where
  "sample_lease = projr (fst (commit_claim_promote 30 sample_claim sample_commit sample_w5))"

definition sample_w6 :: "unit prompt_world" where
  "sample_w6 = snd (commit_claim_promote 30 sample_claim sample_commit sample_w5)"

lemma one32_facts [simp]:
  "length one32 = 32" "filled 32 one32 = one32" "\<exists>b \<in> set one32. b \<noteq> 0" "\<not> (\<forall>b \<in> set one32. b = 0)"
  by (auto simp: one32_def filled_def)

lemma constant_time_eq_refl [simp]: "constant_time_eq a a"
  unfolding constant_time_eq_def or_fold_zero by simp

lemma sample_finalize [simp]: "finalize sample_hash bs = one32"
  by (simp add: finalize_def sample_hash_def)

lemma sample_digests [simp]:
  "connection_binding sample_hash s c = one32" "lookup_of sample_hash s t = one32"
  "nonce_binding_of sample_hash s n = one32" "derive_token sample_hash s k r = one32"
  by (simp_all add: connection_binding_def lookup_of_def nonce_binding_of_def keyed_digest_def derive_token_def)

lemma sample_nonzero [simp]: "generate_nonzero sample_fill e = (Inr one32, e)"
proof -
  have "generate_nonzero_loop sample_fill n e = (Inr one32, e)" if "0 < n" for n
    using that by (cases n) (simp_all add: sample_fill_def SECRET_BYTES_def Let_def)
  then show ?thesis by (simp add: generate_nonzero_def ENTROPY_ATTEMPTS_def)
qed

lemma sample_token:
  assumes "ms_issuance_counter st = 0" "ms_pending st = []" "ms_active st = []"
  shows "generate_token sample_hash sample_fill st =
    (Inr (one32, one32), st\<lparr>ms_issuance_counter := 1, ms_entropy := ms_entropy st\<rparr>)"
proof -
  have "generate_token_loop sample_hash sample_fill n st =
      (Inr (one32, one32), st\<lparr>ms_issuance_counter := 1, ms_entropy := ms_entropy st\<rparr>)" if "0 < n" for n
    using that assms by (cases n) (simp_all add: hm_contains_def Let_def)
  then show ?thesis by (simp add: generate_token_def ENTROPY_ATTEMPTS_def)
qed

lemma sample_w0_eq:
  "manager_new sample_fill () sample_inner 0 = Inr sample_w0"
  "sample_w0 = \<lparr>pw_state = \<lparr>ms_entropy = (), ms_instance_secret = one32, ms_next_connection = 1,
       ms_issuance_counter = 0, ms_next_active = 1, ms_provisional = [], ms_pending = [],
       ms_pending_by_connection = [], ms_active = [], ms_terminal = False\<rparr>,
     pw_poisoned = False, pw_heap = [], pw_signalled = [], pw_shut = []\<rparr>"
  by (simp_all add: sample_w0_def manager_new_def sample_inner_def)

lemma sample_w1_eq:
  "new_connection sample_w0 = (Inr 1, sample_w1)"
  "sample_w1 = sample_w0\<lparr>pw_state := (pw_state sample_w0)\<lparr>ms_next_connection := 2\<rparr>\<rparr>"
  by (simp_all add: sample_w1_def new_connection_def locked_def lock_state_def sample_w0_eq(2))

lemma sample_w2_eq:
  "reserve_begin sample_hash sample_inner 1 7 sample_identity sample_w1 = (Inr sample_reservation, sample_w2)"
  "sample_reservation = \<lparr>br_connection_binding = one32, br_armed = True\<rparr>"
  "sample_w2 = sample_w1\<lparr>pw_state := (pw_state sample_w1)\<lparr>ms_provisional :=
     [(one32, \<lparr>prov_peer_uid = 7, prov_target = sample_identity\<rparr>)]\<rparr>\<rparr>"
  by (simp_all add: sample_w2_def sample_reservation_def reserve_begin_def locked_def lock_state_def
      sample_w1_eq(2) sample_w0_eq(2) sample_inner_def hm_contains_def pending_total_def
      pending_for_uid_def saturating_add_def Let_def)

definition sample_record_pending :: pending_record where
  "sample_record_pending =
     \<lparr>pr_connection_binding = one32, pr_peer_uid = 7, pr_target = sample_identity,
      pr_nonce_binding = one32, pr_pam_service = [98], pr_origin = OriginLocal,
      pr_snapshot = sample_snapshot, pr_expires_at = None, pr_shutdown_waker = None\<rparr>"

lemma sample_w3_eq:
  "begin_reservation_issue sample_hash sample_fill sample_reservation sample_pending sample_w2 =
     (Inr sample_issue, sample_w3)"
  "sample_issue = \<lparr>pi_connection_binding = one32, pi_lookup = Some one32, pi_token = one32\<rparr>"
  "sample_w3 = sample_w2\<lparr>pw_state := (pw_state sample_w2)\<lparr>ms_provisional := [],
     ms_issuance_counter := 1, ms_pending := [(one32, sample_record_pending)],
     ms_pending_by_connection := [(one32, one32)]\<rparr>\<rparr>"
  by (simp_all add: sample_w3_def sample_issue_def begin_reservation_issue_eq issue_reserved_def
      locked_def lock_state_def sample_w2_eq(2,3) sample_w1_eq(2) sample_w0_eq(2) sample_pending_def
      remove_provisional_def sample_token sample_record_pending_def Let_def)

lemma sample_w4_eq:
  "activate_with_waker sample_inner 10 sample_issue (Some 0) sample_w3 = (Inr 110, sample_w4)"
  "sample_w4 = sample_w3\<lparr>pw_state := (pw_state sample_w3)\<lparr>ms_pending :=
     [(one32, sample_record_pending\<lparr>pr_expires_at := Some 110, pr_shutdown_waker := Some 0\<rparr>)]\<rparr>\<rparr>"
  by (simp_all add: sample_w4_def activate_with_waker_def activate_pending_def instant_checked_add_def
      locked_def lock_state_def sample_w3_eq(2,3) sample_w2_eq(2,3) sample_w1_eq(2) sample_w0_eq(2)
      sample_inner_def sample_record_pending_def Let_def)

lemma sample_w5_eq:
  "pending_issue_claim_commit sample_hash sample_inner 20 sample_issue (pi_token sample_issue)
     (replicate 32 9) 7 7 sample_w4 = (Inr sample_claim, sample_w5)"
  "sample_claim = \<lparr>cc_active_id = Some 1, cc_control = 0, cc_peer_uid = 7, cc_target = sample_identity,
     cc_pam_service = [98], cc_origin = OriginLocal, cc_snapshot = sample_snapshot\<rparr>"
  "sample_w5 = sample_w4\<lparr>pw_state := (pw_state sample_w4)\<lparr>ms_pending := [],
     ms_pending_by_connection := [], ms_next_active := 2, ms_active := [(1, Claim 0 one32)]\<rparr>,
     pw_heap := [active_control_new 70 70]\<rparr>"
  by (simp_all add: sample_w5_def sample_claim_def pending_issue_claim_commit_def claim_commit_def
      take_pending_def remove_pending_def not_expired_def instant_checked_add_def drop_pending_issue_def
      lock_state_def sample_w4_eq(2) sample_w3_eq(2,3) sample_w2_eq(2,3) sample_w1_eq(2) sample_w0_eq(2)
      sample_inner_def sample_record_pending_def sample_identity_def Let_def)

lemma sample_w6_eq:
  "commit_claim_promote 30 sample_claim sample_commit sample_w5 = (Inr sample_lease, sample_w6)"
  "sample_lease = \<lparr>al_active_id = Some 1, al_control = 0\<rparr>"
  "sample_w6 = sample_w5\<lparr>pw_state := (pw_state sample_w5)\<lparr>ms_active := [(1, Active 0 one32)]\<rparr>\<rparr>"
  by (simp_all add: sample_w6_def sample_lease_def commit_claim_promote_def promote_claim_def live_claim_def
      control_is_cancelled_def active_control_new_def snapshot_eq_def drop_commit_claim_def sample_commit_def
      lock_state_def sample_w5_eq(2,3) sample_w4_eq(2) sample_w3_eq(2,3) sample_w2_eq(2,3) sample_w1_eq(2)
      sample_w0_eq(2) Let_def)

subsection \<open>The systems of the run\<close>

abbreviation sample_reach :: "unit prompt_system \<Rightarrow> bool" where
  "sample_reach \<equiv> prompt_reachable sample_hash sample_fill sample_inner"

definition sample_issued :: "unit prompt_system" where
  "sample_issued =
     \<lparr>sys_world = sample_w3, sys_connections = [1], sys_reservations = {#}, sys_issues = {#sample_issue#},
      sys_claims = {#}, sys_leases = {#}, sys_log = [Issued one32 one32 sample_pending]\<rparr>"

definition sample_activated :: "unit prompt_system" where
  "sample_activated =
     sample_issued\<lparr>sys_world := sample_w4, sys_log := Activated one32 10 # sys_log sample_issued\<rparr>"

definition sample_claimed :: "unit prompt_system" where
  "sample_claimed =
     sample_activated\<lparr>sys_world := sample_w5, sys_issues := {#}, sys_claims := {#sample_claim#},
       sys_log := Claimed sample_claim one32 one32 (replicate 32 9) 7 7 20 # sys_log sample_activated\<rparr>"

definition sample_granted :: "unit prompt_system" where
  "sample_granted =
     sample_claimed\<lparr>sys_world := sample_w6, sys_claims := {#}, sys_leases := {#sample_lease#},
       sys_log := Promoted sample_claim sample_commit 30 # sys_log sample_claimed\<rparr>"

lemma sample_issued_reach: "sample_reach sample_issued"
proof -
  have 0: "sample_reach (system_new sample_w0)" by (rule prompt_reachable.start [OF sample_w0_eq(1)])
  define s1 where "s1 = (system_new sample_w0)\<lparr>sys_world := sample_w1, sys_connections := [1]\<rparr>"
  have 1: "sample_reach s1"
    using prompt_reachable.step [OF 0 prompt_step.connect [of "system_new sample_w0"]] sample_w1_eq(1)
    by (simp add: system_new_def s1_def)
  define s2 where "s2 = s1\<lparr>sys_world := sample_w2, sys_reservations := {#sample_reservation#}\<rparr>"
  have 2: "sample_reach s2"
    using prompt_reachable.step [OF 1 prompt_step.reserve [of sample_hash sample_inner 1 7 sample_identity s1]]
      sample_w2_eq(1) by (simp add: system_new_def s1_def s2_def)
  show ?thesis
    using prompt_reachable.step [OF 2 prompt_step.issue [of s2 sample_reservation "{#}" sample_hash sample_fill sample_pending]]
      sample_w3_eq(1) by (simp add: system_new_def s1_def s2_def sample_issued_def sample_w3_eq(2))
qed

lemma sample_activated_reach: "sample_reach sample_activated"
  using prompt_reachable.step [OF sample_issued_reach prompt_step.activate [of sample_issue sample_issued]]
    sample_w4_eq(1)
  by (simp add: sample_issued_def sample_activated_def sample_w3_eq(2))

lemma sample_claimed_reach: "sample_reach sample_claimed"
  using prompt_reachable.step [OF sample_activated_reach
      prompt_step.claim [of sample_activated sample_issue "{#}" sample_hash sample_inner 20
        "pi_token sample_issue" "replicate 32 9" 7 7]] sample_w5_eq(1)
  by (simp add: sample_issued_def sample_activated_def sample_claimed_def sample_w3_eq(2))

lemma sample_granted_reach: "sample_reach sample_granted"
  using prompt_reachable.step [OF sample_claimed_reach
      prompt_step.promote [of sample_claimed sample_claim "{#}" 30 sample_commit]] sample_w6_eq(1)
  by (simp add: sample_issued_def sample_activated_def sample_claimed_def sample_granted_def)

lemma sample_inner_wf: "inner_wf sample_inner"
  by (simp add: inner_wf_def sample_inner_def usize_max_def usize_limit_def)

lemmas sample_worlds =
  sample_w6_eq(2,3) sample_w5_eq(2,3) sample_w4_eq(2) sample_w3_eq(2,3) sample_w2_eq(2,3)
  sample_w1_eq(2) sample_w0_eq(2)

lemmas sample_systems = sample_granted_def sample_claimed_def sample_activated_def sample_issued_def

end
