(* ===== verification/PromptProperties.thy ===== *)
theory PromptProperties
  imports PromptSamples
begin

section \<open>Properties of the prompt manager\<close>

text \<open>
  The properties of \<^verbatim>\<open>prompt_state.rs\<close>, over every program that uses the manager (\<open>prompt_reachable\<close>) and
  with SHA-256 and the entropy source arbitrary.  Where two digests are compared, the statement is
  about the digests; equal inputs follow up to a collision of the hash.
\<close>

text \<open>C11. The manager's tables are exactly the guards its clients hold: while it is open, reservations,
  pending tokens and active transactions are in one-to-one correspondence with the
  \<open>BeginReservation\<close>, \<open>PendingIssue\<close>, and \<open>CommitClaim\<close> and \<open>ActiveLease\<close> guards, the table by
  connection is the inverse of the table by token, and no token lookup occurs twice; once it is
  terminal all tables are empty and every transaction still held is cancelled.\<close>

theorem prompt_tables_match_guards:
  assumes "prompt_reachable sha256 fill inner s" and "inner_wf inner"
  defines "st \<equiv> pw_state (sys_world s)"
  shows "if ms_terminal st
    then tables_empty st
      \<and> (\<forall>g \<in># sys_claims s. control_is_cancelled (cc_control g) (sys_world s))
      \<and> (\<forall>g \<in># sys_leases s. control_is_cancelled (al_control g) (sys_world s))
    else tables_wf st
      \<and> guards_match st (sys_reservations s) (sys_issues s) (sys_claims s) (sys_leases s)"
  using prompt_reachable_inv [OF assms(1,2)] by (simp add: system_inv_def prompt_inv_def st_def)

theorem prompt_tables_match_guards_witness:
  "tables_wf (pw_state (sys_world sample_claimed))
   \<and> image_mset claim_key {#sample_claim#} = image_mset active_key {#(1, Claim 0 one32)#}"
  using prompt_tables_match_guards [OF sample_claimed_reach sample_inner_wf]
  by (simp add: sample_systems sample_worlds guards_match_def)

text \<open>The configured limits hold in every reachable system: at most \<open>max_pending_global\<close> reservations
  and tokens in all, at most \<open>max_pending_per_uid\<close> for each peer, and at most \<open>max_active\<close> active
  transactions.\<close>

theorem prompt_limits_hold:
  assumes "prompt_reachable sha256 fill inner s" and "inner_wf inner"
  defines "st \<equiv> pw_state (sys_world s)"
  shows "length (ms_provisional st) + length (ms_pending st) \<le> mi_max_pending_global inner
    \<and> length (filter (\<lambda>p. prov_peer_uid (snd p) = uid) (ms_provisional st))
      + length (filter (\<lambda>p. pr_peer_uid (snd p) = uid) (ms_pending st)) \<le> mi_max_pending_per_uid inner
    \<and> length (ms_active st) \<le> mi_max_active inner"
  using prompt_reachable_inv [OF assms(1,2)]
  by (auto simp: system_inv_def prompt_inv_def tables_empty_def limits_hold_def st_def split: if_splits)

theorem prompt_limits_hold_witness:
  "length (ms_active (pw_state (sys_world sample_granted))) \<le> 2"
  using prompt_limits_hold [OF sample_granted_reach sample_inner_wf] by (simp add: sample_inner_def)

text \<open>Nothing leaks: when every guard has been dropped or consumed, all four tables are empty.\<close>

theorem prompt_no_leak:
  assumes "prompt_reachable sha256 fill inner s" and "inner_wf inner"
    and "sys_reservations s = {#}" "sys_issues s = {#}" "sys_claims s = {#}" "sys_leases s = {#}"
  shows "tables_empty (pw_state (sys_world s))"
  using prompt_reachable_inv [OF assms(1,2)] assms(3-)
  by (auto simp: system_inv_def prompt_inv_def tables_empty_def guards_match_def tables_wf_def
      split: if_splits)

theorem prompt_no_leak_witness: "tables_empty (pw_state (sys_world (system_new sample_w0)))"
  using prompt_no_leak [OF prompt_reachable.start [OF sample_w0_eq(1)] sample_inner_wf]
  by (simp add: system_new_def)

text \<open>C1. Every grant has its history.  Before a promotion the same claim was made, before the prompt
  deadline of an activation of the same lookup, with a token and a client nonce whose digests are
  those of the token and nonce of an issue of that lookup; the peer, target, service and origin of
  the promotion are those of that issue, its snapshot compares equal, and the promotion came within
  the active timeout of the claim.\<close>

theorem prompt_grant_history:
  assumes "prompt_reachable sha256 fill inner s" and "inner_wf inner"
    and log: "sys_log s = later @ Promoted g b now # earlier"
  defines "secret \<equiv> ms_instance_secret (pw_state (sys_world s))"
  shows "\<exists>l token0 issue t token nonce at.
    Claimed g l token nonce (cb_peer_uid b) (ci_uid (cb_target b)) at \<in> set earlier
    \<and> Activated l t \<in> set earlier \<and> Issued l token0 issue \<in> set earlier
    \<and> at < t + mi_prompt_timeout inner \<and> now < at + mi_active_timeout inner
    \<and> lookup_of sha256 secret token = l \<and> lookup_of sha256 secret token0 = l
    \<and> nonce_binding_of sha256 secret nonce = nonce_binding_of sha256 secret (pb_client_nonce issue)
    \<and> pb_peer_uid issue = cb_peer_uid b \<and> pb_target issue = cb_target b
    \<and> pb_pam_service issue = cb_pam_service b \<and> pb_origin issue = cb_origin b
    \<and> snapshot_eq (pb_snapshot issue) (cb_snapshot b)"
proof -
  have ok: "history_ok sha256 inner secret (sys_log s)"
    using prompt_reachable_history [OF assms(1,2)] by (simp add: history_inv_def secret_def)
  then have "history_ok sha256 inner secret (Promoted g b now # earlier)"
    unfolding log by (rule history_ok_append)
  then obtain at where m: "promotion_matches g b" and c: "claimed_at earlier g at"
    and now: "now < at + mi_active_timeout inner" and ok: "history_ok sha256 inner secret earlier"
    by auto
  from c obtain l token nonce peer target_uid where
    e: "Claimed g l token nonce peer target_uid at \<in> set earlier" by (auto simp: claimed_at_def)
  then obtain xs ys where split: "earlier = xs @ Claimed g l token nonce peer target_uid at # ys"
    by (meson split_list)
  from ok [unfolded split]
  have "history_ok sha256 inner secret (Claimed g l token nonce peer target_uid at # ys)"
    by (rule history_ok_append)
  then have j: "claim_justified sha256 inner secret ys g l token nonce peer target_uid at" by simp
  then obtain token0 issue t where ev: "Issued l token0 issue \<in> set ys" "Activated l t \<in> set ys"
    and "at < t + mi_prompt_timeout inner" "lookup_of sha256 secret token = l"
      "lookup_of sha256 secret token0 = l"
      "nonce_binding_of sha256 secret nonce = nonce_binding_of sha256 secret (pb_client_nonce issue)"
    and f: "pb_peer_uid issue = peer" "ci_uid (pb_target issue) = target_uid"
      "cc_peer_uid g = pb_peer_uid issue" "cc_target g = pb_target issue"
      "cc_pam_service g = pb_pam_service issue" "cc_origin g = pb_origin issue"
      "cc_snapshot g = pb_snapshot issue"
    unfolding claim_justified_def by (elim exE conjE) simp
  moreover have "Issued l token0 issue \<in> set earlier" "Activated l t \<in> set earlier"
    using ev by (simp_all add: split)
  moreover have "peer = cb_peer_uid b" "target_uid = ci_uid (cb_target b)"
    using m f by (auto simp: promotion_matches_def)
  ultimately show ?thesis using e m f now unfolding promotion_matches_def by metis
qed

theorem prompt_grant_history_witness:
  "\<exists>l token at. Claimed sample_claim l token (replicate 32 9) 7 7 at \<in> set (sys_log sample_claimed)
     \<and> 30 < at + 50"
  using prompt_grant_history [OF sample_granted_reach sample_inner_wf,
      of "[]" sample_claim sample_commit 30 "sys_log sample_claimed"]
  by (auto simp: sample_systems sample_commit_def sample_identity_def sample_inner_def)

text \<open>C12. A token is used at most once: in every reachable system the number of successful claims with a
  lookup is at most the number of times a token with that lookup was issued, and strictly less while
  such a token is pending.\<close>

theorem prompt_token_single_use:
  assumes "prompt_reachable sha256 fill inner s" and "inner_wf inner"
  shows "claims_of l (sys_log s) + (if hm_contains (ms_pending (pw_state (sys_world s))) l then 1 else 0)
    \<le> issues_of l (sys_log s)"
proof -
  have "claims_of l (sys_log s)
      + (if l \<in> fst ` set (ms_pending (pw_state (sys_world s))) then 1 else 0) \<le> issues_of l (sys_log s)"
    using prompt_reachable_history [OF assms] unfolding history_inv_def by blast
  then show ?thesis by (simp add: hm_contains_def not_in_keys)
qed

theorem prompt_token_single_use_witness: "claims_of one32 (sys_log sample_claimed) \<le> 1"
  using prompt_token_single_use [OF sample_claimed_reach sample_inner_wf, of one32]
  by (simp add: sample_systems issues_of_def split: if_splits)

subsection \<open>Exact conditions\<close>

lemma held_issue:
  assumes "prompt_reachable sha256 fill inner s" and "inner_wf inner"
    and "g \<in># sys_issues s" and "\<not> ms_terminal (pw_state (sys_world s))"
  obtains l rec I where "pi_lookup g = Some l" and "hm_get (ms_pending (pw_state (sys_world s))) l = Some rec"
    and "open_inv inner (pw_state (sys_world s)) (sys_reservations s) (add_mset g I) (sys_claims s) (sys_leases s)"
    and "length l = 32" and "length (pr_nonce_binding rec) = 32"
proof -
  let ?st = "pw_state (sys_world s)"
  obtain I where I: "sys_issues s = add_mset g I" using assms(3) by (metis insert_DiffM)
  have o: "open_inv inner ?st (sys_reservations s) (add_mset g I) (sys_claims s) (sys_leases s)"
    using prompt_reachable_inv [OF assms(1,2)] assms(4) I by (simp add: system_inv_def prompt_inv_def)
  obtain l rec where l: "pi_lookup g = Some l" and m: "(l, rec) \<in> set (ms_pending ?st)"
    using o by (auto elim: guards_match_issue)
  have get: "hm_get (ms_pending ?st) l = Some rec" using o m by (simp add: hm_get_Some_in tables_wf_unique)
  have "pending_justified sha256 inner (ms_instance_secret ?st) (sys_log s) l rec"
    using prompt_reachable_history [OF assms(1,2)] m by (auto simp: history_inv_def)
  then have "length l = 32" "length (pr_nonce_binding rec) = 32"
    by (auto simp: pending_justified_def nonce_binding_of_def)
  with that [OF l get o] show ?thesis by blast
qed

definition claim_condition ::
  "hash \<Rightarrow> manager_inner \<Rightarrow> 's manager_state \<Rightarrow> digest \<Rightarrow> pending_record \<Rightarrow> instant \<Rightarrow> bytes \<Rightarrow> bytes
   \<Rightarrow> u32 \<Rightarrow> u32 \<Rightarrow> bool" where
  "claim_condition sha256 inner st l rec now token nonce peer target_uid \<longleftrightarrow>
     lookup_of sha256 (ms_instance_secret st) token = l
     \<and> pr_peer_uid rec = peer \<and> ci_uid (pr_target rec) = target_uid
     \<and> pr_nonce_binding rec = nonce_binding_of sha256 (ms_instance_secret st) nonce
     \<and> (\<exists>expiry. pr_expires_at rec = Some expiry \<and> now < expiry)
     \<and> length (ms_active st) < mi_max_active inner \<and> ms_next_active st \<noteq> - 1
     \<and> now + mi_active_timeout inner < 2 ^ 63 * 1000000000
     \<and> now + mi_commit_to_camera_timeout inner < 2 ^ 63 * 1000000000"

text \<open>C16. A claim on a held token of an open manager succeeds exactly when the supplied token hashes to
  the token's lookup, the peer and target user ids and the nonce digest are those of the issue, the
  activation has not expired, an active slot and an identifier are free and the two deadlines are
  representable.\<close>

theorem claim_succeeds_iff:
  assumes "prompt_reachable sha256 fill inner s" and "inner_wf inner"
    and "g \<in># sys_issues s" and t: "\<not> ms_terminal (pw_state (sys_world s))"
    and p: "\<not> pw_poisoned (sys_world s)"
    and l: "pi_lookup g = Some l" and rec: "hm_get (ms_pending (pw_state (sys_world s))) l = Some rec"
  shows "(\<exists>c w. pending_issue_claim_commit sha256 inner now g token nonce peer target_uid (sys_world s) = (Inr c, w))
    \<longleftrightarrow> claim_condition sha256 inner (pw_state (sys_world s)) l rec now token nonce peer target_uid"
proof -
  let ?w = "sys_world s" and ?st = "pw_state (sys_world s)"
  obtain I where o: "open_inv inner ?st (sys_reservations s) (add_mset g I) (sys_claims s) (sys_leases s)"
    and len: "length l = 32" "length (pr_nonce_binding rec) = 32"
    using held_issue [OF assms(1-4)] l rec by (metis option.inject)
  obtain rec' where rec': "hm_get (ms_pending ?st) l = Some rec'"
      "pr_connection_binding rec' = pi_connection_binding g"
    and take: "take_pending sha256 (pi_connection_binding g) l token ?st =
      (if constant_time_eq (lookup_of sha256 (ms_instance_secret ?st) token) l then Some rec' else None,
       ?st\<lparr>ms_pending := hm_remove l (ms_pending ?st),
           ms_pending_by_connection := hm_remove (pi_connection_binding g) (ms_pending_by_connection ?st)\<rparr>)"
    using take_pending_guard [OF o l] by metis
  have "rec' = rec" using rec rec'(1) by simp
  then show ?thesis
    using t p take rec' len
    by (auto simp: pending_issue_claim_commit_eq [OF l] claim_commit_def lock_state_def Let_def
        claim_condition_def not_expired_def instant_checked_add_def constant_time_eq_iff nonce_binding_of_def
        split: if_splits option.splits)
qed

theorem claim_succeeds_iff_witness:
  "\<not> (\<exists>c w. pending_issue_claim_commit sample_hash sample_inner 110 sample_issue one32 (replicate 32 9) 7 7
         (sys_world sample_activated) = (Inr c, w))
   \<and> (\<exists>c w. pending_issue_claim_commit sample_hash sample_inner 109 sample_issue one32 (replicate 32 9) 7 7
         (sys_world sample_activated) = (Inr c, w))"
  using claim_succeeds_iff [OF sample_activated_reach sample_inner_wf, of sample_issue one32]
  by (simp add: sample_systems sample_worlds claim_condition_def sample_record_pending_def
      sample_identity_def sample_inner_def)

text \<open>A token is consumed by its first use: after any claim or cancellation through a held guard,
  successful or refused, the manager no longer knows the token.\<close>

theorem claim_consumes_token:
  assumes "prompt_reachable sha256 fill inner s" and "inner_wf inner"
    and "g \<in># sys_issues s" and l: "pi_lookup g = Some l"
    and run: "pending_issue_claim_commit sha256 inner now g token nonce peer target_uid (sys_world s) = (r, w)
      \<or> pending_issue_cancel sha256 now g token nonce peer target_uid (sys_world s) = (q, w)"
  shows "hm_get (ms_pending (pw_state w)) l = None
    \<and> hm_get (ms_pending_by_connection (pw_state w)) (pi_connection_binding g) = None"
proof -
  let ?w = "sys_world s" and ?st = "pw_state (sys_world s)"
  consider "pw_poisoned ?w" | "\<not> pw_poisoned ?w" "ms_terminal ?st" | "\<not> pw_poisoned ?w" "\<not> ms_terminal ?st"
    by blast
  then show ?thesis
  proof cases
    case 1
    with run show ?thesis
      by (auto simp: pending_issue_claim_commit_eq [OF l] pending_issue_cancel_eq [OF l] claim_commit_def
          cancel_pending_def lock_state_def locked_run fail_closed_locked_def)
  next
    case 2
    moreover have "tables_empty ?st"
      using prompt_reachable_inv [OF assms(1,2)] 2 by (simp add: system_inv_def prompt_inv_def)
    ultimately show ?thesis
      using run
      by (auto simp: pending_issue_claim_commit_eq [OF l] pending_issue_cancel_eq [OF l] claim_commit_def
          cancel_pending_def lock_state_def locked_run tables_empty_def)
  next
    case 3
    obtain I where o: "open_inv inner ?st (sys_reservations s) (add_mset g I) (sys_claims s) (sys_leases s)"
      using held_issue [OF assms(1-3) 3(2)] by metis
    define st1 where "st1 = ?st\<lparr>ms_pending := hm_remove l (ms_pending ?st),
        ms_pending_by_connection := hm_remove (pi_connection_binding g) (ms_pending_by_connection ?st)\<rparr>"
    obtain rec where take: "take_pending sha256 (pi_connection_binding g) l token ?st =
        (if constant_time_eq (lookup_of sha256 (ms_instance_secret ?st) token) l then Some rec else None, st1)"
      using take_pending_guard [OF o l] unfolding st1_def by metis
    have "hm_get (ms_pending st1) l = None"
      "hm_get (ms_pending_by_connection st1) (pi_connection_binding g) = None"
      by (simp_all add: st1_def)
    with run 3 take show ?thesis
      by (auto simp: pending_issue_claim_commit_eq [OF l] pending_issue_cancel_eq [OF l] claim_commit_def
          cancel_pending_def lock_state_def locked_run Let_def split: if_splits option.splits)
  qed
qed

theorem claim_consumes_token_witness:
  "hm_get (ms_pending (pw_state (snd (pending_issue_cancel sample_hash 200 sample_issue [] [] 0 0
     (sys_world sample_activated))))) one32 = None"
  using claim_consumes_token [OF sample_activated_reach sample_inner_wf, of sample_issue one32
      200 "[]" "[]" 0 0 "Inl Invalid" _ "fst (pending_issue_cancel sample_hash 200 sample_issue [] [] 0 0
        (sys_world sample_activated))"]
  by (simp add: sample_systems sample_w3_eq(2))

text \<open>C15. A promotion of a held claim of an open manager succeeds exactly when the claim's transaction is
  neither cancelled nor past its deadline and the binding presented agrees with the claim in peer,
  target, service, origin and security snapshot.\<close>

theorem promote_succeeds_iff:
  assumes "prompt_reachable sha256 fill inner s" and "inner_wf inner"
    and "g \<in># sys_claims s" and t: "\<not> ms_terminal (pw_state (sys_world s))"
    and p: "\<not> pw_poisoned (sys_world s)"
  shows "(\<exists>lease w. commit_claim_promote now g b (sys_world s) = (Inr lease, w)) \<longleftrightarrow>
    \<not> control_is_cancelled (cc_control g) (sys_world s)
    \<and> now < ac_deadline (pw_heap (sys_world s) ! cc_control g) \<and> promotion_matches g b"
proof -
  let ?st = "pw_state (sys_world s)"
  obtain C where "sys_claims s = add_mset g C" using assms(3) by (metis insert_DiffM)
  then have o: "open_inv inner ?st (sys_reservations s) (sys_issues s) (add_mset g C) (sys_leases s)"
    using prompt_reachable_inv [OF assms(1,2)] t by (simp add: system_inv_def prompt_inv_def)
  obtain i l where i: "cc_active_id g = Some i" and m: "(i, Claim (cc_control g) l) \<in> set (ms_active ?st)"
    using o by (auto elim: guards_match_claim)
  have "hm_get (ms_active ?st) i = Some (Claim (cc_control g) l)"
    using o m by (simp add: hm_get_Some_in tables_wf_unique)
  with i t p show ?thesis
    by (auto simp: commit_claim_promote_def promote_claim_def lock_state_def live_claim_def
        promotion_matches_def split: if_splits)
qed

theorem promote_succeeds_iff_witness:
  "\<not> (\<exists>lease w. commit_claim_promote 70 sample_claim sample_commit (sys_world sample_claimed) = (Inr lease, w))"
  using promote_succeeds_iff [OF sample_claimed_reach sample_inner_wf, of sample_claim 70 sample_commit]
  by (simp add: sample_systems sample_worlds active_control_new_def)

subsection \<open>Failing closed\<close>

text \<open>C17. A manager that was shut down or whose lock was poisoned refuses everything: every operation
  returns \<open>Unavailable\<close> and leaves the manager terminal.\<close>

theorem prompt_fails_closed:
  assumes "pw_poisoned w \<or> ms_terminal (pw_state w)"
  shows "fst (new_connection w) = Inl Unavailable
    \<and> fst (reserve_begin sha256 inner connection peer target w) = Inl Unavailable
    \<and> fst (issue_reserved sha256 fill reserved pb w) = Inl Unavailable
    \<and> fst (activate_pending inner now connection' l waker w) = Inl Unavailable
    \<and> fst (claim_commit sha256 inner now connection' l token nonce peer target_uid w) = Inl Unavailable
    \<and> fst (cancel_pending sha256 now connection' l token nonce peer target_uid w) = Inl Unavailable
    \<and> fst (promote_claim now i g cb w) = Inl Unavailable
    \<and> ms_terminal (pw_state (snd (is_terminated w))) \<and> fst (is_terminated w)"
  using assms
  by (cases "pw_poisoned w")
    (auto simp: new_connection_def reserve_begin_def issue_reserved_def activate_pending_def claim_commit_def
      cancel_pending_def promote_claim_def is_terminated_def lock_state_def locked_run fail_closed_locked_def
      split: option.splits)

theorem prompt_fails_closed_witness: "fst (new_connection (shutdown sample_w6)) = Inl Unavailable"
  using prompt_fails_closed [of "shutdown sample_w6"] by (simp add: shutdown_def fail_closed_locked_def)

lemma terminal_locked:
  "locked body w = (r, w') \<Longrightarrow> ms_terminal (pw_state w) \<Longrightarrow> ms_terminal (pw_state w')"
  by (erule locked_cases) (auto simp: fail_closed_locked_def)

lemma terminal_snd_locked: "ms_terminal (pw_state w) \<Longrightarrow> ms_terminal (pw_state (snd (locked body w)))"
  using terminal_locked [OF surjective_pairing] by blast

lemma terminal_drops:
  assumes "ms_terminal (pw_state w)"
  shows "ms_terminal (pw_state (drop_begin_reservation g w))"
    and "ms_terminal (pw_state (drop_pending_issue i w))"
    and "ms_terminal (pw_state (drop_commit_claim c w))" and "ms_terminal (pw_state (drop_active_lease l w))"
  using assms
  by (auto simp: drop_begin_reservation_def drop_pending_issue_def drop_commit_claim_def drop_active_lease_def
      release_provisional_def release_pending_def release_active_def Let_def terminal_snd_locked
      split: option.splits)

lemma terminal_ops:
  assumes "ms_terminal (pw_state w)"
  shows "new_connection w = (r1, w') \<Longrightarrow> ms_terminal (pw_state w')"
    and "reserve_begin sha256 inner c peer target w = (r2, w') \<Longrightarrow> ms_terminal (pw_state w')"
    and "begin_reservation_issue sha256 fill g b w = (r3, w') \<Longrightarrow> ms_terminal (pw_state w')"
    and "activate_with_waker inner now i waker w = (r4, w') \<Longrightarrow> ms_terminal (pw_state w')"
    and "pending_issue_cancel sha256 now i token nonce peer target_uid w = (r5, w') \<Longrightarrow> ms_terminal (pw_state w')"
  using assms
  by (auto simp: new_connection_def reserve_begin_def begin_reservation_issue_eq issue_reserved_def
      activate_with_waker_def activate_pending_def pending_issue_cancel_def cancel_pending_def Let_def
      terminal_drops split: option.splits prod.splits dest: terminal_locked)

lemma terminal_claim_promote:
  assumes "ms_terminal (pw_state w)"
  shows "pending_issue_claim_commit sha256 inner now i token nonce peer target_uid w = (r6, w') \<Longrightarrow> ms_terminal (pw_state w')"
    and "commit_claim_promote now g b w = (r7, w') \<Longrightarrow> ms_terminal (pw_state w')"
  using assms
  by (auto simp: pending_issue_claim_commit_def claim_commit_def commit_claim_promote_def promote_claim_def
      lock_state_def Let_def fail_closed_locked_def terminal_drops
      split: option.splits prod.splits if_splits)

lemma terminal_polls:
  assumes "ms_terminal (pw_state w)"
  shows "ms_terminal (pw_state (snd (cancellation_is_cancelled a now w)))"
    and "ms_terminal (pw_state (snd (check_deadline g now w)))"
    and "ms_terminal (pw_state (snd (is_terminated w)))" and "ms_terminal (pw_state (shutdown w))"
  using assms
  by (simp_all add: cancellation_is_cancelled_def check_deadline_def is_terminated_def lock_state_def
      Let_def shutdown_def fail_closed_locked_def)

lemma terminal_step:
  assumes "prompt_step sha256 fill inner s s'" and "ms_terminal (pw_state (sys_world s))"
  shows "ms_terminal (pw_state (sys_world s'))"
  using assms(1)
  by cases (use assms(2) in \<open>auto intro: terminal_ops terminal_claim_promote terminal_drops terminal_polls\<close>)

lemma terminal_steps:
  assumes "(prompt_step sha256 fill inner)\<^sup>*\<^sup>* s s'" and "ms_terminal (pw_state (sys_world s))"
  shows "ms_terminal (pw_state (sys_world s'))"
  using assms by induction (auto dest: terminal_step)

lemma reachable_steps:
  assumes "(prompt_step sha256 fill inner)\<^sup>*\<^sup>* s s'" and "prompt_reachable sha256 fill inner s"
  shows "prompt_reachable sha256 fill inner s'"
  using assms by induction (auto intro: prompt_reachable.step)

text \<open>C18. A shutdown is final and complete: afterwards the sockets registered as shutdown wakers of
  the pending tokens have been shut down, and in whatever the clients do next the tables stay
  empty, the manager stays terminal and every claim and lease still held is cancelled.\<close>

theorem prompt_shutdown_final:
  assumes "prompt_reachable sha256 fill inner s" and "inner_wf inner"
    and "(prompt_step sha256 fill inner)\<^sup>*\<^sup>* (s\<lparr>sys_world := shutdown (sys_world s)\<rparr>) s'"
  shows "(\<forall>p \<in> set (ms_pending (pw_state (sys_world s))). \<forall>waker.
      pr_shutdown_waker (snd p) = Some waker \<longrightarrow> waker \<in> set (pw_shut (shutdown (sys_world s))))
    \<and> ms_terminal (pw_state (sys_world s')) \<and> tables_empty (pw_state (sys_world s'))
    \<and> (\<forall>g \<in># sys_claims s'. control_is_cancelled (cc_control g) (sys_world s'))
    \<and> (\<forall>g \<in># sys_leases s'. control_is_cancelled (al_control g) (sys_world s'))"
proof -
  let ?s = "s\<lparr>sys_world := shutdown (sys_world s)\<rparr>"
  have "prompt_reachable sha256 fill inner ?s"
    by (rule prompt_reachable.step [OF assms(1) prompt_step.stop])
  then have "prompt_reachable sha256 fill inner s'" by (rule reachable_steps [OF assms(3)])
  then have inv: "system_inv inner s'" by (rule prompt_reachable_inv [OF _ assms(2)])
  have "ms_terminal (pw_state (sys_world s'))"
    by (rule terminal_steps [OF assms(3)]) (simp add: shutdown_def fail_closed_locked_def)
  moreover have "set (List.map_filter (pr_shutdown_waker \<circ> snd) (ms_pending (pw_state (sys_world s))))
      \<subseteq> set (pw_shut (shutdown (sys_world s)))"
    by (simp add: shutdown_def fail_closed_def fail_closed_locked_def run_cleanup_def)
  ultimately show ?thesis
    using inv by (force simp: system_inv_def prompt_inv_def map_filter_def)
qed

theorem prompt_shutdown_final_witness:
  "control_is_cancelled 0 (shutdown sample_w6) \<and> 0 \<in> set (pw_shut (shutdown sample_w4))"
  using prompt_shutdown_final [OF sample_granted_reach sample_inner_wf rtranclp.rtrancl_refl]
    prompt_shutdown_final [OF sample_activated_reach sample_inner_wf rtranclp.rtrancl_refl]
  by (simp add: sample_systems sample_w6_eq(2) sample_w4_eq(2))

subsection \<open>Cancellation\<close>

text \<open>A resource registered with a transaction, before or after its cancellation, has been told to
  cancel as soon as the transaction is cancelled, whatever cancelled it.\<close>

theorem cancelled_resources_signalled:
  assumes "prompt_reachable sha256 fill inner s"
    and "Registered a resource \<in> set (sys_log s)" and "control_is_cancelled a (sys_world s)"
  shows "resource \<in> set (pw_signalled (sys_world s))"
  using prompt_reachable_controls [OF assms(1)] assms(2,3)
  by (auto simp: registered_ok_def controls_ok_def control_is_cancelled_def)

theorem cancelled_resources_signalled_witness:
  "5 \<in> set (pw_signalled (snd (control_cancel 0 (control_register_resource 0 5 sample_w6))))"
proof -
  define s where "s = sample_granted\<lparr>sys_world := control_register_resource 0 5 sample_w6,
    sys_log := Registered 0 5 # sys_log sample_granted\<rparr>"
  define s' where "s' = s\<lparr>sys_world := snd (control_cancel 0 (sys_world s))\<rparr>"
  have "sample_reach s"
    using prompt_reachable.step [OF sample_granted_reach prompt_step.register [of 0 sample_granted]]
    by (simp add: s_def sample_systems sample_w6_eq(3) sample_w5_eq(3))
  then have "sample_reach s'"
    using prompt_reachable.step prompt_step.cancel_control [of 0 s]
    by (fastforce simp: s_def s'_def sample_w6_eq(3) sample_w5_eq(3))
  then show ?thesis
    using cancelled_resources_signalled [of sample_hash sample_fill sample_inner s' 0 5]
    by (simp add: s_def s'_def control_is_cancelled_def control_cancel_nth sample_w6_eq(3) sample_w5_eq(3))
qed

text \<open>Connection identifiers are never handed out twice.\<close>

theorem connection_ids_distinct:
  assumes "prompt_reachable sha256 fill inner s"
  shows "distinct (sys_connections s)"
  using prompt_reachable_connections [OF assms] by (simp add: connections_ok_def)

theorem connection_ids_distinct_witness: "distinct (sys_connections sample_granted)"
  using connection_ids_distinct [OF sample_granted_reach] by simp

text \<open>C37. A thread that waits on a lease comes back, with the transaction cancelled, no later than the
  first wake-up at or past the deadline, provided the other threads leave the deadline alone, as
  every operation of the manager does.\<close>

theorem wait_cancelled_returns:
  assumes "\<exists>wake \<in> set wakes. d \<le> snd wake"
    and "\<And>others w. others \<in> fst ` set wakes \<Longrightarrow>
      al_control l < length (pw_heap w) \<and> ac_deadline (pw_heap w ! al_control l) = d \<Longrightarrow>
      al_control l < length (pw_heap (others w)) \<and> ac_deadline (pw_heap (others w) ! al_control l) = d"
    and "al_control l < length (pw_heap w) \<and> ac_deadline (pw_heap w ! al_control l) = d"
  shows "\<exists>w'. wait_cancelled l wakes w = Some w' \<and> control_is_cancelled (al_control l) w'"
proof (cases "control_is_cancelled (al_control l) w")
  case False
  have "\<exists>w'. wait_loop (al_control l) wakes w = Some w' \<and> control_is_cancelled (al_control l) w'"
    using assms
  proof (induction wakes arbitrary: w)
    case (Cons wake wakes)
    obtain others now where wake: "wake = (others, now)" by (rule prod.exhaust)
    let ?w = "others w"
    have h: "al_control l < length (pw_heap ?w) \<and> ac_deadline (pw_heap ?w ! al_control l) = d"
      using Cons.prems(2) [of others w] Cons.prems(3) wake by simp
    show ?case
    proof (cases "control_is_cancelled (al_control l) ?w \<or> d \<le> now")
      case True
      then show ?thesis
        using h by (auto simp: wake Let_def control_is_cancelled_def control_cancel_nth)
    next
      case False
      with Cons.prems(1) wake have "\<exists>wake \<in> set wakes. d \<le> snd wake" by auto
      then have "\<exists>w'. wait_loop (al_control l) wakes ?w = Some w' \<and> control_is_cancelled (al_control l) w'"
        by (rule Cons.IH) (use Cons.prems(2) h in auto)
      with False h wake show ?thesis by (simp add: Let_def)
    qed
  qed simp
  with False show ?thesis by (simp add: wait_cancelled_def)
qed (simp add: wait_cancelled_def)

theorem wait_cancelled_returns_witness:
  "\<exists>w'. wait_cancelled sample_lease [(id, 60), (id, 70)] sample_w6 = Some w' \<and> control_is_cancelled 0 w'"
  using wait_cancelled_returns [of "[(id, 60), (id, 70)]" 70 sample_lease sample_w6]
  by (auto simp: sample_w6_eq(2,3) sample_w5_eq(3) active_control_new_def)

text \<open>C39. A second activation of a token is refused but not without effect: the record's expiry has
  already been replaced by a deadline counted from the refused call.\<close>

theorem second_activation_extends_expiry:
  assumes "\<not> pw_poisoned w" "\<not> ms_terminal (pw_state w)"
    and "hm_get (ms_pending_by_connection (pw_state w)) connection = Some l"
    and "hm_get (ms_pending (pw_state w)) l = Some rec" and "pr_expires_at rec = Some expiry"
    and "now + mi_prompt_timeout inner < 2 ^ 63 * 1000000000"
  shows "\<exists>w'. activate_pending inner now connection l waker w = (Inl Invalid, w')
    \<and> hm_get (ms_pending (pw_state w')) l = Some (rec\<lparr>pr_expires_at := Some (now + mi_prompt_timeout inner)\<rparr>)"
  using assms by (simp add: activate_pending_def instant_checked_add_def locked_run)

theorem second_activation_extends_expiry_witness:
  "\<exists>w'. activate_pending sample_inner 90 one32 one32 None sample_w4 = (Inl Invalid, w')
    \<and> (\<exists>rec. hm_get (ms_pending (pw_state w')) one32 = Some rec \<and> pr_expires_at rec = Some 190)"
  using second_activation_extends_expiry [of sample_w4 one32 one32
      "sample_record_pending\<lparr>pr_expires_at := Some 110, pr_shutdown_waker := Some 0\<rparr>" 110 90 sample_inner None]
  by (auto simp: sample_w4_eq(2) sample_w3_eq(3) sample_w2_eq(3) sample_w1_eq(2) sample_w0_eq(2) sample_inner_def)

end
