(* ===== verification/PromptSnapshot.thy ===== *)
theory PromptSnapshot
  imports PromptDigest
begin

section \<open>What a security snapshot pins down\<close>

text \<open>
  The byte string hashed by \<open>SecuritySnapshot::capture\<close> determines every field of the presence and the
  security configuration, and the byte strings hashed by \<open>keyed_digest\<close> for different domains or
  values are different.  So two snapshots that compare equal were taken of the same configuration and
  the same storage state, or exhibit a collision of the hash.
\<close>

definition config_fields_ok :: "presence_config \<Rightarrow> security_config \<Rightarrow> bool" where
  "config_fields_ok p sec \<longleftrightarrow>
     (\<forall>service \<in> set (allowed_pam_services p). field_ok service)
     \<and> length (allowed_pam_services p) < 2 ^ 64
     \<and> field_ok (credential_name (cached sec)) \<and> field_ok (sealed_key_blob (ephemeral sec))
     \<and> field_ok (key_description (ephemeral sec)) \<and> field_ok (tpm_parent_handle (ephemeral sec))"

lemma presence_mode_byte_inject [simp]: "presence_mode_byte a = presence_mode_byte b \<longleftrightarrow> a = b"
  by (cases a; cases b) simp_all

lemma bool_byte_inject [simp]: "bool_byte a = bool_byte b \<longleftrightarrow> a = b"
  by (simp add: bool_byte_def)

lemma embedding_mode_u8_inject [simp]: "embedding_mode_u8 a = embedding_mode_u8 b \<longleftrightarrow> a = b"
  by (cases a; cases b) simp_all

lemma unat_ucast_u32 [simp]: "unat (ucast (x :: u32) :: u64) = unat x"
proof -
  have "unat x < 2 ^ 32" using unsigned_less [of x] by simp
  then have "unat x < 2 ^ 64" by simp
  then show ?thesis by (simp add: unsigned_ucast_eq take_bit_nat_eq_self)
qed

lemma ucast_u32_u64_inject [simp]: "(ucast (a :: u32) :: u64) = ucast b \<longleftrightarrow> a = b"
  by (metis unat_ucast_u32 word_unat_eq_iff)

lemma small_count_inject:
  assumes "m < 2 ^ 64" and "n < 2 ^ 64"
  shows "(word_of_nat m :: u64) = word_of_nat n \<longleftrightarrow> m = n"
proof -
  have "unat (word_of_nat k :: u64) = k" if "k < 2 ^ 64" for k
    using that by (simp add: unat_of_nat)
  then show ?thesis using assms by metis
qed

definition policy_head :: "presence_config \<Rightarrow> bytes" where
  "policy_head p =
     hash_field (ascii ''howy-prompt-policy-v2'') @ hash_field [presence_mode_byte (presence_mode p)]
     @ hash_field [bool_byte (local_only p)] @ hash_u64 (prompt_timeout_ms p)
     @ hash_u64 (commit_to_camera_ms p) @ hash_u64 (scan_timeout_ms p)
     @ hash_u64 (ucast (max_pending_per_uid p)) @ hash_u64 (ucast (max_pending_global p))
     @ hash_u64 (if length (allowed_pam_services p) < 2 ^ 64
                 then word_of_nat (length (allowed_pam_services p)) else - 1)"

definition policy_tail :: "security_config \<Rightarrow> bytes" where
  "policy_tail s =
     hash_field [embedding_mode_u8 (embedding_mode s)] @ hash_u64 (key_epoch s)
     @ hash_u64 (ucast (max_embeddings_per_user s)) @ hash_u64 (max_record_bytes s)
     @ hash_u64 (max_plaintext_bytes s) @ hash_field (credential_name (cached s))
     @ hash_u64 (ucast (max_cached_users (cached s))) @ hash_u64 (max_cache_bytes (cached s))
     @ hash_field [bool_byte (require_mlock (cached s))] @ hash_field (sealed_key_blob (ephemeral s))
     @ hash_field (key_description (ephemeral s)) @ hash_field (tpm_parent_handle (ephemeral s))"

lemma policy_input_split:
  "policy_input p s = policy_head p @ concat (map hash_field (allowed_pam_services p)) @ policy_tail s"
  by (simp add: policy_input_def policy_head_def policy_tail_def)

lemma policy_head_cancel:
  assumes "length (allowed_pam_services p) < 2 ^ 64" and "length (allowed_pam_services p') < 2 ^ 64"
    and "policy_head p @ r = policy_head p' @ r'"
  shows "p = p'\<lparr>allowed_pam_services := allowed_pam_services p\<rparr>
    \<and> length (allowed_pam_services p) = length (allowed_pam_services p') \<and> r = r'"
  using assms by (cases p; cases p')
    (simp add: policy_head_def hash_field_cancel hash_u64_cancel small_count_inject)

lemma policy_tail_inject:
  assumes "config_fields_ok p s" and "config_fields_ok p' s'" and "policy_tail s = policy_tail s'"
  shows "s = s'"
  using assms by (cases s; cases s'; cases "cached s"; cases "cached s'"; cases "ephemeral s"; cases "ephemeral s'")
    (simp add: policy_tail_def config_fields_ok_def hash_field_cancel hash_u64_cancel hash_field_cancel_end)

lemma policy_input_inject:
  assumes ok: "config_fields_ok p s" "config_fields_ok p' s'" and eq: "policy_input p s = policy_input p' s'"
  shows "p = p' \<and> s = s'"
proof -
  have *: "p = p'\<lparr>allowed_pam_services := allowed_pam_services p\<rparr>"
    "length (allowed_pam_services p) = length (allowed_pam_services p')"
    "concat (map hash_field (allowed_pam_services p)) @ policy_tail s =
     concat (map hash_field (allowed_pam_services p')) @ policy_tail s'"
    using policy_head_cancel [OF _ _ eq [unfolded policy_input_split]] ok
    by (simp_all add: config_fields_ok_def)
  have "allowed_pam_services p = allowed_pam_services p' \<and> policy_tail s = policy_tail s'"
    using framing.concat_put_cancel [OF *(2) _ _ *(3)] ok by (simp add: config_fields_ok_def)
  with *(1) policy_tail_inject [OF ok] show ?thesis by simp
qed

text \<open>C38. Two security snapshots compare equal exactly when their storage states are equal and their
  policies have the same digest, and the hashed byte strings of two policies are equal exactly when
  every field of the presence and security configuration agrees.  So equal snapshots of different
  policies are a collision of the hash.\<close>

theorem snapshot_pins_policy:
  assumes ok: "config_fields_ok (presence c) (security c)" "config_fields_ok (presence c') (security c')"
    and "length (pss_backend_identity st) = 32" "length (pss_policy_generation st) = 32"
    and "length (pss_backend_identity st') = 32" "length (pss_policy_generation st') = 32"
  defines "hashed \<equiv> \<lambda>c. policy_input (presence c) (security c)"
  shows "(snapshot_eq (capture sha256 c st) (capture sha256 c' st') \<longleftrightarrow>
      st = st' \<and> finalize sha256 (hashed c) = finalize sha256 (hashed c'))
    \<and> (hashed c = hashed c' \<longleftrightarrow> presence c = presence c' \<and> security c = security c')"
proof -
  have wf: "snapshot_wf (capture sha256 c st)" "snapshot_wf (capture sha256 c' st')"
    using assms(3-6) by (simp_all add: snapshot_wf_def capture_def)
  have "snapshot_eq (capture sha256 c st) (capture sha256 c' st') \<longleftrightarrow>
      capture sha256 c st = capture sha256 c' st'"
    by (rule snapshot_eq_iff [OF wf])
  then show ?thesis
    using policy_input_inject [OF ok] unfolding hashed_def by (auto simp: capture_def)
qed

theorem snapshot_pins_policy_witness:
  "policy_input (presence_default\<lparr>local_only := False\<rparr>) security_default
     \<noteq> policy_input (presence_default\<lparr>local_only := True\<rparr>) security_default"
proof -
  let ?st = "\<lparr>pss_health = Ready, pss_candidate = CandidateAbsent,
    pss_backend_identity = replicate 32 1, pss_policy_generation = replicate 32 2\<rparr>"
  let ?c = "\<lambda>b. legacy_defaults\<lparr>presence := presence_default\<lparr>local_only := b\<rparr>, security := security_default\<rparr>"
  have ok: "config_fields_ok (presence (?c b)) (security (?c b))" for b
    by (simp add: config_fields_ok_def presence_default_def security_default_def
        cached_security_default_def ephemeral_security_default_def field_ok_def)
  show ?thesis
    using snapshot_pins_policy [OF ok [of False] ok [of True], of ?st ?st rev]
    by (simp add: presence_default_def)
qed

end
