(* ===== verification/Cache.thy ===== *)
theory Cache
  imports Budget
begin

section \<open>The model cache\<close>

text \<open>
  \<^verbatim>\<open>crates/howy-daemon/src/storage/cache.rs\<close>.  A cached model is an \<open>Arc<BudgetedAuthModel>\<close>: here a cell
  of a heap with its strong count, and a cell whose last owner goes returns its permit to the
  budget.  Owners are the cache's entries and the leases and handles outside it.  A panic of the code
  (an \<open>expect\<close> on the byte accounting, a release that underflows the budget) is the result \<open>None\<close>.
  The lock of the cache is held by each operation as a whole, so an operation is one step.
\<close>

record model_cache_limits =
  cl_max_users :: usize
  cl_max_bytes :: usize

definition model_cache_limits_new :: "u32 \<Rightarrow> u64 \<Rightarrow> storage_backend_error + model_cache_limits" where
  "model_cache_limits_new max_users max_bytes =
     (if unat max_users = 0 then Inl (InvalidInput ''cache user limit'')
      else if unat max_bytes = 0 then Inl (InvalidInput ''cache byte limit'')
      else Inr \<lparr>cl_max_users = unat max_users, cl_max_bytes = unat max_bytes\<rparr>)"

record model_cell =
  cell_model :: auth_model
  cell_permit :: permit
  cell_strong :: nat

record cache_entry =
  ce_model :: nat
  ce_bytes :: usize
  ce_last_used :: u64

record cache_state =
  cs_entries :: "(str, cache_entry) hashmap"
  cs_bytes :: usize
  cs_clock :: u64
  cs_revision :: "128 word"
  cs_disabled :: bool

record cache_world =
  cw_state :: cache_state
  cw_budget :: budget
  cw_cells :: "model_cell list"

definition model_cache_new :: "budget \<Rightarrow> cache_world" where
  "model_cache_new b =
     \<lparr>cw_state = \<lparr>cs_entries = [], cs_bytes = 0, cs_clock = 0, cs_revision = 0, cs_disabled = False\<rparr>,
      cw_budget = b, cw_cells = []\<rparr>"

subsection \<open>Shared models\<close>

definition cell_clone :: "nat \<Rightarrow> cache_world \<Rightarrow> cache_world" where
  "cell_clone a w =
     w\<lparr>cw_cells := (cw_cells w)[a := (cw_cells w ! a)\<lparr>cell_strong := Suc (cell_strong (cw_cells w ! a))\<rparr>]\<rparr>"

definition cell_drop :: "nat \<Rightarrow> cache_world \<Rightarrow> cache_world option" where
  "cell_drop a w =
     (let c = cw_cells w ! a;
          w' = w\<lparr>cw_cells := (cw_cells w)[a := c\<lparr>cell_strong := cell_strong c - 1\<rparr>]\<rparr>
      in if cell_strong c = 1
         then map_option (\<lambda>b. w'\<lparr>cw_budget := b\<rparr>) (permit_drop (cw_budget w) (cell_permit c))
         else Some w')"

definition cell_bytes :: "cache_world \<Rightarrow> nat \<Rightarrow> usize" where
  "cell_bytes w a = am_plaintext_bytes (cell_model (cw_cells w ! a))"

subsection \<open>Cache state\<close>

definition next_clock :: "cache_state \<Rightarrow> u64 \<times> cache_state" where
  "next_clock st =
     (let st = (if cs_clock st = - 1
                then st\<lparr>cs_entries := map (\<lambda>(u, e). (u, e\<lparr>ce_last_used := 0\<rparr>)) (cs_entries st),
                        cs_clock := 0\<rparr>
                else st);
          clock = cs_clock st + 1
      in (clock, st\<lparr>cs_clock := clock\<rparr>))"

definition cache_remove ::
  "str \<Rightarrow> cache_state \<Rightarrow> (cache_entry option \<times> cache_state) option" where
  "cache_remove user st =
     (case hm_get (cs_entries st) user of
        None \<Rightarrow> Some (None, st)
      | Some removed \<Rightarrow>
          map_option (\<lambda>bytes.
              (Some removed, st\<lparr>cs_entries := hm_remove user (cs_entries st), cs_bytes := bytes,
                                cs_revision := cs_revision st + 1\<rparr>))
            (checked_sub (cs_bytes st) (ce_bytes removed)))"

text \<open>The callers of \<open>remove\<close> drop the entry it returns.\<close>

definition remove_and_drop :: "str \<Rightarrow> cache_world \<Rightarrow> (bool \<times> cache_world) option" where
  "remove_and_drop user w =
     (case cache_remove user (cw_state w) of
        None \<Rightarrow> None
      | Some (None, st) \<Rightarrow> Some (False, w\<lparr>cw_state := st\<rparr>)
      | Some (Some e, st) \<Rightarrow> map_option (Pair True) (cell_drop (ce_model e) (w\<lparr>cw_state := st\<rparr>)))"

fun bytes_less :: "bytes \<Rightarrow> bytes \<Rightarrow> bool" where
  "bytes_less xs [] = False"
| "bytes_less [] (y # ys) = True"
| "bytes_less (x # xs) (y # ys) = (x < y \<or> x = y \<and> bytes_less xs ys)"

definition older :: "str \<times> cache_entry \<Rightarrow> str \<times> cache_entry \<Rightarrow> bool" where
  "older p q \<longleftrightarrow>
     ce_last_used (snd p) < ce_last_used (snd q)
     \<or> ce_last_used (snd p) = ce_last_used (snd q) \<and> bytes_less (fst p) (fst q)"

fun oldest :: "(str \<times> cache_entry) list \<Rightarrow> (str \<times> cache_entry) option" where
  "oldest [] = None"
| "oldest (p # ps) = Some (fold (\<lambda>q m. if older q m then q else m) ps p)"

definition evict_lru_except :: "str option \<Rightarrow> cache_world \<Rightarrow> (bool \<times> cache_world) option" where
  "evict_lru_except protected w =
     (case oldest (filter (\<lambda>p. protected \<noteq> Some (fst p)) (cs_entries (cw_state w))) of
        None \<Rightarrow> Some (False, w)
      | Some p \<Rightarrow> remove_and_drop (fst p) w)"

definition evict_lru :: "cache_world \<Rightarrow> (bool \<times> cache_world) option" where
  "evict_lru w = evict_lru_except None w"

lemma cell_drop_state: "cell_drop a w = Some w' \<Longrightarrow> cw_state w' = cw_state w"
  by (auto simp: cell_drop_def Let_def split: if_splits)

lemma hm_remove_shorter: "hm_get m k = Some v \<Longrightarrow> length (hm_remove k m) < length m"
  unfolding hm_remove_filter by (rule length_filter_less [OF map_of_SomeD]) simp_all

lemma remove_and_drop_length:
  assumes "remove_and_drop user w = Some (True, w')"
  shows "length (cs_entries (cw_state w')) < length (cs_entries (cw_state w))"
proof -
  from assms obtain e where e: "hm_get (cs_entries (cw_state w)) user = Some e"
    by (auto simp: remove_and_drop_def cache_remove_def split: option.splits)
  with assms have "cell_drop (ce_model e) (w\<lparr>cw_state := (cw_state w)
      \<lparr>cs_entries := hm_remove user (cs_entries (cw_state w)), cs_bytes := cs_bytes (cw_state w) - ce_bytes e,
       cs_revision := cs_revision (cw_state w) + 1\<rparr>\<rparr>) = Some w'"
    by (auto simp: remove_and_drop_def cache_remove_def checked_sub_def split: option.splits if_splits)
  from cell_drop_state [OF this] e show ?thesis by (simp add: hm_remove_shorter)
qed

lemma evict_length:
  "evict_lru_except protected w = Some (True, w') \<Longrightarrow>
   length (cs_entries (cw_state w')) < length (cs_entries (cw_state w))"
  by (auto simp: evict_lru_except_def split: option.splits dest: remove_and_drop_length)

subsection \<open>Operations\<close>

definition touch :: "str \<Rightarrow> u64 \<Rightarrow> cache_entry \<Rightarrow> cache_state \<Rightarrow> cache_state" where
  "touch user clock e st =
     st\<lparr>cs_entries := hm_insert user (e\<lparr>ce_last_used := clock\<rparr>) (cs_entries st)\<rparr>"

definition cache_get :: "str \<Rightarrow> cache_world \<Rightarrow> nat option \<times> cache_world" where
  "cache_get user w =
     (if cs_disabled (cw_state w) then (None, w)
      else let (clock, st) = next_clock (cw_state w)
           in case hm_get (cs_entries st) user of
                None \<Rightarrow> (None, w\<lparr>cw_state := st\<rparr>)
              | Some e \<Rightarrow>
                  (Some (ce_model e), cell_clone (ce_model e) (w\<lparr>cw_state := touch user clock e st\<rparr>)))"

definition cache_generation :: "str \<Rightarrow> cache_world \<Rightarrow> u64 option \<times> cache_world" where
  "cache_generation user w =
     (if cs_disabled (cw_state w) then (None, w)
      else let (clock, st) = next_clock (cw_state w)
           in case hm_get (cs_entries st) user of
                None \<Rightarrow> (None, w\<lparr>cw_state := st\<rparr>)
              | Some e \<Rightarrow>
                  (Some (am_generation (cell_model (cw_cells w ! ce_model e))),
                   w\<lparr>cw_state := touch user clock e st\<rparr>))"

text \<open>Both reservation loops: try, and while the budget is exhausted evict and try again.\<close>

type_synonym 'p try_reserve = "budget \<Rightarrow> ((storage_backend_error + 'p) \<times> budget) option"

function reserve_loop ::
  "'p try_reserve \<Rightarrow> str option \<Rightarrow> cache_world
   \<Rightarrow> ((storage_backend_error + 'p) \<times> cache_world) option" where
  "reserve_loop attempt protected w =
     (case attempt (cw_budget w) of
        None \<Rightarrow> None
      | Some (Inl (MemoryBudgetExceeded requested available), b) \<Rightarrow>
          (case evict_lru_except protected (w\<lparr>cw_budget := b\<rparr>) of
             None \<Rightarrow> None
           | Some (False, w') \<Rightarrow> Some (Inl (MemoryBudgetExceeded requested available), w')
           | Some (True, w') \<Rightarrow> reserve_loop attempt protected w')
      | Some (r, b) \<Rightarrow> Some (r, w\<lparr>cw_budget := b\<rparr>))"
  by pat_completeness auto
termination
  by (relation "measure (\<lambda>(_, _, w). length (cs_entries (cw_state w)))")
    (auto dest!: evict_length)

declare reserve_loop.simps [simp del]

definition try_operation :: "usize \<Rightarrow> permit try_reserve" where
  "try_operation bytes b =
     (case budget_reserve b bytes of
        Inl e \<Rightarrow> Some (Inl e, b)
      | Inr (p, b') \<Rightarrow> Some (Inr p, b'))"

definition try_enrollment :: "usize \<Rightarrow> usize \<Rightarrow> (permit \<times> permit) try_reserve" where
  "try_enrollment operation_bytes plaintext_bytes b =
     budget_reserve_enrollment b operation_bytes plaintext_bytes"

definition reserve_except ::
  "'p try_reserve \<Rightarrow> str option \<Rightarrow> cache_world
   \<Rightarrow> ((storage_backend_error + 'p) \<times> cache_world) option" where
  "reserve_except attempt protected w =
     (if cs_disabled (cw_state w) then Some (Inl BackendUnavailable, w)
      else reserve_loop attempt protected w)"

definition reserve_operation_except ::
  "usize \<Rightarrow> str option \<Rightarrow> cache_world \<Rightarrow> ((storage_backend_error + permit) \<times> cache_world) option" where
  "reserve_operation_except bytes protected w = reserve_except (try_operation bytes) protected w"

definition reserve_enrollment_except ::
  "usize \<Rightarrow> usize \<Rightarrow> str option \<Rightarrow> cache_world
   \<Rightarrow> ((storage_backend_error + permit \<times> permit) \<times> cache_world) option" where
  "reserve_enrollment_except operation_bytes plaintext_bytes protected w =
     reserve_except (try_enrollment operation_bytes plaintext_bytes) protected w"

definition reserve_operation ::
  "usize \<Rightarrow> cache_world \<Rightarrow> ((storage_backend_error + permit) \<times> cache_world) option" where
  "reserve_operation bytes w = reserve_operation_except bytes None w"

definition reserve_operation_for_user ::
  "usize \<Rightarrow> str \<Rightarrow> cache_world \<Rightarrow> ((storage_backend_error + permit) \<times> cache_world) option" where
  "reserve_operation_for_user bytes user w = reserve_operation_except bytes (Some user) w"

definition reserve_enrollment_for_user ::
  "usize \<Rightarrow> usize \<Rightarrow> str \<Rightarrow> cache_world
   \<Rightarrow> ((storage_backend_error + permit \<times> permit) \<times> cache_world) option" where
  "reserve_enrollment_for_user operation_bytes plaintext_bytes user w =
     reserve_enrollment_except operation_bytes plaintext_bytes (Some user) w"

text \<open>The loop that evicts until there is room for another entry of \<open>bytes\<close>; \<open>False\<close> is its failure.\<close>

definition no_room :: "model_cache_limits \<Rightarrow> usize \<Rightarrow> cache_world \<Rightarrow> bool" where
  "no_room limits bytes w \<longleftrightarrow>
     cl_max_users limits \<le> length (cs_entries (cw_state w))
     \<or> cl_max_bytes limits < saturating_add (cs_bytes (cw_state w)) bytes"

function make_room :: "model_cache_limits \<Rightarrow> usize \<Rightarrow> cache_world \<Rightarrow> (bool \<times> cache_world) option" where
  "make_room limits bytes w =
     (if no_room limits bytes w then
        (case evict_lru w of
           None \<Rightarrow> None
         | Some (False, w') \<Rightarrow> Some (False, w')
         | Some (True, w') \<Rightarrow> make_room limits bytes w')
      else Some (True, w))"
  by pat_completeness auto
termination
  by (relation "measure (\<lambda>(_, _, w). length (cs_entries (cw_state w)))")
    (auto simp: evict_lru_def dest!: evict_length)

declare make_room.simps [simp del]

definition add_entry :: "str \<Rightarrow> nat \<Rightarrow> usize \<Rightarrow> cache_world \<Rightarrow> cache_world option" where
  "add_entry user a bytes w =
     (let (clock, st) = next_clock (cw_state w)
      in map_option (\<lambda>total.
           w\<lparr>cw_state := st\<lparr>cs_bytes := total,
              cs_entries := hm_insert user \<lparr>ce_model = a, ce_bytes = bytes, ce_last_used = clock\<rparr>
                (cs_entries st),
              cs_revision := cs_revision st + 1\<rparr>\<rparr>)
         (checked_add (cs_bytes st) bytes))"

definition fail_dropping ::
  "nat \<Rightarrow> 'r \<Rightarrow> cache_world \<Rightarrow> ('r \<times> cache_world) option" where
  "fail_dropping a r w = map_option (Pair r) (cell_drop a w)"

definition insert_cached ::
  "model_cache_limits \<Rightarrow> str \<Rightarrow> nat \<Rightarrow> cache_world \<Rightarrow> ((storage_backend_error + nat) \<times> cache_world) option" where
  "insert_cached limits user a w =
     (let bytes = cell_bytes w a
      in if cl_max_bytes limits < bytes
         then fail_dropping a (Inl (MemoryBudgetExceeded bytes (cl_max_bytes limits))) w
         else if cs_disabled (cw_state w) then fail_dropping a (Inl BackendUnavailable) w
         else case remove_and_drop user w of
           None \<Rightarrow> None
         | Some (_, w) \<Rightarrow>
             (case make_room limits bytes w of
                None \<Rightarrow> None
              | Some (False, w) \<Rightarrow>
                  fail_dropping a (Inl (MemoryBudgetExceeded bytes
                    (saturating_sub (cl_max_bytes limits) (cs_bytes (cw_state w))))) w
              | Some (True, w) \<Rightarrow>
                  map_option (\<lambda>w. (Inr a, w)) (add_entry user a bytes (cell_clone a w))))"

definition cached_auth_model_new ::
  "auth_model \<Rightarrow> permit \<Rightarrow> cache_world \<Rightarrow> ((storage_backend_error + nat) \<times> cache_world) option" where
  "cached_auth_model_new model permit w =
     (case budgeted_auth_model_new model permit of
        Inl e \<Rightarrow> map_option (\<lambda>b. (Inl e, w\<lparr>cw_budget := b\<rparr>)) (permit_drop (cw_budget w) permit)
      | Inr (m, p) \<Rightarrow>
          Some (Inr (length (cw_cells w)),
                w\<lparr>cw_cells := cw_cells w @ [\<lparr>cell_model = m, cell_permit = p, cell_strong = 1\<rparr>]\<rparr>))"

definition cache_insert ::
  "model_cache_limits \<Rightarrow> str \<Rightarrow> auth_model \<Rightarrow> permit \<Rightarrow> cache_world
   \<Rightarrow> ((storage_backend_error + nat) \<times> cache_world) option" where
  "cache_insert limits user model permit w =
     (let bytes = am_plaintext_bytes model
      in if cl_max_bytes limits < bytes
         then map_option (\<lambda>b. (Inl (MemoryBudgetExceeded bytes (cl_max_bytes limits)), w\<lparr>cw_budget := b\<rparr>))
                (permit_drop (cw_budget w) permit)
         else case cached_auth_model_new model permit w of
           None \<Rightarrow> None
         | Some (Inl e, w) \<Rightarrow> Some (Inl e, w)
         | Some (Inr a, w) \<Rightarrow> insert_cached limits user a w)"

text \<open>\<open>publish\<close> is the answer of the publication predicate, which is asked at most once.  Unless the
  handle moves into the cache it is dropped.\<close>

definition insert_provisional_if_revision ::
  "model_cache_limits \<Rightarrow> str \<Rightarrow> 128 word \<Rightarrow> u64 \<Rightarrow> nat \<Rightarrow> bool \<Rightarrow> cache_world
   \<Rightarrow> ((storage_backend_error + bool) \<times> cache_world) option" where
  "insert_provisional_if_revision limits user expected_revision expected_generation a publish w =
     (let bytes = cell_bytes w a
      in if am_generation (cell_model (cw_cells w ! a)) \<noteq> expected_generation
         then fail_dropping a (Inl (InvalidInput ''provisional cache generation'')) w
         else if cl_max_bytes limits < bytes then fail_dropping a (Inr False) w
         else if cs_disabled (cw_state w) then fail_dropping a (Inl BackendUnavailable) w
         else if cs_revision (cw_state w) \<noteq> expected_revision \<or> hm_contains (cs_entries (cw_state w)) user
         then fail_dropping a (Inr False) w
         else if \<not> publish then fail_dropping a (Inr False) w
         else case make_room limits bytes w of
           None \<Rightarrow> None
         | Some (False, w) \<Rightarrow> fail_dropping a (Inr False) w
         | Some (True, w) \<Rightarrow> map_option (Pair (Inr True)) (add_entry user a bytes w))"

definition cache_invalidate :: "str \<Rightarrow> cache_world \<Rightarrow> cache_world option" where
  "cache_invalidate user w =
     map_option (\<lambda>(removed, w).
         if removed then w
         else w\<lparr>cw_state := (cw_state w)\<lparr>cs_revision := cs_revision (cw_state w) + 1\<rparr>\<rparr>)
       (remove_and_drop user w)"

fun drop_all :: "nat list \<Rightarrow> cache_world \<Rightarrow> cache_world option" where
  "drop_all [] w = Some w"
| "drop_all (a # as) w = Option.bind (cell_drop a w) (drop_all as)"

definition clear_entries :: "cache_world \<Rightarrow> cache_world option" where
  "clear_entries w =
     drop_all (map (ce_model \<circ> snd) (cs_entries (cw_state w)))
       (w\<lparr>cw_state := (cw_state w)\<lparr>cs_entries := [], cs_bytes := 0\<rparr>\<rparr>)"

definition cache_clear :: "cache_world \<Rightarrow> cache_world option" where
  "cache_clear w =
     clear_entries (w\<lparr>cw_state := (cw_state w)\<lparr>cs_revision := cs_revision (cw_state w) + 1\<rparr>\<rparr>)"

definition cache_poison :: "cache_world \<Rightarrow> cache_world option" where
  "cache_poison w =
     clear_entries (w\<lparr>cw_state := (cw_state w)\<lparr>cs_disabled := True,
       cs_revision := (if cs_revision (cw_state w) = - 1 then - 1 else cs_revision (cw_state w) + 1)\<rparr>\<rparr>)"

subsection \<open>Per-user registries\<close>

definition try_acquire :: "str \<Rightarrow> str list \<Rightarrow> storage_backend_error + str list" where
  "try_acquire user active =
     (if user \<in> set active then Inl BackendUnavailable else Inr (user # active))"

definition admission_guard_drop :: "str \<Rightarrow> str list \<Rightarrow> str list" where
  "admission_guard_drop user active = filter (\<lambda>u. u \<noteq> user) active"

text \<open>The serializers: a weak table of locks, and the strong counts of the locks.\<close>

record user_serializers =
  us_locks :: "(str, nat) hashmap"
  us_strong :: "nat list"

definition for_user :: "str \<Rightarrow> user_serializers \<Rightarrow> nat \<times> user_serializers" where
  "for_user user s =
     (let locks = filter (\<lambda>p. us_strong s ! snd p \<noteq> 0) (us_locks s)
      in case hm_get locks user of
           Some l \<Rightarrow> (l, s\<lparr>us_locks := locks, us_strong := (us_strong s)[l := Suc (us_strong s ! l)]\<rparr>)
         | None \<Rightarrow>
             (length (us_strong s),
              s\<lparr>us_locks := hm_insert user (length (us_strong s)) locks, us_strong := us_strong s @ [1]\<rparr>))"

definition serializer_drop :: "nat \<Rightarrow> user_serializers \<Rightarrow> user_serializers" where
  "serializer_drop l s = s\<lparr>us_strong := (us_strong s)[l := us_strong s ! l - 1]\<rparr>"

end
