(* ===== verification/CacheInvariant.thy ===== *)
theory CacheInvariant
  imports Cache "HOL-Library.Multiset"
begin

section \<open>The invariant of the model cache\<close>

text \<open>
  The accounting of the cache: the strong count of every model is the number of its owners (cache
  entries, and leases and handles outside), the budget is charged exactly for the models that have an
  owner and the permits held outside, the byte count of the cache is the sum of its entries, and
  neither the limits of the cache nor the limit of the budget is exceeded.  No operation panics, and
  each keeps the invariant.
\<close>

definition live_bytes :: "model_cell \<Rightarrow> nat" where
  "live_bytes c = (if cell_strong c = 0 then 0 else cell_permit c)"

definition heap_inv :: "cache_world \<Rightarrow> nat multiset \<Rightarrow> nat multiset \<Rightarrow> bool" where
  "heap_inv w owners permits \<longleftrightarrow>
     (\<forall>a \<in># owners. a < length (cw_cells w))
     \<and> (\<forall>a < length (cw_cells w). cell_strong (cw_cells w ! a) = count owners a
          \<and> cell_bytes w a \<le> cell_permit (cw_cells w ! a))
     \<and> used (cw_budget w) = sum_list (map live_bytes (cw_cells w)) + sum_mset permits
     \<and> used (cw_budget w) \<le> limit (cw_budget w) \<and> limit (cw_budget w) < usize_limit"

abbreviation entries_of :: "cache_world \<Rightarrow> (str, cache_entry) hashmap" where
  "entries_of w \<equiv> cs_entries (cw_state w)"

definition entry_owners :: "(str, cache_entry) hashmap \<Rightarrow> nat multiset" where
  "entry_owners m = image_mset (ce_model \<circ> snd) (mset m)"

definition entries_inv :: "model_cache_limits \<Rightarrow> cache_world \<Rightarrow> bool" where
  "entries_inv limits w \<longleftrightarrow>
     hm_inv (entries_of w) \<and> cs_bytes (cw_state w) = hm_sum ce_bytes (entries_of w)
     \<and> cs_bytes (cw_state w) \<le> cl_max_bytes limits \<and> length (entries_of w) \<le> cl_max_users limits
     \<and> (\<forall>p \<in> set (entries_of w). ce_bytes (snd p) = cell_bytes w (ce_model (snd p)))"

definition cache_inv :: "model_cache_limits \<Rightarrow> cache_world \<Rightarrow> nat multiset \<Rightarrow> nat multiset \<Rightarrow> bool" where
  "cache_inv limits w refs permits \<longleftrightarrow>
     heap_inv w (entry_owners (entries_of w) + refs) permits \<and> entries_inv limits w"

text \<open>What an operation leaves alone: the models, the limit of the budget and the disabled flag.\<close>

definition same_heap :: "cache_world \<Rightarrow> cache_world \<Rightarrow> bool" where
  "same_heap w w' \<longleftrightarrow>
     map cell_model (cw_cells w') = map cell_model (cw_cells w)
     \<and> limit (cw_budget w') = limit (cw_budget w)
     \<and> cs_disabled (cw_state w') = cs_disabled (cw_state w)"

lemma same_heap_refl [simp]: "same_heap w w"
  by (simp add: same_heap_def)

lemma same_heap_trans [trans]: "same_heap w w' \<Longrightarrow> same_heap w' w'' \<Longrightarrow> same_heap w w''"
  by (simp add: same_heap_def)

lemma same_heap_bytes:
  assumes "same_heap w w'" and "a < length (cw_cells w)"
  shows "cell_bytes w' a = cell_bytes w a" and "a < length (cw_cells w')"
proof -
  have "map cell_model (cw_cells w') = map cell_model (cw_cells w)" using assms(1) by (simp add: same_heap_def)
  moreover from this show "a < length (cw_cells w')" using assms(2) by (metis length_map)
  ultimately show "cell_bytes w' a = cell_bytes w a"
    using assms(2) unfolding cell_bytes_def by (metis nth_map)
qed

subsection \<open>Owners come and go\<close>

lemma sum_list_update_nat:
  fixes xs :: "nat list"
  assumes "a < length xs"
  shows "sum_list (xs[a := v]) + xs ! a = sum_list xs + v"
  using assms by (rule sum_update_nth)

lemma map_update_same: "a < length xs \<Longrightarrow> f v = f (xs ! a) \<Longrightarrow> map f (xs[a := v]) = map f xs"
  by (metis list_update_id map_update nth_map)

lemma heap_inv_drop:
  assumes inv: "heap_inv w (add_mset a owners) permits"
  obtains w' where "cell_drop a w = Some w'" and "heap_inv w' owners permits" and "same_heap w w'"
    and "cw_state w' = cw_state w" and "used (cw_budget w') \<le> used (cw_budget w)"
proof -
  let ?c = "cw_cells w ! a" and ?cells = "cw_cells w"
  let ?c' = "?c\<lparr>cell_strong := cell_strong ?c - 1\<rparr>"
  have a: "a < length ?cells" and s: "cell_strong ?c = Suc (count owners a)"
    using inv by (auto simp: heap_inv_def)
  have "sum_list ((map live_bytes ?cells)[a := live_bytes ?c']) + map live_bytes ?cells ! a =
      sum_list (map live_bytes ?cells) + live_bytes ?c'"
    using a by (intro sum_list_update_nat) simp
  then have sum: "sum_list (map live_bytes (?cells[a := ?c'])) + live_bytes ?c =
      sum_list (map live_bytes ?cells) + live_bytes ?c'"
    using a by (simp add: map_update)
  have cells: "\<forall>b < length ?cells. cell_strong (?cells[a := ?c'] ! b) = count owners b"
    using inv a s by (auto simp: heap_inv_def nth_list_update)
  have models: "map cell_model (?cells[a := ?c']) = map cell_model ?cells"
    using a by (simp add: map_update_same)
  have small: "\<forall>b < length ?cells. am_plaintext_bytes (cell_model (?cells[a := ?c'] ! b)) \<le>
      cell_permit (?cells[a := ?c'] ! b)"
    using inv a by (auto simp: heap_inv_def nth_list_update cell_bytes_def)
  show ?thesis
  proof (cases "cell_strong ?c = 1")
    case True
    with s sum have sum': "sum_list (map live_bytes (?cells[a := ?c'])) + cell_permit ?c =
        sum_list (map live_bytes ?cells)" by (simp add: live_bytes_def)
    then have "cell_permit ?c \<le> used (cw_budget w)" using inv by (simp add: heap_inv_def)
    then have run: "cell_drop a w = Some (w\<lparr>cw_cells := ?cells[a := ?c'],
        cw_budget := (cw_budget w)\<lparr>used := used (cw_budget w) - cell_permit ?c\<rparr>\<rparr>)" (is "_ = Some ?w")
      using True by (simp add: cell_drop_def Let_def permit_drop_def checked_sub_def)
    have "heap_inv ?w owners permits"
      using inv cells small sum' a by (auto simp: heap_inv_def cell_bytes_def)
    with that [OF run] models show ?thesis by (simp add: same_heap_def)
  next
    case False
    then have run: "cell_drop a w = Some (w\<lparr>cw_cells := ?cells[a := ?c']\<rparr>)" (is "_ = Some ?w")
      by (simp add: cell_drop_def Let_def)
    have "live_bytes ?c' = live_bytes ?c" using False s by (auto simp: live_bytes_def count_eq_zero_iff)
    then have "heap_inv ?w owners permits"
      using inv cells small sum a by (auto simp: heap_inv_def cell_bytes_def)
    with that [OF run] models show ?thesis by (simp add: same_heap_def)
  qed
qed

lemma heap_inv_clone:
  assumes inv: "heap_inv w owners permits" and a: "a \<in># owners"
  shows "heap_inv (cell_clone a w) (add_mset a owners) permits" and "same_heap w (cell_clone a w)"
    and "cw_state (cell_clone a w) = cw_state w"
proof -
  let ?c = "cw_cells w ! a" and ?cells = "cw_cells w"
  let ?c' = "?c\<lparr>cell_strong := Suc (cell_strong ?c)\<rparr>"
  have len: "a < length ?cells" and s: "cell_strong ?c \<noteq> 0" using inv a by (auto simp: heap_inv_def)
  then have "map live_bytes (?cells[a := ?c']) = map live_bytes ?cells"
    by (intro map_update_same) (simp_all add: live_bytes_def)
  then show "heap_inv (cell_clone a w) (add_mset a owners) permits"
    using inv len unfolding heap_inv_def cell_clone_def by (auto simp: nth_list_update cell_bytes_def)
  show "same_heap w (cell_clone a w)"
    using len by (simp add: same_heap_def cell_clone_def map_update_same)
qed (simp add: cell_clone_def)

subsection \<open>Removing entries\<close>

lemma mset_hm_remove:
  assumes "hm_inv m" and "hm_get m k = Some v"
  shows "mset m = add_mset (k, v) (mset (hm_remove k m))"
proof -
  have "(k, v) \<in> set m" using assms(2) by (rule map_of_SomeD)
  moreover have "filter (\<lambda>p. fst p = k) m = [(k, v)]"
    using assms unfolding hm_inv_def by (induction m) (auto simp: image_iff intro!: filter_False split: if_splits)
  moreover have "mset m = mset (filter (\<lambda>p. fst p = k) m) + mset (filter (\<lambda>p. fst p \<noteq> k) m)"
    unfolding mset_filter by (rule multiset_partition)
  ultimately show ?thesis by (simp add: hm_remove_filter del: mset_filter)
qed

lemma entries_inv_change:
  assumes "entries_inv limits w" and "same_heap w w'" and "cw_state w' = cw_state w"
    and "\<forall>p \<in> set (entries_of w). ce_model (snd p) < length (cw_cells w)"
  shows "entries_inv limits w'"
  using assms by (auto simp: entries_inv_def same_heap_bytes)

lemma cache_inv_model_valid:
  assumes "cache_inv limits w refs permits" and "p \<in> set (entries_of w)"
  shows "ce_model (snd p) < length (cw_cells w)"
proof -
  have "ce_model (snd p) \<in># entry_owners (entries_of w) + refs" using assms(2) by (auto simp: entry_owners_def)
  then show ?thesis using assms(1) by (auto simp: cache_inv_def heap_inv_def)
qed

lemma set_hm_remove: "p \<in> set (hm_remove k m) \<Longrightarrow> p \<in> set m"
  by (simp add: hm_remove_filter)

lemma remove_and_drop_spec:
  assumes inv: "cache_inv limits w refs permits"
  obtains w' where "remove_and_drop user w = Some (hm_contains (entries_of w) user, w')"
    and "cache_inv limits w' refs permits" and "entries_of w' = hm_remove user (entries_of w)"
    and "same_heap w w'" and "used (cw_budget w') \<le> used (cw_budget w)"
    and "hm_get (entries_of w) user = None \<Longrightarrow> w' = w"
    and "cs_clock (cw_state w') = cs_clock (cw_state w)"
proof (cases "hm_get (entries_of w) user")
  case None
  then have "remove_and_drop user w = Some (hm_contains (entries_of w) user, w)"
    by (simp add: remove_and_drop_def cache_remove_def hm_contains_def)
  with inv None that show ?thesis by (simp add: hm_remove_absent)
next
  case (Some e)
  let ?m = "entries_of w"
  have ent: "entries_inv limits w" and hm: "hm_inv ?m" using inv by (simp_all add: cache_inv_def entries_inv_def)
  have mem: "(user, e) \<in> set ?m" using Some by (rule map_of_SomeD)
  have sum: "hm_sum ce_bytes ?m = ce_bytes e + hm_sum ce_bytes (hm_remove user ?m)"
    using hm Some by (rule hm_sum_remove)
  define st where "st = (cw_state w)\<lparr>cs_entries := hm_remove user ?m,
    cs_bytes := cs_bytes (cw_state w) - ce_bytes e, cs_revision := cs_revision (cw_state w) + 1\<rparr>"
  define w1 where "w1 = w\<lparr>cw_state := st\<rparr>"
  have rem: "cache_remove user (cw_state w) = Some (Some e, st)"
    using Some ent sum by (simp add: cache_remove_def st_def checked_sub_def entries_inv_def)
  have "entry_owners ?m = add_mset (ce_model e) (entry_owners (hm_remove user ?m))"
    by (simp add: entry_owners_def mset_hm_remove [OF hm Some])
  then have "heap_inv w1 (add_mset (ce_model e) (entry_owners (hm_remove user ?m) + refs)) permits"
    using inv by (simp add: cache_inv_def heap_inv_def w1_def cell_bytes_def)
  then obtain w' where drop: "cell_drop (ce_model e) w1 = Some w'"
    and heap: "heap_inv w' (entry_owners (hm_remove user ?m) + refs) permits"
    and same: "same_heap w1 w'" and state: "cw_state w' = cw_state w1"
    and used: "used (cw_budget w') \<le> used (cw_budget w1)"
    by (rule heap_inv_drop)
  have "entries_inv limits w1"
    using ent sum hm_length_remove_le [of user ?m]
    by (auto simp: entries_inv_def w1_def st_def cell_bytes_def dest: set_hm_remove)
  moreover have "\<forall>p \<in> set (entries_of w1). ce_model (snd p) < length (cw_cells w1)"
    using cache_inv_model_valid [OF inv] by (auto simp: w1_def st_def hm_remove_filter)
  ultimately have "entries_inv limits w'" by (rule entries_inv_change [OF _ same state])
  then have "cache_inv limits w' refs permits"
    using heap state by (simp add: cache_inv_def w1_def st_def)
  then show ?thesis
    using rem drop same state used Some
    by (intro that [of w']) (simp_all add: remove_and_drop_def w1_def st_def hm_contains_def same_heap_def)
qed

subsection \<open>The oldest entry\<close>

lemma bytes_less_irrefl [simp]: "\<not> bytes_less xs xs"
  by (induction xs) auto

lemma bytes_less_trans: "bytes_less xs ys \<Longrightarrow> bytes_less ys zs \<Longrightarrow> bytes_less xs zs"
proof (induction xs zs arbitrary: ys rule: bytes_less.induct)
  case (1 xs)
  then show ?case by simp
next
  case (2 z zs)
  then show ?case by simp
next
  case (3 x xs z zs)
  then show ?case by (cases ys) auto
qed

lemma bytes_less_total: "xs = ys \<or> bytes_less xs ys \<or> bytes_less ys xs"
proof (induction xs ys rule: bytes_less.induct)
  case (1 xs)
  then show ?case by (cases xs) auto
qed auto

lemma older_trans: "older p q \<Longrightarrow> older q r \<Longrightarrow> older p r"
  unfolding older_def by (auto intro: bytes_less_trans)

lemma older_total: "fst p = fst q \<or> older p q \<or> older q p"
  unfolding older_def using bytes_less_total [of "fst p" "fst q"]
  by (cases "ce_last_used (snd p)" "ce_last_used (snd q)" rule: linorder_cases) auto

lemma older_irrefl [simp]: "\<not> older p p"
  by (simp add: older_def)

lemma oldest_fold:
  assumes "distinct (map fst (m # ps))"
  shows "let r = fold (\<lambda>q m. if older q m then q else m) ps m
    in r \<in> set (m # ps) \<and> (\<forall>q \<in> set (m # ps). q = r \<or> older r q)"
  using assms
proof (induction ps arbitrary: m)
  case (Cons q ps)
  let ?m = "if older q m then q else m" and ?o = "if older q m then m else q"
  have d: "distinct (map fst (?m # ps))" using Cons.prems by auto
  have m: "older ?m ?o" using older_total [of q m] Cons.prems by auto
  define r where "r = fold (\<lambda>q m. if older q m then q else m) ps ?m"
  have IH: "r \<in> set (?m # ps) \<and> (\<forall>x \<in> set (?m # ps). x = r \<or> older r x)"
    using Cons.IH [OF d] unfolding Let_def r_def .
  have "?o = r \<or> older r ?o"
    using IH m older_trans [of r ?m ?o] by auto
  then have "r \<in> set (m # q # ps) \<and> (\<forall>x \<in> set (m # q # ps). x = r \<or> older r x)"
    using IH by (auto split: if_splits)
  then show ?case by (simp add: Let_def r_def)
qed simp

lemma oldest_Some:
  assumes "oldest ps = Some r" and "distinct (map fst ps)"
  shows "r \<in> set ps" and "\<forall>q \<in> set ps. q = r \<or> older r q"
  using assms oldest_fold [of "hd ps" "tl ps"] by (cases ps; auto simp: Let_def)+

lemma oldest_None [simp]: "oldest ps = None \<longleftrightarrow> ps = []"
  by (cases ps) auto

subsection \<open>Eviction\<close>

text \<open>What a run of evictions may do: the entries that are gone are not the protected one, and each was
  used less recently than every entry that could have gone instead and stayed.\<close>

definition evicted :: "str option \<Rightarrow> cache_world \<Rightarrow> cache_world \<Rightarrow> bool" where
  "evicted protected w w' \<longleftrightarrow>
     same_heap w w' \<and> set (entries_of w') \<subseteq> set (entries_of w)
     \<and> (\<forall>p \<in> set (entries_of w) - set (entries_of w'). protected \<noteq> Some (fst p)
          \<and> (\<forall>q \<in> set (entries_of w'). protected \<noteq> Some (fst q) \<longrightarrow> older p q))"

lemma evicted_refl [simp]: "evicted protected w w"
  by (simp add: evicted_def)

lemma evicted_trans: "evicted protected w w' \<Longrightarrow> evicted protected w' w'' \<Longrightarrow> evicted protected w w''"
  unfolding evicted_def by (blast intro: same_heap_trans)

lemma evict_spec:
  assumes inv: "cache_inv limits w refs permits"
  obtains (empty) "evict_lru_except protected w = Some (False, w)"
      and "\<forall>p \<in> set (entries_of w). protected = Some (fst p)"
    | (victim) w' where "evict_lru_except protected w = Some (True, w')" and "cache_inv limits w' refs permits"
      and "evicted protected w w'" and "length (entries_of w') < length (entries_of w)"
      and "used (cw_budget w') \<le> used (cw_budget w)"
proof (cases "oldest (filter (\<lambda>p. protected \<noteq> Some (fst p)) (entries_of w))")
  case None
  then show ?thesis by (intro empty) (auto simp: evict_lru_except_def filter_empty_conv)
next
  case (Some v)
  let ?m = "entries_of w"
  have hm: "hm_inv ?m" using inv by (simp add: cache_inv_def entries_inv_def)
  have d: "distinct (map fst (filter (\<lambda>p. protected \<noteq> Some (fst p)) ?m))"
    using hm by (simp add: hm_inv_def distinct_map_filter)
  note v = oldest_Some [OF Some d]
  have mem: "v \<in> set ?m" and prot: "protected \<noteq> Some (fst v)" using v(1) by auto
  have uniq: "q = v" if "q \<in> set ?m" "fst q = fst v" for q
    using that mem hm unfolding hm_inv_def by (metis eq_key_imp_eq_value prod.collapse)
  have get: "hm_get ?m (fst v) = Some (snd v)"
    using mem hm by (simp add: hm_get_Some_in)
  obtain w' where w': "remove_and_drop (fst v) w = Some (hm_contains ?m (fst v), w')"
    "cache_inv limits w' refs permits" "entries_of w' = hm_remove (fst v) ?m" "same_heap w w'"
    "used (cw_budget w') \<le> used (cw_budget w)"
    using remove_and_drop_spec [OF inv] by metis
  have set': "set (entries_of w') = set ?m - {v}"
    using w'(3) uniq by (auto simp: hm_remove_filter)
  have "older v q" if "q \<in> set ?m - {v}" and "protected \<noteq> Some (fst q)" for q
    using that v(2) by (simp only: set_filter) blast
  then have "evicted protected w w'"
    using w'(4) prot unfolding evicted_def set' by blast
  then show ?thesis
    using w' get Some by (intro victim [of w']) (simp_all add: evict_lru_except_def hm_contains_def hm_remove_shorter)
qed

subsection \<open>Reservations\<close>

text \<open>What the loops rely on: a reservation either fails and leaves the budget as it was, or charges it
  for the permits it returns, within the limit.\<close>

locale reservation =
  fixes attempt :: "'p try_reserve" and permits_of :: "'p \<Rightarrow> nat multiset"
  assumes try_safe: "used b \<le> limit b \<Longrightarrow> limit b < usize_limit \<Longrightarrow>
    (\<exists>e. attempt b = Some (Inl e, b))
    \<or> (\<exists>p. attempt b = Some (Inr p, b\<lparr>used := used b + sum_mset (permits_of p)\<rparr>)
         \<and> used b + sum_mset (permits_of p) \<le> limit b)"
begin

lemma reserve_loop_spec:
  "cache_inv limits w refs permits \<Longrightarrow>
   \<exists>r w'. reserve_loop attempt protected w = Some (r, w') \<and> evicted protected w w'
     \<and> cache_inv limits w' refs (case r of Inl _ \<Rightarrow> permits | Inr p \<Rightarrow> permits + permits_of p)
     \<and> (\<forall>requested available. r = Inl (MemoryBudgetExceeded requested available) \<longrightarrow>
          attempt (cw_budget w') = Some (r, cw_budget w') \<and> (\<forall>q \<in> set (entries_of w'). protected = Some (fst q)))"
proof (induction "length (entries_of w)" arbitrary: w rule: less_induct)
  case less
  have "used (cw_budget w) \<le> limit (cw_budget w)" "limit (cw_budget w) < usize_limit"
    using less.prems by (simp_all add: cache_inv_def heap_inv_def)
  from try_safe [OF this] consider (fail) e where "attempt (cw_budget w) = Some (Inl e, cw_budget w)"
    | (ok) p where "attempt (cw_budget w) =
          Some (Inr p, (cw_budget w)\<lparr>used := used (cw_budget w) + sum_mset (permits_of p)\<rparr>)"
        "used (cw_budget w) + sum_mset (permits_of p) \<le> limit (cw_budget w)" by blast
  then show ?case
  proof cases
    case ok
    then show ?thesis using less.prems
      by (auto simp: reserve_loop.simps [of _ _ w] cache_inv_def heap_inv_def entries_inv_def cell_bytes_def
          evicted_def same_heap_def)
  next
    case fail
    show ?thesis
    proof (cases "\<exists>requested available. e = MemoryBudgetExceeded requested available")
      case False
      then have "reserve_loop attempt protected w = Some (Inl e, w)"
        using fail by (cases e) (simp_all add: reserve_loop.simps [of _ _ w])
      then show ?thesis using less.prems False by auto
    next
      case True
      from less.prems show ?thesis
      proof (cases rule: evict_spec [where protected = protected])
        case empty
        then have "reserve_loop attempt protected w = Some (Inl e, w)"
          using fail True by (auto simp: reserve_loop.simps [of _ _ w])
        then show ?thesis using less.prems empty fail True by auto
      next
        case (victim w')
        then have step: "reserve_loop attempt protected w = reserve_loop attempt protected w'"
          using fail True by (auto simp: reserve_loop.simps [of _ _ w])
        show ?thesis
          unfolding step using less.hyps [OF victim(4,2)] evicted_trans [OF victim(3)] by blast
      qed
    qed
  qed
qed

lemma reserve_except_spec:
  "cache_inv limits w refs permits \<Longrightarrow>
   \<exists>r w'. reserve_except attempt protected w = Some (r, w') \<and> evicted protected w w'
     \<and> cache_inv limits w' refs (case r of Inl _ \<Rightarrow> permits | Inr p \<Rightarrow> permits + permits_of p)
     \<and> (\<forall>requested available. r = Inl (MemoryBudgetExceeded requested available) \<longrightarrow>
          attempt (cw_budget w') = Some (r, cw_budget w') \<and> (\<forall>q \<in> set (entries_of w'). protected = Some (fst q)))"
  using reserve_loop_spec by (simp add: reserve_except_def)

end

interpretation operation: reservation "try_operation bytes" "\<lambda>p. {#p#}" for bytes
  by unfold_locales (auto simp: try_operation_def budget_reserve_eq)

interpretation enrollment: reservation "try_enrollment operation_bytes plaintext_bytes" "\<lambda>(p, q). {#p, q#}"
  for operation_bytes plaintext_bytes
  by unfold_locales (auto simp: try_enrollment_def budget_reserve_enrollment_eq)

end
