(* ===== verification/CacheSafety.thy ===== *)
theory CacheSafety
  imports CacheInvariant
begin

section \<open>The cache is a partial copy of what was published\<close>

text \<open>
  Each operation of \<open>Cache\<close> under the invariant of \<open>CacheInvariant\<close>: it does not panic, it keeps the
  accounting, and its effect on the abstract view of the cache, a partial map from users to models.  Then
  the clients: \<open>cache_exec\<close> interleaves every operation with the clients' own drops of handles and
  permits, and remembers what was last published for each user.  The operations are an instance of
  \<open>safe_machine\<close>, and the view of the cache never contradicts what was published.
\<close>

definition model_at :: "cache_world \<Rightarrow> nat \<Rightarrow> auth_model" where
  "model_at w a = cell_model (cw_cells w ! a)"

definition view :: "cache_world \<Rightarrow> str \<Rightarrow> auth_model option" where
  "view w user = map_option (model_at w \<circ> ce_model) (hm_get (entries_of w) user)"

lemma model_at_same:
  assumes "same_heap w w'" and "a < length (cw_cells w)"
  shows "model_at w' a = model_at w a"
proof -
  have "map cell_model (cw_cells w') = map cell_model (cw_cells w)" using assms(1) by (simp add: same_heap_def)
  then show ?thesis using assms(2) unfolding model_at_def by (metis length_map nth_map)
qed

lemma cell_bytes_model: "cell_bytes w a = am_plaintext_bytes (model_at w a)"
  by (simp add: cell_bytes_def model_at_def)

lemma cache_inv_keys: "cache_inv limits w refs permits \<Longrightarrow> hm_inv (entries_of w)"
  by (simp add: cache_inv_def entries_inv_def)

lemma map_le_SomeI: "(\<And>k v. m k = Some v \<Longrightarrow> n k = Some v) \<Longrightarrow> m \<subseteq>\<^sub>m n"
  by (auto simp: map_le_def dom_def)

lemma view_subset:
  assumes inv: "cache_inv limits w refs permits" and inv': "cache_inv limits w' refs' permits'"
    and same: "same_heap w w'" and sub: "set (entries_of w') \<subseteq> set (entries_of w)"
  shows "view w' \<subseteq>\<^sub>m view w"
proof (rule map_le_SomeI)
  fix user m assume "view w' user = Some m"
  then obtain e where e: "(user, e) \<in> set (entries_of w')" and m: "m = model_at w' (ce_model e)"
    by (auto simp: view_def dest: map_of_SomeD)
  then have "hm_get (entries_of w) user = Some e"
    using sub hm_get_Some_in [OF cache_inv_keys [OF inv]] by blast
  moreover from this have "ce_model e < length (cw_cells w)"
    using cache_inv_model_valid [OF inv] by (fastforce dest: map_of_SomeD)
  ultimately show "view w user = Some m" using m model_at_same [OF same] by (simp add: view_def)
qed

lemma evicted_view:
  "cache_inv limits w refs permits \<Longrightarrow> cache_inv limits w' refs' permits' \<Longrightarrow> evicted protected w w' \<Longrightarrow>
   view w' \<subseteq>\<^sub>m view w"
  unfolding evicted_def by (blast intro: view_subset)

subsection \<open>Time stamps\<close>

text \<open>Entries up to their time stamps.\<close>

definition unstamped :: "(str, cache_entry) hashmap \<Rightarrow> (str \<times> nat \<times> usize) list" where
  "unstamped m = map (\<lambda>(u, e). (u, ce_model e, ce_bytes e)) m"

lemma unstamped_facts:
  assumes "unstamped m' = unstamped m"
  shows "map fst m' = map fst m" and "length m' = length m" and "hm_sum ce_bytes m' = hm_sum ce_bytes m"
    and "entry_owners m' = entry_owners m"
    and "map_option ce_model (hm_get m' u) = map_option ce_model (hm_get m u)"
proof -
  have "map fst m = map fst (unstamped m)" "hm_sum ce_bytes m = sum_list (map (snd \<circ> snd) (unstamped m))"
    "entry_owners m = mset (map (fst \<circ> snd) (unstamped m))" "length m = length (unstamped m)"
    "map_option ce_model (hm_get m u) = map_option fst (map_of (unstamped m) u)" for m
    by (induction m) (auto simp: unstamped_def entry_owners_def)
  then show "map fst m' = map fst m" "length m' = length m" "hm_sum ce_bytes m' = hm_sum ce_bytes m"
    "entry_owners m' = entry_owners m"
    "map_option ce_model (hm_get m' u) = map_option ce_model (hm_get m u)"
    using assms by metis+
qed

lemma restamp:
  assumes inv: "cache_inv limits w refs permits"
    and stamps: "unstamped (cs_entries st) = unstamped (entries_of w)"
    and st: "cs_bytes st = cs_bytes (cw_state w)" "cs_disabled st = cs_disabled (cw_state w)"
  shows "cache_inv limits (w\<lparr>cw_state := st\<rparr>) refs permits" and "view (w\<lparr>cw_state := st\<rparr>) = view w"
    and "same_heap w (w\<lparr>cw_state := st\<rparr>)"
proof -
  note f = unstamped_facts [OF stamps]
  have "(\<forall>p \<in> set m. ce_bytes (snd p) = cell_bytes w (ce_model (snd p))) \<longleftrightarrow>
      (\<forall>t \<in> set (unstamped m). snd (snd t) = cell_bytes w (fst (snd t)))" for m
    by (force simp: unstamped_def)
  then have "\<forall>p \<in> set (cs_entries st). ce_bytes (snd p) = cell_bytes w (ce_model (snd p))"
    using inv stamps by (simp add: cache_inv_def entries_inv_def)
  then show "cache_inv limits (w\<lparr>cw_state := st\<rparr>) refs permits"
    using inv f st by (simp add: cache_inv_def heap_inv_def entries_inv_def cell_bytes_def hm_inv_def)
  have "view w u = map_option (model_at w) (map_option ce_model (hm_get (entries_of w) u))" for w u
    by (simp add: view_def option.map_comp)
  then show "view (w\<lparr>cw_state := st\<rparr>) = view w"
    using f(5) by (intro ext) (simp add: model_at_def [abs_def])
  show "same_heap w (w\<lparr>cw_state := st\<rparr>)" using st by (simp add: same_heap_def)
qed

lemma next_clock_spec:
  "unstamped (cs_entries (snd (next_clock st))) = unstamped (cs_entries st)"
  "cs_bytes (snd (next_clock st)) = cs_bytes st" "cs_disabled (snd (next_clock st)) = cs_disabled st"
  by (auto simp: next_clock_def Let_def unstamped_def)

lemma unstamped_touch:
  "hm_get m user = Some e \<Longrightarrow> unstamped (hm_insert user (e\<lparr>ce_last_used := c\<rparr>) m) = unstamped m"
  by (induction m) (auto simp: unstamped_def)

subsection \<open>Lookups\<close>

lemma next_clock_world:
  assumes "cache_inv limits w refs permits" and "next_clock (cw_state w) = (clock, st)"
  shows "cache_inv limits (w\<lparr>cw_state := st\<rparr>) refs permits" and "view (w\<lparr>cw_state := st\<rparr>) = view w"
    and "same_heap w (w\<lparr>cw_state := st\<rparr>)"
  using restamp [OF assms(1), of st] next_clock_spec [of "cw_state w"] assms(2) by simp_all

lemma touch_world:
  assumes inv: "cache_inv limits w refs permits" and clock: "next_clock (cw_state w) = (clock, st)"
    and e: "hm_get (cs_entries st) user = Some e"
  shows "cache_inv limits (w\<lparr>cw_state := touch user clock e st\<rparr>) refs permits"
    and "view (w\<lparr>cw_state := touch user clock e st\<rparr>) = view w"
    and "same_heap w (w\<lparr>cw_state := touch user clock e st\<rparr>)"
  using restamp [OF inv, of "touch user clock e st"] next_clock_spec [of "cw_state w"] clock
    unstamped_touch [OF e] by (simp_all add: touch_def)

lemma cell_clone_world:
  assumes inv: "cache_inv limits w refs permits" and a: "a \<in># entry_owners (entries_of w) + refs"
  shows "cache_inv limits (cell_clone a w) (add_mset a refs) permits" and "view (cell_clone a w) = view w"
    and "same_heap w (cell_clone a w)" and "cw_state (cell_clone a w) = cw_state w"
proof -
  have heap: "heap_inv w (entry_owners (entries_of w) + refs) permits" using inv by (simp add: cache_inv_def)
  note c = heap_inv_clone [OF heap a]
  show "same_heap w (cell_clone a w)" "cw_state (cell_clone a w) = cw_state w" by (fact c)+
  show inv': "cache_inv limits (cell_clone a w) (add_mset a refs) permits"
    using c inv cache_inv_model_valid [OF inv]
    by (auto simp: cache_inv_def intro: entries_inv_change)
  have "a < length (cw_cells w)" using heap a by (auto simp: heap_inv_def)
  then have "model_at (cell_clone a w) = model_at w"
    by (intro ext) (auto simp: model_at_def cell_clone_def nth_list_update)
  then show "view (cell_clone a w) = view w" by (intro ext) (simp add: view_def c)
qed

lemma get_spec:
  assumes inv: "cache_inv limits w refs permits" and get: "cache_get user w = (r, w')"
  shows "cache_inv limits w' (case r of None \<Rightarrow> refs | Some a \<Rightarrow> add_mset a refs) permits"
    and "view w' = view w" and "same_heap w w'"
    and "map_option (model_at w') r = (if cs_disabled (cw_state w) then None else view w user)"
proof -
  obtain clock st where clock: "next_clock (cw_state w) = (clock, st)" by (cases "next_clock (cw_state w)")
  note n = next_clock_world [OF inv clock]
  have "cache_inv limits w' (case r of None \<Rightarrow> refs | Some a \<Rightarrow> add_mset a refs) permits
    \<and> view w' = view w \<and> same_heap w w'
    \<and> map_option (model_at w') r = (if cs_disabled (cw_state w) then None else view w user)"
  proof (cases "cs_disabled (cw_state w) \<or> hm_get (cs_entries st) user = None")
    case True
    have "view w user = None" if "hm_get (cs_entries st) user = None"
      using that n(2) by (metis cache_world.select_convs(1) cache_world.surjective cache_world.update_convs(1)
          option.map_disc_iff view_def)
    with True show ?thesis using get n inv clock by (auto simp: cache_get_def split: if_splits)
  next
    case False
    then obtain e where e: "hm_get (cs_entries st) user = Some e" and en: "\<not> cs_disabled (cw_state w)" by auto
    define w1 where "w1 = w\<lparr>cw_state := touch user clock e st\<rparr>"
    note t = touch_world [OF inv clock e, folded w1_def]
    have e1: "hm_get (entries_of w1) user = Some (e\<lparr>ce_last_used := clock\<rparr>)" by (simp add: w1_def touch_def)
    then have "ce_model e \<in># entry_owners (entries_of w1) + refs"
      by (auto simp: entry_owners_def image_iff dest!: map_of_SomeD intro!: bexI)
    note c = cell_clone_world [OF t(1) this]
    have run: "r = Some (ce_model e)" "w' = cell_clone (ce_model e) w1"
      using get en e clock by (auto simp: cache_get_def w1_def)
    have "view w' user = Some (model_at w' (ce_model e))"
      using e1 c(4) run by (simp add: view_def)
    with run t c en show ?thesis using same_heap_trans by auto
  qed
  then show "cache_inv limits w' (case r of None \<Rightarrow> refs | Some a \<Rightarrow> add_mset a refs) permits"
    "view w' = view w" "same_heap w w'"
    "map_option (model_at w') r = (if cs_disabled (cw_state w) then None else view w user)" by auto
qed

lemma generation_spec:
  assumes inv: "cache_inv limits w refs permits" and get: "cache_generation user w = (r, w')"
  shows "cache_inv limits w' refs permits" and "view w' = view w" and "same_heap w w'"
    and "r = (if cs_disabled (cw_state w) then None else map_option am_generation (view w user))"
proof -
  obtain clock st where clock: "next_clock (cw_state w) = (clock, st)" by (cases "next_clock (cw_state w)")
  note n = next_clock_world [OF inv clock]
  have v: "view w user = map_option (model_at w \<circ> ce_model) (hm_get (cs_entries st) user)"
    using n(2) by (metis (no_types, lifting) cache_world.select_convs(1,3) cache_world.surjective
        cache_world.update_convs(1) model_at_def comp_apply ext view_def)
  show "cache_inv limits w' refs permits" "view w' = view w" "same_heap w w'"
    "r = (if cs_disabled (cw_state w) then None else map_option am_generation (view w user))"
    using get inv n touch_world [OF inv clock] clock v
    by (auto simp: cache_generation_def model_at_def split: if_splits option.splits)
qed

subsection \<open>Making room and adding\<close>

lemma no_room_iff:
  "cl_max_bytes limits < usize_max \<Longrightarrow>
   no_room limits bytes w \<longleftrightarrow> cl_max_users limits \<le> length (entries_of w)
     \<or> cl_max_bytes limits < cs_bytes (cw_state w) + bytes"
  using saturating_add_le_iff [of "cl_max_bytes limits" "cs_bytes (cw_state w)" bytes]
  by (auto simp: no_room_def not_le [symmetric])

lemma make_room_spec:
  assumes max: "cl_max_bytes limits < usize_max"
  shows "cache_inv limits w refs permits \<Longrightarrow>
    \<exists>room w'. make_room limits bytes w = Some (room, w') \<and> cache_inv limits w' refs permits
      \<and> evicted None w w' \<and> room = (\<not> no_room limits bytes w')
      \<and> (bytes \<le> cl_max_bytes limits \<longrightarrow> 0 < cl_max_users limits \<longrightarrow> room)"
proof (induction "length (entries_of w)" arbitrary: w rule: less_induct)
  case less
  show ?case
  proof (cases "no_room limits bytes w")
    case False
    then show ?thesis using less.prems by (auto simp: make_room.simps [of _ _ w])
  next
    case True
    from less.prems show ?thesis
    proof (cases rule: evict_spec [where protected = None])
      case empty
      have none: "entries_of w = []" using empty(2) by (cases "entries_of w") auto
      moreover have "make_room limits bytes w = Some (False, w)"
        using empty(1) True by (simp add: make_room.simps [of _ _ w] evict_lru_def)
      moreover have "cs_bytes (cw_state w) = 0"
        using less.prems none by (simp add: cache_inv_def entries_inv_def)
      ultimately show ?thesis using less.prems True by (auto simp: no_room_iff [OF max])
    next
      case (victim w')
      then have step: "make_room limits bytes w = make_room limits bytes w'"
        using True by (auto simp: make_room.simps [of _ _ w] evict_lru_def)
      from less.hyps [OF victim(4,2)] obtain room w'' where
        r: "make_room limits bytes w' = Some (room, w'')" "cache_inv limits w'' refs permits"
          "evicted None w' w''" "room = (\<not> no_room limits bytes w'')"
          "bytes \<le> cl_max_bytes limits \<longrightarrow> 0 < cl_max_users limits \<longrightarrow> room"
        by (elim exE conjE)
      show ?thesis
        unfolding step using r(1,2) evicted_trans [OF victim(3) r(3)] r(4,5) by (intro exI conjI)
    qed
  qed
qed

lemma entry_owners_insert_fresh:
  "hm_get m user = None \<Longrightarrow> entry_owners (hm_insert user e m) = add_mset (ce_model e) (entry_owners m)"
  by (simp add: hm_insert_fresh entry_owners_def)

lemma add_entry_spec:
  assumes inv: "cache_inv limits w (add_mset a refs) permits" and max: "cl_max_bytes limits < usize_max"
    and room: "\<not> no_room limits (cell_bytes w a) w" and fresh: "view w user = None"
  obtains w' where "add_entry user a (cell_bytes w a) w = Some w'" and "cache_inv limits w' refs permits"
    and "view w' = (view w)(user \<mapsto> model_at w a)" and "same_heap w w'"
proof -
  obtain clock st where clock: "next_clock (cw_state w) = (clock, st)" by (cases "next_clock (cw_state w)")
  note n = next_clock_world [OF inv clock]
  have v: "view w u = map_option (model_at w \<circ> ce_model) (hm_get (cs_entries st) u)" for u
    unfolding n(2) [symmetric] by (simp add: view_def model_at_def [abs_def])
  then have fresh1: "hm_get (cs_entries st) user = None" using fresh by simp
  have bytes: "cs_bytes st + cell_bytes w a \<le> cl_max_bytes limits"
    and users: "length (cs_entries st) < cl_max_users limits"
    using room next_clock_spec [of "cw_state w"] clock unstamped_facts(2) [of "cs_entries st" "entries_of w"]
    by (simp_all add: no_room_iff [OF max])
  let ?e = "\<lparr>ce_model = a, ce_bytes = cell_bytes w a, ce_last_used = clock\<rparr>"
  define w' where "w' = w\<lparr>cw_state := st\<lparr>cs_bytes := cs_bytes st + cell_bytes w a,
    cs_entries := hm_insert user ?e (cs_entries st), cs_revision := cs_revision st + 1\<rparr>\<rparr>"
  have run: "add_entry user a (cell_bytes w a) w = Some w'"
    using bytes max clock by (simp add: add_entry_def w'_def checked_add_def usize_max_def)
  have "entries_inv limits w'"
    using n(1) bytes users fresh1
    by (auto simp: cache_inv_def entries_inv_def w'_def hm_insert_fresh cell_bytes_def hm_inv_def
        map_of_eq_None_iff)
  then have "cache_inv limits w' refs permits"
    using n(1) fresh1
    by (simp add: cache_inv_def heap_inv_def w'_def entry_owners_insert_fresh cell_bytes_def)
  moreover have "model_at w' = model_at w" "entries_of w' = hm_insert user ?e (cs_entries st)"
    by (simp_all add: w'_def model_at_def [abs_def])
  then have "view w' = (view w)(user \<mapsto> model_at w a)"
    using v by (intro ext) (simp add: view_def [of w'])
  moreover have "same_heap w w'" using n(3) by (simp add: same_heap_def w'_def)
  ultimately show ?thesis using run that by blast
qed

subsection \<open>Dropping\<close>

lemma handle_drop_spec:
  assumes inv: "cache_inv limits w (add_mset a refs) permits"
  obtains w' where "cell_drop a w = Some w'" and "cache_inv limits w' refs permits" and "view w' = view w"
    and "same_heap w w'" and "cw_state w' = cw_state w"
proof -
  have "heap_inv w (add_mset a (entry_owners (entries_of w) + refs)) permits"
    using inv by (simp add: cache_inv_def)
  then obtain w' where w': "cell_drop a w = Some w'" "heap_inv w' (entry_owners (entries_of w) + refs) permits"
    "same_heap w w'" "cw_state w' = cw_state w" by (rule heap_inv_drop)
  have valid: "\<forall>p \<in> set (entries_of w). ce_model (snd p) < length (cw_cells w)"
    using cache_inv_model_valid [OF inv] by blast
  have "entries_inv limits w" using inv by (simp add: cache_inv_def)
  from entries_inv_change [OF this w'(3,4) valid] have inv': "cache_inv limits w' refs permits"
    using w' by (simp add: cache_inv_def)
  have "view w' user = view w user" for user
    using valid model_at_same [OF w'(3)] w'(4)
    by (cases "hm_get (entries_of w) user") (force simp: view_def dest: map_of_SomeD)+
  with w' inv' that show ?thesis by blast
qed

lemma permit_drop_spec:
  assumes inv: "cache_inv limits w refs (add_mset p permits)"
  obtains b where "permit_drop (cw_budget w) p = Some b"
    and "cache_inv limits (w\<lparr>cw_budget := b\<rparr>) refs permits" and "view (w\<lparr>cw_budget := b\<rparr>) = view w"
    and "same_heap w (w\<lparr>cw_budget := b\<rparr>)"
proof -
  have "p \<le> used (cw_budget w)" using inv by (simp add: cache_inv_def heap_inv_def)
  note drop = permit_drop_eq [OF this]
  show ?thesis
    using inv by (intro that [OF drop])
      (simp_all add: cache_inv_def heap_inv_def entries_inv_def cell_bytes_def same_heap_def view_def [abs_def]
        model_at_def [abs_def])
qed

lemma drop_all_spec:
  assumes "cache_inv limits w (mset as + refs) permits"
  obtains w' where "drop_all as w = Some w'" and "cache_inv limits w' refs permits" and "view w' = view w"
    and "same_heap w w'"
  using assms
proof (induction as arbitrary: w thesis)
  case (Cons a as)
  obtain w1 where w1: "cell_drop a w = Some w1" "cache_inv limits w1 (mset as + refs) permits"
    "view w1 = view w" "same_heap w w1"
    using handle_drop_spec [of limits w a "mset as + refs"] Cons.prems(2) by auto
  obtain w2 where "drop_all as w1 = Some w2" "cache_inv limits w2 refs permits" "view w2 = view w1"
    "same_heap w1 w2" by (rule Cons.IH [OF _ w1(2)])
  with w1 show ?case by (intro Cons.prems(1) [of w2]) (auto intro: same_heap_trans)
qed simp

lemma clear_entries_spec:
  assumes inv: "cache_inv limits w refs permits"
  obtains w' where "clear_entries w = Some w'" and "cache_inv limits w' refs permits" and "view w' = Map.empty"
    and "same_heap w w'"
proof -
  let ?w = "w\<lparr>cw_state := (cw_state w)\<lparr>cs_entries := [], cs_bytes := 0\<rparr>\<rparr>"
  have "cache_inv limits ?w (mset (map (ce_model \<circ> snd) (entries_of w)) + refs) permits"
    using inv by (simp add: cache_inv_def heap_inv_def entries_inv_def entry_owners_def cell_bytes_def)
  then obtain w' where w': "drop_all (map (ce_model \<circ> snd) (entries_of w)) ?w = Some w'"
    "cache_inv limits w' refs permits" "view w' = view ?w" "same_heap ?w w'" by (rule drop_all_spec)
  have "clear_entries w = Some w'" using w'(1) by (simp add: clear_entries_def)
  then show ?thesis
    using w' by (intro that [of w']) (auto simp: same_heap_def view_def [abs_def])
qed

lemma revision_world:
  assumes "cache_inv limits w refs permits"
  shows "cache_inv limits (w\<lparr>cw_state := (cw_state w)\<lparr>cs_disabled := d, cs_revision := n\<rparr>\<rparr>) refs permits"
    and "view (w\<lparr>cw_state := (cw_state w)\<lparr>cs_disabled := d, cs_revision := n\<rparr>\<rparr>) = view w"
  using assms
  by (simp_all add: cache_inv_def heap_inv_def entries_inv_def cell_bytes_def view_def [abs_def]
      model_at_def [abs_def])

lemma remove_view:
  assumes inv: "cache_inv limits w refs permits"
  obtains w' where "remove_and_drop user w = Some (hm_contains (entries_of w) user, w')"
    and "cache_inv limits w' refs permits" and "view w' = (view w)(user := None)" and "same_heap w w'"
proof -
  obtain w' where w': "remove_and_drop user w = Some (hm_contains (entries_of w) user, w')"
    "cache_inv limits w' refs permits" "entries_of w' = hm_remove user (entries_of w)" "same_heap w w'"
    using remove_and_drop_spec [OF inv] by metis
  have "model_at w' (ce_model e) = model_at w (ce_model e)" if "hm_get (entries_of w) u = Some e" for u e
    using cache_inv_model_valid [OF inv map_of_SomeD [OF that]] model_at_same [OF w'(4)] by simp
  then have "view w' = (view w)(user := None)"
    by (intro ext) (auto simp: view_def w'(3) map_option_case split: option.splits)
  with w' that show ?thesis by blast
qed

subsection \<open>Insertion\<close>

lemma fail_dropping_spec:
  assumes "cache_inv limits w (add_mset a refs) permits"
  obtains w' where "fail_dropping a r w = Some (r, w')" and "cache_inv limits w' refs permits"
    and "view w' = view w" and "same_heap w w'"
proof -
  obtain w' where "cell_drop a w = Some w'" "cache_inv limits w' refs permits" "view w' = view w" "same_heap w w'"
    using handle_drop_spec [OF assms] by blast
  then show ?thesis by (intro that [of w']) (simp_all add: fail_dropping_def)
qed

lemma map_le_upd_trans: "m1 \<subseteq>\<^sub>m m0(k := None) \<Longrightarrow> m1(k \<mapsto> v) \<subseteq>\<^sub>m m0(k \<mapsto> v)"
  by (auto simp: map_le_def dom_def)

definition kept :: "cache_world \<Rightarrow> cache_world \<Rightarrow> bool" where
  "kept w w' \<longleftrightarrow> cs_disabled (cw_state w') = cs_disabled (cw_state w)
     \<and> limit (cw_budget w') = limit (cw_budget w)"

lemma same_heap_kept: "same_heap w w' \<Longrightarrow> kept w w'"
  by (simp add: same_heap_def kept_def)

text \<open>An insertion returns a handle to the model it published, and nothing else is added to the view; if
  it \<open>must\<close> succeed it does.\<close>

definition insert_outcome ::
  "model_cache_limits \<Rightarrow> str \<Rightarrow> auth_model \<Rightarrow> nat multiset \<Rightarrow> nat multiset \<Rightarrow> cache_world \<Rightarrow> bool
   \<Rightarrow> ((storage_backend_error + nat) \<times> cache_world) option \<Rightarrow> bool" where
  "insert_outcome limits user m refs permits w must out \<longleftrightarrow>
     (\<exists>r w'. out = Some (r, w')
        \<and> cache_inv limits w' (case r of Inl _ \<Rightarrow> refs | Inr b \<Rightarrow> add_mset b refs) permits
        \<and> kept w w'
        \<and> (case r of
             Inl _ \<Rightarrow> view w' \<subseteq>\<^sub>m view w
           | Inr b \<Rightarrow> model_at w' b = m \<and> view w' user = Some m \<and> view w' \<subseteq>\<^sub>m (view w)(user \<mapsto> m))
        \<and> (must \<longrightarrow> (\<exists>b. r = Inr b)))"

lemma insert_outcome_fail:
  assumes "cache_inv limits w1 (add_mset a refs) permits" and "same_heap w w1" and "view w1 \<subseteq>\<^sub>m view w"
  shows "insert_outcome limits user m refs permits w False (fail_dropping a (Inl e) w1)"
proof -
  obtain w2 where "fail_dropping a (Inl e :: _ + nat) w1 = Some (Inl e, w2)" "cache_inv limits w2 refs permits"
    "view w2 = view w1" "same_heap w1 w2" by (rule fail_dropping_spec [OF assms(1)])
  then show ?thesis using assms(2,3) by (simp add: insert_outcome_def same_heap_def kept_def)
qed

lemma insert_outcome_weaken:
  assumes "insert_outcome limits user m refs permits w1 must1 out" and "view w1 = view w"
    and "kept w w1" and "must \<Longrightarrow> must1"
  shows "insert_outcome limits user m refs permits w must out"
proof -
  have "kept w w'" if "kept w1 w'" for w' using that assms(3) by (simp add: kept_def)
  then show ?thesis using assms(1,4) unfolding insert_outcome_def assms(2) by blast
qed

lemma insert_cached_add:
  assumes inv: "cache_inv limits w (add_mset a refs) permits" and max: "cl_max_bytes limits < usize_max"
    and room: "\<not> no_room limits (cell_bytes w a) w" and fresh: "view w user = None"
  obtains w' where "add_entry user a (cell_bytes w a) (cell_clone a w) = Some w'"
    and "cache_inv limits w' (add_mset a refs) permits" and "view w' = (view w)(user \<mapsto> model_at w a)"
    and "same_heap w w'" and "model_at w' a = model_at w a"
proof -
  have a: "a \<in># entry_owners (entries_of w) + add_mset a refs" by simp
  note c = cell_clone_world [OF inv a]
  have valid: "a < length (cw_cells w)" using inv by (auto simp: cache_inv_def heap_inv_def)
  then have m: "model_at (cell_clone a w) a = model_at w a" by (rule model_at_same [OF c(3)])
  then have b: "cell_bytes (cell_clone a w) a = cell_bytes w a" by (simp add: cell_bytes_model)
  have "\<not> no_room limits (cell_bytes (cell_clone a w) a) (cell_clone a w)"
    using room by (simp add: no_room_def b c(4))
  from add_entry_spec [OF c(1) max this, of user] fresh obtain w' where
    w': "add_entry user a (cell_bytes w a) (cell_clone a w) = Some w'"
      "cache_inv limits w' (add_mset a refs) permits" "view w' = (view w)(user \<mapsto> model_at w a)"
      "same_heap (cell_clone a w) w'" unfolding b m c(2) by blast
  have same: "same_heap w w'" using c(3) w'(4) by (rule same_heap_trans)
  show thesis using that w' same model_at_same [OF same valid] by blast
qed

lemma insert_cached_spec:
  assumes inv: "cache_inv limits w (add_mset a refs) permits" and max: "cl_max_bytes limits < usize_max"
  shows "insert_outcome limits user (model_at w a) refs permits w
    (cell_bytes w a \<le> cl_max_bytes limits \<and> \<not> cs_disabled (cw_state w) \<and> 0 < cl_max_users limits)
    (insert_cached limits user a w)"
proof (cases "cell_bytes w a \<le> cl_max_bytes limits \<and> \<not> cs_disabled (cw_state w)")
  case False
  then show ?thesis using insert_outcome_fail [OF inv same_heap_refl map_le_refl]
    by (auto simp: insert_cached_def Let_def)
next
  case True
  have valid: "a < length (cw_cells w)" using inv by (auto simp: cache_inv_def heap_inv_def)
  obtain w1 c where w1: "remove_and_drop user w = Some (c, w1)" "cache_inv limits w1 (add_mset a refs) permits"
    "view w1 = (view w)(user := None)" "same_heap w w1" using remove_view [OF inv] by blast
  obtain room w2 where w2: "make_room limits (cell_bytes w a) w1 = Some (room, w2)"
    "cache_inv limits w2 (add_mset a refs) permits" "evicted None w1 w2"
    "room = (\<not> no_room limits (cell_bytes w a) w2)" and must: "0 < cl_max_users limits \<longrightarrow> room"
    using make_room_spec [OF max w1(2), of "cell_bytes w a"] True by auto
  have same: "same_heap w w2" using w1(4) w2(3) unfolding evicted_def by (blast intro: same_heap_trans)
  have m: "model_at w2 a = model_at w a" by (rule model_at_same [OF same valid])
  have sub: "view w2 \<subseteq>\<^sub>m (view w)(user := None)"
    using evicted_view [OF w1(2) w2(2,3)] by (simp add: w1(3))
  show ?thesis
  proof (cases room)
    case no: False
    have "view w2 \<subseteq>\<^sub>m view w" using sub upd_None_map_le by (rule map_le_trans)
    from insert_outcome_fail [OF w2(2) same this] show ?thesis
      using True must no w1(1) w2(1) by (simp add: insert_cached_def)
  next
    case yes: True
    have "view w2 user = None" using sub by (auto simp: map_le_def dom_def)
    moreover have "\<not> no_room limits (cell_bytes w2 a) w2" using yes w2(4) m by (simp add: cell_bytes_model)
    ultimately obtain w3 where w3: "add_entry user a (cell_bytes w2 a) (cell_clone a w2) = Some w3"
      "cache_inv limits w3 (add_mset a refs) permits" "view w3 = (view w2)(user \<mapsto> model_at w2 a)"
      "same_heap w2 w3" "model_at w3 a = model_at w2 a" using insert_cached_add [OF w2(2) max] by metis
    have run: "insert_cached limits user a w = Some (Inr a, w3)"
      using True w1(1) w2(1) yes w3(1) m by (simp add: insert_cached_def cell_bytes_model)
    have "kept w w3" using same w3(4) by (simp add: same_heap_def kept_def)
    then show ?thesis using run w3(2,3,5) m map_le_upd_trans [OF sub] by (simp add: insert_outcome_def)
  qed
qed

lemma new_handle_spec:
  assumes inv: "cache_inv limits w refs (add_mset p permits)"
  obtains r w' where "cached_auth_model_new model p w = Some (r, w')"
    and "cache_inv limits w' (case r of Inl _ \<Rightarrow> refs | Inr a \<Rightarrow> add_mset a refs) permits"
    and "view w' = view w" and "kept w w'"
    and "\<forall>a. r = Inr a \<longrightarrow> model_at w' a = model"
    and "am_plaintext_bytes model \<le> p \<Longrightarrow> \<exists>a. r = Inr a"
proof (cases "p < am_plaintext_bytes model")
  case True
  obtain b where b: "permit_drop (cw_budget w) p = Some b" "cache_inv limits (w\<lparr>cw_budget := b\<rparr>) refs permits"
    "view (w\<lparr>cw_budget := b\<rparr>) = view w" "same_heap w (w\<lparr>cw_budget := b\<rparr>)"
    using permit_drop_spec [OF inv] by blast
  show thesis
    by (rule that [of "Inl (InvalidInput ''model reservation is too small'')" "w\<lparr>cw_budget := b\<rparr>"])
      (use b True in \<open>simp_all add: cached_auth_model_new_def budgeted_auth_model_new_def same_heap_kept\<close>)
next
  case False
  let ?a = "length (cw_cells w)"
  let ?w = "w\<lparr>cw_cells := cw_cells w @ [\<lparr>cell_model = model, cell_permit = p, cell_strong = 1\<rparr>]\<rparr>"
  have heap: "heap_inv w (entry_owners (entries_of w) + refs) (add_mset p permits)"
    using inv by (simp add: cache_inv_def)
  then have fresh: "count (entry_owners (entries_of w) + refs) ?a = 0"
    unfolding heap_inv_def by (metis less_irrefl not_in_iff)
  have "heap_inv ?w (entry_owners (entries_of w) + add_mset ?a refs) permits"
    using heap fresh False
    by (auto simp: heap_inv_def nth_append less_Suc_eq cell_bytes_def live_bytes_def)
  moreover have "entries_inv limits ?w"
    using inv cache_inv_model_valid [OF inv]
    by (simp add: cache_inv_def entries_inv_def cell_bytes_def nth_append)
  ultimately have "cache_inv limits ?w (add_mset ?a refs) permits" by (simp add: cache_inv_def)
  moreover have "view ?w u = view w u" for u
    using cache_inv_model_valid [OF inv]
    by (cases "hm_get (entries_of w) u") (force simp: view_def model_at_def nth_append dest: map_of_SomeD)+
  ultimately show thesis
    using False by (intro that [of "Inr ?a" ?w])
      (auto simp: cached_auth_model_new_def budgeted_auth_model_new_def model_at_def kept_def)
qed

lemma cache_insert_spec:
  assumes inv: "cache_inv limits w refs (add_mset p permits)" and max: "cl_max_bytes limits < usize_max"
  shows "insert_outcome limits user model refs permits w
    (am_plaintext_bytes model \<le> cl_max_bytes limits \<and> am_plaintext_bytes model \<le> p
     \<and> \<not> cs_disabled (cw_state w) \<and> 0 < cl_max_users limits)
    (cache_insert limits user model p w)"
proof (cases "am_plaintext_bytes model \<le> cl_max_bytes limits")
  case False
  obtain b where "permit_drop (cw_budget w) p = Some b" "cache_inv limits (w\<lparr>cw_budget := b\<rparr>) refs permits"
    "view (w\<lparr>cw_budget := b\<rparr>) = view w" "same_heap w (w\<lparr>cw_budget := b\<rparr>)"
    using permit_drop_spec [OF inv] by blast
  with False show ?thesis by (simp add: cache_insert_def Let_def insert_outcome_def same_heap_kept)
next
  case True
  obtain r w1 where w1: "cached_auth_model_new model p w = Some (r, w1)"
    "cache_inv limits w1 (case r of Inl _ \<Rightarrow> refs | Inr a \<Rightarrow> add_mset a refs) permits"
    "view w1 = view w" "kept w w1" "\<forall>a. r = Inr a \<longrightarrow> model_at w1 a = model"
    "am_plaintext_bytes model \<le> p \<Longrightarrow> \<exists>a. r = Inr a" by (rule new_handle_spec [OF inv, where model = model]) auto
  show ?thesis
  proof (cases r)
    case (Inl e)
    with w1 True show ?thesis by (auto simp: cache_insert_def Let_def insert_outcome_def)
  next
    case (Inr a)
    then have i: "cache_inv limits w1 (add_mset a refs) permits" and m: "model_at w1 a = model"
      and run: "cache_insert limits user model p w = insert_cached limits user a w1"
      using w1 True by (simp_all add: cache_insert_def)
    show ?thesis unfolding run
      by (rule insert_outcome_weaken [OF insert_cached_spec [OF i max, unfolded m] w1(3,4)])
        (use True w1(4) m in \<open>simp add: cell_bytes_model kept_def\<close>)
  qed
qed

text \<open>A provisional insertion consumes its handle.  It publishes only under its preconditions, and if it
  does not publish it adds nothing.\<close>

definition provisional_outcome ::
  "model_cache_limits \<Rightarrow> str \<Rightarrow> auth_model \<Rightarrow> nat multiset \<Rightarrow> nat multiset \<Rightarrow> cache_world \<Rightarrow> bool
   \<Rightarrow> ((storage_backend_error + bool) \<times> cache_world) option \<Rightarrow> bool" where
  "provisional_outcome limits user m refs permits w allowed out \<longleftrightarrow>
     (\<exists>r w'. out = Some (r, w') \<and> cache_inv limits w' refs permits
        \<and> kept w w'
        \<and> (if r = Inr True then allowed \<and> view w' user = Some m \<and> view w' \<subseteq>\<^sub>m (view w)(user \<mapsto> m)
           else (allowed \<longrightarrow> cl_max_users limits = 0) \<and> view w' \<subseteq>\<^sub>m view w))"

lemma provisional_fail:
  assumes "cache_inv limits w1 (add_mset a refs) permits" and "same_heap w w1" and "view w1 \<subseteq>\<^sub>m view w"
    and "r \<noteq> Inr True" and "allowed \<longrightarrow> cl_max_users limits = 0"
  shows "provisional_outcome limits user m refs permits w allowed (fail_dropping a r w1)"
proof -
  obtain w2 where "fail_dropping a r w1 = Some (r, w2)" "cache_inv limits w2 refs permits"
    "view w2 = view w1" "same_heap w1 w2" by (rule fail_dropping_spec [OF assms(1)])
  then show ?thesis using assms(2-5) by (auto simp: provisional_outcome_def same_heap_def kept_def)
qed

definition may_publish :: "model_cache_limits \<Rightarrow> str \<Rightarrow> 128 word \<Rightarrow> u64 \<Rightarrow> nat \<Rightarrow> bool \<Rightarrow> cache_world \<Rightarrow> bool" where
  "may_publish limits user revision gen a publish w \<longleftrightarrow>
     am_generation (model_at w a) = gen \<and> cell_bytes w a \<le> cl_max_bytes limits
     \<and> \<not> cs_disabled (cw_state w) \<and> cs_revision (cw_state w) = revision \<and> view w user = None \<and> publish"

lemma insert_provisional_spec:
  assumes inv: "cache_inv limits w (add_mset a refs) permits" and max: "cl_max_bytes limits < usize_max"
  shows "provisional_outcome limits user (model_at w a) refs permits w
    (may_publish limits user revision gen a publish w)
    (insert_provisional_if_revision limits user revision gen a publish w)"
proof (cases "may_publish limits user revision gen a publish w")
  case False
  have contains: "hm_contains (entries_of w) user = (view w user \<noteq> None)" by (simp add: view_def hm_contains_def)
  show ?thesis using False contains
    by (auto simp: insert_provisional_if_revision_def Let_def may_publish_def model_at_def
        intro!: provisional_fail [OF inv same_heap_refl map_le_refl])
next
  case True
  have valid: "a < length (cw_cells w)" using inv by (auto simp: cache_inv_def heap_inv_def)
  obtain room w2 where w2: "make_room limits (cell_bytes w a) w = Some (room, w2)"
    "cache_inv limits w2 (add_mset a refs) permits" "evicted None w w2"
    "room = (\<not> no_room limits (cell_bytes w a) w2)" and must: "0 < cl_max_users limits \<longrightarrow> room"
    using make_room_spec [OF max inv, of "cell_bytes w a"] True by (auto simp: may_publish_def)
  have same: "same_heap w w2" using w2(3) by (simp add: evicted_def)
  have m: "model_at w2 a = model_at w a" by (rule model_at_same [OF same valid])
  have sub: "view w2 \<subseteq>\<^sub>m view w" by (rule evicted_view [OF inv w2(2,3)])
  have run: "insert_provisional_if_revision limits user revision gen a publish w =
      (if room then map_option (Pair (Inr True)) (add_entry user a (cell_bytes w a) w2)
       else fail_dropping a (Inr False) w2)"
    using True w2(1)
    by (auto simp: insert_provisional_if_revision_def may_publish_def model_at_def view_def hm_contains_def)
  show ?thesis
  proof (cases room)
    case no: False
    then show ?thesis using run must provisional_fail [OF w2(2) same sub] by simp
  next
    case yes: True
    have none: "view w2 user = None" using sub True by (auto simp: map_le_def dom_def may_publish_def)
    have "\<not> no_room limits (cell_bytes w2 a) w2" using yes w2(4) m by (simp add: cell_bytes_model)
    from add_entry_spec [OF w2(2) max this none] obtain w3 where
      w3: "add_entry user a (cell_bytes w a) w2 = Some w3" "cache_inv limits w3 refs permits"
        "view w3 = (view w2)(user \<mapsto> model_at w a)" "same_heap w2 w3"
      unfolding cell_bytes_model m by blast
    have "view w3 \<subseteq>\<^sub>m (view w)(user \<mapsto> model_at w a)" using sub by (simp add: w3(3) map_le_upd)
    then show ?thesis using run yes w3 True same by (simp add: provisional_outcome_def same_heap_def kept_def)
  qed
qed

end
