(* ===== verification/CacheProperties.thy ===== *)
theory CacheProperties
  imports CacheSafety
begin

section \<open>Properties of the model cache\<close>

text \<open>
  The clients of the cache as a machine: \<open>cache_exec\<close> runs any operation of \<open>Cache\<close> on behalf of any
  client, the clients keeping the handles and permits they were given and dropping them when they like.
  Beside the world the state remembers, per user, the model last published and not invalidated since;
  that map is the abstract specification which the cache refines.
\<close>

subsection \<open>The clients\<close>

record cache_run =
  run_world :: cache_world
  run_handles :: "nat list"
  run_permits :: "permit list"
  run_published :: "str \<Rightarrow> auth_model option"

datatype cache_op =
    CacheGet str
  | CacheGeneration str
  | CacheReserve usize "str option"
  | CacheReserveEnrollment usize usize "str option"
  | CacheNewHandle auth_model nat
  | CacheInsert str auth_model nat
  | CacheInsertProvisional str "128 word" u64 nat bool
  | CacheInvalidate str
  | CacheClear
  | CachePoison
  | CacheDropHandle nat
  | CacheDropPermit nat

text \<open>A handle or permit is named by its position; an operation on one that does not exist is no step.\<close>

fun cache_exec :: "model_cache_limits \<Rightarrow> cache_op \<Rightarrow> cache_run \<Rightarrow> cache_run option" where
  "cache_exec limits (CacheGet user) s =
     (case cache_get user (run_world s) of
        (None, w) \<Rightarrow> Some (s\<lparr>run_world := w\<rparr>)
      | (Some a, w) \<Rightarrow> Some (s\<lparr>run_world := w, run_handles := a # run_handles s\<rparr>))"
| "cache_exec limits (CacheGeneration user) s =
     Some (s\<lparr>run_world := snd (cache_generation user (run_world s))\<rparr>)"
| "cache_exec limits (CacheReserve bytes protected) s =
     map_option (\<lambda>(r, w). s\<lparr>run_world := w,
         run_permits := (case r of Inl _ \<Rightarrow> run_permits s | Inr p \<Rightarrow> p # run_permits s)\<rparr>)
       (reserve_operation_except bytes protected (run_world s))"
| "cache_exec limits (CacheReserveEnrollment operation_bytes plaintext_bytes protected) s =
     map_option (\<lambda>(r, w). s\<lparr>run_world := w,
         run_permits := (case r of Inl _ \<Rightarrow> run_permits s | Inr (p, q) \<Rightarrow> p # q # run_permits s)\<rparr>)
       (reserve_enrollment_except operation_bytes plaintext_bytes protected (run_world s))"
| "cache_exec limits (CacheNewHandle model i) s =
     (if i < length (run_permits s) then
        map_option (\<lambda>(r, w). s\<lparr>run_world := w, run_permits := remove_nth i (run_permits s),
            run_handles := (case r of Inl _ \<Rightarrow> run_handles s | Inr a \<Rightarrow> a # run_handles s)\<rparr>)
          (cached_auth_model_new model (run_permits s ! i) (run_world s))
      else Some s)"
| "cache_exec limits (CacheInsert user model i) s =
     (if i < length (run_permits s) then
        map_option (\<lambda>(r, w). case r of
            Inl _ \<Rightarrow> s\<lparr>run_world := w, run_permits := remove_nth i (run_permits s)\<rparr>
          | Inr a \<Rightarrow> s\<lparr>run_world := w, run_permits := remove_nth i (run_permits s),
                run_handles := a # run_handles s, run_published := (run_published s)(user \<mapsto> model)\<rparr>)
          (cache_insert limits user model (run_permits s ! i) (run_world s))
      else Some s)"
| "cache_exec limits (CacheInsertProvisional user revision gen i publish) s =
     (if i < length (run_handles s) then
        map_option (\<lambda>(r, w). s\<lparr>run_world := w, run_handles := remove_nth i (run_handles s),
            run_published := (if r = Inr True
              then (run_published s)(user \<mapsto> model_at (run_world s) (run_handles s ! i))
              else run_published s)\<rparr>)
          (insert_provisional_if_revision limits user revision gen (run_handles s ! i) publish (run_world s))
      else Some s)"
| "cache_exec limits (CacheInvalidate user) s =
     map_option (\<lambda>w. s\<lparr>run_world := w, run_published := (run_published s)(user := None)\<rparr>)
       (cache_invalidate user (run_world s))"
| "cache_exec limits CacheClear s =
     map_option (\<lambda>w. s\<lparr>run_world := w, run_published := Map.empty\<rparr>) (cache_clear (run_world s))"
| "cache_exec limits CachePoison s =
     map_option (\<lambda>w. s\<lparr>run_world := w, run_published := Map.empty\<rparr>) (cache_poison (run_world s))"
| "cache_exec limits (CacheDropHandle i) s =
     (if i < length (run_handles s) then
        map_option (\<lambda>w. s\<lparr>run_world := w, run_handles := remove_nth i (run_handles s)\<rparr>)
          (cell_drop (run_handles s ! i) (run_world s))
      else Some s)"
| "cache_exec limits (CacheDropPermit i) s =
     (if i < length (run_permits s) then
        map_option (\<lambda>b. s\<lparr>run_world := (run_world s)\<lparr>cw_budget := b\<rparr>, run_permits := remove_nth i (run_permits s)\<rparr>)
          (permit_drop (cw_budget (run_world s)) (run_permits s ! i))
      else Some s)"

definition cache_start :: "budget \<Rightarrow> cache_run" where
  "cache_start b = \<lparr>run_world = model_cache_new b, run_handles = [], run_permits = [], run_published = Map.empty\<rparr>"

definition cache_run_inv :: "model_cache_limits \<Rightarrow> usize \<Rightarrow> cache_run \<Rightarrow> bool" where
  "cache_run_inv limits lim s \<longleftrightarrow>
     cache_inv limits (run_world s) (mset (run_handles s)) (mset (run_permits s))
     \<and> view (run_world s) \<subseteq>\<^sub>m run_published s \<and> limit (cw_budget (run_world s)) = lim"

lemma mset_remove_nth: "i < length xs \<Longrightarrow> mset xs = add_mset (xs ! i) (mset (remove_nth i xs))"
  by (subst id_take_nth_drop [of i xs]) (simp_all add: remove_nth_def)

lemma cache_start_inv:
  assumes "used b = 0" and "limit b = lim" and "lim < usize_limit"
  shows "cache_run_inv limits lim (cache_start b)"
  using assms
  by (simp add: cache_run_inv_def cache_start_def model_cache_new_def cache_inv_def heap_inv_def
      entries_inv_def entry_owners_def view_def [abs_def] map_le_def)

lemma insert_outcome_cases:
  assumes "insert_outcome limits user m refs permits w must out"
  obtains (failed) e w' where "out = Some (Inl e, w')" and "cache_inv limits w' refs permits"
      and "kept w w'" and "view w' \<subseteq>\<^sub>m view w" and "\<not> must"
    | (stored) b w' where "out = Some (Inr b, w')" and "cache_inv limits w' (add_mset b refs) permits"
      and "kept w w'" and "model_at w' b = m" and "view w' user = Some m" and "view w' \<subseteq>\<^sub>m (view w)(user \<mapsto> m)"
proof -
  obtain r w' where r: "out = Some (r, w')"
    "cache_inv limits w' (case r of Inl _ \<Rightarrow> refs | Inr b \<Rightarrow> add_mset b refs) permits" "kept w w'"
    "case r of Inl _ \<Rightarrow> view w' \<subseteq>\<^sub>m view w
       | Inr b \<Rightarrow> model_at w' b = m \<and> view w' user = Some m \<and> view w' \<subseteq>\<^sub>m (view w)(user \<mapsto> m)"
    "must \<longrightarrow> (\<exists>b. r = Inr b)"
    using assms unfolding insert_outcome_def by (elim exE conjE)
  show thesis
  proof (cases r)
    case (Inl e)
    with r show ?thesis by (intro failed [of e w']) simp_all
  next
    case (Inr b)
    with r show ?thesis by (intro stored [of b w']) simp_all
  qed
qed

subsection \<open>Each operation keeps the invariant\<close>

abbreviation stays_safe :: "model_cache_limits \<Rightarrow> usize \<Rightarrow> cache_run option \<Rightarrow> bool" where
  "stays_safe limits lim out \<equiv> \<exists>s'. out = Some s' \<and> cache_run_inv limits lim s'"

lemma cache_run_step:
  assumes "cache_run_inv limits lim s" and "cache_inv limits w (mset (run_handles s')) (mset (run_permits s'))"
    and "kept (run_world s) w" and "run_world s' = w" and "view w \<subseteq>\<^sub>m run_published s'"
  shows "cache_run_inv limits lim s'"
  using assms by (simp add: cache_run_inv_def kept_def)

lemma cache_run_invD:
  assumes "cache_run_inv limits lim s"
  shows "cache_inv limits (run_world s) (mset (run_handles s)) (mset (run_permits s))"
    and "view (run_world s) \<subseteq>\<^sub>m run_published s"
  using assms by (simp_all add: cache_run_inv_def)

lemma evicted_kept: "evicted protected w w' \<Longrightarrow> kept w w'"
  by (simp add: evicted_def same_heap_kept)

lemma exec_get:
  assumes s: "cache_run_inv limits lim s"
  shows "stays_safe limits lim (cache_exec limits (CacheGet user) s)"
proof -
  obtain r w where get: "cache_get user (run_world s) = (r, w)" by (cases "cache_get user (run_world s)")
  note g = get_spec [OF cache_run_invD(1) [OF s] get]
  show ?thesis
    using get g cache_run_invD(2) [OF s] same_heap_kept [OF g(3)]
    by (cases r) (auto intro!: cache_run_step [OF s])
qed

lemma exec_generation:
  assumes s: "cache_run_inv limits lim s"
  shows "stays_safe limits lim (cache_exec limits (CacheGeneration user) s)"
proof -
  obtain r w where get: "cache_generation user (run_world s) = (r, w)"
    by (cases "cache_generation user (run_world s)")
  note g = generation_spec [OF cache_run_invD(1) [OF s] get]
  show ?thesis
    using get g cache_run_invD(2) [OF s] same_heap_kept [OF g(3)] by (auto intro!: cache_run_step [OF s])
qed

lemma exec_reserve:
  assumes s: "cache_run_inv limits lim s"
  shows "stays_safe limits lim (cache_exec limits (CacheReserve bytes protected) s)"
proof -
  note i = cache_run_invD [OF s]
  obtain r w where w: "reserve_operation_except bytes protected (run_world s) = Some (r, w)"
    "evicted protected (run_world s) w"
    "cache_inv limits w (mset (run_handles s))
       (case r of Inl _ \<Rightarrow> mset (run_permits s) | Inr p \<Rightarrow> mset (run_permits s) + {#p#})"
    using operation.reserve_except_spec [OF i(1), of bytes protected]
    unfolding reserve_operation_except_def by (elim exE conjE)
  have "view w \<subseteq>\<^sub>m run_published s" using evicted_view [OF i(1) w(3,2)] i(2) by (rule map_le_trans)
  then show ?thesis
    using w evicted_kept [OF w(2)] by (cases r) (auto intro!: cache_run_step [OF s])
qed

lemma exec_reserve_enrollment:
  assumes s: "cache_run_inv limits lim s"
  shows "stays_safe limits lim (cache_exec limits (CacheReserveEnrollment operation_bytes plaintext_bytes protected) s)"
proof -
  note i = cache_run_invD [OF s]
  obtain r w where w: "reserve_enrollment_except operation_bytes plaintext_bytes protected (run_world s) = Some (r, w)"
    "evicted protected (run_world s) w"
    "cache_inv limits w (mset (run_handles s))
       (case r of Inl _ \<Rightarrow> mset (run_permits s) | Inr p \<Rightarrow> mset (run_permits s) + (case p of (p, q) \<Rightarrow> {#p, q#}))"
    using enrollment.reserve_except_spec [OF i(1), of operation_bytes plaintext_bytes protected]
    unfolding reserve_enrollment_except_def by (elim exE conjE)
  have "view w \<subseteq>\<^sub>m run_published s" using evicted_view [OF i(1) w(3,2)] i(2) by (rule map_le_trans)
  then show ?thesis
    using w evicted_kept [OF w(2)] by (cases r) (auto intro!: cache_run_step [OF s])
qed

lemma exec_new_handle:
  assumes s: "cache_run_inv limits lim s"
  shows "stays_safe limits lim (cache_exec limits (CacheNewHandle model i) s)"
proof (cases "i < length (run_permits s)")
  case True
  note j = cache_run_invD [OF s]
  have "cache_inv limits (run_world s) (mset (run_handles s))
      (add_mset (run_permits s ! i) (mset (remove_nth i (run_permits s))))"
    using j(1) by (simp only: mset_remove_nth [OF True, symmetric])
  then obtain r w where w: "cached_auth_model_new model (run_permits s ! i) (run_world s) = Some (r, w)"
    "cache_inv limits w (case r of Inl _ \<Rightarrow> mset (run_handles s) | Inr a \<Rightarrow> add_mset a (mset (run_handles s)))
       (mset (remove_nth i (run_permits s)))" "view w = view (run_world s)" "kept (run_world s) w"
    by (rule new_handle_spec [where model = model])
  then show ?thesis using True j(2) by (cases r) (auto intro!: cache_run_step [OF s])
qed (use s in simp)

lemma exec_insert:
  assumes s: "cache_run_inv limits lim s" and max: "cl_max_bytes limits < usize_max"
  shows "stays_safe limits lim (cache_exec limits (CacheInsert user model i) s)"
proof (cases "i < length (run_permits s)")
  case True
  note j = cache_run_invD [OF s]
  have "cache_inv limits (run_world s) (mset (run_handles s))
      (add_mset (run_permits s ! i) (mset (remove_nth i (run_permits s))))"
    using j(1) by (simp only: mset_remove_nth [OF True, symmetric])
  from cache_insert_spec [OF this max, of user model] show ?thesis
  proof (cases rule: insert_outcome_cases)
    case (failed e w)
    then show ?thesis using True map_le_trans [OF failed(4) j(2)] by (auto intro!: cache_run_step [OF s])
  next
    case (stored b w)
    have "view w \<subseteq>\<^sub>m (run_published s)(user \<mapsto> model)"
      using stored(6) map_le_upd [OF j(2)] by (rule map_le_trans)
    then show ?thesis using True stored by (auto intro!: cache_run_step [OF s])
  qed
qed (use s in simp)

lemma exec_provisional:
  assumes s: "cache_run_inv limits lim s" and max: "cl_max_bytes limits < usize_max"
  shows "stays_safe limits lim (cache_exec limits (CacheInsertProvisional user revision gen i publish) s)"
proof (cases "i < length (run_handles s)")
  case True
  note j = cache_run_invD [OF s]
  have "cache_inv limits (run_world s)
      (add_mset (run_handles s ! i) (mset (remove_nth i (run_handles s)))) (mset (run_permits s))"
    using j(1) by (simp only: mset_remove_nth [OF True, symmetric])
  from insert_provisional_spec [OF this max, of user revision gen publish] obtain r w where
    w: "insert_provisional_if_revision limits user revision gen (run_handles s ! i) publish (run_world s) = Some (r, w)"
      "cache_inv limits w (mset (remove_nth i (run_handles s))) (mset (run_permits s))" "kept (run_world s) w"
    and v: "if r = Inr True then view w \<subseteq>\<^sub>m (view (run_world s))(user \<mapsto> model_at (run_world s) (run_handles s ! i))
       else view w \<subseteq>\<^sub>m view (run_world s)"
    unfolding provisional_outcome_def by (auto split: if_splits)
  have "view w \<subseteq>\<^sub>m (if r = Inr True then (run_published s)(user \<mapsto> model_at (run_world s) (run_handles s ! i))
      else run_published s)"
    using v map_le_trans [OF _ map_le_upd [OF j(2)]] map_le_trans [OF _ j(2)] by (simp split: if_splits)
  then show ?thesis using w True by (auto intro!: cache_run_step [OF s])
qed (use s in simp)

lemma exec_invalidate:
  assumes s: "cache_run_inv limits lim s"
  shows "stays_safe limits lim (cache_exec limits (CacheInvalidate user) s)"
proof -
  note j = cache_run_invD [OF s]
  obtain c w where w: "remove_and_drop user (run_world s) = Some (c, w)"
    "cache_inv limits w (mset (run_handles s)) (mset (run_permits s))"
    "view w = (view (run_world s))(user := None)" "same_heap (run_world s) w" using remove_view [OF j(1)] by blast
  define w' where "w' = (if c then w else w\<lparr>cw_state := (cw_state w)\<lparr>cs_revision := cs_revision (cw_state w) + 1\<rparr>\<rparr>)"
  have run: "cache_invalidate user (run_world s) = Some w'" using w(1) by (simp add: cache_invalidate_def w'_def)
  have w': "cache_inv limits w' (mset (run_handles s)) (mset (run_permits s))" "view w' = view w" "kept w w'"
    using w(2) revision_world [OF w(2), where d = "cs_disabled (cw_state w)"] by (simp_all add: w'_def kept_def)
  have "kept (run_world s) w'" using w'(3) same_heap_kept [OF w(4)] by (simp add: kept_def)
  moreover have "view w' \<subseteq>\<^sub>m (run_published s)(user := None)"
    using j(2) by (auto simp: w'(2) w(3) map_le_def dom_def)
  ultimately show ?thesis using run w' by (auto intro!: cache_run_step [OF s])
qed

text \<open>Clearing and poisoning empty the table after an update of the revision and the flag.\<close>

lemma clear_world:
  assumes "cache_inv limits w refs permits"
  obtains w' where "clear_entries (w\<lparr>cw_state := (cw_state w)\<lparr>cs_disabled := d, cs_revision := n\<rparr>\<rparr>) = Some w'"
    and "cache_inv limits w' refs permits" and "view w' = Map.empty"
    and "cs_disabled (cw_state w') = d" and "limit (cw_budget w') = limit (cw_budget w)"
proof -
  let ?w = "w\<lparr>cw_state := (cw_state w)\<lparr>cs_disabled := d, cs_revision := n\<rparr>\<rparr>"
  obtain w' where "clear_entries ?w = Some w'" "cache_inv limits w' refs permits" "view w' = Map.empty"
    "same_heap ?w w'" using clear_entries_spec [OF revision_world(1) [OF assms]] by blast
  then show thesis by (intro that [of w']) (simp_all add: same_heap_def)
qed

lemma exec_clear:
  assumes s: "cache_run_inv limits lim s"
  shows "stays_safe limits lim (cache_exec limits CacheClear s)"
proof -
  let ?w = "run_world s"
  obtain w' where "clear_entries (?w\<lparr>cw_state := (cw_state ?w)\<lparr>cs_disabled := cs_disabled (cw_state ?w),
      cs_revision := cs_revision (cw_state ?w) + 1\<rparr>\<rparr>) = Some w'"
    "cache_inv limits w' (mset (run_handles s)) (mset (run_permits s))" "view w' = Map.empty"
    "limit (cw_budget w') = limit (cw_budget ?w)" by (rule clear_world [OF cache_run_invD(1) [OF s]])
  then show ?thesis using s by (simp add: cache_clear_def cache_run_inv_def)
qed

lemma exec_poison:
  assumes s: "cache_run_inv limits lim s"
  shows "stays_safe limits lim (cache_exec limits CachePoison s)"
proof -
  let ?w = "run_world s"
  define n where "n = (if cs_revision (cw_state ?w) = - 1 then - 1 else cs_revision (cw_state ?w) + 1)"
  obtain w' where w': "clear_entries (?w\<lparr>cw_state := (cw_state ?w)\<lparr>cs_disabled := True, cs_revision := n\<rparr>\<rparr>) = Some w'"
    "cache_inv limits w' (mset (run_handles s)) (mset (run_permits s))" "view w' = Map.empty"
    "limit (cw_budget w') = limit (cw_budget ?w)" by (rule clear_world [OF cache_run_invD(1) [OF s]])
  moreover have "cache_poison ?w = Some w'"
    using w'(1) unfolding cache_poison_def n_def [symmetric] by simp
  ultimately show ?thesis using s by (simp add: cache_run_inv_def)
qed

lemma exec_drop_handle:
  assumes s: "cache_run_inv limits lim s"
  shows "stays_safe limits lim (cache_exec limits (CacheDropHandle i) s)"
proof (cases "i < length (run_handles s)")
  case True
  note j = cache_run_invD [OF s]
  have "cache_inv limits (run_world s)
      (add_mset (run_handles s ! i) (mset (remove_nth i (run_handles s)))) (mset (run_permits s))"
    using j(1) by (simp only: mset_remove_nth [OF True, symmetric])
  then obtain w where "cell_drop (run_handles s ! i) (run_world s) = Some w"
    "cache_inv limits w (mset (remove_nth i (run_handles s))) (mset (run_permits s))"
    "view w = view (run_world s)" "same_heap (run_world s) w" by (rule handle_drop_spec)
  then show ?thesis using True j(2) by (auto intro!: cache_run_step [OF s] same_heap_kept)
qed (use s in simp)

lemma exec_drop_permit:
  assumes s: "cache_run_inv limits lim s"
  shows "stays_safe limits lim (cache_exec limits (CacheDropPermit i) s)"
proof (cases "i < length (run_permits s)")
  case True
  note j = cache_run_invD [OF s]
  have "cache_inv limits (run_world s) (mset (run_handles s))
      (add_mset (run_permits s ! i) (mset (remove_nth i (run_permits s))))"
    using j(1) by (simp only: mset_remove_nth [OF True, symmetric])
  then obtain b where "permit_drop (cw_budget (run_world s)) (run_permits s ! i) = Some b"
    "cache_inv limits ((run_world s)\<lparr>cw_budget := b\<rparr>) (mset (run_handles s)) (mset (remove_nth i (run_permits s)))"
    "view ((run_world s)\<lparr>cw_budget := b\<rparr>) = view (run_world s)"
    "same_heap (run_world s) ((run_world s)\<lparr>cw_budget := b\<rparr>)" by (rule permit_drop_spec)
  then show ?thesis using True j(2) by (auto intro!: cache_run_step [OF s] same_heap_kept)
qed (use s in simp)

lemmas exec_safe =
  exec_get exec_generation exec_reserve exec_reserve_enrollment exec_new_handle exec_insert exec_provisional
  exec_invalidate exec_clear exec_poison exec_drop_handle exec_drop_permit

interpretation cache_machine:
  safe_machine "cache_exec limits" "\<lambda>s. cache_run_inv limits lim s \<and> cl_max_bytes limits < usize_max"
  for limits lim
proof
  fix s p
  assume "cache_run_inv limits lim s \<and> cl_max_bytes limits < usize_max"
  then have "stays_safe limits lim (cache_exec limits p s) \<and> cl_max_bytes limits < usize_max"
    using exec_safe by (cases p) (simp_all only: conj_assoc simp_thms)
  then show "\<exists>s'. cache_exec limits p s = Some s' \<and> cache_run_inv limits lim s' \<and> cl_max_bytes limits < usize_max"
    by blast
qed

subsection \<open>The properties\<close>

definition sample_model :: auth_model where
  "sample_model = \<lparr>am_generation = 7, am_model_digest = [], am_dimension = 0, am_enrollment_ids = [],
     am_labels = [], am_flat_embeddings = [], am_plaintext_bytes = 30\<rparr>"

definition sample_limits :: model_cache_limits where
  "sample_limits = \<lparr>cl_max_users = 1, cl_max_bytes = 50\<rparr>"

definition sample_budget :: budget where
  "sample_budget = \<lparr>limit = 90, used = 0\<rparr>"

text \<open>A client reserves memory for one model; then it publishes the model, and has a second permit for
  another.\<close>

definition sample_reserved :: cache_run where
  "sample_reserved = (cache_start sample_budget)\<lparr>
     run_world := (model_cache_new sample_budget)\<lparr>cw_budget := \<lparr>limit = 90, used = 40\<rparr>\<rparr>, run_permits := [40]\<rparr>"

lemma sample_limits_new: "model_cache_limits_new 1 50 = Inr sample_limits"
  by (simp add: model_cache_limits_new_def sample_limits_def)

lemma sample_budget_new: "budget_new 90 = Inr sample_budget" "(90 :: nat) < usize_limit" "unat (50 :: u64) < usize_max"
  by (simp_all add: budget_new_def sample_budget_def usize_limit_def usize_max_def)

lemma sample_reserves:
  "run_ops (cache_exec sample_limits) [CacheReserve 40 None] (cache_start sample_budget) = Some sample_reserved"
  by (simp add: cache_start_def model_cache_new_def sample_budget_def sample_reserved_def reserve_operation_except_def
      reserve_except_def reserve_loop.simps [of _ _ "\<lparr>cw_state = s, cw_budget = b, cw_cells = c\<rparr>" for s b c]
      try_operation_def budget_reserve_eq usize_limit_def)

lemma cache_run_reachable:
  assumes "model_cache_limits_new mu mb = Inr limits" and "unat mb < usize_max"
    and "budget_new lim = Inr b" and "lim < usize_limit"
  shows "\<exists>s. run_ops (cache_exec limits) ops (cache_start b) = Some s \<and> cache_run_inv limits lim s"
    and "cl_max_bytes limits < usize_max" and "0 < cl_max_users limits"
proof -
  have limits: "cl_max_bytes limits = unat mb" "cl_max_users limits = unat mu" "unat mu \<noteq> 0"
    using assms(1) by (auto simp: model_cache_limits_new_def split: if_splits)
  then show max: "cl_max_bytes limits < usize_max" and "0 < cl_max_users limits" using assms(2) by simp_all
  have "cache_run_inv limits lim (cache_start b)"
    using assms(3,4) by (intro cache_start_inv) (auto simp: budget_new_def split: if_splits)
  with max show "\<exists>s. run_ops (cache_exec limits) ops (cache_start b) = Some s \<and> cache_run_inv limits lim s"
    using cache_machine.run_safe [of limits lim "cache_start b" ops] by auto
qed

text \<open>C10. The model cache refines a plain map of published models.  Whatever the clients do, in any order,
  no operation panics, and a lookup answers either nothing or exactly the model that was last published
  for that user and neither invalidated nor cleared since; the generation it reports is the generation of
  that model.\<close>

theorem cache_refines_published:
  assumes "model_cache_limits_new mu mb = Inr limits" and "unat mb < usize_max"
    and "budget_new lim = Inr b" and "lim < usize_limit"
  shows "\<exists>s. run_ops (cache_exec limits) ops (cache_start b) = Some s
    \<and> (\<forall>user a w. cache_get user (run_world s) = (Some a, w) \<longrightarrow> run_published s user = Some (model_at w a))
    \<and> (\<forall>user g w. cache_generation user (run_world s) = (Some g, w) \<longrightarrow>
         map_option am_generation (run_published s user) = Some g)"
proof -
  obtain s where run: "run_ops (cache_exec limits) ops (cache_start b) = Some s" and s: "cache_run_inv limits lim s"
    using cache_run_reachable(1) [OF assms] by blast
  note i = cache_run_invD [OF s]
  have pub: "run_published s user = Some m" if "view (run_world s) user = Some m" for user m
    using that i(2) by (metis domI map_le_def)
  have "run_published s user = Some (model_at w a)" if "cache_get user (run_world s) = (Some a, w)" for user a w
    using get_spec(4) [OF i(1) that] by (intro pub) (simp split: if_splits)
  moreover have "map_option am_generation (run_published s user) = Some g"
    if "cache_generation user (run_world s) = (Some g, w)" for user g w
    using generation_spec(4) [OF i(1) that] pub by (cases "view (run_world s) user") (auto split: if_splits)
  ultimately show ?thesis using run by blast
qed

theorem cache_refines_published_witness:
  "\<exists>s. run_ops (cache_exec sample_limits) [CacheReserve 40 None, CacheInsert [97] sample_model 0, CacheGet [97]]
       (cache_start sample_budget) = Some s
     \<and> (\<forall>user a w. cache_get user (run_world s) = (Some a, w) \<longrightarrow> run_published s user = Some (model_at w a))"
  using cache_refines_published [OF sample_limits_new sample_budget_new(3,1,2)] by blast

text \<open>C33. The accounting of the cache is exact after any sequence of operations: its byte count is the
  sum over its entries, at most the configured number of bytes for at most the configured number of
  users; and the budget is charged exactly for the models somebody still owns and the permits held,
  never more than its limit.\<close>

theorem cache_accounting_exact:
  assumes "model_cache_limits_new mu mb = Inr limits" and "unat mb < usize_max"
    and "budget_new lim = Inr b" and "lim < usize_limit"
    and "run_ops (cache_exec limits) ops (cache_start b) = Some s"
  shows "cs_bytes (cw_state (run_world s)) = hm_sum ce_bytes (cs_entries (cw_state (run_world s)))
    \<and> cs_bytes (cw_state (run_world s)) \<le> unat mb
    \<and> length (cs_entries (cw_state (run_world s))) \<le> unat mu
    \<and> used (cw_budget (run_world s)) =
        sum_list (map live_bytes (cw_cells (run_world s))) + sum_list (run_permits s)
    \<and> used (cw_budget (run_world s)) \<le> lim"
proof -
  have "cache_run_inv limits lim s" using cache_run_reachable(1) [OF assms(1-4), of ops] assms(5) by simp
  moreover have "cl_max_bytes limits = unat mb" "cl_max_users limits = unat mu"
    using assms(1) by (auto simp: model_cache_limits_new_def split: if_splits)
  ultimately show ?thesis
    by (auto simp: cache_run_inv_def cache_inv_def heap_inv_def entries_inv_def sum_mset_sum_list)
qed

theorem cache_accounting_exact_witness:
  "used (cw_budget (run_world sample_reserved)) =
     sum_list (map live_bytes (cw_cells (run_world sample_reserved))) + sum_list (run_permits sample_reserved)
   \<and> used (cw_budget (run_world sample_reserved)) \<le> 90"
  using cache_accounting_exact [OF sample_limits_new sample_budget_new(3,1,2) sample_reserves] by blast

text \<open>C35. An insertion into an enabled cache never fails for lack of room: if the model is within the byte
  limit of the cache and the permit pays for it, the insertion succeeds, evicting what it must, and a
  lookup of that user then answers with that model.\<close>

theorem cache_insert_succeeds:
  assumes "model_cache_limits_new mu mb = Inr limits" and "unat mb < usize_max"
    and "budget_new lim = Inr b" and "lim < usize_limit"
    and "run_ops (cache_exec limits) ops (cache_start b) = Some s"
    and "p \<in> set (run_permits s)" and "am_plaintext_bytes model \<le> p" and "am_plaintext_bytes model \<le> unat mb"
    and "\<not> cs_disabled (cw_state (run_world s))"
  shows "\<exists>a w c w'. cache_insert limits user model p (run_world s) = Some (Inr a, w) \<and> model_at w a = model
    \<and> cache_get user w = (Some c, w') \<and> model_at w' c = model"
proof -
  have s: "cache_run_inv limits lim s" using cache_run_reachable(1) [OF assms(1-4), of ops] assms(5) by simp
  note r = cache_run_reachable(2,3) [OF assms(1-4)]
  have mb: "cl_max_bytes limits = unat mb"
    using assms(1) by (auto simp: model_cache_limits_new_def split: if_splits)
  from assms(6) have "cache_inv limits (run_world s) (mset (run_handles s))
      (add_mset p (mset (remove1 p (run_permits s))))"
    using cache_run_invD(1) [OF s] by simp
  from cache_insert_spec [OF this r(1), of user model] show ?thesis
  proof (cases rule: insert_outcome_cases)
    case (failed e w)
    then show ?thesis using assms(7-9) r(2) mb by simp
  next
    case (stored a w)
    obtain q w' where get: "cache_get user w = (q, w')" by (cases "cache_get user w")
    have "map_option (model_at w') q = Some model"
      using get_spec(4) [OF stored(2) get] stored(3,5) assms(9) by (simp add: kept_def)
    then show ?thesis using stored(1,4) get by auto
  qed
qed

theorem cache_insert_succeeds_witness:
  "\<exists>a w. cache_insert sample_limits [97] sample_model 40 (run_world sample_reserved) = Some (Inr a, w)
     \<and> model_at w a = sample_model"
proof -
  have "(40 :: nat) \<in> set (run_permits sample_reserved)" "am_plaintext_bytes sample_model \<le> 40"
    "am_plaintext_bytes sample_model \<le> unat (50 :: u64)" "\<not> cs_disabled (cw_state (run_world sample_reserved))"
    by (simp_all add: sample_reserved_def sample_model_def model_cache_new_def)
  from cache_insert_succeeds [OF sample_limits_new sample_budget_new(3,1,2) sample_reserves this, of "[97]"]
  show ?thesis by blast
qed

text \<open>C34. A reservation evicts in order of use and spares the user it is made for.  Every entry that it
  evicts belongs to another user and was used less recently than every other entry that stays; and it
  reports that the budget is exceeded only when nothing but the protected entry is left and the
  reservation still does not fit.\<close>

theorem reserve_evicts_lru:
  assumes "model_cache_limits_new mu mb = Inr limits" and "unat mb < usize_max"
    and "budget_new lim = Inr b" and "lim < usize_limit"
    and "run_ops (cache_exec limits) ops (cache_start b) = Some s"
  shows "\<exists>r w. reserve_operation_except bytes protected (run_world s) = Some (r, w)
    \<and> (\<forall>p \<in> set (cs_entries (cw_state (run_world s))) - set (cs_entries (cw_state w)).
         protected \<noteq> Some (fst p)
         \<and> (\<forall>q \<in> set (cs_entries (cw_state w)). protected \<noteq> Some (fst q) \<longrightarrow> older p q))
    \<and> (\<forall>requested available. r = Inl (MemoryBudgetExceeded requested available) \<longrightarrow>
         (\<forall>q \<in> set (cs_entries (cw_state w)). protected = Some (fst q))
         \<and> lim < used (cw_budget w) + bytes)"
proof -
  have s: "cache_run_inv limits lim s" using cache_run_reachable(1) [OF assms(1-4), of ops] assms(5) by simp
  obtain r w where w: "reserve_operation_except bytes protected (run_world s) = Some (r, w)"
    "evicted protected (run_world s) w"
    and e: "\<forall>requested available. r = Inl (MemoryBudgetExceeded requested available) \<longrightarrow>
       try_operation bytes (cw_budget w) = Some (r, cw_budget w) \<and> (\<forall>q \<in> set (entries_of w). protected = Some (fst q))"
    using operation.reserve_except_spec [OF cache_run_invD(1) [OF s], of bytes protected]
    unfolding reserve_operation_except_def by (elim exE conjE)
  have "limit (cw_budget w) = lim"
    using s evicted_kept [OF w(2)] by (simp add: cache_run_inv_def kept_def)
  then have "lim < used (cw_budget w) + bytes"
    if "try_operation bytes (cw_budget w) = Some (Inl (MemoryBudgetExceeded n m), cw_budget w)" for n m
    using that assms(4) by (auto simp: try_operation_def budget_reserve_eq split: if_splits)
  with w e show ?thesis by (auto simp: evicted_def)
qed

theorem reserve_evicts_lru_witness:
  "\<exists>r w. reserve_operation_except 60 None (run_world sample_reserved) = Some (r, w)
     \<and> (\<forall>requested available. r = Inl (MemoryBudgetExceeded requested available) \<longrightarrow>
          90 < used (cw_budget w) + 60)"
  using reserve_evicts_lru [OF sample_limits_new sample_budget_new(3,1,2) sample_reserves, of 60 None] by blast

end
