(* ===== verification/Protocol.thy ===== *)
theory Protocol
  imports Config PromptState
begin

section \<open>The protocol messages\<close>

text \<open>
  \<^verbatim>\<open>proto/howy.proto\<close> and \<^verbatim>\<open>crates/howy-common/src/protocol.rs\<close>: the messages between the PAM module, the
  command line client and the daemon, their validation and their constructors.  The types are those the
  schema declares: a \<open>oneof\<close> is an optional value of a datatype, an enumeration field is the \<open>i32\<close> that
  the generated structure holds, and a \<open>string\<close> is a list of bytes.  Floating point fields are their bits.
\<close>

type_synonym i32 = "32 word"
type_synonym f64 = "64 word"

subsection \<open>Requests\<close>

record prompt_policy_context =
  pp_pam_service :: str
  pp_origin :: i32

record begin_auth_req =
  ba_protocol_version :: u32
  ba_username :: str
  ba_client_nonce :: bytes
  ba_policy :: "prompt_policy_context option"

record transaction_req =
  tr_protocol_version :: u32
  tr_transaction_token :: bytes
  tr_client_nonce :: bytes

record authenticate_v1_req =
  av_protocol_version :: u32
  av_username :: str
  av_timeout :: u32

datatype cmd =
    CmdAuthenticate str u32
  | CmdEnroll str str
  | CmdDetect bytes u32 u32
  | CmdPing
  | CmdInfo
  | CmdShutdown
  | CmdCheckCredential str
  | CmdRevokeCredential str str
  | CmdEnrollBatch str str str
  | CmdEnrollmentPresence str
  | CmdListEnrollments str
  | CmdRemoveEnrollment str bytes u64
  | CmdClearEnrollments str u64
  | CmdReloadStorage
  | CmdSecurityInfo
  | CmdEnrollV1 str str
  | CmdEnrollBatchV1 str str str
  | CmdBeginAuthV1 begin_auth_req
  | CmdCommitAuthV1 transaction_req
  | CmdCancelAuthV1 transaction_req
  | CmdAuthenticateV1 authenticate_v1_req

type_synonym request = "cmd option"

subsection \<open>Responses\<close>

record auth_success =
  as_model_index :: u32
  as_model_label :: str
  as_score :: f32
  as_elapsed_ms :: f64

record auth_failed =
  af_best_score :: f32
  af_frames_processed :: u32
  af_reason :: str

record prompt_required =
  pq_protocol_version :: u32
  pq_transaction_token :: bytes
  pq_client_nonce :: bytes
  pq_prompt_timeout_ms :: u32
  pq_commit_response_timeout_ms :: u32

record auth_cancelled =
  ax_protocol_version :: u32
  ax_client_nonce :: bytes

record enroll_success =
  es_det_score :: f32
  es_enrollment_id :: bytes
  es_generation :: u64
  es_total_count :: u32
  es_enrollment_protocol_version :: u32

record detected_face =
  df_x1 :: i32
  df_y1 :: i32
  df_x2 :: i32
  df_y2 :: i32
  df_landmarks :: "f32 list"
  df_score :: f32

record daemon_info =
  di_provider :: str
  di_detector_model :: str
  di_recognizer_model :: str
  di_embedding_dim :: u32
  di_uptime_secs :: u64
  di_active_security_mode :: u32
  di_prompt_required :: bool
  di_storage_ready :: bool

record proto_error =
  pe_message :: str
  pe_code :: str

record enroll_batch_result =
  eb_frames_found :: u32
  eb_frames_accepted :: u32
  eb_frames_rejected :: u32
  eb_elapsed_ms :: f64
  eb_rejection_details :: "str list"
  eb_generation :: u64
  eb_total_count :: u32

record enrollment_metadata_entry =
  me_enrollment_id :: bytes
  me_label :: str
  me_created_unix_seconds :: u64

record reload_storage_result =
  rs_storage_ready :: bool
  rs_candidate_records :: u32
  rs_mode_mismatch_records :: u32
  rs_key_mismatch_records :: u32
  rs_model_mismatch_records :: u32
  rs_corrupt_records :: u32

record namespace_diagnostic =
  nd_mode :: u32
  nd_path :: str
  nd_active :: bool
  nd_implemented :: bool

record security_info_result =
  si_detector_model :: str
  si_recognizer_model :: str
  si_active_security_mode :: u32
  si_key_epoch :: u64
  si_storage_ready :: bool
  si_prompt_required :: bool
  si_namespaces :: "namespace_diagnostic list"
  si_config_sha256 :: str
  si_credential_name :: str
  si_configured_credential_source :: str
  si_backend_state :: i32
  si_readiness_state :: i32
  si_poison_state :: i32
  si_daemon_invocation_id :: str
  si_daemon_version :: str
  si_build_identity :: str
  si_binary_absolute_path :: str
  si_binary_sha256 :: str

datatype resp_result =
    RSuccess auth_success
  | RAuthFailed auth_failed
  | REnrolled enroll_success
  | RDetected "detected_face list" f64
  | RPong
  | RInfo daemon_info
  | RCredentialValid
  | RCredentialInvalid
  | RError proto_error
  | REnrollBatchDone enroll_batch_result
  | REnrollmentPresence bool
  | RListEnrollments u64 "enrollment_metadata_entry list"
  | RRemoveEnrollment u64 bytes
  | RClearEnrollments u64 u32
  | RReloadStorage reload_storage_result
  | RSecurityInfo security_info_result
  | RPromptRequiredV1 prompt_required
  | RAuthCancelledV1 auth_cancelled

type_synonym response = "resp_result option"

subsection \<open>Constants\<close>

definition PROMPT_PROTOCOL_VERSION :: u32 where "PROMPT_PROTOCOL_VERSION = 1"
definition LIVE_ENROLLMENT_PROTOCOL_VERSION :: u32 where "LIVE_ENROLLMENT_PROTOCOL_VERSION = 1"
definition PROMPT_NONCE_BYTES :: usize where "PROMPT_NONCE_BYTES = 32"
definition PROMPT_TOKEN_BYTES :: usize where "PROMPT_TOKEN_BYTES = 32"
definition PROMPT_IDENTITY_MAX_BYTES :: usize where "PROMPT_IDENTITY_MAX_BYTES = 64"
definition PROMPT_TIMEOUT_MS_MIN :: u32 where "PROMPT_TIMEOUT_MS_MIN = 1000"
definition PROMPT_TIMEOUT_MS_MAX :: u32 where "PROMPT_TIMEOUT_MS_MAX = 300000"
definition COMMIT_RESPONSE_TIMEOUT_MS_MIN :: u32 where "COMMIT_RESPONSE_TIMEOUT_MS_MIN = 1000"
definition COMMIT_RESPONSE_TIMEOUT_MS_MAX :: u32 where "COMMIT_RESPONSE_TIMEOUT_MS_MAX = 120000"
definition PUBLIC_PROVIDER_MAX_BYTES :: usize where "PUBLIC_PROVIDER_MAX_BYTES = 128"
definition PUBLIC_EMBEDDING_DIM_MAX :: u32 where "PUBLIC_EMBEDDING_DIM_MAX = 16384"

definition STORAGE_CONFLICT_ERROR :: str where "STORAGE_CONFLICT_ERROR = ascii ''storage_conflict''"
definition STORAGE_ABSENT_ERROR :: str where "STORAGE_ABSENT_ERROR = ascii ''storage_absent''"
definition STORAGE_CORRUPT_ERROR :: str where "STORAGE_CORRUPT_ERROR = ascii ''storage_corrupt''"
definition STORAGE_MODEL_MISMATCH_ERROR :: str where
  "STORAGE_MODEL_MISMATCH_ERROR = ascii ''storage_model_mismatch''"
definition STORAGE_UNAVAILABLE_ERROR :: str where "STORAGE_UNAVAILABLE_ERROR = ascii ''storage_unavailable''"
definition STORAGE_INVALID_REQUEST_ERROR :: str where
  "STORAGE_INVALID_REQUEST_ERROR = ascii ''storage_invalid_request''"
definition ENROLLMENT_PROTOCOL_ERROR :: str where
  "ENROLLMENT_PROTOCOL_ERROR = ascii ''enrollment_protocol_incompatible''"
definition PROMPT_PROTOCOL_INCOMPATIBLE_ERROR :: str where
  "PROMPT_PROTOCOL_INCOMPATIBLE_ERROR = ascii ''prompt_protocol_incompatible''"
definition PROMPT_PROTOCOL_VIOLATION_ERROR :: str where
  "PROMPT_PROTOCOL_VIOLATION_ERROR = ascii ''prompt_protocol_violation''"
definition PROMPT_UNAVAILABLE_ERROR :: str where "PROMPT_UNAVAILABLE_ERROR = ascii ''prompt_unavailable''"
definition PROMPT_TRANSACTION_INVALID_ERROR :: str where
  "PROMPT_TRANSACTION_INVALID_ERROR = ascii ''prompt_transaction_invalid''"

lemmas prompt_consts =
  PROMPT_PROTOCOL_VERSION_def PROMPT_NONCE_BYTES_def PROMPT_TOKEN_BYTES_def PROMPT_IDENTITY_MAX_BYTES_def
  PROMPT_TIMEOUT_MS_MIN_def PROMPT_TIMEOUT_MS_MAX_def COMMIT_RESPONSE_TIMEOUT_MS_MIN_def
  COMMIT_RESPONSE_TIMEOUT_MS_MAX_def

lemmas prompt_error_codes =
  PROMPT_PROTOCOL_INCOMPATIBLE_ERROR_def PROMPT_PROTOCOL_VIOLATION_ERROR_def PROMPT_UNAVAILABLE_ERROR_def
  PROMPT_TRANSACTION_INVALID_ERROR_def

subsection \<open>Validation of the prompt messages\<close>

datatype prompt_error_code = Incompatible | Violation | PromptUnavailable | TransactionInvalid

fun prompt_error_code_str :: "prompt_error_code \<Rightarrow> str" where
  "prompt_error_code_str Incompatible = PROMPT_PROTOCOL_INCOMPATIBLE_ERROR"
| "prompt_error_code_str Violation = PROMPT_PROTOCOL_VIOLATION_ERROR"
| "prompt_error_code_str PromptUnavailable = PROMPT_UNAVAILABLE_ERROR"
| "prompt_error_code_str TransactionInvalid = PROMPT_TRANSACTION_INVALID_ERROR"

datatype prompt_validation_error = UnsupportedVersion | Malformed

fun validation_prompt_error :: "prompt_validation_error \<Rightarrow> prompt_error_code" where
  "validation_prompt_error UnsupportedVersion = Incompatible"
| "validation_prompt_error Malformed = Violation"

definition validate_prompt_version :: "u32 \<Rightarrow> prompt_validation_error + unit" where
  "validate_prompt_version version =
     (if version = PROMPT_PROTOCOL_VERSION then Inr () else Inl UnsupportedVersion)"

definition validate_prompt_identity :: "str \<Rightarrow> prompt_validation_error + unit" where
  "validate_prompt_identity value =
     (if 1 \<le> length value \<and> length value \<le> PROMPT_IDENTITY_MAX_BYTES \<and> list_all is_name_byte value
      then Inr () else Inl Malformed)"

definition validate_exact_bytes :: "bytes \<Rightarrow> usize \<Rightarrow> prompt_validation_error + unit" where
  "validate_exact_bytes value expected = (if length value = expected then Inr () else Inl Malformed)"

definition prompt_origin_try_from :: "i32 \<Rightarrow> prompt_origin option" where
  "prompt_origin_try_from v =
     (if v = 0 then Some OriginUnspecified else if v = 1 then Some OriginLocal
      else if v = 2 then Some OriginRemote else None)"

fun prompt_origin_i32 :: "prompt_origin \<Rightarrow> i32" where
  "prompt_origin_i32 OriginUnspecified = 0"
| "prompt_origin_i32 OriginLocal = 1"
| "prompt_origin_i32 OriginRemote = 2"

definition prompt_origin_from_pam_rhost :: "str option \<Rightarrow> prompt_origin" where
  "prompt_origin_from_pam_rhost rhost =
     (case rhost of None \<Rightarrow> OriginLocal | Some v \<Rightarrow> if v = [] then OriginLocal else OriginRemote)"

definition begin_auth_validate :: "begin_auth_req \<Rightarrow> prompt_validation_error + unit" where
  "begin_auth_validate r =
     and_then (validate_prompt_version (ba_protocol_version r)) (\<lambda>_.
     and_then (validate_prompt_identity (ba_username r)) (\<lambda>_.
     and_then (validate_exact_bytes (ba_client_nonce r) PROMPT_NONCE_BYTES) (\<lambda>_.
     and_then (ok_or Malformed (ba_policy r)) (\<lambda>policy.
     and_then (validate_prompt_identity (pp_pam_service policy)) (\<lambda>_.
     case prompt_origin_try_from (pp_origin policy) of
       Some OriginLocal \<Rightarrow> Inr ()
     | Some OriginRemote \<Rightarrow> Inr ()
     | Some OriginUnspecified \<Rightarrow> Inl Malformed
     | None \<Rightarrow> Inl Malformed)))))"

definition authenticate_v1_validate :: "authenticate_v1_req \<Rightarrow> prompt_validation_error + unit" where
  "authenticate_v1_validate r =
     and_then (validate_prompt_version (av_protocol_version r)) (\<lambda>_. validate_prompt_identity (av_username r))"

definition prompt_required_validate :: "prompt_required \<Rightarrow> prompt_validation_error + unit" where
  "prompt_required_validate r =
     and_then (validate_prompt_version (pq_protocol_version r)) (\<lambda>_.
     and_then (validate_exact_bytes (pq_transaction_token r) PROMPT_TOKEN_BYTES) (\<lambda>_.
     and_then (validate_exact_bytes (pq_client_nonce r) PROMPT_NONCE_BYTES) (\<lambda>_.
     if \<not> (PROMPT_TIMEOUT_MS_MIN \<le> pq_prompt_timeout_ms r \<and> pq_prompt_timeout_ms r \<le> PROMPT_TIMEOUT_MS_MAX)
        \<or> \<not> (COMMIT_RESPONSE_TIMEOUT_MS_MIN \<le> pq_commit_response_timeout_ms r
             \<and> pq_commit_response_timeout_ms r \<le> COMMIT_RESPONSE_TIMEOUT_MS_MAX)
     then Inl Malformed else Inr ())))"

text \<open>The commit and cancel requests have the same fields and the same validation.\<close>

definition transaction_validate :: "transaction_req \<Rightarrow> prompt_validation_error + unit" where
  "transaction_validate r =
     and_then (validate_prompt_version (tr_protocol_version r)) (\<lambda>_.
     and_then (validate_exact_bytes (tr_transaction_token r) PROMPT_TOKEN_BYTES) (\<lambda>_.
     validate_exact_bytes (tr_client_nonce r) PROMPT_NONCE_BYTES))"

definition auth_cancelled_validate :: "auth_cancelled \<Rightarrow> prompt_validation_error + unit" where
  "auth_cancelled_validate r =
     and_then (validate_prompt_version (ax_protocol_version r)) (\<lambda>_.
     validate_exact_bytes (ax_client_nonce r) PROMPT_NONCE_BYTES)"

definition is_prompt_auth_terminal_response :: "response \<Rightarrow> bool" where
  "is_prompt_auth_terminal_response response =
     (case response of
        Some (RSuccess _) \<Rightarrow> True
      | Some (RAuthFailed _) \<Rightarrow> True
      | Some (RError _) \<Rightarrow> True
      | _ \<Rightarrow> False)"

subsection \<open>Validation of the public status\<close>

datatype daemon_info_validation_error = InfoInvalidField | InfoInconsistentState | UnexpectedAvailability

record daemon_info_expectation =
  de_active_security_mode :: u32
  de_prompt_required :: bool
  de_storage_ready :: bool
  de_disabled :: bool

definition supported_mode :: "u32 \<Rightarrow> bool" where
  "supported_mode v \<longleftrightarrow> v = ucast (embedding_mode_u8 Plaintext) \<or> v = ucast (embedding_mode_u8 AeadCached)"

definition daemon_info_validate_strict :: "daemon_info \<Rightarrow> daemon_info_validation_error + unit" where
  "daemon_info_validate_strict i =
     (if di_provider i = [] \<or> PUBLIC_PROVIDER_MAX_BYTES < length (di_provider i)
         \<or> \<not> list_all printable_ascii (di_provider i)
         \<or> di_detector_model i \<noteq> [] \<or> di_recognizer_model i \<noteq> []
         \<or> di_embedding_dim i = 0 \<or> PUBLIC_EMBEDDING_DIM_MAX < di_embedding_dim i
      then Inl InfoInvalidField
      else if \<not> supported_mode (di_active_security_mode i) then Inl InfoInconsistentState
      else Inr ())"

definition validate_daemon_info_for_activation ::
  "daemon_info option \<Rightarrow> daemon_info_expectation \<Rightarrow> daemon_info_validation_error + unit" where
  "validate_daemon_info_for_activation info expected =
     (if \<not> supported_mode (de_active_security_mode expected)
         \<or> de_disabled expected \<and> de_storage_ready expected
      then Inl InfoInconsistentState
      else if de_disabled expected then (if info = None then Inr () else Inl UnexpectedAvailability)
      else and_then (ok_or UnexpectedAvailability info) (\<lambda>i.
        and_then (daemon_info_validate_strict i) (\<lambda>_.
        if di_active_security_mode i \<noteq> de_active_security_mode expected
           \<or> di_prompt_required i \<noteq> de_prompt_required expected
           \<or> di_storage_ready i \<noteq> de_storage_ready expected
        then Inl InfoInconsistentState else Inr ())))"

subsection \<open>Constructors\<close>

definition request_authenticate :: "str \<Rightarrow> u32 \<Rightarrow> request" where
  "request_authenticate user timeout = Some (CmdAuthenticate user timeout)"

definition request_authenticate_v1 :: "str \<Rightarrow> u32 \<Rightarrow> request" where
  "request_authenticate_v1 user timeout =
     Some (CmdAuthenticateV1 \<lparr>av_protocol_version = PROMPT_PROTOCOL_VERSION, av_username = user,
       av_timeout = timeout\<rparr>)"

definition request_begin_auth_v1_ref :: "str \<Rightarrow> bytes \<Rightarrow> str \<Rightarrow> prompt_origin \<Rightarrow> request" where
  "request_begin_auth_v1_ref user client_nonce pam_service origin =
     Some (CmdBeginAuthV1 \<lparr>ba_protocol_version = PROMPT_PROTOCOL_VERSION, ba_username = user,
       ba_client_nonce = client_nonce,
       ba_policy = Some \<lparr>pp_pam_service = pam_service, pp_origin = prompt_origin_i32 origin\<rparr>\<rparr>)"

definition request_commit_auth_v1_ref :: "bytes \<Rightarrow> bytes \<Rightarrow> request" where
  "request_commit_auth_v1_ref transaction_token client_nonce =
     Some (CmdCommitAuthV1 \<lparr>tr_protocol_version = PROMPT_PROTOCOL_VERSION,
       tr_transaction_token = transaction_token, tr_client_nonce = client_nonce\<rparr>)"

definition request_cancel_auth_v1_ref :: "bytes \<Rightarrow> bytes \<Rightarrow> request" where
  "request_cancel_auth_v1_ref transaction_token client_nonce =
     Some (CmdCancelAuthV1 \<lparr>tr_protocol_version = PROMPT_PROTOCOL_VERSION,
       tr_transaction_token = transaction_token, tr_client_nonce = client_nonce\<rparr>)"

definition response_success :: "u32 \<Rightarrow> str \<Rightarrow> f32 \<Rightarrow> f64 \<Rightarrow> response" where
  "response_success model_index model_label score elapsed_ms =
     Some (RSuccess \<lparr>as_model_index = model_index, as_model_label = model_label, as_score = score,
       as_elapsed_ms = elapsed_ms\<rparr>)"

definition response_auth_failed :: "f32 \<Rightarrow> u32 \<Rightarrow> str \<Rightarrow> response" where
  "response_auth_failed best_score frames_processed reason =
     Some (RAuthFailed \<lparr>af_best_score = best_score, af_frames_processed = frames_processed, af_reason = reason\<rparr>)"

definition response_prompt_required_v1_ref :: "bytes \<Rightarrow> bytes \<Rightarrow> u32 \<Rightarrow> u32 \<Rightarrow> response" where
  "response_prompt_required_v1_ref transaction_token client_nonce prompt_ms commit_ms =
     Some (RPromptRequiredV1 \<lparr>pq_protocol_version = PROMPT_PROTOCOL_VERSION,
       pq_transaction_token = transaction_token, pq_client_nonce = client_nonce,
       pq_prompt_timeout_ms = prompt_ms,
       pq_commit_response_timeout_ms = commit_ms\<rparr>)"

definition response_auth_cancelled_v1_ref :: "bytes \<Rightarrow> response" where
  "response_auth_cancelled_v1_ref client_nonce =
     Some (RAuthCancelledV1 \<lparr>ax_protocol_version = PROMPT_PROTOCOL_VERSION, ax_client_nonce = client_nonce\<rparr>)"

definition response_error :: "str \<Rightarrow> response" where
  "response_error message = Some (RError \<lparr>pe_message = message, pe_code = []\<rparr>)"

definition response_error_code :: "str \<Rightarrow> str \<Rightarrow> response" where
  "response_error_code code message = Some (RError \<lparr>pe_message = message, pe_code = code\<rparr>)"

fun prompt_error_message :: "prompt_error_code \<Rightarrow> str" where
  "prompt_error_message Incompatible = ascii ''prompt protocol is incompatible''"
| "prompt_error_message Violation = ascii ''prompt protocol violation''"
| "prompt_error_message PromptUnavailable = ascii ''prompt authentication is unavailable''"
| "prompt_error_message TransactionInvalid = ascii ''prompt transaction is invalid''"

definition response_prompt_error :: "prompt_error_code \<Rightarrow> response" where
  "response_prompt_error code = response_error_code (prompt_error_code_str code) (prompt_error_message code)"

definition response_enrolled :: "bytes \<Rightarrow> u64 \<Rightarrow> u32 \<Rightarrow> f32 \<Rightarrow> response" where
  "response_enrolled eid gen total_count det_score =
     Some (REnrolled \<lparr>es_det_score = det_score, es_enrollment_id = eid, es_generation = gen,
       es_total_count = total_count, es_enrollment_protocol_version = LIVE_ENROLLMENT_PROTOCOL_VERSION\<rparr>)"

definition response_daemon_info :: "str \<Rightarrow> u32 \<Rightarrow> u64 \<Rightarrow> u32 \<Rightarrow> bool \<Rightarrow> bool \<Rightarrow> response" where
  "response_daemon_info p embedding_dim uptime_secs active_security_mode prompt_required storage_ready =
     Some (RInfo \<lparr>di_provider = p, di_detector_model = [], di_recognizer_model = [],
       di_embedding_dim = embedding_dim, di_uptime_secs = uptime_secs,
       di_active_security_mode = active_security_mode, di_prompt_required = prompt_required,
       di_storage_ready = storage_ready\<rparr>)"

definition response_enrollment_presence :: "bool \<Rightarrow> response" where
  "response_enrollment_presence candidate = Some (REnrollmentPresence candidate)"

definition response_list_enrollments :: "u64 \<Rightarrow> enrollment_metadata_entry list \<Rightarrow> response" where
  "response_list_enrollments gen es = Some (RListEnrollments gen es)"

definition response_remove_enrollment :: "u64 \<Rightarrow> bytes \<Rightarrow> response" where
  "response_remove_enrollment gen removed_enrollment_id = Some (RRemoveEnrollment gen removed_enrollment_id)"

definition response_clear_enrollments :: "u64 \<Rightarrow> u32 \<Rightarrow> response" where
  "response_clear_enrollments gen removed_count = Some (RClearEnrollments gen removed_count)"

subsection \<open>Validation and construction agree\<close>

lemma validate_prompt_identity_Inr [simp]:
  "validate_prompt_identity v = Inr u \<longleftrightarrow>
     1 \<le> length v \<and> length v \<le> PROMPT_IDENTITY_MAX_BYTES \<and> list_all is_name_byte v"
  by (simp add: validate_prompt_identity_def)

lemma validate_exact_bytes_Inr [simp]: "validate_exact_bytes v n = Inr u \<longleftrightarrow> length v = n"
  by (simp add: validate_exact_bytes_def)

lemma validate_prompt_version_Inr [simp]: "validate_prompt_version v = Inr u \<longleftrightarrow> v = PROMPT_PROTOCOL_VERSION"
  by (simp add: validate_prompt_version_def)

lemma prompt_origin_round_trip [simp]: "prompt_origin_try_from (prompt_origin_i32 x) = Some x"
  by (cases x) (simp_all add: prompt_origin_try_from_def)

lemma begin_auth_validate_Inr:
  "begin_auth_validate r = Inr u \<longleftrightarrow>
     ba_protocol_version r = PROMPT_PROTOCOL_VERSION \<and> validate_prompt_identity (ba_username r) = Inr ()
     \<and> length (ba_client_nonce r) = PROMPT_NONCE_BYTES
     \<and> (\<exists>p. ba_policy r = Some p \<and> validate_prompt_identity (pp_pam_service p) = Inr ()
          \<and> (prompt_origin_try_from (pp_origin p) = Some OriginLocal
             \<or> prompt_origin_try_from (pp_origin p) = Some OriginRemote))"
proof -
  have "(case v of Some OriginLocal \<Rightarrow> Inr () | Some OriginRemote \<Rightarrow> Inr () | Some OriginUnspecified \<Rightarrow> Inl Malformed
      | None \<Rightarrow> Inl Malformed) = (Inr u :: prompt_validation_error + unit)
      \<longleftrightarrow> v = Some OriginLocal \<or> v = Some OriginRemote" for v
    by (auto split: option.splits prompt_origin.splits)
  then show ?thesis by (auto simp: begin_auth_validate_def and_then_Inr_iff)
qed

lemma transaction_validate_Inr:
  "transaction_validate r = Inr u \<longleftrightarrow>
     tr_protocol_version r = PROMPT_PROTOCOL_VERSION \<and> length (tr_transaction_token r) = PROMPT_TOKEN_BYTES
     \<and> length (tr_client_nonce r) = PROMPT_NONCE_BYTES"
  by (auto simp: transaction_validate_def and_then_Inr_iff)

lemma prompt_required_validate_Inr:
  "prompt_required_validate r = Inr u \<longleftrightarrow>
     pq_protocol_version r = PROMPT_PROTOCOL_VERSION \<and> length (pq_transaction_token r) = PROMPT_TOKEN_BYTES
     \<and> length (pq_client_nonce r) = PROMPT_NONCE_BYTES
     \<and> PROMPT_TIMEOUT_MS_MIN \<le> pq_prompt_timeout_ms r \<and> pq_prompt_timeout_ms r \<le> PROMPT_TIMEOUT_MS_MAX
     \<and> COMMIT_RESPONSE_TIMEOUT_MS_MIN \<le> pq_commit_response_timeout_ms r
     \<and> pq_commit_response_timeout_ms r \<le> COMMIT_RESPONSE_TIMEOUT_MS_MAX"
  by (auto simp: prompt_required_validate_def and_then_Inr_iff)

end
