(* ===== verification/Ipc.thy ===== *)
theory Ipc
  imports Protocol
begin

section \<open>Framed messages and the client side of a prompt transaction\<close>

text \<open>
  \<^verbatim>\<open>crates/howy-common/src/ipc.rs\<close>.  A message is framed by its length in four big-endian bytes.  The
  socket, the clock and the generated protobuf codec are the record \<open>net\<close>, an argument of every
  operation, generic in the messages that go out and come in; its functions thread a state that stands
  for everything outside this process.  A loop of the source that need not end is a \<open>partial_function\<close>,
  and not returning is the value \<open>None\<close>.  Zeroizing buffers have no effect that a later step can observe
  and no counterpart.
\<close>

datatype io_error_kind =
    Interrupted | WouldBlock | TimedOut | InvalidData | UnexpectedEof | WriteZero | OtherIo nat

type_synonym io_error = io_error_kind

text \<open>What the operations call: one \<open>read\<close> into a buffer of the given size, one \<open>write\<close>, \<open>flush\<close>, the two
  timeouts, \<open>Instant::now\<close>, and the two directions of the protobuf codec.\<close>

record ('s, 'o, 'i) net =
  net_read :: "usize \<Rightarrow> 's \<Rightarrow> (io_error + bytes) \<times> 's"
  net_write :: "bytes \<Rightarrow> 's \<Rightarrow> (io_error + usize) \<times> 's"
  net_flush :: "'s \<Rightarrow> (io_error + unit) \<times> 's"
  net_set_read_timeout :: "duration \<Rightarrow> 's \<Rightarrow> (io_error + unit) \<times> 's"
  net_set_write_timeout :: "duration \<Rightarrow> 's \<Rightarrow> (io_error + unit) \<times> 's"
  net_now :: "'s \<Rightarrow> instant \<times> 's"
  net_encode :: "'o \<Rightarrow> bytes"
  net_decode :: "bytes \<Rightarrow> 'i option"

type_synonym 's client_net = "('s, request, response) net"
type_synonym ('s, 'a) io = "'s \<Rightarrow> ((io_error + 'a) \<times> 's) option"

fun io_then :: "((io_error + 'a) \<times> 's) option \<Rightarrow> ('a \<Rightarrow> ('s, 'b) io) \<Rightarrow> ((io_error + 'b) \<times> 's) option" where
  "io_then None f = None"
| "io_then (Some (Inl e, s)) f = Some (Inl e, s)"
| "io_then (Some (Inr x, s)) f = f x s"

lemma io_then_InrE:
  assumes "io_then m f = Some (Inr y, s')"
  obtains x s where "m = Some (Inr x, s)" and "f x s = Some (Inr y, s')"
  using assms by (cases "(m, f)" rule: io_then.cases) auto

definition MAX_MESSAGE_SIZE :: usize where "MAX_MESSAGE_SIZE = 4 * 1024 * 1024"
definition PROMPT_READ_CANCEL_POLL :: duration where "PROMPT_READ_CANCEL_POLL = 20000000"
definition PROMPT_BEGIN_RESPONSE_TIMEOUT :: duration where "PROMPT_BEGIN_RESPONSE_TIMEOUT = 10000000000"
definition PROMPT_CANCEL_RESPONSE_TIMEOUT :: duration where "PROMPT_CANCEL_RESPONSE_TIMEOUT = 250000000"
definition PROMPT_TRANSPORT_MARGIN_MS :: u64 where "PROMPT_TRANSPORT_MARGIN_MS = 250"

subsection \<open>Bounded reads and writes\<close>

definition be_u32 :: "u32 \<Rightarrow> bytes" where
  "be_u32 n = rev (le_of_nat 4 (unat n))"

definition from_be_u32 :: "bytes \<Rightarrow> usize" where
  "from_be_u32 bs = nat_of_le (rev bs)"

text \<open>A frame: the length is cast to \<open>u32\<close>.\<close>

definition frame :: "bytes \<Rightarrow> bytes" where
  "frame payload = be_u32 (word_of_nat (length payload)) @ payload"

definition validate_message_size :: "usize \<Rightarrow> io_error + unit" where
  "validate_message_size len = (if MAX_MESSAGE_SIZE < len then Inl InvalidData else Inr ())"

text \<open>\<open>Write::write_all\<close> of the standard library.\<close>

partial_function (option) write_all :: "('s, 'o, 'i) net \<Rightarrow> bytes \<Rightarrow> ('s, unit) io" where
  "write_all net bs s =
     (if bs = [] then Some (Inr (), s)
      else case net_write net bs s of
        (Inl e, s) \<Rightarrow> if e = Interrupted then write_all net bs s else Some (Inl e, s)
      | (Inr n, s) \<Rightarrow> if n = 0 then Some (Inl WriteZero, s) else write_all net (drop n bs) s)"

text \<open>\<open>wanted\<close> is the length of the part of the destination that is not yet filled.  The bytes read so far
  are prepended by the recursion.\<close>

partial_function (option) read_exact_until ::
  "('s, 'o, 'i) net \<Rightarrow> instant \<Rightarrow> ('s \<Rightarrow> bool \<times> 's) \<Rightarrow> bytes \<Rightarrow> usize \<Rightarrow> ('s, bytes) io" where
  "read_exact_until net deadline cancelled got wanted s =
     (if wanted \<le> length got then Some (Inr got, s)
      else case cancelled s of (stop, s) \<Rightarrow>
        if stop then Some (Inl Interrupted, s)
        else case net_now net s of (now, s) \<Rightarrow>
          if deadline - now = 0 then Some (Inl TimedOut, s)
          else case net_set_read_timeout net (min (deadline - now) PROMPT_READ_CANCEL_POLL) s of
            (Inl e, s) \<Rightarrow> Some (Inl e, s)
          | (Inr _, s) \<Rightarrow>
              (case net_read net (wanted - length got) s of
                 (Inr bs, s) \<Rightarrow>
                   if bs = [] then Some (Inl UnexpectedEof, s)
                   else read_exact_until net deadline cancelled (got @ bs) wanted s
               | (Inl e, s) \<Rightarrow>
                   if e = Interrupted \<or> e = WouldBlock \<or> e = TimedOut
                   then read_exact_until net deadline cancelled got wanted s
                   else Some (Inl e, s)))"

text \<open>\<open>Read::read_exact\<close> of the standard library.\<close>

partial_function (option) read_exact :: "('s, 'o, 'i) net \<Rightarrow> bytes \<Rightarrow> usize \<Rightarrow> ('s, bytes) io" where
  "read_exact net got wanted s =
     (if wanted \<le> length got then Some (Inr got, s)
      else case net_read net (wanted - length got) s of
        (Inr bs, s) \<Rightarrow>
          if bs = [] then Some (Inl UnexpectedEof, s) else read_exact net (got @ bs) wanted s
      | (Inl e, s) \<Rightarrow> if e = Interrupted then read_exact net got wanted s else Some (Inl e, s))"

partial_function (option) write_all_until :: "('s, 'o, 'i) net \<Rightarrow> instant \<Rightarrow> bytes \<Rightarrow> ('s, unit) io" where
  "write_all_until net deadline bs s =
     (if bs = [] then Some (Inr (), s)
      else case net_now net s of (now, s) \<Rightarrow>
        if deadline - now = 0 then Some (Inl TimedOut, s)
        else case net_set_write_timeout net (deadline - now) s of
          (Inl e, s) \<Rightarrow> Some (Inl e, s)
        | (Inr _, s) \<Rightarrow>
            (case net_write net bs s of
               (Inr n, s) \<Rightarrow>
                 if n = 0 then Some (Inl WriteZero, s) else write_all_until net deadline (drop n bs) s
             | (Inl e, s) \<Rightarrow>
                 if e = Interrupted \<or> e = WouldBlock \<or> e = TimedOut
                 then write_all_until net deadline bs s else Some (Inl e, s)))"

subsection \<open>Messages\<close>

definition send_message :: "('s, 'o, 'i) net \<Rightarrow> 'o \<Rightarrow> ('s, unit) io" where
  "send_message net msg s =
     io_then (write_all net (frame (net_encode net msg)) s) (\<lambda>_ s. Some (net_flush net s))"

definition send_prompt_message :: "('s, 'o, 'i) net \<Rightarrow> 'o \<Rightarrow> ('s, unit) io" where
  "send_prompt_message net msg s =
     io_then (write_all net (frame (net_encode net msg)) s) (\<lambda>_ s. Some (net_flush net s))"

definition send_message_reuse :: "('s, 'o, 'i) net \<Rightarrow> 'o \<Rightarrow> ('s, unit) io" where
  "send_message_reuse net msg s =
     io_then (write_all net (frame (net_encode net msg)) s) (\<lambda>_ s. Some (net_flush net s))"

definition decode_message :: "('s, 'o, 'i) net \<Rightarrow> bytes \<Rightarrow> ('s, 'i) io" where
  "decode_message net payload s =
     Some (case net_decode net payload of None \<Rightarrow> Inl InvalidData | Some m \<Rightarrow> Inr m, s)"

definition recv_message :: "('s, 'o, 'i) net \<Rightarrow> ('s, 'i) io" where
  "recv_message net s =
     io_then (read_exact net [] 4 s) (\<lambda>prefix s.
     let len = from_be_u32 prefix
     in if MAX_MESSAGE_SIZE < len then Some (Inl InvalidData, s)
        else io_then (read_exact net [] len s) (decode_message net))"

definition recv_prompt_message :: "('s, 'o, 'i) net \<Rightarrow> ('s, 'i) io" where
  "recv_prompt_message net s =
     io_then (read_exact net [] 4 s) (\<lambda>prefix s.
     let len = from_be_u32 prefix
     in case validate_message_size len of
          Inl e \<Rightarrow> Some (Inl e, s)
        | Inr _ \<Rightarrow> io_then (read_exact net [] len s) (decode_message net))"

definition recv_prompt_message_until ::
  "('s, 'o, 'i) net \<Rightarrow> instant \<Rightarrow> ('s \<Rightarrow> bool \<times> 's) \<Rightarrow> ('s, 'i) io" where
  "recv_prompt_message_until net deadline cancelled s =
     io_then (read_exact_until net deadline cancelled [] 4 s) (\<lambda>prefix s.
     let len = from_be_u32 prefix
     in case validate_message_size len of
          Inl e \<Rightarrow> Some (Inl e, s)
        | Inr _ \<Rightarrow>
            io_then (read_exact_until net deadline cancelled [] len s) (decode_message net))"

definition never_cancelled :: "'s \<Rightarrow> bool \<times> 's" where
  "never_cancelled s = (False, s)"

definition send_message_until :: "('s, 'o, 'i) net \<Rightarrow> 'o \<Rightarrow> instant \<Rightarrow> ('s, unit) io" where
  "send_message_until net msg deadline s =
     (case validate_message_size (length (net_encode net msg)) of
        Inl e \<Rightarrow> Some (Inl e, s)
      | Inr _ \<Rightarrow>
          io_then (write_all_until net deadline (frame (net_encode net msg)) s) (\<lambda>_ s.
            case net_now net s of (now, s) \<Rightarrow>
              if deadline - now = 0 then Some (Inl TimedOut, s)
              else case net_set_write_timeout net (deadline - now) s of
                (Inl e, s) \<Rightarrow> Some (Inl e, s)
              | (Inr _, s) \<Rightarrow> Some (net_flush net s)))"

definition request_message_until :: "('s, 'o, 'i) net \<Rightarrow> 'o \<Rightarrow> instant \<Rightarrow> ('s, 'i) io" where
  "request_message_until net msg deadline s =
     io_then (send_message_until net msg deadline s) (\<lambda>_ s.
       recv_prompt_message_until net deadline never_cancelled s)"

subsection \<open>The prompt client\<close>

datatype prompt_client_phase = ClientInitial | ClientPending | ClientFinished

record pending_client_prompt =
  pcp_transaction_token :: bytes
  pcp_client_nonce :: bytes
  pcp_commit_response_timeout_ms :: u32

record prompt_client =
  pc_phase :: prompt_client_phase
  pc_pending :: "pending_client_prompt option"

record prompt_metadata =
  pm_prompt_timeout_ms :: u32
  pm_commit_response_timeout_ms :: u32

datatype prompt_begin_outcome = PromptRequired prompt_metadata | PromptModeOff

definition prompt_client_new :: prompt_client where
  "prompt_client_new = \<lparr>pc_phase = ClientInitial, pc_pending = None\<rparr>"

text \<open>An operation of the client returns its result, the client and the state outside.\<close>

type_synonym ('s, 'a) client_io = "'s \<Rightarrow> ((io_error + 'a) \<times> prompt_client \<times> 's) option"

abbreviation finished :: "prompt_client \<Rightarrow> prompt_client" where
  "finished c \<equiv> c\<lparr>pc_phase := ClientFinished\<rparr>"

definition constant_time_slice_eq :: "bytes \<Rightarrow> bytes \<Rightarrow> bool" where
  "constant_time_slice_eq left right \<longleftrightarrow>
     length left = length right \<and> foldl (\<lambda>d p. d OR (fst p XOR snd p)) 0 (zip left right) = 0"

text \<open>The sum of two durations below the bound is far from the limit of \<open>Duration\<close>.\<close>

definition prompt_commit_read_timeout :: "u32 \<Rightarrow> io_error + duration" where
  "prompt_commit_read_timeout ms =
     (if \<not> (COMMIT_RESPONSE_TIMEOUT_MS_MIN \<le> ms \<and> ms \<le> COMMIT_RESPONSE_TIMEOUT_MS_MAX) then Inl InvalidData
      else Inr (from_millis (ucast ms) + from_millis PROMPT_TRANSPORT_MARGIN_MS))"

definition prompt_deadline :: "('s, 'o, 'i) net \<Rightarrow> duration \<Rightarrow> 's \<Rightarrow> (io_error + instant) \<times> 's" where
  "prompt_deadline net timeout s =
     (case net_now net s of (now, s) \<Rightarrow> (ok_or InvalidData (instant_checked_add now timeout), s))"

definition zeroizing_exact_array :: "usize \<Rightarrow> bytes \<Rightarrow> io_error + bytes" where
  "zeroizing_exact_array n value = (if length value \<noteq> n then Inl InvalidData else Inr value)"

definition receive_response_until :: "'s client_net \<Rightarrow> instant \<Rightarrow> ('s, response) io" where
  "receive_response_until net deadline s = recv_prompt_message_until net deadline never_cancelled s"

definition send_request :: "'s client_net \<Rightarrow> request \<Rightarrow> ('s, unit) io" where
  "send_request net request s = send_message_reuse net request s"

definition send_request_until :: "'s client_net \<Rightarrow> request \<Rightarrow> instant \<Rightarrow> ('s, unit) io" where
  "send_request_until net request deadline s =
     (case net_now net s of (now, s) \<Rightarrow>
        if deadline - now = 0 then Some (Inl TimedOut, s)
        else case net_set_write_timeout net (deadline - now) s of
          (Inl e, s) \<Rightarrow> Some (Inl e, s)
        | (Inr _, s) \<Rightarrow> send_request net request s)"

text \<open>The request is a \<open>BeginAuthV1\<close>; its fields are the argument.\<close>

definition begin_adaptive_request_until ::
  "'s client_net \<Rightarrow> begin_auth_req \<Rightarrow> instant \<Rightarrow> prompt_client \<Rightarrow> ('s, prompt_begin_outcome) client_io" where
  "begin_adaptive_request_until net begn deadline c s =
     (if pc_phase c \<noteq> ClientInitial then Some (Inl InvalidData, c, s)
      else case begin_auth_validate begn of
        Inl _ \<Rightarrow> Some (Inl InvalidData, finished c, s)
      | Inr _ \<Rightarrow>
          (case zeroizing_exact_array PROMPT_NONCE_BYTES (ba_client_nonce begn) of
             Inl e \<Rightarrow> Some (Inl e, c, s)
           | Inr expected_nonce \<Rightarrow>
               (case send_request net (Some (CmdBeginAuthV1 begn)) s of
                  None \<Rightarrow> None
                | Some (Inl e, s) \<Rightarrow> Some (Inl e, finished c, s)
                | Some (Inr _, s) \<Rightarrow>
                    (case receive_response_until net deadline s of
                       None \<Rightarrow> None
                     | Some (Inl e, s) \<Rightarrow> Some (Inl e, finished c, s)
                     | Some (Inr (Some (RPromptRequiredV1 prompt)), s) \<Rightarrow>
                         (if prompt_required_validate prompt \<noteq> Inr ()
                             \<or> \<not> constant_time_slice_eq (pq_client_nonce prompt) expected_nonce
                          then Some (Inl InvalidData, finished c, s)
                          else case zeroizing_exact_array PROMPT_TOKEN_BYTES (pq_transaction_token prompt) of
                            Inl e \<Rightarrow> Some (Inl e, c, s)
                          | Inr transaction_token \<Rightarrow>
                              Some (Inr (PromptRequired
                                  \<lparr>pm_prompt_timeout_ms = pq_prompt_timeout_ms prompt,
                                   pm_commit_response_timeout_ms = pq_commit_response_timeout_ms prompt\<rparr>),
                                c\<lparr>pc_phase := ClientPending,
                                  pc_pending := Some
                                    \<lparr>pcp_transaction_token = transaction_token, pcp_client_nonce = expected_nonce,
                                     pcp_commit_response_timeout_ms = pq_commit_response_timeout_ms prompt\<rparr>\<rparr>,
                                s))
                     | Some (Inr (Some (RError err)), s) \<Rightarrow>
                         (if pe_code err = PROMPT_PROTOCOL_INCOMPATIBLE_ERROR
                          then Some (Inr PromptModeOff, finished c, s)
                          else Some (Inl InvalidData, finished c, s))
                     | Some (Inr _, s) \<Rightarrow> Some (Inl InvalidData, finished c, s)))))"

definition begin_adaptive_request ::
  "'s client_net \<Rightarrow> begin_auth_req \<Rightarrow> prompt_client \<Rightarrow> ('s, prompt_begin_outcome) client_io" where
  "begin_adaptive_request net begn c s =
     (case prompt_deadline net PROMPT_BEGIN_RESPONSE_TIMEOUT s of
        (Inl e, s) \<Rightarrow> Some (Inl e, c, s)
      | (Inr deadline, s) \<Rightarrow> begin_adaptive_request_until net begn deadline c s)"

definition begin_adaptive ::
  "'s client_net \<Rightarrow> begin_auth_req \<Rightarrow> prompt_client \<Rightarrow> ('s, prompt_begin_outcome) client_io" where
  "begin_adaptive net begn c s = begin_adaptive_request net begn c s"

definition client_begin :: "'s client_net \<Rightarrow> begin_auth_req \<Rightarrow> prompt_client \<Rightarrow> ('s, prompt_metadata) client_io" where
  "client_begin net begn c s =
     (case begin_adaptive net begn c s of
        None \<Rightarrow> None
      | Some (Inl e, c, s) \<Rightarrow> Some (Inl e, c, s)
      | Some (Inr (PromptRequired metadata), c, s) \<Rightarrow> Some (Inr metadata, c, s)
      | Some (Inr PromptModeOff, c, s) \<Rightarrow> Some (Inl InvalidData, c, s))"

definition begin_adaptive_ref ::
  "'s client_net \<Rightarrow> str \<Rightarrow> bytes \<Rightarrow> str \<Rightarrow> prompt_origin \<Rightarrow> prompt_client \<Rightarrow> ('s, prompt_begin_outcome) client_io" where
  "begin_adaptive_ref net user client_nonce pam_service origin c s =
     (case request_begin_auth_v1_ref user client_nonce pam_service origin of
        Some (CmdBeginAuthV1 begn) \<Rightarrow> begin_adaptive_request net begn c s
      | _ \<Rightarrow> None)"

definition client_take_pending :: "prompt_client \<Rightarrow> (io_error + pending_client_prompt) \<times> prompt_client" where
  "client_take_pending c =
     (if pc_phase c \<noteq> ClientPending then (Inl InvalidData, c)
      else (ok_or InvalidData (pc_pending c), c\<lparr>pc_phase := ClientFinished, pc_pending := None\<rparr>))"

definition commit_pending_until :: "'s client_net \<Rightarrow> pending_client_prompt \<Rightarrow> instant \<Rightarrow> ('s, response) io" where
  "commit_pending_until net pending deadline s =
     io_then (send_request net (request_commit_auth_v1_ref (pcp_transaction_token pending)
                (pcp_client_nonce pending)) s) (\<lambda>_ s.
     io_then (receive_response_until net deadline s) (\<lambda>response s.
     if \<not> is_prompt_auth_terminal_response response then Some (Inl InvalidData, s)
     else Some (Inr response, s)))"

definition client_commit :: "'s client_net \<Rightarrow> prompt_client \<Rightarrow> ('s, response) client_io" where
  "client_commit net c s =
     (case client_take_pending c of
        (Inl e, c) \<Rightarrow> Some (Inl e, c, s)
      | (Inr pending, c) \<Rightarrow>
          (case prompt_commit_read_timeout (pcp_commit_response_timeout_ms pending) of
             Inl e \<Rightarrow> Some (Inl e, c, s)
           | Inr timeout \<Rightarrow>
               (case prompt_deadline net timeout s of
                  (Inl e, s) \<Rightarrow> Some (Inl e, c, s)
                | (Inr deadline, s) \<Rightarrow>
                    map_option (\<lambda>(r, s). (r, c, s)) (commit_pending_until net pending deadline s))))"

definition cancel_pending_until :: "'s client_net \<Rightarrow> pending_client_prompt \<Rightarrow> instant \<Rightarrow> ('s, unit) io" where
  "cancel_pending_until net pending deadline s =
     io_then (send_request_until net (request_cancel_auth_v1_ref (pcp_transaction_token pending)
                (pcp_client_nonce pending)) deadline s) (\<lambda>_ s.
     io_then (receive_response_until net deadline s) (\<lambda>response s.
     case response of
       Some (RAuthCancelledV1 cancelled) \<Rightarrow>
         (if auth_cancelled_validate cancelled = Inr ()
             \<and> constant_time_slice_eq (ax_client_nonce cancelled) (pcp_client_nonce pending)
          then Some (Inr (), s) else Some (Inl InvalidData, s))
     | _ \<Rightarrow> Some (Inl InvalidData, s)))"

definition client_cancel :: "'s client_net \<Rightarrow> prompt_client \<Rightarrow> ('s, unit) client_io" where
  "client_cancel net c s =
     (case client_take_pending c of
        (Inl e, c) \<Rightarrow> Some (Inl e, c, s)
      | (Inr pending, c) \<Rightarrow>
          (case prompt_deadline net PROMPT_CANCEL_RESPONSE_TIMEOUT s of
             (Inl e, s) \<Rightarrow> Some (Inl e, c, s)
           | (Inr deadline, s) \<Rightarrow>
               map_option (\<lambda>(r, s). (r, c, s)) (cancel_pending_until net pending deadline s)))"

definition client_drop :: "'s client_net \<Rightarrow> prompt_client \<Rightarrow> 's \<Rightarrow> 's option" where
  "client_drop net c s =
     (if pc_phase c \<noteq> ClientPending \<or> pc_pending c = None then Some s
      else map_option (\<lambda>(r, c, s). s) (client_cancel net c s))"

text \<open>\<open>into_inner\<close> gives the stream back; the client that is left is finished and its drop does nothing.\<close>

definition client_into_inner :: "'s client_net \<Rightarrow> prompt_client \<Rightarrow> 's \<Rightarrow> 's option" where
  "client_into_inner net c s =
     (if pc_pending c \<noteq> None then map_option (\<lambda>(r, c, s). s) (client_cancel net c s) else Some s)"

end
