(* ===== verification/Pam.thy ===== *)
theory Pam
  imports Ipc
begin

section \<open>The PAM module\<close>

text \<open>
  \<^verbatim>\<open>crates/howy-pam/src/lib.rs\<close>.  PAM's own functions, the application's conversation, the connection to
  the daemon and the random source are the record \<open>pam_env\<close>, an extension of \<open>net\<close>.  A pointer is an
  option, null being \<open>None\<close>; a C string is its bytes before the terminating zero; a \<open>c_int\<close> is an integer.
  The memory the conversation hands over is not modelled.  The module's own code does not panic in the
  model, so \<open>catch_pam_panic\<close> is the identity on what is modelled here.
\<close>

definition PAM_SUCCESS :: int where "PAM_SUCCESS = 0"
definition PAM_SYSTEM_ERR :: int where "PAM_SYSTEM_ERR = 4"
definition PAM_AUTH_ERR :: int where "PAM_AUTH_ERR = 7"
definition PAM_AUTHINFO_UNAVAIL :: int where "PAM_AUTHINFO_UNAVAIL = 9"
definition PAM_USER_UNKNOWN :: int where "PAM_USER_UNKNOWN = 10"
definition PAM_IGNORE :: int where "PAM_IGNORE = 25"
definition PAM_SERVICE :: int where "PAM_SERVICE = 1"
definition PAM_RHOST :: int where "PAM_RHOST = 4"
definition PAM_MAX_RESP_SIZE :: usize where "PAM_MAX_RESP_SIZE = 512"
definition PAM_SERVICE_MAX_BYTES :: usize where "PAM_SERVICE_MAX_BYTES = 64"
definition PAM_RHOST_MAX_BYTES :: usize where "PAM_RHOST_MAX_BYTES = 255"
definition PAM_AUTH_CEILING :: duration where "PAM_AUTH_CEILING = 10000000000"
definition PAM_SILENT :: u32 where "PAM_SILENT = 0x8000"

lemmas pam_codes =
  PAM_SUCCESS_def PAM_SYSTEM_ERR_def PAM_AUTH_ERR_def PAM_AUTHINFO_UNAVAIL_def PAM_USER_UNKNOWN_def
  PAM_IGNORE_def

text \<open>A response of the conversation, and a conversation: its callback, if any.  The message it is asked
  is the constant prompt.\<close>

record pam_response =
  resp :: "str option"
  resp_retcode :: int

type_synonym 's pam_callback = "'s \<Rightarrow> (int \<times> pam_response option) \<times> 's"

record 's pam_env = "('s, request, response) net" +
  pam_get_user :: "'s \<Rightarrow> (int \<times> str option) \<times> 's"
  pam_get_string_item :: "int \<Rightarrow> 's \<Rightarrow> (int \<times> str option) \<times> 's"
  pam_get_conv :: "'s \<Rightarrow> (int \<times> 's pam_callback option option) \<times> 's"
  pam_connect :: "'s \<Rightarrow> (io_error + unit) \<times> 's"
  pam_fill_nonce :: "'s \<Rightarrow> bytes option \<times> 's"

abbreviation net_of :: "('s, 'm) pam_env_scheme \<Rightarrow> 's client_net" where
  "net_of env \<equiv> net.truncate env"

subsection \<open>Confirmation\<close>

definition confirmation_response_is_allowed :: "str \<Rightarrow> bool" where
  "confirmation_response_is_allowed response \<longleftrightarrow>
     length response \<le> PAM_MAX_RESP_SIZE \<and> valid_utf8 response \<and> (response = [] \<or> response = ascii ''OK'')"

definition request_confirmation_from_conv ::
  "'s pam_callback option option \<Rightarrow> u32 \<Rightarrow> 's \<Rightarrow> int \<times> 's" where
  "request_confirmation_from_conv conv flags s =
     (if and flags PAM_SILENT \<noteq> 0 then (PAM_AUTHINFO_UNAVAIL, s)
      else case conv of
        None \<Rightarrow> (PAM_AUTHINFO_UNAVAIL, s)
      | Some None \<Rightarrow> (PAM_AUTHINFO_UNAVAIL, s)
      | Some (Some callback) \<Rightarrow>
          (case callback s of ((status, responses), s) \<Rightarrow>
             if status \<noteq> PAM_SUCCESS then (PAM_AUTHINFO_UNAVAIL, s)
             else case responses of
               None \<Rightarrow> (PAM_AUTHINFO_UNAVAIL, s)
             | Some response \<Rightarrow>
                 (if resp_retcode response \<noteq> 0 then (PAM_AUTHINFO_UNAVAIL, s)
                  else case resp response of
                    None \<Rightarrow> (PAM_AUTHINFO_UNAVAIL, s)
                  | Some answer \<Rightarrow>
                      (if confirmation_response_is_allowed answer then (PAM_SUCCESS, s)
                       else (PAM_AUTHINFO_UNAVAIL, s)))))"

definition request_confirmation_with_get_item ::
  "('s, 'm) pam_env_scheme \<Rightarrow> bool \<Rightarrow> u32 \<Rightarrow> 's \<Rightarrow> int \<times> 's" where
  "request_confirmation_with_get_item env pamh flags s =
     (if and flags PAM_SILENT \<noteq> 0 \<or> \<not> pamh then (PAM_AUTHINFO_UNAVAIL, s)
      else case pam_get_conv env s of ((status, conv), s) \<Rightarrow>
        if status \<noteq> PAM_SUCCESS then (PAM_AUTHINFO_UNAVAIL, s)
        else request_confirmation_from_conv conv flags s)"

subsection \<open>Policy items\<close>

definition read_pam_string_item ::
  "('s, 'm) pam_env_scheme \<Rightarrow> int \<Rightarrow> usize \<Rightarrow> 's \<Rightarrow> (unit + str option) \<times> 's" where
  "read_pam_string_item env item_type max_bytes s =
     (case pam_get_string_item env item_type s of ((status, item), s) \<Rightarrow>
        if status \<noteq> PAM_SUCCESS then (Inl (), s)
        else case item of
          None \<Rightarrow> (Inr None, s)
        | Some value \<Rightarrow>
            (if max_bytes < length value \<or> \<not> valid_utf8 value then (Inl (), s) else (Inr (Some value), s)))"

definition is_valid_pam_service :: "str \<Rightarrow> bool" where
  "is_valid_pam_service service \<longleftrightarrow>
     1 \<le> length service \<and> length service \<le> PAM_SERVICE_MAX_BYTES \<and> list_all is_name_byte service"

definition is_rhost_byte :: "u8 \<Rightarrow> bool" where
  "is_rhost_byte b \<longleftrightarrow> is_ascii_alphanumeric b \<or> b \<in> {46, 45, 95, 58, 91, 93, 37}"

definition is_valid_pam_rhost :: "str \<Rightarrow> bool" where
  "is_valid_pam_rhost rhost \<longleftrightarrow>
     rhost \<noteq> [] \<and> length rhost \<le> PAM_RHOST_MAX_BYTES \<and> list_all is_rhost_byte rhost"

definition read_pam_policy :: "('s, 'm) pam_env_scheme \<Rightarrow> 's \<Rightarrow> (unit + str \<times> prompt_origin) \<times> 's" where
  "read_pam_policy env s =
     (case read_pam_string_item env PAM_SERVICE PAM_SERVICE_MAX_BYTES s of
        (Inl _, s) \<Rightarrow> (Inl (), s)
      | (Inr None, s) \<Rightarrow> (Inl (), s)
      | (Inr (Some service), s) \<Rightarrow>
          (if \<not> is_valid_pam_service service then (Inl (), s)
           else case read_pam_string_item env PAM_RHOST PAM_RHOST_MAX_BYTES s of
             (Inl _, s) \<Rightarrow> (Inl (), s)
           | (Inr None, s) \<Rightarrow> (Inr (service, OriginLocal), s)
           | (Inr (Some value), s) \<Rightarrow>
               (if value = [] then (Inr (service, OriginLocal), s)
                else if is_valid_pam_rhost value then (Inr (service, OriginRemote), s)
                else (Inl (), s))))"

fun contains_dot_dot :: "str \<Rightarrow> bool" where
  "contains_dot_dot (a # b # bs) \<longleftrightarrow> a = 46 \<and> b = 46 \<or> contains_dot_dot (b # bs)"
| "contains_dot_dot bs \<longleftrightarrow> False"

text \<open>The test on characters is a test on bytes: a character beyond ASCII has only bytes from 128 up, and
  none of them is in the class.\<close>

definition is_valid_username :: "str \<Rightarrow> bool" where
  "is_valid_username name \<longleftrightarrow>
     name \<noteq> [] \<and> length name \<le> 64 \<and> 47 \<notin> set name \<and> 0 \<notin> set name \<and> \<not> contains_dot_dot name
     \<and> list_all is_name_byte name"

subsection \<open>Authentication\<close>

definition map_auth_response :: "response \<Rightarrow> int" where
  "map_auth_response response =
     (case response of
        Some (RSuccess _) \<Rightarrow> PAM_SUCCESS
      | Some (RAuthFailed _) \<Rightarrow> PAM_AUTH_ERR
      | _ \<Rightarrow> PAM_AUTHINFO_UNAVAIL)"

definition configure_stream :: "('s, 'm) pam_env_scheme \<Rightarrow> 's \<Rightarrow> (unit + unit) \<times> 's" where
  "configure_stream env s =
     (case net_set_read_timeout env 10000000000 s of
        (Inl _, s) \<Rightarrow> (Inl (), s)
      | (Inr _, s) \<Rightarrow>
          (case net_set_write_timeout env 5000000000 s of
             (Inl _, s) \<Rightarrow> (Inl (), s)
           | (Inr _, s) \<Rightarrow> (Inr (), s)))"

definition open_stream :: "('s, 'm) pam_env_scheme \<Rightarrow> 's \<Rightarrow> (unit + unit) \<times> 's" where
  "open_stream env s =
     (case pam_connect env s of
        (Inl _, s) \<Rightarrow> (Inl (), s)
      | (Inr _, s) \<Rightarrow> configure_stream env s)"

text \<open>The part after a prompt was required, and the part after the exact answer that prompts are off.\<close>

definition confirm_and_commit ::
  "('s, 'm) pam_env_scheme \<Rightarrow> bool \<Rightarrow> u32 \<Rightarrow> prompt_client \<Rightarrow> 's \<Rightarrow> (int \<times> 's) option" where
  "confirm_and_commit env pamh flags prompt s =
     (case request_confirmation_with_get_item env pamh flags s of (confirmed, s) \<Rightarrow>
        if confirmed \<noteq> PAM_SUCCESS then
          (case client_cancel (net_of env) prompt s of
             None \<Rightarrow> None
           | Some (_, prompt, s) \<Rightarrow>
               map_option (Pair PAM_AUTHINFO_UNAVAIL) (client_drop (net_of env) prompt s))
        else
          (case client_commit (net_of env) prompt s of
             None \<Rightarrow> None
           | Some (r, prompt, s) \<Rightarrow>
               map_option (Pair (case r of Inl _ \<Rightarrow> PAM_AUTHINFO_UNAVAIL | Inr response \<Rightarrow> map_auth_response response))
                 (client_drop (net_of env) prompt s)))"

definition authenticate_without_prompt ::
  "('s, 'm) pam_env_scheme \<Rightarrow> str \<Rightarrow> duration \<Rightarrow> 's \<Rightarrow> (int \<times> 's) option" where
  "authenticate_without_prompt env user auth_ceiling s =
     (case open_stream env s of
        (Inl _, s) \<Rightarrow> Some (PAM_AUTHINFO_UNAVAIL, s)
      | (Inr _, s) \<Rightarrow>
          (case net_now env s of (now, s) \<Rightarrow>
             case instant_checked_add now auth_ceiling of
               None \<Rightarrow> Some (PAM_AUTHINFO_UNAVAIL, s)
             | Some deadline \<Rightarrow>
                 (case request_message_until (net_of env) (request_authenticate_v1 user 0) deadline s of
                    None \<Rightarrow> None
                  | Some (Inl _, s) \<Rightarrow> Some (PAM_AUTHINFO_UNAVAIL, s)
                  | Some (Inr response, s) \<Rightarrow>
                      (case net_now env s of (now, s) \<Rightarrow>
                         Some (if now < deadline then map_auth_response response else PAM_AUTHINFO_UNAVAIL, s)))))"

definition authenticate_user_with ::
  "('s, 'm) pam_env_scheme \<Rightarrow> bool \<Rightarrow> u32 \<Rightarrow> duration \<Rightarrow> 's \<Rightarrow> (int \<times> 's) option" where
  "authenticate_user_with env pamh flags auth_ceiling s =
     (if \<not> pamh then Some (PAM_SYSTEM_ERR, s)
      else case pam_get_user env s of ((status, name), s) \<Rightarrow>
        if status \<noteq> PAM_SUCCESS then Some (status, s)
        else case name of
          None \<Rightarrow> Some (PAM_USER_UNKNOWN, s)
        | Some user \<Rightarrow>
            (if \<not> (valid_utf8 user \<and> is_valid_username user) then Some (PAM_USER_UNKNOWN, s)
             else if user = ascii ''root'' then Some (PAM_AUTHINFO_UNAVAIL, s)
             else case read_pam_policy env s of
               (Inl _, s) \<Rightarrow> Some (PAM_AUTHINFO_UNAVAIL, s)
             | (Inr (service, origin), s) \<Rightarrow>
                 (case pam_fill_nonce env s of
                    (None, s) \<Rightarrow> Some (PAM_AUTHINFO_UNAVAIL, s)
                  | (Some bs, s) \<Rightarrow>
                      (case open_stream env s of
                         (Inl _, s) \<Rightarrow> Some (PAM_AUTHINFO_UNAVAIL, s)
                       | (Inr _, s) \<Rightarrow>
                           (case begin_adaptive_ref (net_of env) user (filled PROMPT_NONCE_BYTES bs) service origin
                                   prompt_client_new s of
                              None \<Rightarrow> None
                            | Some (Inr (PromptRequired _), prompt, s) \<Rightarrow>
                                confirm_and_commit env pamh flags prompt s
                            | Some (Inr PromptModeOff, prompt, s) \<Rightarrow>
                                (case client_drop (net_of env) prompt s of
                                   None \<Rightarrow> None
                                 | Some s \<Rightarrow> authenticate_without_prompt env user auth_ceiling s)
                            | Some (Inl _, prompt, s) \<Rightarrow>
                                map_option (Pair PAM_AUTHINFO_UNAVAIL) (client_drop (net_of env) prompt s))))))"

definition pam_sm_authenticate :: "('s, 'm) pam_env_scheme \<Rightarrow> bool \<Rightarrow> u32 \<Rightarrow> 's \<Rightarrow> (int \<times> 's) option" where
  "pam_sm_authenticate env pamh flags s = authenticate_user_with env pamh flags PAM_AUTH_CEILING s"

definition pam_sm_setcred :: int where "pam_sm_setcred = PAM_SUCCESS"
definition pam_sm_acct_mgmt :: int where "pam_sm_acct_mgmt = PAM_IGNORE"
definition pam_sm_open_session :: int where "pam_sm_open_session = PAM_IGNORE"
definition pam_sm_close_session :: int where "pam_sm_close_session = PAM_IGNORE"
definition pam_sm_chauthtok :: int where "pam_sm_chauthtok = PAM_IGNORE"

end
