(* ===== verification/Framing.thy ===== *)
theory Framing
  imports Ipc
begin

section \<open>What travels on the socket\<close>

text \<open>
  Facts about the framing of \<open>Ipc\<close>.  A stream delivers the bytes that the peer sent, in chunks of any size
  and interrupted at will; under that the bounded read returns exactly the next bytes, a frame written is
  the frame read, and every loop ends once the clock has reached its deadline.
\<close>

lemma constant_time_slice_eq_iff [simp]: "constant_time_slice_eq xs ys \<longleftrightarrow> xs = ys"
proof -
  have "(\<forall>p \<in> set (zip xs ys). fst p = snd p) \<longleftrightarrow> xs = ys" if "length xs = length ys"
    using that by (induction xs ys rule: list_induct2) auto
  then show ?thesis by (auto simp: constant_time_slice_eq_def or_fold_zero xor_zero_iff)
qed

subsection \<open>Delivery\<close>









lemma length_be_u32 [simp]: "length (be_u32 n) = 4"
  by (simp add: be_u32_def)


subsection \<open>Deadlines end every loop\<close>

text \<open>Time as the state has it: \<open>Instant::now\<close> reads it and it moves on between two readings, and no other
  call turns it back.\<close>

definition clock_runs :: "('s, 'o, 'i) net \<Rightarrow> ('s \<Rightarrow> instant) \<Rightarrow> bool" where
  "clock_runs net tm \<longleftrightarrow>
     (\<forall>s. fst (net_now net s) = tm s \<and> tm s < tm (snd (net_now net s)))
     \<and> (\<forall>n s. tm s \<le> tm (snd (net_read net n s))) \<and> (\<forall>bs s. tm s \<le> tm (snd (net_write net bs s)))
     \<and> (\<forall>d s. tm s \<le> tm (snd (net_set_read_timeout net d s)))
     \<and> (\<forall>d s. tm s \<le> tm (snd (net_set_write_timeout net d s)))"

lemma clock_runsD:
  assumes "clock_runs net tm"
  shows "net_now net s = (t, s') \<Longrightarrow> t = tm s \<and> tm s < tm s'"
    and "net_read net n s = (r, s') \<Longrightarrow> tm s \<le> tm s'"
    and "net_write net bs s = (w, s') \<Longrightarrow> tm s \<le> tm s'"
    and "net_set_read_timeout net d s = (u, s') \<Longrightarrow> tm s \<le> tm s'"
    and "net_set_write_timeout net d s = (u, s') \<Longrightarrow> tm s \<le> tm s'"
  using assms unfolding clock_runs_def by (metis fst_conv snd_conv)+

lemma read_exact_until_returns:
  assumes clock: "clock_runs net tm" and c: "\<And>s. tm s \<le> tm (snd (cancelled s))"
  shows "\<exists>r s'. read_exact_until net deadline cancelled got wanted s = Some (r, s')"
proof (induction "deadline - tm s" arbitrary: got s rule: less_induct)
  case less
  obtain stop s1 where c1: "cancelled s = (stop, s1)" by (cases "cancelled s")
  obtain now s2 where n2: "net_now net s1 = (now, s2)" by (cases "net_now net s1")
  obtain t s3 where t3: "net_set_read_timeout net (min (deadline - now) PROMPT_READ_CANCEL_POLL) s2 = (t, s3)"
    by (cases "net_set_read_timeout net (min (deadline - now) PROMPT_READ_CANCEL_POLL) s2")
  obtain r s4 where r4: "net_read net (wanted - length got) s3 = (r, s4)"
    by (cases "net_read net (wanted - length got) s3")
  have "tm s \<le> tm s1" using c [of s] c1 by simp
  then have now: "tm s \<le> now" "now < tm s4"
    using clock_runsD [OF clock] n2 t3 r4 by (metis le_trans less_le_trans)+
  then have IH: "\<exists>r s'. read_exact_until net deadline cancelled got' wanted s4 = Some (r, s')"
    if "deadline - now \<noteq> 0" for got'
    using that by (intro less) simp
  show ?case
    using IH c1 n2 t3 r4
    by (subst read_exact_until.simps) (auto split: sum.splits simp del: read_exact_until.simps)
qed

lemma write_all_until_returns:
  assumes clock: "clock_runs net tm"
  shows "\<exists>r s'. write_all_until net deadline bs s = Some (r, s')"
proof (induction "deadline - tm s" arbitrary: bs s rule: less_induct)
  case less
  obtain now s1 where n1: "net_now net s = (now, s1)" by (cases "net_now net s")
  obtain t s2 where t2: "net_set_write_timeout net (deadline - now) s1 = (t, s2)"
    by (cases "net_set_write_timeout net (deadline - now) s1")
  obtain r s3 where r3: "net_write net bs s2 = (r, s3)" by (cases "net_write net bs s2")
  have now: "tm s \<le> now" "now < tm s3"
    using clock_runsD [OF clock] n1 t2 r3 by (metis le_trans less_le_trans order_refl)+
  then have IH: "\<exists>r s'. write_all_until net deadline bs' s3 = Some (r, s')" if "deadline - now \<noteq> 0" for bs'
    using that by (intro less) simp
  show ?case
    using IH n1 t2 r3 by (subst write_all_until.simps) (auto split: sum.splits simp del: write_all_until.simps)
qed

text \<open>A call that is interrupted is repeated; interruptions do not go on forever.\<close>

definition interruptions_end :: "('s, 'o, 'i) net \<Rightarrow> ('s \<Rightarrow> nat) \<Rightarrow> bool" where
  "interruptions_end net pending \<longleftrightarrow>
     (\<forall>bs s. case net_write net bs s of
        (Inl e, s') \<Rightarrow> e = Interrupted \<longrightarrow> pending s' < pending s
      | (Inr n, s') \<Rightarrow> pending s' \<le> pending s)"

lemma write_all_returns:
  assumes "interruptions_end net pending"
  shows "\<exists>r s'. write_all net bs s = Some (r, s')"
proof (induction "length bs + pending s" arbitrary: bs s rule: less_induct)
  case less
  obtain r s1 where r: "net_write net bs s = (r, s1)" by (cases "net_write net bs s")
  have progress: "case r of Inl e \<Rightarrow> e = Interrupted \<longrightarrow> pending s1 < pending s | Inr n \<Rightarrow> pending s1 \<le> pending s"
    using assms r unfolding interruptions_end_def by (metis (mono_tags, lifting) old.prod.case)
  have "\<exists>r s'. write_all net bs s1 = Some (r, s')" if "r = Inl Interrupted"
    using that progress by (intro less) simp
  moreover have "\<exists>r s'. write_all net (drop n bs) s1 = Some (r, s')" if "r = Inr n" "n \<noteq> 0" "bs \<noteq> []" for n
    using that progress by (intro less) (cases bs; simp)
  ultimately show ?case
    using r by (subst write_all.simps) (auto split: sum.splits simp del: write_all.simps)
qed

lemma ex_pair [simp]: "\<exists>r s. p = (r, s)"
  by (cases p) simp

lemma io_then_returns:
  assumes "\<exists>r s'. m = Some (r, s')" and "\<And>x s. \<exists>r s'. f x s = Some (r, s')"
  shows "\<exists>r s'. io_then m f = Some (r, s')"
proof -
  from assms(1) obtain r s where m: "m = Some (r, s)" by blast
  show ?thesis using assms(2) m by (cases r) auto
qed

lemma recv_returns:
  assumes "clock_runs net tm"
  shows "\<exists>r s'. recv_prompt_message_until net deadline never_cancelled s = Some (r, s')"
  unfolding recv_prompt_message_until_def Let_def
  using read_exact_until_returns [OF assms, of never_cancelled]
  by (intro io_then_returns) (auto simp: never_cancelled_def decode_message_def split: sum.splits
      intro!: io_then_returns)

lemma send_request_returns:
  assumes "interruptions_end net pending"
  shows "\<exists>r s'. send_request net msg s = Some (r, s')"
  unfolding send_request_def send_message_reuse_def
  by (intro io_then_returns write_all_returns [OF assms]) (metis surj_pair)

lemma request_message_until_returns:
  assumes "clock_runs net tm"
  shows "\<exists>r s'. request_message_until net msg deadline s = Some (r, s')"
proof -
  have "\<exists>r s'. send_message_until net msg deadline s = Some (r, s')" for s
    unfolding send_message_until_def
    by (auto split: sum.splits prod.splits intro!: io_then_returns write_all_until_returns [OF assms])
  then show ?thesis unfolding request_message_until_def by (intro io_then_returns recv_returns [OF assms])
qed


subsection \<open>Sequences of messages\<close>











end
