(* ===== verification/PamProperties.thy ===== *)
theory PamProperties
  imports Pam Framing
begin

section \<open>Properties of the PAM module\<close>

text \<open>
  What a return of \<open>PAM_SUCCESS\<close> goes back to, that the module returns at all, and which user names it
  takes.  The statements are about every environment: PAM, the conversation, the daemon and the socket may
  behave in any way.
\<close>

subsection \<open>What happened on the way to success\<close>

text \<open>The application asked the user, who answered with an empty line or \<open>OK\<close>.\<close>

definition consented :: "('s, 'm) pam_env_scheme \<Rightarrow> u32 \<Rightarrow> 's \<Rightarrow> 's \<Rightarrow> bool" where
  "consented env flags s s' \<longleftrightarrow>
     and flags PAM_SILENT = 0
     \<and> (\<exists>callback s1 answer. pam_get_conv env s = ((PAM_SUCCESS, Some (Some callback)), s1)
          \<and> callback s1 = ((PAM_SUCCESS, Some \<lparr>resp = Some answer, resp_retcode = 0\<rparr>), s')
          \<and> (answer = [] \<or> answer = ascii ''OK''))"

text \<open>A request was written and this response was read on the same connection.\<close>

definition exchanged :: "'s client_net \<Rightarrow> request \<Rightarrow> response \<Rightarrow> 's \<Rightarrow> 's \<Rightarrow> bool" where
  "exchanged net request response s s' \<longleftrightarrow>
     (\<exists>deadline s1. send_request net request s = Some (Inr (), s1)
        \<and> receive_response_until net deadline s1 = Some (Inr response, s'))"

text \<open>The clock was read, the only thing between the two steps of a transaction.\<close>

definition clock_read :: "'s client_net \<Rightarrow> 's \<Rightarrow> 's \<Rightarrow> bool" where
  "clock_read net s s' \<longleftrightarrow> s' = snd (net_now net s)"

lemma confirmation_success:
  assumes "request_confirmation_with_get_item env pamh flags s = (PAM_SUCCESS, s')"
  shows "consented env flags s s'"
proof -
  have ne: "PAM_AUTHINFO_UNAVAIL \<noteq> PAM_SUCCESS" by (simp add: pam_codes)
  obtain status conv s1 where get: "pam_get_conv env s = ((status, conv), s1)" by (metis surj_pair)
  with assms ne have flags: "and flags PAM_SILENT = 0" and status: "status = PAM_SUCCESS"
    and conv: "request_confirmation_from_conv conv flags s1 = (PAM_SUCCESS, s')"
    by (auto simp: request_confirmation_with_get_item_def split: if_splits)
  then obtain callback where cb: "conv = Some (Some callback)"
    using ne by (auto simp: request_confirmation_from_conv_def split: option.splits)
  obtain status' responses s2 where call: "callback s1 = ((status', responses), s2)" by (metis surj_pair)
  from conv cb call flags ne obtain response answer where "status' = PAM_SUCCESS" "s2 = s'"
    "responses = Some response" "resp_retcode response = 0" "resp response = Some answer"
    "answer = [] \<or> answer = ascii ''OK''"
    by (auto simp: request_confirmation_from_conv_def confirmation_response_is_allowed_def
        split: if_splits option.splits)
  moreover from this have "response = \<lparr>resp = Some answer, resp_retcode = 0\<rparr>" by (cases response) simp
  ultimately show ?thesis using flags get status cb call unfolding consented_def by blast
qed

lemma prompt_deadline_clock: "prompt_deadline net t s = (r, s') \<Longrightarrow> clock_read net s s'"
  by (cases "net_now net s") (auto simp: prompt_deadline_def clock_read_def)

text \<open>The client after a prompt is required: it holds the token of the response that echoed its nonce.\<close>

lemma begin_prompt_required:
  assumes "begin_adaptive_ref net user nonce service origin prompt_client_new s = Some (Inr (PromptRequired md), c, s')"
  obtains p s1 where "clock_read net s s1"
    and "exchanged net (request_begin_auth_v1_ref user nonce service origin) (Some (RPromptRequiredV1 p)) s1 s'"
    and "pq_client_nonce p = nonce" and "length (pq_transaction_token p) = PROMPT_TOKEN_BYTES"
    and "pc_phase c = ClientPending"
    and "\<exists>ms. pc_pending c = Some \<lparr>pcp_transaction_token = pq_transaction_token p, pcp_client_nonce = nonce,
           pcp_commit_response_timeout_ms = ms\<rparr>"
proof -
  let ?b = "\<lparr>ba_protocol_version = PROMPT_PROTOCOL_VERSION, ba_username = user, ba_client_nonce = nonce,
    ba_policy = Some \<lparr>pp_pam_service = service, pp_origin = prompt_origin_i32 origin\<rparr>\<rparr>"
  obtain deadline s1 where d: "prompt_deadline net PROMPT_BEGIN_RESPONSE_TIMEOUT s = (Inr deadline, s1)"
    and run: "begin_adaptive_request_until net ?b deadline prompt_client_new s1 = Some (Inr (PromptRequired md), c, s')"
    using assms
    by (auto simp: begin_adaptive_ref_def request_begin_auth_v1_ref_def begin_adaptive_request_def
        split: sum.splits prod.splits)
  obtain s2 where send: "send_request net (Some (CmdBeginAuthV1 ?b)) s1 = Some (Inr (), s2)"
    using run by (auto simp: begin_adaptive_request_until_def split: if_splits sum.splits option.splits prod.splits)
  obtain r where recv: "receive_response_until net deadline s2 = Some (Inr r, s')"
    and r: "\<exists>p. r = Some (RPromptRequiredV1 p)"
    using run send
    by (auto simp: begin_adaptive_request_until_def split: if_splits sum.splits option.splits prod.splits
        resp_result.splits)
  then obtain p where p: "r = Some (RPromptRequiredV1 p)" by blast
  have "prompt_required_validate p = Inr ()" "pq_client_nonce p = nonce" "pc_phase c = ClientPending"
    "\<exists>ms. pc_pending c = Some \<lparr>pcp_transaction_token = pq_transaction_token p, pcp_client_nonce = nonce,
       pcp_commit_response_timeout_ms = ms\<rparr>"
    using run send recv p
    by (auto simp: begin_adaptive_request_until_def zeroizing_exact_array_def split: if_splits sum.splits)
  moreover have "exchanged net (request_begin_auth_v1_ref user nonce service origin) (Some (RPromptRequiredV1 p)) s1 s'"
    using send recv p unfolding exchanged_def request_begin_auth_v1_ref_def by blast
  ultimately show thesis
    using that prompt_deadline_clock [OF d] by (auto simp: prompt_required_validate_Inr)
qed

lemma begin_prompt_off:
  assumes "begin_adaptive_ref net user nonce service origin prompt_client_new s = Some (Inr PromptModeOff, c, s')"
  obtains e s1 where "clock_read net s s1"
    and "exchanged net (request_begin_auth_v1_ref user nonce service origin) (Some (RError e)) s1 s'"
    and "pe_code e = PROMPT_PROTOCOL_INCOMPATIBLE_ERROR" and "pc_phase c = ClientFinished"
proof -
  let ?b = "\<lparr>ba_protocol_version = PROMPT_PROTOCOL_VERSION, ba_username = user, ba_client_nonce = nonce,
    ba_policy = Some \<lparr>pp_pam_service = service, pp_origin = prompt_origin_i32 origin\<rparr>\<rparr>"
  obtain deadline s1 where d: "prompt_deadline net PROMPT_BEGIN_RESPONSE_TIMEOUT s = (Inr deadline, s1)"
    and run: "begin_adaptive_request_until net ?b deadline prompt_client_new s1 = Some (Inr PromptModeOff, c, s')"
    using assms
    by (auto simp: begin_adaptive_ref_def request_begin_auth_v1_ref_def begin_adaptive_request_def
        split: sum.splits prod.splits)
  obtain s2 where send: "send_request net (Some (CmdBeginAuthV1 ?b)) s1 = Some (Inr (), s2)"
    using run by (auto simp: begin_adaptive_request_until_def split: if_splits sum.splits option.splits prod.splits)
  obtain r where recv: "receive_response_until net deadline s2 = Some (Inr r, s')"
    and r: "\<exists>e. r = Some (RError e)"
    using run send
    by (auto simp: begin_adaptive_request_until_def split: if_splits sum.splits option.splits prod.splits
        resp_result.splits)
  then obtain e where e: "r = Some (RError e)" by blast
  have "pe_code e = PROMPT_PROTOCOL_INCOMPATIBLE_ERROR" "pc_phase c = ClientFinished"
    using run send recv e by (auto simp: begin_adaptive_request_until_def split: if_splits sum.splits)
  moreover have "exchanged net (request_begin_auth_v1_ref user nonce service origin) (Some (RError e)) s1 s'"
    using send recv e unfolding exchanged_def request_begin_auth_v1_ref_def by blast
  ultimately show thesis using that prompt_deadline_clock [OF d] by blast
qed

lemma commit_inversion:
  assumes "client_commit net c s = Some (Inr response, c', s')"
    and "pc_pending c = Some \<lparr>pcp_transaction_token = token, pcp_client_nonce = nonce,
           pcp_commit_response_timeout_ms = ms\<rparr>"
  obtains s1 where "clock_read net s s1" and "exchanged net (request_commit_auth_v1_ref token nonce) response s1 s'"
    and "pc_phase c' = ClientFinished"
proof -
  obtain timeout deadline s1 where d: "prompt_deadline net timeout s = (Inr deadline, s1)"
    and c: "pc_phase c' = ClientFinished"
    and run: "commit_pending_until net \<lparr>pcp_transaction_token = token, pcp_client_nonce = nonce,
      pcp_commit_response_timeout_ms = ms\<rparr> deadline s1 = Some (Inr response, s')"
    using assms
    by (auto simp: client_commit_def client_take_pending_def split: if_splits sum.splits prod.splits)
  from run obtain s2 where send: "send_request net (request_commit_auth_v1_ref token nonce) s1 = Some (Inr (), s2)"
    and "io_then (receive_response_until net deadline s2) (\<lambda>response s.
      if \<not> is_prompt_auth_terminal_response response then Some (Inl InvalidData, s) else Some (Inr response, s))
      = Some (Inr response, s')"
    unfolding commit_pending_until_def by (elim io_then_InrE) simp
  then have "receive_response_until net deadline s2 = Some (Inr response, s')"
    by (elim io_then_InrE) (simp split: if_splits)
  with send have "exchanged net (request_commit_auth_v1_ref token nonce) response s1 s'"
    unfolding exchanged_def by blast
  with that prompt_deadline_clock [OF d] c show thesis by blast
qed

lemma map_auth_response_success:
  "map_auth_response r = PAM_SUCCESS \<Longrightarrow> \<exists>x. r = Some (RSuccess x)"
  by (auto simp: map_auth_response_def pam_codes split: option.splits resp_result.splits)

text \<open>The prompt was required, the user consented, and the commit of exactly that transaction was
  answered with success.\<close>

definition success_by_prompt ::
  "('s, 'm) pam_env_scheme \<Rightarrow> u32 \<Rightarrow> str \<Rightarrow> bytes \<Rightarrow> str \<Rightarrow> prompt_origin \<Rightarrow> 's \<Rightarrow> 's \<Rightarrow> bool" where
  "success_by_prompt env flags user nonce service origin s s' \<longleftrightarrow>
     (\<exists>p x s1 s2 s3. exchanged (net_of env) (request_begin_auth_v1_ref user nonce service origin)
          (Some (RPromptRequiredV1 p)) s s1
        \<and> pq_client_nonce p = nonce
        \<and> consented env flags s1 s2 \<and> clock_read (net_of env) s2 s3
        \<and> exchanged (net_of env) (request_commit_auth_v1_ref (pq_transaction_token p) nonce) (Some (RSuccess x)) s3 s')"

text \<open>The daemon answered that prompts are off, and the one-shot authentication on a new connection was
  answered with success before its deadline.\<close>

definition success_without_prompt ::
  "('s, 'm) pam_env_scheme \<Rightarrow> str \<Rightarrow> bytes \<Rightarrow> str \<Rightarrow> prompt_origin \<Rightarrow> 's \<Rightarrow> 's \<Rightarrow> bool" where
  "success_without_prompt env user nonce service origin s s' \<longleftrightarrow>
     (\<exists>e x s1 s2 s3 start deadline s4 now. exchanged (net_of env) (request_begin_auth_v1_ref user nonce service origin)
          (Some (RError e)) s s1
        \<and> pe_code e = PROMPT_PROTOCOL_INCOMPATIBLE_ERROR
        \<and> open_stream env s1 = (Inr (), s2) \<and> net_now env s2 = (start, s3)
        \<and> request_message_until (net_of env) (request_authenticate_v1 user 0) deadline s3 = Some (Inr (Some (RSuccess x)), s4)
        \<and> deadline = start + PAM_AUTH_CEILING \<and> net_now env s4 = (now, s') \<and> now < deadline)"

lemma confirm_and_commit_success:
  assumes run: "confirm_and_commit env pamh flags c s = Some (PAM_SUCCESS, s')"
    and "pc_pending c = Some \<lparr>pcp_transaction_token = token, pcp_client_nonce = nonce,
           pcp_commit_response_timeout_ms = ms\<rparr>"
  obtains x s2 s3 where "consented env flags s s2" and "clock_read (net_of env) s2 s3"
    and "exchanged (net_of env) (request_commit_auth_v1_ref token nonce) (Some (RSuccess x)) s3 s'"
proof -
  have ne: "PAM_AUTHINFO_UNAVAIL \<noteq> PAM_SUCCESS" by (simp add: pam_codes)
  obtain code s2 where conf: "request_confirmation_with_get_item env pamh flags s = (code, s2)" by (metis surj_pair)
  have code: "code = PAM_SUCCESS"
    using run conf ne by (auto simp: confirm_and_commit_def split: if_splits option.splits)
  obtain response c' s4 where commit: "client_commit (net_of env) c s2 = Some (Inr response, c', s4)"
    and map: "map_auth_response response = PAM_SUCCESS" and drop: "client_drop (net_of env) c' s4 = Some s'"
    using run conf code ne
    by (auto simp: confirm_and_commit_def split: if_splits option.splits sum.splits)
  obtain s3 where s3: "clock_read (net_of env) s2 s3"
    "exchanged (net_of env) (request_commit_auth_v1_ref token nonce) response s3 s4" "pc_phase c' = ClientFinished"
    using commit_inversion [OF commit assms(2)] by blast
  have "s4 = s'" using drop s3(3) by (simp add: client_drop_def)
  moreover obtain x where "response = Some (RSuccess x)" using map_auth_response_success [OF map] by blast
  moreover have "consented env flags s s2" using conf code by (simp add: confirmation_success)
  ultimately show thesis using that [of s2 s3 x] s3(1,2) by simp
qed

lemma without_prompt_success:
  assumes run: "authenticate_without_prompt env user PAM_AUTH_CEILING s = Some (PAM_SUCCESS, s')"
  obtains x s2 start s3 s4 now where "open_stream env s = (Inr (), s2)" and "net_now env s2 = (start, s3)"
    and "request_message_until (net_of env) (request_authenticate_v1 user 0) (start + PAM_AUTH_CEILING) s3
           = Some (Inr (Some (RSuccess x)), s4)"
    and "net_now env s4 = (now, s')" and "now < start + PAM_AUTH_CEILING"
proof -
  have ne: "PAM_AUTHINFO_UNAVAIL \<noteq> PAM_SUCCESS" by (simp add: pam_codes)
  obtain s2 where o: "open_stream env s = (Inr (), s2)"
    using run ne by (auto simp: authenticate_without_prompt_def split: sum.splits prod.splits)
  obtain start s3 where n: "net_now env s2 = (start, s3)" by (cases "net_now env s2")
  have add: "instant_checked_add start PAM_AUTH_CEILING = Some (start + PAM_AUTH_CEILING)"
    using run o n ne by (auto simp: authenticate_without_prompt_def instant_checked_add_def split: if_splits)
  obtain response s4 where r: "request_message_until (net_of env) (request_authenticate_v1 user 0)
      (start + PAM_AUTH_CEILING) s3 = Some (Inr response, s4)"
    using run o n add ne by (auto simp: authenticate_without_prompt_def split: option.splits sum.splits)
  obtain now s5 where n5: "net_now env s4 = (now, s5)" by (cases "net_now env s4")
  have "now < start + PAM_AUTH_CEILING" "map_auth_response response = PAM_SUCCESS" "s5 = s'"
    using run o n add r n5 ne by (auto simp: authenticate_without_prompt_def split: if_splits)
  moreover from this(2) obtain x where "response = Some (RSuccess x)" by (metis map_auth_response_success)
  ultimately show thesis using that [of s2 start s3 x s4 now] o n r n5 by simp
qed

subsection \<open>Return\<close>

lemma net_of_simps [simp]:
  "net_read (net_of env) = net_read env" "net_write (net_of env) = net_write env"
  "net_flush (net_of env) = net_flush env" "net_now (net_of env) = net_now env"
  "net_set_read_timeout (net_of env) = net_set_read_timeout env"
  "net_set_write_timeout (net_of env) = net_set_write_timeout env"
  "net_encode (net_of env) = net_encode env" "net_decode (net_of env) = net_decode env"
  by (simp_all add: net.defs)

lemma receive_returns:
  "clock_runs net tm \<Longrightarrow> \<exists>r s'. receive_response_until net deadline s = Some (r, s')"
  unfolding receive_response_until_def by (rule recv_returns)

lemma returns_notNone: "(\<exists>r s'. m = Some (r, s')) \<longleftrightarrow> m \<noteq> None"
  by auto

lemma begin_returns:
  assumes "clock_runs net tm" and "interruptions_end net pending"
  shows "begin_adaptive_ref net user nonce service origin c s \<noteq> None"
  by (auto simp: begin_adaptive_ref_def request_begin_auth_v1_ref_def begin_adaptive_request_def
      begin_adaptive_request_until_def receive_returns [OF assms(1), unfolded returns_notNone]
      send_request_returns [OF assms(2), unfolded returns_notNone]
      split: sum.splits prod.splits option.splits resp_result.splits)

lemma commit_returns:
  assumes "clock_runs net tm" and "interruptions_end net pending"
  shows "client_commit net c s \<noteq> None"
proof -
  have "\<exists>r s'. commit_pending_until net p d s = Some (r, s')" for p d s
    unfolding commit_pending_until_def
    by (intro io_then_returns send_request_returns [OF assms(2)] receive_returns [OF assms(1)]) auto
  note c = this this [unfolded returns_notNone]
  show ?thesis by (auto simp: client_commit_def c split: sum.splits prod.splits)
qed

lemma cancel_returns:
  assumes "clock_runs net tm" and "interruptions_end net pending"
  shows "client_cancel net c s \<noteq> None" and "client_drop net c s \<noteq> None"
proof -
  have "\<exists>r s'. send_request_until net q d s = Some (r, s')" for q d s
    using send_request_returns [OF assms(2)]
    by (auto simp: send_request_until_def split: prod.splits sum.splits)
  then have "\<exists>r s'. cancel_pending_until net p d s = Some (r, s')" for p d s
    unfolding cancel_pending_until_def
    by (intro io_then_returns receive_returns [OF assms(1)]) (auto split: option.splits resp_result.splits)
  note c = this this [unfolded returns_notNone]
  have cancel: "client_cancel net c s \<noteq> None" for c s
    by (auto simp: client_cancel_def c split: sum.splits prod.splits)
  then show "client_cancel net c s \<noteq> None" .
  show "client_drop net c s \<noteq> None" using cancel [of c s] by (auto simp: client_drop_def)
qed

lemma confirm_and_commit_returns:
  assumes "clock_runs (net_of env) tm" and "interruptions_end (net_of env) pending"
  shows "\<exists>code s'. confirm_and_commit env pamh flags c s = Some (code, s')"
    and "confirm_and_commit env pamh flags c s = Some (code, s') \<Longrightarrow>
      code \<in> {PAM_SUCCESS, PAM_AUTH_ERR, PAM_AUTHINFO_UNAVAIL}"
proof -
  show "\<exists>code s'. confirm_and_commit env pamh flags c s = Some (code, s')"
    unfolding returns_notNone
    by (auto simp: confirm_and_commit_def cancel_returns [OF assms] commit_returns [OF assms]
        cancel_returns(2) [OF assms, unfolded not_None_eq] split: prod.splits option.splits)
  show "confirm_and_commit env pamh flags c s = Some (code, s') \<Longrightarrow>
      code \<in> {PAM_SUCCESS, PAM_AUTH_ERR, PAM_AUTHINFO_UNAVAIL}"
    by (auto simp: confirm_and_commit_def map_auth_response_def
        split: prod.splits if_splits option.splits sum.splits resp_result.splits)
qed

lemma without_prompt_returns:
  assumes "clock_runs (net_of env) tm"
  shows "\<exists>code s'. authenticate_without_prompt env user auth_ceiling s = Some (code, s')"
    and "authenticate_without_prompt env user auth_ceiling s = Some (code, s') \<Longrightarrow>
      code \<in> {PAM_SUCCESS, PAM_AUTH_ERR, PAM_AUTHINFO_UNAVAIL}"
proof -
  show "\<exists>code s'. authenticate_without_prompt env user auth_ceiling s = Some (code, s')"
    unfolding returns_notNone
    by (auto simp: authenticate_without_prompt_def request_message_until_returns [OF assms, unfolded returns_notNone]
        split: prod.splits option.splits sum.splits)
  show "authenticate_without_prompt env user auth_ceiling s = Some (code, s') \<Longrightarrow>
      code \<in> {PAM_SUCCESS, PAM_AUTH_ERR, PAM_AUTHINFO_UNAVAIL}"
    by (auto simp: authenticate_without_prompt_def map_auth_response_def
        split: prod.splits if_splits option.splits sum.splits resp_result.splits)
qed

subsection \<open>The properties\<close>

text \<open>What \<open>authenticate_user_with\<close> does with the outcome of the first exchange.\<close>

definition after_begin ::
  "('s, 'm) pam_env_scheme \<Rightarrow> bool \<Rightarrow> u32 \<Rightarrow> str
   \<Rightarrow> ((io_error + prompt_begin_outcome) \<times> prompt_client \<times> 's) option \<Rightarrow> (int \<times> 's) option" where
  "after_begin env pamh flags user out =
     (case out of
        None \<Rightarrow> None
      | Some (Inr (PromptRequired _), prompt, s) \<Rightarrow> confirm_and_commit env pamh flags prompt s
      | Some (Inr PromptModeOff, prompt, s) \<Rightarrow>
          (case client_drop (net_of env) prompt s of
             None \<Rightarrow> None
           | Some s \<Rightarrow> authenticate_without_prompt env user PAM_AUTH_CEILING s)
      | Some (Inl _, prompt, s) \<Rightarrow>
          map_option (Pair PAM_AUTHINFO_UNAVAIL) (client_drop (net_of env) prompt s))"

lemma authenticate_stages:
  assumes "pam_sm_authenticate env pamh flags s = Some (PAM_SUCCESS, s')"
  obtains user s1 service origin s2 bs s3 s4 where
    "pam_get_user env s = ((PAM_SUCCESS, Some user), s1)" and "is_valid_username user" and "user \<noteq> ascii ''root''"
    and "read_pam_policy env s1 = (Inr (service, origin), s2)" and "pam_fill_nonce env s2 = (Some bs, s3)"
    and "open_stream env s3 = (Inr (), s4)"
    and "after_begin env pamh flags user
      (begin_adaptive_ref (net_of env) user (filled PROMPT_NONCE_BYTES bs) service origin prompt_client_new s4)
      = Some (PAM_SUCCESS, s')"
proof -
  have ne: "PAM_AUTHINFO_UNAVAIL \<noteq> PAM_SUCCESS" "PAM_SYSTEM_ERR \<noteq> PAM_SUCCESS" "PAM_USER_UNKNOWN \<noteq> PAM_SUCCESS"
    by (simp_all add: pam_codes)
  note run = assms [unfolded pam_sm_authenticate_def authenticate_user_with_def, folded after_begin_def]
  obtain user s1 where u: "pam_get_user env s = ((PAM_SUCCESS, Some user), s1)" "is_valid_username user"
    "user \<noteq> ascii ''root''"
    using run ne by (auto split: if_splits option.splits prod.splits)
  obtain service origin s2 where p: "read_pam_policy env s1 = (Inr (service, origin), s2)"
    using run ne u by (auto split: if_splits sum.splits prod.splits)
  obtain bs s3 where n: "pam_fill_nonce env s2 = (Some bs, s3)"
    using run ne u p by (auto split: if_splits option.splits prod.splits)
  obtain s4 where o: "open_stream env s3 = (Inr (), s4)"
    using run ne u p n by (auto split: if_splits sum.splits prod.splits)
  show thesis using run u p n o ne by (intro that [OF u p n o]) (auto split: if_splits)
qed

lemma read_pam_policy_valid:
  "read_pam_policy env s = (Inr (service, origin), s') \<Longrightarrow>
   is_valid_pam_service service \<and> origin \<in> {OriginLocal, OriginRemote}"
  by (auto simp: read_pam_policy_def split: if_splits sum.splits option.splits prod.splits)

text \<open>An environment that works: the state is the time and what is left to read.  The daemon's two answers
  are the payloads \<open>[1]\<close> and \<open>[2]\<close>.\<close>

definition sample_token :: bytes where "sample_token = replicate 32 7"

definition sample_prompt :: prompt_required where
  "sample_prompt = \<lparr>pq_protocol_version = 1, pq_transaction_token = sample_token,
     pq_client_nonce = replicate 32 9, pq_prompt_timeout_ms = 5000, pq_commit_response_timeout_ms = 5000\<rparr>"

definition sample_answer :: "bytes \<Rightarrow> response" where
  "sample_answer bs =
     (if bs = [1] then Some (RPromptRequiredV1 sample_prompt)
      else Some (RSuccess \<lparr>as_model_index = 0, as_model_label = [], as_score = 0, as_elapsed_ms = 0\<rparr>))"

definition sample_env :: "(nat \<times> bytes) pam_env" where
  "sample_env = \<lparr>net_read = \<lambda>n (t, bs). (Inr (take n bs), t, drop n bs),
     net_write = \<lambda>bs s. (Inr (length bs), s), net_flush = \<lambda>s. (Inr (), s),
     net_set_read_timeout = \<lambda>d s. (Inr (), s), net_set_write_timeout = \<lambda>d s. (Inr (), s),
     net_now = \<lambda>(t, bs). (t, Suc t, bs), net_encode = \<lambda>r. [3],
     net_decode = \<lambda>bs. Some (sample_answer bs),
     pam_get_user = \<lambda>s. ((0, Some (ascii ''alice'')), s),
     pam_get_string_item = \<lambda>i s. ((0, if i = PAM_SERVICE then Some (ascii ''sudo'') else None), s),
     pam_get_conv = \<lambda>s. ((0, Some (Some (\<lambda>s. ((0, Some \<lparr>resp = Some [], resp_retcode = 0\<rparr>), s)))), s),
     pam_connect = \<lambda>s. (Inr (), s), pam_fill_nonce = \<lambda>s. (Some (replicate 32 9), s)\<rparr>"

lemma sample_env_clock: "clock_runs (net_of sample_env) fst" "interruptions_end (net_of sample_env) (\<lambda>_. 0)"
  by (auto simp: clock_runs_def interruptions_end_def sample_env_def)

lemma sample_net_simps [simp]:
  "net_read sample_env n (t, bs) = (Inr (take n bs), t, drop n bs)"
  "net_write sample_env bs s = (Inr (length bs), s)"
  "net_flush sample_env s = (Inr (), s)"
  "net_set_read_timeout sample_env d s = (Inr (), s)"
  "net_now sample_env (t, bs) = (t, Suc t, bs)"
  "net_encode sample_env r = [3]"
  "net_decode sample_env bs = Some (sample_answer bs)"
  by (simp_all add: sample_env_def)

lemma sample_send: "send_request (net_of sample_env) r s = Some (Inr (), s)"
  by (simp add: send_request_def send_message_reuse_def write_all.simps frame_def)

lemma sample_read:
  assumes "0 < n" and "n \<le> length bs" and "t < deadline"
  shows "read_exact_until (net_of sample_env) deadline never_cancelled [] n (t, bs) = Some (Inr (take n bs), Suc t, drop n bs)"
  using assms by (auto simp: read_exact_until.simps [of _ _ _ _ n] never_cancelled_def)

lemma sample_receive:
  assumes "Suc t < deadline"
  shows "receive_response_until (net_of sample_env) deadline (t, 0 # 0 # 0 # 1 # b # bs)
    = Some (Inr (sample_answer [b]), t + 2, bs)"
  using assms by (simp add: receive_response_until_def recv_prompt_message_until_def sample_read from_be_u32_def
      validate_message_size_def MAX_MESSAGE_SIZE_def decode_message_def)

definition sample_client :: prompt_client where
  "sample_client = \<lparr>pc_phase = ClientPending, pc_pending = Some \<lparr>pcp_transaction_token = sample_token,
     pcp_client_nonce = replicate 32 9, pcp_commit_response_timeout_ms = 5000\<rparr>\<rparr>"

definition sample_begn :: begin_auth_req where
  "sample_begn = \<lparr>ba_protocol_version = PROMPT_PROTOCOL_VERSION, ba_username = ascii ''alice'',
     ba_client_nonce = replicate 32 9,
     ba_policy = Some \<lparr>pp_pam_service = ascii ''sudo'', pp_origin = prompt_origin_i32 OriginLocal\<rparr>\<rparr>"

lemma sample_values:
  "begin_auth_validate sample_begn = Inr ()"
  "prompt_required_validate sample_prompt = Inr ()"
  "valid_utf8 (ascii ''alice'') \<and> is_valid_username (ascii ''alice'') \<and> ascii ''alice'' \<noteq> ascii ''root''"
  "filled PROMPT_NONCE_BYTES (replicate 32 9) = replicate 32 9"
  by code_simp+

lemma sample_timeout: "prompt_commit_read_timeout 5000 = Inr 5250000000"
  by (simp add: prompt_commit_read_timeout_def COMMIT_RESPONSE_TIMEOUT_MS_MIN_def COMMIT_RESPONSE_TIMEOUT_MS_MAX_def
      from_millis_def PROMPT_TRANSPORT_MARGIN_MS_def)

lemma sample_begin:
  "begin_adaptive_ref (net_of sample_env) (ascii ''alice'') (replicate 32 9) (ascii ''sudo'') OriginLocal prompt_client_new
     (5, [0, 0, 0, 1, 1, 0, 0, 0, 1, 2])
   = Some (Inr (PromptRequired \<lparr>pm_prompt_timeout_ms = 5000, pm_commit_response_timeout_ms = 5000\<rparr>),
       sample_client, 8, [0, 0, 0, 1, 2])"
proof -
  have "sample_answer [1] = Some (RPromptRequiredV1 sample_prompt)" by (simp add: sample_answer_def)
  moreover have "prompt_deadline (net_of sample_env) PROMPT_BEGIN_RESPONSE_TIMEOUT (5, bs) = (Inr 10000000005, 6, bs)" for bs
    by (simp add: prompt_deadline_def PROMPT_BEGIN_RESPONSE_TIMEOUT_def instant_checked_add_def)
  moreover have "request_begin_auth_v1_ref (ascii ''alice'') (replicate 32 9) (ascii ''sudo'') OriginLocal
      = Some (CmdBeginAuthV1 sample_begn)" by (simp only: request_begin_auth_v1_ref_def sample_begn_def)
  moreover have "ba_client_nonce sample_begn = replicate 32 9" by (simp add: sample_begn_def)
  moreover have "pq_client_nonce sample_prompt = replicate 32 9" "pq_transaction_token sample_prompt = sample_token"
    "pq_prompt_timeout_ms sample_prompt = 5000" "pq_commit_response_timeout_ms sample_prompt = 5000"
    "length sample_token = 32"
    by (simp_all add: sample_prompt_def sample_token_def)
  ultimately show ?thesis
    by (simp add: begin_adaptive_ref_def begin_adaptive_request_def begin_adaptive_request_until_def sample_send
      sample_receive sample_values(1,2) prompt_client_new_def zeroizing_exact_array_def
      constant_time_slice_eq_iff PROMPT_NONCE_BYTES_def PROMPT_TOKEN_BYTES_def sample_client_def)
qed

lemma sample_commit:
  "confirm_and_commit sample_env True 0 sample_client (8, [0, 0, 0, 1, 2]) = Some (PAM_SUCCESS, (11, []))"
proof -
  have "request_confirmation_with_get_item sample_env True 0 s = (PAM_SUCCESS, s)" for s
    by (simp add: request_confirmation_with_get_item_def request_confirmation_from_conv_def sample_env_def
      PAM_SUCCESS_def PAM_SILENT_def confirmation_response_is_allowed_def)
  moreover have "prompt_deadline (net_of sample_env) 5250000000 (8, bs) = (Inr 5250000008, 9, bs)" for bs
    by (simp add: prompt_deadline_def instant_checked_add_def)
  moreover have "\<exists>r. sample_answer [2] = Some (RSuccess r)" by (simp add: sample_answer_def)
  ultimately show ?thesis
    by (auto simp: confirm_and_commit_def sample_client_def client_commit_def client_take_pending_def
      commit_pending_until_def sample_send sample_receive sample_timeout is_prompt_auth_terminal_response_def
      map_auth_response_def client_drop_def)
qed

lemma sample_success:
  "pam_sm_authenticate sample_env True 0 (5, [0, 0, 0, 1, 1, 0, 0, 0, 1, 2]) = Some (PAM_SUCCESS, (11, []))"
proof -
  have "read_pam_policy sample_env s = (Inr (ascii ''sudo'', OriginLocal), s)" for s
  proof -
    have "is_valid_pam_service (ascii ''sudo'') \<and> length (ascii ''sudo'') \<le> PAM_SERVICE_MAX_BYTES
        \<and> valid_utf8 (ascii ''sudo'') \<and> PAM_RHOST \<noteq> PAM_SERVICE" by code_simp
    then show ?thesis by (simp add: read_pam_policy_def read_pam_string_item_def sample_env_def PAM_SUCCESS_def)
  qed
  moreover have "open_stream sample_env s = (Inr (), s)" for s
    by (simp add: open_stream_def configure_stream_def sample_env_def)
  moreover have "pam_get_user sample_env s = ((PAM_SUCCESS, Some (ascii ''alice'')), s)"
    "pam_fill_nonce sample_env s = (Some (replicate 32 9), s)" for s
    by (simp_all add: sample_env_def PAM_SUCCESS_def)
  ultimately show ?thesis using sample_values(3)
    by (simp add: pam_sm_authenticate_def authenticate_user_with_def sample_values(4) sample_begin sample_commit)
qed

text \<open>C9. The PAM module never says yes on its own.  Whenever \<open>pam_sm_authenticate\<close> returns success, PAM
  named a valid user other than root and a valid service, and then one of two things happened: the daemon
  required a prompt echoing this module's nonce, the user consented in the conversation after that, and the
  commit of exactly that transaction, sent after the consent, was answered with success; or the daemon
  answered with exactly the code for prompts being off, and the one-shot request for that user was answered
  with success before its deadline.\<close>

theorem pam_success_only_granted:
  assumes "pam_sm_authenticate env pamh flags s = Some (PAM_SUCCESS, s')"
  shows "\<exists>user service origin nonce start.
    fst (pam_get_user env s) = (PAM_SUCCESS, Some user) \<and> is_valid_username user \<and> user \<noteq> ascii ''root''
    \<and> is_valid_pam_service service \<and> origin \<in> {OriginLocal, OriginRemote} \<and> length nonce = PROMPT_NONCE_BYTES
    \<and> (success_by_prompt env flags user nonce service origin start s'
       \<or> success_without_prompt env user nonce service origin start s')"
proof -
  obtain user s1 service origin s2 bs s3 s4 where
    u: "pam_get_user env s = ((PAM_SUCCESS, Some user), s1)" "is_valid_username user" "user \<noteq> ascii ''root''"
    and p: "read_pam_policy env s1 = (Inr (service, origin), s2)"
    and "pam_fill_nonce env s2 = (Some bs, s3)" "open_stream env s3 = (Inr (), s4)"
    and run: "after_begin env pamh flags user
      (begin_adaptive_ref (net_of env) user (filled PROMPT_NONCE_BYTES bs) service origin prompt_client_new s4)
      = Some (PAM_SUCCESS, s')"
    by (rule authenticate_stages [OF assms])
  let ?nonce = "filled PROMPT_NONCE_BYTES bs"
  have ne: "PAM_AUTHINFO_UNAVAIL \<noteq> PAM_SUCCESS" by (simp add: pam_codes)
  obtain outcome c s5 where b: "begin_adaptive_ref (net_of env) user ?nonce service origin prompt_client_new s4
      = Some (Inr outcome, c, s5)"
    using run ne by (auto simp: after_begin_def split: option.splits sum.splits)
  have "\<exists>start. success_by_prompt env flags user ?nonce service origin start s'
      \<or> success_without_prompt env user ?nonce service origin start s'"
  proof (cases outcome)
    case (PromptRequired md)
    obtain q start ms where q: "exchanged (net_of env) (request_begin_auth_v1_ref user ?nonce service origin)
        (Some (RPromptRequiredV1 q)) start s5" "pq_client_nonce q = ?nonce"
      "pc_pending c = Some \<lparr>pcp_transaction_token = pq_transaction_token q, pcp_client_nonce = ?nonce,
         pcp_commit_response_timeout_ms = ms\<rparr>"
      using begin_prompt_required [OF b [unfolded PromptRequired]] by metis
    have "confirm_and_commit env pamh flags c s5 = Some (PAM_SUCCESS, s')" using run b PromptRequired by (simp add: after_begin_def)
    from confirm_and_commit_success [OF this q(3)] obtain x s6 s7 where "consented env flags s5 s6"
      "clock_read (net_of env) s6 s7"
      "exchanged (net_of env) (request_commit_auth_v1_ref (pq_transaction_token q) ?nonce) (Some (RSuccess x)) s7 s'" .
    with q(1,2) have "success_by_prompt env flags user ?nonce service origin start s'"
      unfolding success_by_prompt_def by blast
    then show ?thesis by blast
  next
    case PromptModeOff
    obtain e start where e: "exchanged (net_of env) (request_begin_auth_v1_ref user ?nonce service origin)
        (Some (RError e)) start s5" "pe_code e = PROMPT_PROTOCOL_INCOMPATIBLE_ERROR" "pc_phase c = ClientFinished"
      using begin_prompt_off [OF b [unfolded PromptModeOff]] by metis
    then have "authenticate_without_prompt env user PAM_AUTH_CEILING s5 = Some (PAM_SUCCESS, s')"
      using run b PromptModeOff by (simp add: after_begin_def client_drop_def)
    from without_prompt_success [OF this] e(1,2)
    have "success_without_prompt env user ?nonce service origin start s'"
      unfolding success_without_prompt_def by metis
    then show ?thesis by blast
  qed
  then obtain start where "success_by_prompt env flags user ?nonce service origin start s'
      \<or> success_without_prompt env user ?nonce service origin start s'" by blast
  moreover have "length ?nonce = PROMPT_NONCE_BYTES" by (simp add: filled_def)
  moreover note read_pam_policy_valid [OF p]
  ultimately show ?thesis
    using u by (intro exI [of _ user] exI [of _ service] exI [of _ origin] exI [of _ ?nonce] exI [of _ start]) simp
qed

theorem pam_success_only_granted_witness:
  "\<exists>user service origin nonce start.
     fst (pam_get_user sample_env (5, [0, 0, 0, 1, 1, 0, 0, 0, 1, 2])) = (PAM_SUCCESS, Some user)
     \<and> (success_by_prompt sample_env 0 user nonce service origin start (11, [])
        \<or> success_without_prompt sample_env user nonce service origin start (11, []))"
  using pam_success_only_granted [OF sample_success] by blast

text \<open>C22. The PAM module always returns.  If the clock runs and interruptions of writes end, then whatever
  the daemon sends or withholds \<open>pam_sm_authenticate\<close> returns, and with a status of its own (success,
  failure, or one of the statuses that let another method be tried) or with the failure PAM reported.\<close>

theorem pam_authenticate_returns:
  assumes "clock_runs (net_of env) tm" and "interruptions_end (net_of env) pending"
  shows "\<exists>code s'. pam_sm_authenticate env pamh flags s = Some (code, s')
    \<and> (code \<in> {PAM_SUCCESS, PAM_AUTH_ERR, PAM_AUTHINFO_UNAVAIL, PAM_SYSTEM_ERR, PAM_USER_UNKNOWN}
       \<or> code = fst (fst (pam_get_user env s)))"
proof -
  note ret = begin_returns [OF assms] cancel_returns(2) [OF assms] cancel_returns(2) [OF assms, unfolded not_None_eq]
  note later = confirm_and_commit_returns [OF assms] without_prompt_returns [OF assms(1)]
  have "pam_sm_authenticate env pamh flags s \<noteq> None"
    using later(1,3)
    by (auto simp: pam_sm_authenticate_def authenticate_user_with_def ret
        split: prod.splits option.splits sum.splits prompt_begin_outcome.splits)
  moreover have "code \<in> {PAM_SUCCESS, PAM_AUTH_ERR, PAM_AUTHINFO_UNAVAIL, PAM_SYSTEM_ERR, PAM_USER_UNKNOWN}
      \<or> code = fst (fst (pam_get_user env s))" if "pam_sm_authenticate env pamh flags s = Some (code, s')" for code s'
    using that
    by (auto simp: pam_sm_authenticate_def authenticate_user_with_def dest!: later(2) later(4)
        split: prod.splits if_splits option.splits sum.splits prompt_begin_outcome.splits)
  ultimately show ?thesis by auto
qed

theorem pam_authenticate_returns_witness:
  "\<exists>code s'. pam_sm_authenticate sample_env True 0 (5, [0, 0]) = Some (code, s')"
  using pam_authenticate_returns [OF sample_env_clock, of True 0 "(5, [0, 0])"] by blast

text \<open>C40. The names the PAM module takes are the canonical user names without two adjacent dots.  So a
  canonical name such as \<open>first..last\<close>, for which records can be enrolled, is an unknown user to the PAM
  module.\<close>

theorem pam_username_grammar:
  "is_valid_username name \<longleftrightarrow> is_canonical_username name \<and> \<not> contains_dot_dot name"
proof -
  have "47 \<notin> set name \<and> 0 \<notin> set name" if "list_all is_name_byte name"
    using that by (auto simp: list_all_iff is_name_byte_def is_ascii_alphanumeric_def)
  moreover have "is_canonical_username name \<longleftrightarrow> name \<noteq> [] \<and> length name \<le> 64 \<and> list_all is_name_byte name"
    by (simp add: is_canonical_username_def is_name_byte_def [abs_def] Suc_le_eq)
  ultimately show ?thesis by (auto simp: is_valid_username_def)
qed

end
