(* ===== verification/ServerPrompt.thy ===== *)
theory ServerPrompt
  imports Ipc
begin

section \<open>The daemon's side of a prompt transaction\<close>

text \<open>
  The prompt part of \<^verbatim>\<open>crates/howy-daemon/src/server.rs\<close>: the pending record, the state machine of a
  connection, the policy, and the two handlers that open a transaction (\<open>prepare_prompt_pending\<close>) and
  turn its commit into a lease (\<open>claim_prompt_commit\<close>).  They call the manager of
  \<open>PromptState\<close> and the authorization of \<open>Authorization\<close>.

  A connection is served by one thread among others.  Its state is the manager's world, which all
  threads share, and a state \<open>'s\<close> for everything else.  Each call of the environment may change both:
  what other threads do meanwhile is part of it.  \<open>se_others\<close> is what they do before this thread
  obtains the manager's mutex in an operation that does not read the clock.

  A record that is dropped gives up its guards; the drops are written out.  \<open>expect\<close> on a value that a
  validation has just accepted does not fail, and the branch is merged with the error beside it.
\<close>

type_synonym ('p, 's) daemon = "'p prompt_world \<times> 's"

text \<open>The immutable part of a \<open>PromptTransactionManager\<close>.\<close>

record 'p prompt_manager =
  pm_sha256 :: hash
  pm_fill :: "'p entropy_source"
  pm_inner :: manager_inner

record ('p, 's) server_env = "(('p, 's) daemon, response, request) net" +
  se_others :: "('p, 's) daemon \<Rightarrow> ('p, 's) daemon"
  se_resolver :: "('p, 's) daemon \<Rightarrow> resolver \<times> ('p, 's) daemon"
  se_prompt_snapshot ::
    "str \<Rightarrow> ('p, 's) daemon \<Rightarrow> (storage_backend_error + prompt_storage_snapshot) \<times> ('p, 's) daemon"

definition with_manager ::
  "('p, 's, 'm) server_env_scheme \<Rightarrow> ('p prompt_world \<Rightarrow> 'a \<times> 'p prompt_world) \<Rightarrow> ('p, 's) daemon \<Rightarrow> 'a \<times> ('p, 's) daemon" where
  "with_manager env call d =
     (case se_others env d of (w, x) \<Rightarrow> case call w of (r, w) \<Rightarrow> (r, w, x))"

definition at_now ::
  "('p, 's, 'm) server_env_scheme \<Rightarrow> (instant \<Rightarrow> 'p prompt_world \<Rightarrow> 'a \<times> 'p prompt_world) \<Rightarrow> ('p, 's) daemon
   \<Rightarrow> 'a \<times> ('p, 's) daemon" where
  "at_now env call d =
     (case net_now env d of (now, w, x) \<Rightarrow> case call now w of (r, w) \<Rightarrow> (r, w, x))"

subsection \<open>Pending records\<close>

record pending_prompt_record =
  ppr_username :: str
  ppr_target_uid :: u32
  ppr_peer_uid :: u32
  ppr_connection_id :: "connection_id option"
  ppr_transaction_token :: bytes
  ppr_client_nonce :: bytes
  ppr_pam_service :: str
  ppr_origin :: prompt_origin
  ppr_prompt_timeout_ms :: u32
  ppr_commit_response_timeout_ms :: u32
  ppr_issue :: "pending_issue option"
  ppr_claim :: "commit_claim option"

definition drop_issue :: "('p, 's, 'm) server_env_scheme \<Rightarrow> pending_issue \<Rightarrow> ('p, 's) daemon \<Rightarrow> ('p, 's) daemon" where
  "drop_issue env g d = snd (with_manager env (\<lambda>w. ((), drop_pending_issue g w)) d)"

definition drop_claim :: "('p, 's, 'm) server_env_scheme \<Rightarrow> commit_claim \<Rightarrow> ('p, 's) daemon \<Rightarrow> ('p, 's) daemon" where
  "drop_claim env g d = snd (with_manager env (\<lambda>w. ((), drop_commit_claim g w)) d)"

definition drop_reservation ::
  "('p, 's, 'm) server_env_scheme \<Rightarrow> begin_reservation \<Rightarrow> ('p, 's) daemon \<Rightarrow> ('p, 's) daemon" where
  "drop_reservation env g d = snd (with_manager env (\<lambda>w. ((), drop_begin_reservation g w)) d)"

definition drop_pending_prompt ::
  "('p, 's, 'm) server_env_scheme \<Rightarrow> pending_prompt_record \<Rightarrow> ('p, 's) daemon \<Rightarrow> ('p, 's) daemon" where
  "drop_pending_prompt env r d =
     (let d = (case ppr_issue r of None \<Rightarrow> d | Some g \<Rightarrow> drop_issue env g d)
      in case ppr_claim r of None \<Rightarrow> d | Some g \<Rightarrow> drop_claim env g d)"

definition pending_prompt_new ::
  "str \<Rightarrow> bytes \<Rightarrow> bytes \<Rightarrow> u32 \<Rightarrow> u32 \<Rightarrow> prompt_validation_error + pending_prompt_record" where
  "pending_prompt_new user token nonce prompt_ms commit_ms =
     (if \<not> (PROMPT_TIMEOUT_MS_MIN \<le> prompt_ms \<and> prompt_ms \<le> PROMPT_TIMEOUT_MS_MAX)
         \<or> \<not> (COMMIT_RESPONSE_TIMEOUT_MS_MIN \<le> commit_ms \<and> commit_ms \<le> COMMIT_RESPONSE_TIMEOUT_MS_MAX)
      then Inl Malformed
      else Inr \<lparr>ppr_username = user, ppr_target_uid = 0, ppr_peer_uid = 0, ppr_connection_id = None,
             ppr_transaction_token = token, ppr_client_nonce = nonce, ppr_pam_service = ascii ''sudo'',
             ppr_origin = OriginLocal, ppr_prompt_timeout_ms = prompt_ms,
             ppr_commit_response_timeout_ms = commit_ms, ppr_issue = None, ppr_claim = None\<rparr>)"

definition pending_prompt_managed ::
  "('p, 's, 'm) server_env_scheme \<Rightarrow> canonical_identity \<Rightarrow> u32 \<Rightarrow> connection_id \<Rightarrow> bytes \<Rightarrow> str \<Rightarrow> prompt_origin
   \<Rightarrow> u32 \<Rightarrow> u32 \<Rightarrow> pending_issue \<Rightarrow> ('p, 's) daemon
   \<Rightarrow> (prompt_validation_error + pending_prompt_record) \<times> ('p, 's) daemon" where
  "pending_prompt_managed env identity peer connection nonce pam_service origin prompt_ms commit_ms issue d =
     (case pending_prompt_new (ci_username identity) (pi_token issue) nonce prompt_ms commit_ms of
        Inl e \<Rightarrow> (Inl e, drop_issue env issue d)
      | Inr rec \<Rightarrow>
          (Inr (rec\<lparr>ppr_target_uid := ci_uid identity, ppr_peer_uid := peer,
              ppr_connection_id := Some connection, ppr_pam_service := pam_service,
              ppr_origin := origin, ppr_issue := Some issue\<rparr>), d))"

definition pending_prompt_response :: "pending_prompt_record \<Rightarrow> response" where
  "pending_prompt_response r =
     Some (RPromptRequiredV1
       \<lparr>pq_protocol_version = PROMPT_PROTOCOL_VERSION, pq_transaction_token = ppr_transaction_token r,
        pq_client_nonce = ppr_client_nonce r, pq_prompt_timeout_ms = ppr_prompt_timeout_ms r,
        pq_commit_response_timeout_ms = ppr_commit_response_timeout_ms r\<rparr>)"

definition pending_activate ::
  "'p prompt_manager \<Rightarrow> ('p, 's, 'm) server_env_scheme \<Rightarrow> nat option \<Rightarrow> pending_prompt_record \<Rightarrow> ('p, 's) daemon
   \<Rightarrow> (prompt_state_error + instant) \<times> ('p, 's) daemon" where
  "pending_activate manager env waker r d =
     (case ppr_issue r of
        Some issue \<Rightarrow> at_now env (\<lambda>now. activate_with_waker (pm_inner manager) now issue waker) d
      | None \<Rightarrow>
          (case net_now env d of (now, d) \<Rightarrow>
             (ok_or Unavailable (instant_checked_add now (from_millis (ucast (ppr_prompt_timeout_ms r)))), d)))"

text \<open>The record is updated in place; the issue is consumed in any case.\<close>

definition pending_claim_commit ::
  "'p prompt_manager \<Rightarrow> ('p, 's, 'm) server_env_scheme \<Rightarrow> bytes \<Rightarrow> bytes \<Rightarrow> pending_prompt_record \<Rightarrow> ('p, 's) daemon
   \<Rightarrow> (prompt_state_error + unit) \<times> pending_prompt_record \<times> ('p, 's) daemon" where
  "pending_claim_commit manager env token nonce r d =
     (case ppr_issue r of
        None \<Rightarrow>
          (if constant_time_eq token (ppr_transaction_token r) \<and> constant_time_eq nonce (ppr_client_nonce r)
           then Inr () else Inl Invalid, r, d)
      | Some issue \<Rightarrow>
          (let r = r\<lparr>ppr_issue := None\<rparr>
           in case at_now env (\<lambda>now. pending_issue_claim_commit (pm_sha256 manager) (pm_inner manager) now issue
                     token nonce (ppr_peer_uid r) (ppr_target_uid r)) d of
                (Inl e, d) \<Rightarrow> (Inl e, r, d)
              | (Inr claim, d) \<Rightarrow>
                  (Inr (), r\<lparr>ppr_claim := Some claim\<rparr>,
                   case ppr_claim r of None \<Rightarrow> d | Some g \<Rightarrow> drop_claim env g d)))"

definition pending_cancel ::
  "'p prompt_manager \<Rightarrow> ('p, 's, 'm) server_env_scheme \<Rightarrow> bytes \<Rightarrow> bytes \<Rightarrow> pending_prompt_record \<Rightarrow> ('p, 's) daemon
   \<Rightarrow> (prompt_state_error + unit) \<times> pending_prompt_record \<times> ('p, 's) daemon" where
  "pending_cancel manager env token nonce r d =
     (case ppr_issue r of
        None \<Rightarrow>
          (if constant_time_eq token (ppr_transaction_token r) \<and> constant_time_eq nonce (ppr_client_nonce r)
           then Inr () else Inl Invalid, r, d)
      | Some issue \<Rightarrow>
          (case at_now env (\<lambda>now. pending_issue_cancel (pm_sha256 manager) now issue token nonce
                  (ppr_peer_uid r) (ppr_target_uid r)) d of
             (result, d) \<Rightarrow> (result, r\<lparr>ppr_issue := None\<rparr>, d)))"

definition pending_manager_terminated ::
  "('p, 's, 'm) server_env_scheme \<Rightarrow> pending_prompt_record \<Rightarrow> ('p, 's) daemon \<Rightarrow> bool \<times> ('p, 's) daemon" where
  "pending_manager_terminated env r d =
     (case ppr_issue r of None \<Rightarrow> (False, d) | Some _ \<Rightarrow> with_manager env is_terminated d)"

subsection \<open>The connection machine\<close>

datatype prompt_connection_phase =
    PhaseInitial
  | PhasePending pending_prompt_record
  | PhaseCommitted
  | PhaseClosed

datatype prompt_connection_action =
    SendPrompt response
  | StartAuthentication pending_prompt_record
  | SendTerminal response
  | CancelActiveAndSendTerminal response
  | CancelActiveWithoutResponse
  | CloseWithoutResponse

text \<open>The machine has one field, its phase.  An operation returns the action, the phase and the state; a
  pending phase that is overwritten is dropped.\<close>

type_synonym ('p, 's) machine_op =
  "prompt_connection_phase \<Rightarrow> ('p, 's) daemon \<Rightarrow> prompt_connection_action \<times> prompt_connection_phase \<times> ('p, 's) daemon"

definition drop_phase ::
  "('p, 's, 'm) server_env_scheme \<Rightarrow> prompt_connection_phase \<Rightarrow> ('p, 's) daemon \<Rightarrow> ('p, 's) daemon" where
  "drop_phase env phase d = (case phase of PhasePending r \<Rightarrow> drop_pending_prompt env r d | _ \<Rightarrow> d)"

definition machine_new :: prompt_connection_phase where
  "machine_new = PhaseInitial"

definition terminal_protocol_violation :: "('p, 's, 'm) server_env_scheme \<Rightarrow> bool \<Rightarrow> ('p, 's) machine_op" where
  "terminal_protocol_violation env cancel_active phase d =
     (let response = response_prompt_error Violation
      in (if cancel_active then CancelActiveAndSendTerminal response else SendTerminal response,
          PhaseClosed, drop_phase env phase d))"

definition begin_with ::
  "('p, 's, 'm) server_env_scheme \<Rightarrow> begin_auth_req
   \<Rightarrow> (begin_auth_req \<Rightarrow> ('p, 's) daemon \<Rightarrow> (prompt_error_code + pending_prompt_record) \<times> ('p, 's) daemon)
   \<Rightarrow> ('p, 's) machine_op" where
  "begin_with env request issue phase d =
     (if phase \<noteq> PhaseInitial then terminal_protocol_violation env False phase d
      else case begin_auth_validate request of
        Inl e \<Rightarrow> (SendTerminal (response_prompt_error (validation_prompt_error e)), PhaseClosed, d)
      | Inr _ \<Rightarrow>
          (case issue request d of
             (Inl code, d) \<Rightarrow> (SendTerminal (response_prompt_error code), PhaseClosed, d)
           | (Inr pending, d) \<Rightarrow>
               (if \<not> (ppr_username pending = ba_username request
                      \<and> constant_time_eq (ppr_client_nonce pending) (ba_client_nonce request))
                then (SendTerminal (response_prompt_error TransactionInvalid), PhaseClosed,
                      drop_pending_prompt env pending d)
                else (SendPrompt (pending_prompt_response pending), PhasePending pending, d))))"

definition machine_receive ::
  "'p prompt_manager \<Rightarrow> ('p, 's, 'm) server_env_scheme \<Rightarrow> request \<Rightarrow> ('p, 's) machine_op" where
  "machine_receive manager env request phase d =
     (case phase of
        PhaseInitial \<Rightarrow> terminal_protocol_violation env False PhaseClosed d
      | PhasePending pending \<Rightarrow>
          (case request of
             Some (CmdCommitAuthV1 commit) \<Rightarrow>
               (case transaction_validate commit of
                  Inl e \<Rightarrow> (SendTerminal (response_prompt_error (validation_prompt_error e)), PhaseClosed,
                            drop_pending_prompt env pending d)
                | Inr _ \<Rightarrow>
                    (case pending_claim_commit manager env (tr_transaction_token commit) (tr_client_nonce commit)
                            pending d of
                       (Inl _, pending, d) \<Rightarrow>
                         (SendTerminal (response_prompt_error TransactionInvalid), PhaseClosed,
                          drop_pending_prompt env pending d)
                     | (Inr _, pending, d) \<Rightarrow> (StartAuthentication pending, PhaseCommitted, d)))
           | Some (CmdCancelAuthV1 cancel) \<Rightarrow>
               (case transaction_validate cancel of
                  Inl e \<Rightarrow> (SendTerminal (response_prompt_error (validation_prompt_error e)), PhaseClosed,
                            drop_pending_prompt env pending d)
                | Inr _ \<Rightarrow>
                    (case pending_cancel manager env (tr_transaction_token cancel) (tr_client_nonce cancel)
                            pending d of
                       (Inr _, pending, d) \<Rightarrow>
                         (SendTerminal (Some (RAuthCancelledV1
                            \<lparr>ax_protocol_version = PROMPT_PROTOCOL_VERSION,
                             ax_client_nonce = ppr_client_nonce pending\<rparr>)), PhaseClosed,
                          drop_pending_prompt env pending d)
                     | (Inl _, pending, d) \<Rightarrow>
                         (SendTerminal (response_prompt_error TransactionInvalid), PhaseClosed,
                          drop_pending_prompt env pending d)))
           | _ \<Rightarrow>
               (case terminal_protocol_violation env False PhaseClosed d of (action, phase, d) \<Rightarrow>
                  (action, phase, drop_pending_prompt env pending d)))
      | PhaseCommitted \<Rightarrow> terminal_protocol_violation env True PhaseClosed d
      | PhaseClosed \<Rightarrow> (CloseWithoutResponse, PhaseClosed, d))"

definition prompt_sent_with_waker ::
  "'p prompt_manager \<Rightarrow> ('p, 's, 'm) server_env_scheme \<Rightarrow> nat option \<Rightarrow> prompt_connection_phase \<Rightarrow> ('p, 's) daemon
   \<Rightarrow> (prompt_connection_action + instant) \<times> prompt_connection_phase \<times> ('p, 's) daemon" where
  "prompt_sent_with_waker manager env waker phase d =
     (case phase of
        PhasePending pending \<Rightarrow>
          (case pending_activate manager env waker pending d of
             (Inl _, d) \<Rightarrow>
               (Inl (SendTerminal (response_prompt_error TransactionInvalid)), PhaseClosed, drop_phase env phase d)
           | (Inr deadline, d) \<Rightarrow> (Inr deadline, phase, d))
      | _ \<Rightarrow>
          (case terminal_protocol_violation env False phase d of (action, phase, d) \<Rightarrow> (Inl action, phase, d)))"

definition machine_manager_terminated ::
  "('p, 's, 'm) server_env_scheme \<Rightarrow> prompt_connection_phase \<Rightarrow> ('p, 's) daemon \<Rightarrow> bool \<times> ('p, 's) daemon" where
  "machine_manager_terminated env phase d =
     (case phase of PhasePending r \<Rightarrow> pending_manager_terminated env r d | _ \<Rightarrow> (False, d))"

definition finish_authentication :: "('p, 's, 'm) server_env_scheme \<Rightarrow> response \<Rightarrow> ('p, 's) machine_op" where
  "finish_authentication env response phase d =
     (case phase of
        PhaseCommitted \<Rightarrow>
          (SendTerminal (if is_prompt_auth_terminal_response response then response
                         else response_prompt_error Violation), PhaseClosed, d)
      | PhaseClosed \<Rightarrow> (CloseWithoutResponse, PhaseClosed, d)
      | _ \<Rightarrow> terminal_protocol_violation env False phase d)"

definition machine_eof :: "('p, 's, 'm) server_env_scheme \<Rightarrow> ('p, 's) machine_op" where
  "machine_eof env phase d =
     (case phase of
        PhaseCommitted \<Rightarrow> (CancelActiveWithoutResponse, PhaseClosed, d)
      | PhaseClosed \<Rightarrow> (CloseWithoutResponse, PhaseClosed, d)
      | _ \<Rightarrow> (CloseWithoutResponse, PhaseClosed, drop_phase env phase d))"

subsection \<open>Policy and time budgets\<close>

definition PROMPT_STORAGE_TIMEOUT :: duration where "PROMPT_STORAGE_TIMEOUT = 2000000000"
definition ACTIVE_WORKER_CLEANUP_TIMEOUT :: duration where "ACTIVE_WORKER_CLEANUP_TIMEOUT = 250000000"
definition PROMPT_ACTIVE_LIMIT_FROM_CAMERA_ADMISSION :: usize where "PROMPT_ACTIVE_LIMIT_FROM_CAMERA_ADMISSION = 1"

definition duration_checked_add :: "duration \<Rightarrow> duration \<Rightarrow> duration option" where
  "duration_checked_add a b = (if a + b < 2 ^ 64 * 1000000000 then Some (a + b) else None)"

definition prompt_active_timeout_checked :: "howy_config \<Rightarrow> duration option" where
  "prompt_active_timeout_checked config =
     Option.bind (duration_checked_add (from_millis (commit_to_camera_ms (presence config))) PROMPT_STORAGE_TIMEOUT) (\<lambda>t.
     Option.bind (duration_checked_add t (from_millis (scan_timeout_ms (presence config)))) (\<lambda>t.
     duration_checked_add t ACTIVE_WORKER_CLEANUP_TIMEOUT))"

definition validate_current_prompt_policy :: "howy_config \<Rightarrow> str \<Rightarrow> prompt_origin \<Rightarrow> prompt_error_code + unit" where
  "validate_current_prompt_policy config pam_service origin =
     (if pam_service \<in> set (allowed_pam_services (presence config))
         \<and> origin \<in> {OriginLocal, OriginRemote}
         \<and> \<not> (origin = OriginRemote \<and> local_only (presence config))
      then Inr () else Inl PromptUnavailable)"

definition validate_prompt_begin_policy :: "howy_config \<Rightarrow> begin_auth_req \<Rightarrow> prompt_error_code + unit" where
  "validate_prompt_begin_policy config request =
     and_then (map_err validation_prompt_error (begin_auth_validate request)) (\<lambda>_.
     and_then (ok_or Violation (ba_policy request)) (\<lambda>ctx.
     and_then (ok_or Violation (prompt_origin_try_from (pp_origin ctx))) (\<lambda>origin.
     validate_current_prompt_policy config (pp_pam_service ctx) origin)))"

definition authorize_prompt_begin ::
  "('p, 's, 'm) server_env_scheme \<Rightarrow> u32 \<Rightarrow> bool \<Rightarrow> begin_auth_req \<Rightarrow> ('p, 's) daemon
   \<Rightarrow> (prompt_error_code + canonical_identity) \<times> ('p, 's) daemon" where
  "authorize_prompt_begin env peer confirm request d =
     (case se_resolver env d of (resolve, d) \<Rightarrow>
        (and_then (map_err (\<lambda>_. PromptUnavailable)
           (authorize_and_then resolve (BeginAuth (ba_username request)) (authorization_context_initial peer confirm) id))
           (ok_or PromptUnavailable), d))"

subsection \<open>Opening a transaction\<close>

definition u32_of_u64 :: "u64 \<Rightarrow> u32 option" where
  "u32_of_u64 n = (if unat n < 2 ^ 32 then Some (ucast n) else None)"

definition u32_of_millis :: "duration \<Rightarrow> u32 option" where
  "u32_of_millis t = (if t div 1000000 < 2 ^ 32 then Some (word_of_nat (t div 1000000)) else None)"

definition storage_candidate_ready :: "prompt_storage_snapshot \<Rightarrow> bool" where
  "storage_candidate_ready snapshot \<longleftrightarrow>
     pss_health snapshot = Ready \<and> (case pss_candidate snapshot of Candidate _ \<Rightarrow> True | CandidateAbsent \<Rightarrow> False)"

text \<open>From the reservation on: the reservation is dropped by every early return before it is consumed.\<close>

definition prepare_reserved ::
  "'p prompt_manager \<Rightarrow> ('p, 's, 'm) server_env_scheme \<Rightarrow> howy_config \<Rightarrow> u32 \<Rightarrow> connection_id \<Rightarrow> begin_auth_req
   \<Rightarrow> canonical_identity \<Rightarrow> begin_reservation \<Rightarrow> ('p, 's) daemon
   \<Rightarrow> (prompt_error_code + canonical_identity \<times> str \<times> prompt_origin \<times> pending_issue) \<times> ('p, 's) daemon" where
  "prepare_reserved manager env config peer connection begn identity reservation d =
     (case canonical_username_new (ci_username identity) of
        Inl _ \<Rightarrow> (Inl PromptUnavailable, drop_reservation env reservation d)
      | Inr canonical \<Rightarrow>
          (case se_prompt_snapshot env canonical d of
             (Inl _, d) \<Rightarrow> (Inl PromptUnavailable, drop_reservation env reservation d)
           | (Inr storage, d) \<Rightarrow>
               (if \<not> storage_candidate_ready storage
                then (Inl PromptUnavailable, drop_reservation env reservation d)
                else case ba_policy begn of
                  None \<Rightarrow> (Inl Violation, drop_reservation env reservation d)
                | Some ctx \<Rightarrow>
                    (case prompt_origin_try_from (pp_origin ctx) of
                       None \<Rightarrow> (Inl Violation, drop_reservation env reservation d)
                     | Some origin \<Rightarrow>
                         (case with_manager env (begin_reservation_issue (pm_sha256 manager) (pm_fill manager) reservation
                                 \<lparr>pb_connection = connection, pb_peer_uid = peer, pb_target = identity,
                                  pb_client_nonce = ba_client_nonce begn, pb_pam_service = pp_pam_service ctx,
                                  pb_origin = origin, pb_snapshot = capture (pm_sha256 manager) config storage\<rparr>) d of
                            (Inl _, d) \<Rightarrow> (Inl PromptUnavailable, d)
                          | (Inr issue, d) \<Rightarrow> (Inr (identity, pp_pam_service ctx, origin, issue), d))))))"

definition prepare_prompt_pending ::
  "'p prompt_manager \<Rightarrow> ('p, 's, 'm) server_env_scheme \<Rightarrow> howy_config \<Rightarrow> u32 \<Rightarrow> connection_id \<Rightarrow> begin_auth_req
   \<Rightarrow> ('p, 's) daemon \<Rightarrow> (prompt_error_code + pending_prompt_record) \<times> ('p, 's) daemon" where
  "prepare_prompt_pending manager env config peer connection begn d =
     (case authorize_prompt_begin env peer True begn d of
        (Inl e, d) \<Rightarrow> (Inl e, d)
      | (Inr identity, d) \<Rightarrow>
          (case validate_prompt_begin_policy config begn of
             Inl e \<Rightarrow> (Inl e, d)
           | Inr _ \<Rightarrow>
               (case with_manager env (reserve_begin (pm_sha256 manager) (pm_inner manager) connection peer identity) d of
                  (Inl _, d) \<Rightarrow> (Inl PromptUnavailable, d)
                | (Inr reservation, d) \<Rightarrow>
                    (case prepare_reserved manager env config peer connection begn identity reservation d of
                       (Inl e, d) \<Rightarrow> (Inl e, d)
                     | (Inr (identity, pam_service, origin, issue), d) \<Rightarrow>
                         (case u32_of_u64 (prompt_timeout_ms (presence config)) of
                            None \<Rightarrow> (Inl PromptUnavailable, drop_issue env issue d)
                          | Some prompt_ms \<Rightarrow>
                              (case Option.bind (prompt_active_timeout_checked config) u32_of_millis of
                                 None \<Rightarrow> (Inl PromptUnavailable, drop_issue env issue d)
                               | Some commit_ms \<Rightarrow>
                                   (case pending_prompt_managed env identity peer connection (ba_client_nonce begn)
                                           pam_service origin prompt_ms commit_ms issue d of
                                      (Inl _, d) \<Rightarrow> (Inl PromptUnavailable, d)
                                    | (Inr r, d) \<Rightarrow> (Inr r, d))))))))"

subsection \<open>Turning a commit into a lease\<close>

definition poll_cancellation ::
  "('p, 's, 'm) server_env_scheme \<Rightarrow> commit_claim \<Rightarrow> ('p, 's) daemon \<Rightarrow> bool \<times> ('p, 's) daemon" where
  "poll_cancellation env claim d = at_now env (\<lambda>now. cancellation_is_cancelled (cc_control claim) now) d"

text \<open>The checks between the claim and its promotion, in the order of the source; \<open>None\<close> is a refusal.\<close>

definition revalidate_target ::
  "('p, 's, 'm) server_env_scheme \<Rightarrow> commit_claim \<Rightarrow> ('p, 's) daemon \<Rightarrow> canonical_identity option \<times> ('p, 's) daemon" where
  "revalidate_target env claim d =
     (case se_resolver env d of (resolve, d) \<Rightarrow>
        (case authorize_and_then resolve CommitAuth
           \<lparr>peer_uid = cc_peer_uid claim, confirmation_required = True,
            connection_phase = PendingAuth (cc_peer_uid claim) (cc_target claim)\<rparr> id of
           Inl _ \<Rightarrow> None | Inr target \<Rightarrow> target, d))"

definition revalidate_storage ::
  "('p, 's, 'm) server_env_scheme \<Rightarrow> howy_config \<Rightarrow> commit_claim \<Rightarrow> canonical_identity \<Rightarrow> ('p, 's) daemon
   \<Rightarrow> prompt_storage_snapshot option \<times> ('p, 's) daemon" where
  "revalidate_storage env config claim target d =
     (if validate_current_prompt_policy config (cc_pam_service claim) (cc_origin claim) \<noteq> Inr () then (None, d)
      else case canonical_username_new (ci_username target) of
        Inl _ \<Rightarrow> (None, d)
      | Inr canonical \<Rightarrow>
          (case poll_cancellation env claim d of (stop, d) \<Rightarrow>
             if stop then (None, d)
             else case se_prompt_snapshot env canonical d of
               (Inl _, d) \<Rightarrow> (None, d)
             | (Inr storage, d) \<Rightarrow> (if storage_candidate_ready storage then Some storage else None, d)))"

definition revalidate ::
  "('p, 's, 'm) server_env_scheme \<Rightarrow> howy_config \<Rightarrow> commit_claim \<Rightarrow> ('p, 's) daemon
   \<Rightarrow> (canonical_identity \<times> prompt_storage_snapshot) option \<times> ('p, 's) daemon" where
  "revalidate env config claim d =
     (case poll_cancellation env claim d of (stop, d) \<Rightarrow>
        if stop then (None, d)
        else case revalidate_target env claim d of
          (None, d) \<Rightarrow> (None, d)
        | (Some target, d) \<Rightarrow>
            (case poll_cancellation env claim d of (stop, d) \<Rightarrow>
               if stop then (None, d)
               else case revalidate_storage env config claim target d of
                 (None, d) \<Rightarrow> (None, d)
               | (Some storage, d) \<Rightarrow>
                   (case poll_cancellation env claim d of (stop, d) \<Rightarrow>
                      if stop then (None, d)
                      else case poll_cancellation env claim d of (stop, d) \<Rightarrow>
                        (if stop then None else Some (target, storage), d))))"

definition claim_prompt_commit ::
  "'p prompt_manager \<Rightarrow> ('p, 's, 'm) server_env_scheme \<Rightarrow> howy_config \<Rightarrow> pending_prompt_record \<Rightarrow> ('p, 's) daemon
   \<Rightarrow> (response + active_lease) \<times> ('p, 's) daemon" where
  "claim_prompt_commit manager env config pending d =
     (case ppr_connection_id pending of
        None \<Rightarrow> (Inl (response_prompt_error TransactionInvalid), drop_pending_prompt env pending d)
      | Some connection \<Rightarrow>
          (case ppr_claim pending of
             None \<Rightarrow> (Inl (response_prompt_error TransactionInvalid), drop_pending_prompt env pending d)
           | Some claim \<Rightarrow>
               (let pending = pending\<lparr>ppr_claim := None\<rparr>
                in case revalidate env config claim d of
                  (None, d) \<Rightarrow>
                    (Inl (response_prompt_error TransactionInvalid),
                     drop_pending_prompt env pending (drop_claim env claim d))
                | (Some (target, storage), d) \<Rightarrow>
                    (case at_now env (\<lambda>now. commit_claim_promote now claim
                            \<lparr>cb_connection = connection, cb_peer_uid = ppr_peer_uid pending, cb_target = target,
                             cb_pam_service = ppr_pam_service pending, cb_origin = ppr_origin pending,
                             cb_snapshot = capture (pm_sha256 manager) config storage\<rparr>) d of
                       (Inr lease, d) \<Rightarrow> (Inr lease, drop_pending_prompt env pending d)
                     | (Inl Invalid, d) \<Rightarrow>
                         (Inl (response_prompt_error TransactionInvalid), drop_pending_prompt env pending d)
                     | (Inl Unavailable, d) \<Rightarrow>
                         (Inl (response_prompt_error PromptUnavailable), drop_pending_prompt env pending d)))))"

end
