(* ===== verification/ServerConnection.thy ===== *)
theory ServerConnection
  imports ServerPrompt
begin

section \<open>Supervision of a committed prompt and the prompt connection\<close>

text \<open>
  The rest of the prompt path of \<^verbatim>\<open>crates/howy-daemon/src/server.rs\<close>: the worker that a commit starts, its
  supervision by the connection thread, and the coordinator that runs one prompt connection from its
  first request to its terminal response.

  \<open>poll\<close>, \<open>recv\<close>, thread creation, the result channel and the shutdown flag are further calls of the
  environment.  The worker runs concurrently: what it does to the manager is part of the environment's
  steps, and its completion arrives through \<open>sv_try_recv\<close>.  Instants are counted from the start of the
  clock, so there is none before it.
\<close>

text \<open>The bits of \<open>poll\<close> on Linux.\<close>

definition POLLIN :: "16 word" where "POLLIN = 1"
definition POLLOUT :: "16 word" where "POLLOUT = 4"
definition POLLERR :: "16 word" where "POLLERR = 8"
definition POLLHUP :: "16 word" where "POLLHUP = 16"
definition POLLNVAL :: "16 word" where "POLLNVAL = 32"

definition ACTIVE_SUPERVISOR_POLL :: duration where "ACTIVE_SUPERVISOR_POLL = 10000000"

datatype poll_result = PollFailed io_error | PollNone | PollReady "16 word"
datatype try_recv_error = ChannelEmpty | ChannelDisconnected
datatype active_socket_event = Quiet | PeerGone | UnexpectedData | Infrastructure

text \<open>A cache promotion is an opaque handle of the storage backend.  The cleanup mode of a terminal is only
  logged.\<close>

record prompt_worker_completion =
  wc_response :: response
  wc_promotion :: "nat option"
  wc_lease :: "active_lease option"

record post_write_cache_promotion =
  pwc_promotion :: nat
  pwc_control :: nat
  pwc_work_deadline :: instant
  pwc_lease :: "active_lease option"

record active_prompt_authentication =
  apa_control :: nat
  apa_deadline :: instant

datatype prompt_authentication = AuthCompleted response | AuthActive active_prompt_authentication

record ('p, 's) supervisor_env = "('p, 's) server_env" +
  sv_poll :: "16 word \<Rightarrow> nat \<Rightarrow> ('p, 's) daemon \<Rightarrow> poll_result \<times> ('p, 's) daemon"
  sv_peek :: "('p, 's) daemon \<Rightarrow> (io_error + usize) \<times> ('p, 's) daemon"
  sv_shutdown_requested :: "('p, 's) daemon \<Rightarrow> bool \<times> ('p, 's) daemon"
  sv_request_fatal :: "('p, 's) daemon \<Rightarrow> ('p, 's) daemon"
  sv_spawn :: "pending_prompt_record \<Rightarrow> ('p, 's) daemon \<Rightarrow> bool \<times> ('p, 's) daemon"
  sv_try_recv :: "('p, 's) daemon \<Rightarrow> (try_recv_error + prompt_worker_completion) \<times> ('p, 's) daemon"
  sv_is_finished :: "('p, 's) daemon \<Rightarrow> bool \<times> ('p, 's) daemon"
  sv_join :: "('p, 's) daemon \<Rightarrow> ('p, 's) daemon"
  sv_sleep :: "('p, 's) daemon \<Rightarrow> ('p, 's) daemon"
  sv_try_clone :: "('p, 's) daemon \<Rightarrow> (io_error + nat) \<times> ('p, 's) daemon"
  sv_spawn_monitor :: "nat \<Rightarrow> instant \<Rightarrow> ('p, 's) daemon \<Rightarrow> bool \<times> ('p, 's) daemon"
  sv_promote_if :: "nat \<Rightarrow> (('p, 's) daemon \<Rightarrow> bool \<times> ('p, 's) daemon) \<Rightarrow> ('p, 's) daemon \<Rightarrow> ('p, 's) daemon"

subsection \<open>The socket of an active connection\<close>

definition inspect_active_socket ::
  "('p, 's, 'm) supervisor_env_scheme \<Rightarrow> duration \<Rightarrow> ('p, 's) daemon \<Rightarrow> (io_error + active_socket_event) \<times> ('p, 's) daemon" where
  "inspect_active_socket env timeout d =
     (case sv_poll env (POLLIN OR POLLHUP OR POLLERR) (min (timeout div 1000000) (2 ^ 31 - 1)) d of
        (PollFailed e, d) \<Rightarrow> (if e = Interrupted then Inr Quiet else Inl e, d)
      | (PollNone, d) \<Rightarrow> (Inr Quiet, d)
      | (PollReady revents, d) \<Rightarrow>
          (if revents AND (POLLHUP OR POLLNVAL) \<noteq> 0 then (Inr PeerGone, d)
           else if revents AND POLLERR \<noteq> 0 then (Inr Infrastructure, d)
           else if revents AND POLLIN \<noteq> 0 then
             (case sv_peek env d of
                (Inr received, d) \<Rightarrow> (Inr (if 0 < received then UnexpectedData else PeerGone), d)
              | (Inl e, d) \<Rightarrow> (Inr (if e = WouldBlock \<or> e = Interrupted then Quiet else Infrastructure), d))
           else (Inr Quiet, d)))"

definition active_socket_writable ::
  "('p, 's, 'm) supervisor_env_scheme \<Rightarrow> ('p, 's) daemon \<Rightarrow> bool \<times> ('p, 's) daemon" where
  "active_socket_writable env d =
     (case sv_poll env (POLLOUT OR POLLHUP OR POLLERR) 0 d of (result, d) \<Rightarrow>
        (case result of
           PollReady revents \<Rightarrow>
             revents AND POLLOUT \<noteq> 0 \<and> revents AND (POLLHUP OR POLLERR OR POLLNVAL) = 0
         | _ \<Rightarrow> False, d))"

subsection \<open>The worker\<close>

definition cancel_active :: "('p, 's, 'm) server_env_scheme \<Rightarrow> nat \<Rightarrow> ('p, 's) daemon \<Rightarrow> ('p, 's) daemon" where
  "cancel_active env control d = snd (with_manager env (control_cancel control) d)"

definition active_is_cancelled ::
  "('p, 's, 'm) server_env_scheme \<Rightarrow> nat \<Rightarrow> ('p, 's) daemon \<Rightarrow> bool \<times> ('p, 's) daemon" where
  "active_is_cancelled env control d = at_now env (\<lambda>now. cancellation_is_cancelled control now) d"

definition drop_lease :: "('p, 's, 'm) server_env_scheme \<Rightarrow> active_lease option \<Rightarrow> ('p, 's) daemon \<Rightarrow> ('p, 's) daemon" where
  "drop_lease env lease d =
     (case lease of None \<Rightarrow> d | Some g \<Rightarrow> snd (with_manager env (\<lambda>w. ((), drop_active_lease g w)) d))"

text \<open>What the worker thread computes: the revalidation, then the authentication under the lease (\<open>run\<close>,
  the camera session).  A panic becomes a completion without a lease.\<close>

definition prompt_worker ::
  "'p prompt_manager \<Rightarrow> ('p, 's, 'm) server_env_scheme \<Rightarrow> howy_config
   \<Rightarrow> (active_lease \<Rightarrow> ('p, 's) daemon \<Rightarrow> (response \<times> nat option) option \<times> ('p, 's) daemon)
   \<Rightarrow> pending_prompt_record \<Rightarrow> ('p, 's) daemon \<Rightarrow> prompt_worker_completion \<times> ('p, 's) daemon" where
  "prompt_worker manager env config run pending d =
     (case claim_prompt_commit manager env config pending d of
        (Inl response, d) \<Rightarrow> (\<lparr>wc_response = response, wc_promotion = None, wc_lease = None\<rparr>, d)
      | (Inr lease, d) \<Rightarrow>
          (case run lease d of
             (Some (response, promotion), d) \<Rightarrow>
               (\<lparr>wc_response = response, wc_promotion = promotion, wc_lease = Some lease\<rparr>, d)
           | (None, d) \<Rightarrow>
               (\<lparr>wc_response = response_error (ascii ''authentication unavailable''), wc_promotion = None,
                 wc_lease = None\<rparr>, drop_lease env (Some lease) d)))"

definition spawn_prompt_authentication_after_revalidation ::
  "('p, 's, 'm) supervisor_env_scheme \<Rightarrow> pending_prompt_record \<Rightarrow> ('p, 's) daemon
   \<Rightarrow> prompt_authentication \<times> ('p, 's) daemon" where
  "spawn_prompt_authentication_after_revalidation env pending d =
     (case ppr_claim pending of
        None \<Rightarrow> (AuthCompleted (response_prompt_error TransactionInvalid), drop_pending_prompt env pending d)
      | Some claim \<Rightarrow>
          (let deadline = ac_deadline (pw_heap (fst d) ! cc_control claim)
           in case sv_spawn env pending d of
                (True, d) \<Rightarrow> (AuthActive \<lparr>apa_control = cc_control claim, apa_deadline = deadline\<rparr>, d)
              | (False, d) \<Rightarrow>
                  (AuthCompleted (response_error (ascii ''authentication unavailable'')),
                   cancel_active env (cc_control claim) (drop_pending_prompt env pending d))))"

definition response_allows_cache_promotion :: "response \<Rightarrow> bool" where
  "response_allows_cache_promotion response \<longleftrightarrow>
     (case response of Some (RSuccess _) \<Rightarrow> True | Some (RAuthFailed _) \<Rightarrow> True | _ \<Rightarrow> False)"

subsection \<open>Supervision\<close>

datatype winner = WinPeerGone | WinProtocolViolation | WinInfrastructure | WinWorker prompt_worker_completion

definition active_work_deadline :: "instant \<Rightarrow> instant" where
  "active_work_deadline active_deadline =
     (if ACTIVE_WORKER_CLEANUP_TIMEOUT \<le> active_deadline then active_deadline - ACTIVE_WORKER_CLEANUP_TIMEOUT
      else active_deadline)"

definition active_poll_timeout :: "instant \<Rightarrow> instant \<Rightarrow> duration" where
  "active_poll_timeout now work_deadline = min ACTIVE_SUPERVISOR_POLL (work_deadline - now)"

definition active_cleanup_deadline ::
  "('p, 's, 'm) server_env_scheme \<Rightarrow> instant \<Rightarrow> ('p, 's) daemon \<Rightarrow> instant \<times> ('p, 's) daemon" where
  "active_cleanup_deadline env active_deadline d =
     (case net_now env d of (now, d) \<Rightarrow>
        (min (case instant_checked_add now ACTIVE_WORKER_CLEANUP_TIMEOUT of
                None \<Rightarrow> active_deadline | Some t \<Rightarrow> t) active_deadline, d))"

text \<open>The conditions that stop the work, tested in this order and only as far as needed.\<close>

definition work_stopped ::
  "('p, 's, 'm) supervisor_env_scheme \<Rightarrow> instant \<Rightarrow> nat \<Rightarrow> ('p, 's) daemon \<Rightarrow> bool \<times> ('p, 's) daemon" where
  "work_stopped env work_deadline control d =
     (case sv_shutdown_requested env d of (stop, d) \<Rightarrow>
        if stop then (True, d)
        else case net_now env d of (now, d) \<Rightarrow>
          if work_deadline \<le> now then (True, d)
          else active_is_cancelled env control d)"

text \<open>A completion that is not accepted is dropped, and its lease with it.\<close>

definition accept_completion ::
  "('p, 's, 'm) supervisor_env_scheme \<Rightarrow> instant \<Rightarrow> nat \<Rightarrow> prompt_worker_completion \<Rightarrow> ('p, 's) daemon
   \<Rightarrow> winner \<times> ('p, 's) daemon" where
  "accept_completion env work_deadline control completion d =
     (case inspect_active_socket env 0 d of
        (Inr PeerGone, d) \<Rightarrow> (WinPeerGone, drop_lease env (wc_lease completion) d)
      | (Inr UnexpectedData, d) \<Rightarrow> (WinProtocolViolation, drop_lease env (wc_lease completion) d)
      | (Inr Infrastructure, d) \<Rightarrow> (WinInfrastructure, drop_lease env (wc_lease completion) d)
      | (Inl _, d) \<Rightarrow> (WinInfrastructure, drop_lease env (wc_lease completion) d)
      | (Inr Quiet, d) \<Rightarrow>
          (case work_stopped env work_deadline control d of
             (True, d) \<Rightarrow> (WinInfrastructure, drop_lease env (wc_lease completion) d)
           | (False, d) \<Rightarrow> (WinWorker completion, d)))"

partial_function (option) supervise_loop ::
  "('p, 's, 'm) supervisor_env_scheme \<Rightarrow> instant \<Rightarrow> nat \<Rightarrow> ('p, 's) daemon \<Rightarrow> (winner \<times> ('p, 's) daemon) option" where
  "supervise_loop env work_deadline control d =
     (case net_now env d of (now, d) \<Rightarrow>
        case inspect_active_socket env (active_poll_timeout now work_deadline) d of (event, d) \<Rightarrow>
          if event = Inr PeerGone then Some (WinPeerGone, d)
          else if event = Inr UnexpectedData then Some (WinProtocolViolation, d)
          else if event \<noteq> Inr Quiet then Some (WinInfrastructure, d)
          else case work_stopped env work_deadline control d of (stop, d) \<Rightarrow>
            if stop then Some (WinInfrastructure, d)
            else case sv_try_recv env d of (received, d) \<Rightarrow>
              (case received of
                 Inr completion \<Rightarrow> Some (accept_completion env work_deadline control completion d)
               | Inl e \<Rightarrow>
                   if e = ChannelDisconnected then Some (WinInfrastructure, d)
                   else supervise_loop env work_deadline control d))"

partial_function (option) wait_finished ::
  "('p, 's, 'm) supervisor_env_scheme \<Rightarrow> instant \<Rightarrow> ('p, 's) daemon \<Rightarrow> ('p, 's) daemon option" where
  "wait_finished env cleanup_deadline d =
     (case sv_is_finished env d of (ended, d) \<Rightarrow>
        if ended then Some d
        else case net_now env d of (now, d) \<Rightarrow>
          if cleanup_deadline \<le> now then Some d
          else wait_finished env cleanup_deadline (sv_sleep env d))"

definition finish_cancelled_active_worker ::
  "('p, 's, 'm) supervisor_env_scheme \<Rightarrow> instant \<Rightarrow> ('p, 's) daemon \<Rightarrow> (bool \<times> ('p, 's) daemon) option" where
  "finish_cancelled_active_worker env cleanup_deadline d =
     map_option (\<lambda>d. case sv_is_finished env d of
         (True, d) \<Rightarrow> (True, sv_join env d)
       | (False, d) \<Rightarrow> (False, sv_request_fatal env d)) (wait_finished env cleanup_deadline d)"

text \<open>The end of a supervision that the worker did not win: the transaction is cancelled, the worker waited
  for, and \<open>answer\<close> is what the machine does when the peer can still be written to.\<close>

definition finish_without_worker ::
  "('p, 's, 'm) supervisor_env_scheme \<Rightarrow> active_prompt_authentication \<Rightarrow> ('p, 's) machine_op option \<Rightarrow> prompt_connection_phase
   \<Rightarrow> ('p, 's) daemon \<Rightarrow> (prompt_connection_action \<times> prompt_connection_phase \<times> ('p, 's) daemon) option" where
  "finish_without_worker env active answer phase d =
     (let d = cancel_active env (apa_control active) d
      in case active_cleanup_deadline env (apa_deadline active) d of (cleanup_deadline, d) \<Rightarrow>
           case finish_cancelled_active_worker env cleanup_deadline d of
             None \<Rightarrow> None
           | Some (False, d) \<Rightarrow> Some (machine_eof env phase d)
           | Some (True, d) \<Rightarrow>
               (case answer of
                  None \<Rightarrow> Some (machine_eof env phase d)
                | Some respond \<Rightarrow>
                    (case active_socket_writable env d of
                       (True, d) \<Rightarrow> Some (respond phase d)
                     | (False, d) \<Rightarrow> Some (machine_eof env phase d))))"

text \<open>The same after a worker has won and been joined: the completion is dropped last.\<close>

definition refuse_completion ::
  "('p, 's, 'm) supervisor_env_scheme \<Rightarrow> active_prompt_authentication \<Rightarrow> prompt_worker_completion \<Rightarrow> ('p, 's) machine_op option
   \<Rightarrow> prompt_connection_phase \<Rightarrow> ('p, 's) daemon
   \<Rightarrow> prompt_connection_action \<times> prompt_connection_phase \<times> ('p, 's) daemon" where
  "refuse_completion env active completion answer phase d =
     (let d = cancel_active env (apa_control active) d;
          (action, phase, d) =
            (case answer of
               None \<Rightarrow> machine_eof env phase d
             | Some respond \<Rightarrow>
                 (case active_socket_writable env d of
                    (True, d) \<Rightarrow> respond phase d
                  | (False, d) \<Rightarrow> machine_eof env phase d))
      in (action, phase, drop_lease env (wc_lease completion) d))"

definition finish_worker ::
  "('p, 's, 'm) supervisor_env_scheme \<Rightarrow> active_prompt_authentication \<Rightarrow> prompt_worker_completion \<Rightarrow> prompt_connection_phase
   \<Rightarrow> ('p, 's) daemon
   \<Rightarrow> (prompt_connection_action \<times> prompt_connection_phase \<times> ('p, 's) daemon) \<times> post_write_cache_promotion option" where
  "finish_worker env active completion phase d =
     (let work_deadline = active_work_deadline (apa_deadline active);
          unavailable = finish_authentication env (response_error (ascii ''authentication unavailable''))
      in case inspect_active_socket env 0 (sv_join env d) of
           (Inr PeerGone, d) \<Rightarrow> (refuse_completion env active completion None phase d, None)
         | (Inr UnexpectedData, d) \<Rightarrow>
             (refuse_completion env active completion (Some (terminal_protocol_violation env True)) phase d, None)
         | (Inr Infrastructure, d) \<Rightarrow> (refuse_completion env active completion (Some unavailable) phase d, None)
         | (Inl _, d) \<Rightarrow> (refuse_completion env active completion (Some unavailable) phase d, None)
         | (Inr Quiet, d) \<Rightarrow>
             (case work_stopped env work_deadline (apa_control active) d of
                (True, d) \<Rightarrow> (refuse_completion env active completion (Some unavailable) phase d, None)
              | (False, d) \<Rightarrow>
                  (case (response_allows_cache_promotion (wc_response completion), wc_promotion completion) of
                     (True, Some promotion) \<Rightarrow>
                       (finish_authentication env (wc_response completion) phase d,
                        Some \<lparr>pwc_promotion = promotion, pwc_control = apa_control active,
                              pwc_work_deadline = work_deadline, pwc_lease = wc_lease completion\<rparr>)
                   | _ \<Rightarrow>
                       (case finish_authentication env (wc_response completion) phase d of (action, phase, d) \<Rightarrow>
                          ((action, phase, drop_lease env (wc_lease completion) d), None)))))"

definition supervise_active_authentication ::
  "('p, 's, 'm) supervisor_env_scheme \<Rightarrow> active_prompt_authentication \<Rightarrow> prompt_connection_phase \<Rightarrow> ('p, 's) daemon
   \<Rightarrow> ((prompt_connection_action \<times> prompt_connection_phase \<times> ('p, 's) daemon) \<times> post_write_cache_promotion option) option" where
  "supervise_active_authentication env active phase d =
     (case supervise_loop env (active_work_deadline (apa_deadline active)) (apa_control active) d of
        None \<Rightarrow> None
      | Some (WinWorker completion, d) \<Rightarrow> Some (finish_worker env active completion phase d)
      | Some (WinPeerGone, d) \<Rightarrow>
          map_option (\<lambda>r. (r, None)) (finish_without_worker env active None phase d)
      | Some (WinProtocolViolation, d) \<Rightarrow>
          map_option (\<lambda>r. (r, None))
            (finish_without_worker env active (Some (terminal_protocol_violation env True)) phase d)
      | Some (WinInfrastructure, d) \<Rightarrow>
          map_option (\<lambda>r. (r, None))
            (finish_without_worker env active
               (Some (finish_authentication env (response_error (ascii ''authentication unavailable'')))) phase d))"

subsection \<open>The coordinator of a prompt connection\<close>

abbreviation srv_net :: "('p, 's, 'm) server_env_scheme \<Rightarrow> (('p, 's) daemon, response, request) net" where
  "srv_net env \<equiv> net.truncate env"

definition write_response :: "('p, 's, 'm) server_env_scheme \<Rightarrow> response \<Rightarrow> (('p, 's) daemon, unit) io" where
  "write_response env response d =
     (case response of
        Some (RPromptRequiredV1 _) \<Rightarrow> send_prompt_message (srv_net env) response d
      | Some (RAuthCancelledV1 _) \<Rightarrow> send_prompt_message (srv_net env) response d
      | _ \<Rightarrow> send_message (srv_net env) response d)"

record prompt_coordinator_report =
  pcr_prompt_response_attempts :: u8
  pcr_terminal_response_attempts :: u8
  pcr_authentication_started :: bool

definition saturating_succ :: "u8 \<Rightarrow> u8" where
  "saturating_succ n = (if n = - 1 then n else n + 1)"

definition publish_allowed ::
  "('p, 's, 'm) supervisor_env_scheme \<Rightarrow> post_write_cache_promotion \<Rightarrow> ('p, 's) daemon \<Rightarrow> bool \<times> ('p, 's) daemon" where
  "publish_allowed env p d =
     (case inspect_active_socket env 0 d of (event, d) \<Rightarrow>
        if event \<noteq> Inr Quiet then (False, d)
        else case work_stopped env (pwc_work_deadline p) (pwc_control p) d of (stop, d) \<Rightarrow> (\<not> stop, d))"

definition finish_after_successful_write ::
  "('p, 's, 'm) supervisor_env_scheme \<Rightarrow> post_write_cache_promotion \<Rightarrow> ('p, 's) daemon \<Rightarrow> ('p, 's) daemon" where
  "finish_after_successful_write env p d =
     (case sv_try_clone env d of
        (Inl _, d) \<Rightarrow> drop_lease env (pwc_lease p) d
      | (Inr _, d) \<Rightarrow>
          (case sv_spawn_monitor env (pwc_control p) (pwc_work_deadline p) d of
             (False, d) \<Rightarrow> drop_lease env (pwc_lease p) d
           | (True, d) \<Rightarrow>
               sv_join env (drop_lease env (pwc_lease p) (sv_promote_if env (pwc_promotion p) (publish_allowed env p) d))))"

text \<open>The variables of the loop; \<open>co_armed\<close> says that the authentication closure has not been taken.\<close>

record coordinator =
  co_armed :: bool
  co_promotion :: "post_write_cache_promotion option"
  co_report :: prompt_coordinator_report
  co_action :: prompt_connection_action
  co_phase :: prompt_connection_phase

datatype coordinator_end = CoordReturned prompt_coordinator_report | CoordFailed io_error | CoordPanicked

text \<open>What is dropped when the coordinator returns.\<close>

definition leave ::
  "('p, 's, 'm) server_env_scheme \<Rightarrow> post_write_cache_promotion option \<Rightarrow> prompt_connection_phase \<Rightarrow> ('p, 's) daemon
   \<Rightarrow> ('p, 's) daemon" where
  "leave env promotion phase d = drop_phase env phase (drop_lease env (Option.bind promotion pwc_lease) d)"

definition next_action ::
  "coordinator \<Rightarrow> prompt_connection_action \<times> prompt_connection_phase \<times> ('p, 's) daemon
   \<Rightarrow> ((coordinator_end + coordinator) \<times> ('p, 's) daemon) option" where
  "next_action c r = (case r of (action, phase, d) \<Rightarrow> Some (Inr (c\<lparr>co_action := action, co_phase := phase\<rparr>), d))"

definition step_send_prompt ::
  "'p prompt_manager \<Rightarrow> ('p, 's, 'm) supervisor_env_scheme \<Rightarrow> response \<Rightarrow> coordinator \<Rightarrow> ('p, 's) daemon
   \<Rightarrow> ((coordinator_end + coordinator) \<times> ('p, 's) daemon) option" where
  "step_send_prompt manager env response c d =
     (let c = c\<lparr>co_report := (co_report c)\<lparr>pcr_prompt_response_attempts :=
                 saturating_succ (pcr_prompt_response_attempts (co_report c))\<rparr>\<rparr>;
          eof = (\<lambda>phase d. case machine_eof env phase d of (_, phase, d) \<Rightarrow> leave env (co_promotion c) phase d)
      in case write_response env response d of
           None \<Rightarrow> None
         | Some (Inl e, d) \<Rightarrow> Some (Inl (CoordFailed e), eof (co_phase c) d)
         | Some (Inr _, d) \<Rightarrow>
             (case sv_try_clone env d of
                (Inl e, d) \<Rightarrow> Some (Inl (CoordFailed e), eof (co_phase c) d)
              | (Inr waker, d) \<Rightarrow>
                  (case prompt_sent_with_waker manager env (Some waker) (co_phase c) d of
                     (Inl action, phase, d) \<Rightarrow> next_action c (action, phase, d)
                   | (Inr deadline, phase, d) \<Rightarrow>
                       (case recv_prompt_message_until (srv_net env) deadline (machine_manager_terminated env phase) d of
                          None \<Rightarrow> None
                        | Some (Inr request, d) \<Rightarrow> next_action c (machine_receive manager env request phase d)
                        | Some (Inl e, d) \<Rightarrow>
                            (if e = InvalidData then next_action c (terminal_protocol_violation env False phase d)
                             else Some (Inl (CoordReturned (co_report c)), eof phase d))))))"

definition step_start_authentication ::
  "('p, 's, 'm) supervisor_env_scheme
   \<Rightarrow> (pending_prompt_record \<Rightarrow> ('p, 's) daemon \<Rightarrow> prompt_authentication \<times> ('p, 's) daemon)
   \<Rightarrow> pending_prompt_record \<Rightarrow> coordinator \<Rightarrow> ('p, 's) daemon
   \<Rightarrow> ((coordinator_end + coordinator) \<times> ('p, 's) daemon) option" where
  "step_start_authentication env run pending c d =
     (let c = c\<lparr>co_report := (co_report c)\<lparr>pcr_authentication_started := True\<rparr>\<rparr>
      in if \<not> co_armed c
         then Some (Inl CoordPanicked, drop_pending_prompt env pending (leave env (co_promotion c) (co_phase c) d))
         else case run pending d of
           (AuthCompleted response, d) \<Rightarrow>
             next_action (c\<lparr>co_armed := False\<rparr>) (finish_authentication env response (co_phase c) d)
         | (AuthActive active, d) \<Rightarrow>
             (case supervise_active_authentication env active (co_phase c) d of
                None \<Rightarrow> None
              | Some (r, promotion) \<Rightarrow>
                  (case r of (action, phase, d) \<Rightarrow>
                     next_action (c\<lparr>co_armed := False, co_promotion := promotion\<rparr>)
                       (action, phase, drop_lease env (Option.bind (co_promotion c) pwc_lease) d))))"

definition step_send_terminal ::
  "('p, 's, 'm) supervisor_env_scheme \<Rightarrow> response \<Rightarrow> coordinator \<Rightarrow> ('p, 's) daemon
   \<Rightarrow> ((coordinator_end + coordinator) \<times> ('p, 's) daemon) option" where
  "step_send_terminal env response c d =
     (let report = (co_report c)\<lparr>pcr_terminal_response_attempts :=
                      saturating_succ (pcr_terminal_response_attempts (co_report c))\<rparr>
      in case write_response env response d of
           None \<Rightarrow> None
         | Some (Inl e, d) \<Rightarrow> Some (Inl (CoordFailed e), leave env (co_promotion c) (co_phase c) d)
         | Some (Inr _, d) \<Rightarrow>
             Some (Inl (CoordReturned report),
               leave env None (co_phase c)
                 (case co_promotion c of None \<Rightarrow> d | Some p \<Rightarrow> finish_after_successful_write env p d)))"

definition coordinate_step ::
  "'p prompt_manager \<Rightarrow> ('p, 's, 'm) supervisor_env_scheme
   \<Rightarrow> (pending_prompt_record \<Rightarrow> ('p, 's) daemon \<Rightarrow> prompt_authentication \<times> ('p, 's) daemon)
   \<Rightarrow> coordinator \<Rightarrow> ('p, 's) daemon \<Rightarrow> ((coordinator_end + coordinator) \<times> ('p, 's) daemon) option" where
  "coordinate_step manager env run c d =
     (case co_action c of
        SendPrompt response \<Rightarrow> step_send_prompt manager env response c d
      | StartAuthentication pending \<Rightarrow> step_start_authentication env run pending c d
      | SendTerminal response \<Rightarrow> step_send_terminal env response c d
      | CancelActiveAndSendTerminal response \<Rightarrow> step_send_terminal env response c d
      | CancelActiveWithoutResponse \<Rightarrow>
          Some (Inl (CoordReturned (co_report c)), leave env (co_promotion c) (co_phase c) d)
      | CloseWithoutResponse \<Rightarrow>
          Some (Inl (CoordReturned (co_report c)), leave env (co_promotion c) (co_phase c) d))"

partial_function (option) coordinate_loop ::
  "'p prompt_manager \<Rightarrow> ('p, 's, 'm) supervisor_env_scheme
   \<Rightarrow> (pending_prompt_record \<Rightarrow> ('p, 's) daemon \<Rightarrow> prompt_authentication \<times> ('p, 's) daemon)
   \<Rightarrow> coordinator \<Rightarrow> ('p, 's) daemon \<Rightarrow> (coordinator_end \<times> ('p, 's) daemon) option" where
  "coordinate_loop manager env run c d =
     (case coordinate_step manager env run c d of
        None \<Rightarrow> None
      | Some (r, d) \<Rightarrow>
          (case r of Inl e \<Rightarrow> Some (e, d) | Inr c \<Rightarrow> coordinate_loop manager env run c d))"

definition coordinator_new :: "prompt_connection_action \<Rightarrow> prompt_connection_phase \<Rightarrow> coordinator" where
  "coordinator_new action phase =
     \<lparr>co_armed = True, co_promotion = None,
      co_report = \<lparr>pcr_prompt_response_attempts = 0, pcr_terminal_response_attempts = 0,
                   pcr_authentication_started = False\<rparr>,
      co_action = action, co_phase = phase\<rparr>"

definition coordinate_prompt_connection_with_shutdown ::
  "'p prompt_manager \<Rightarrow> ('p, 's, 'm) supervisor_env_scheme \<Rightarrow> request option
   \<Rightarrow> (begin_auth_req \<Rightarrow> ('p, 's) daemon \<Rightarrow> (prompt_error_code + pending_prompt_record) \<times> ('p, 's) daemon)
   \<Rightarrow> (pending_prompt_record \<Rightarrow> ('p, 's) daemon \<Rightarrow> prompt_authentication \<times> ('p, 's) daemon)
   \<Rightarrow> ('p, 's) daemon \<Rightarrow> (coordinator_end \<times> ('p, 's) daemon) option" where
  "coordinate_prompt_connection_with_shutdown manager env initial prepare_pending run d =
     (case (case initial of Some request \<Rightarrow> Some (Inr request, d) | None \<Rightarrow> recv_prompt_message (srv_net env) d) of
        None \<Rightarrow> None
      | Some (Inl e, d) \<Rightarrow> Some (CoordFailed e, d)
      | Some (Inr request, d) \<Rightarrow>
          (case (case request of
                   Some (CmdBeginAuthV1 begn) \<Rightarrow> begin_with env begn prepare_pending machine_new d
                 | _ \<Rightarrow> machine_receive manager env request machine_new d) of
             (action, phase, d) \<Rightarrow> coordinate_loop manager env run (coordinator_new action phase) d))"

end
