(* ===== verification/ServerRun.thy ===== *)
theory ServerRun
  imports ServerConnection Framing
begin

section \<open>Runs of a prompt connection\<close>

text \<open>
  The states the coordinator of a prompt connection passes through, as an inductive relation over
  \<open>coordinate_step\<close>, with the invariant that ties its next action to the phase of the connection
  machine.  At most three steps are taken: the prompt, the authentication, the terminal response.
\<close>

declare split_paired_Ex [simp del] split_paired_All [simp del]

inductive coordinator_reaches ::
  "'p prompt_manager \<Rightarrow> ('p, 's, 'm) supervisor_env_scheme
   \<Rightarrow> (begin_auth_req \<Rightarrow> ('p, 's) daemon \<Rightarrow> (prompt_error_code + pending_prompt_record) \<times> ('p, 's) daemon)
   \<Rightarrow> (pending_prompt_record \<Rightarrow> ('p, 's) daemon \<Rightarrow> prompt_authentication \<times> ('p, 's) daemon)
   \<Rightarrow> request \<Rightarrow> ('p, 's) daemon \<Rightarrow> coordinator \<Rightarrow> ('p, 's) daemon \<Rightarrow> bool"
  for manager env prepare_pending run request d where
  begun:
    "request = Some (CmdBeginAuthV1 begn) \<Longrightarrow> begin_with env begn prepare_pending machine_new d = (action, phase, d') \<Longrightarrow>
     coordinator_reaches manager env prepare_pending run request d (coordinator_new action phase) d'"
| refused:
    "\<nexists>begn. request = Some (CmdBeginAuthV1 begn) \<Longrightarrow> machine_receive manager env request machine_new d = (action, phase, d') \<Longrightarrow>
     coordinator_reaches manager env prepare_pending run request d (coordinator_new action phase) d'"
| step:
    "coordinator_reaches manager env prepare_pending run request d c d1 \<Longrightarrow>
     coordinate_step manager env run c d1 = Some (Inr c', d2) \<Longrightarrow>
     coordinator_reaches manager env prepare_pending run request d c' d2"

text \<open>The authorization of a commit.\<close>

lemma authorize_commit_Inr:
  "authorize_and_then resolve CommitAuth
     \<lparr>peer_uid = peer, confirmation_required = True, connection_phase = PendingAuth peer target\<rparr> id = Inr (Some t)
   \<longleftrightarrow> t = target \<and> resolves resolve (ci_username target) target \<and> peer_may_target peer target"
proof (cases "resolve_canonical_target resolve (ci_username target)")
  case (Inl e)
  then have "\<not> resolves resolve (ci_username target) target" using resolve_canonical_target_Inr by (metis sum.distinct(1))
  with Inl show ?thesis
    by (simp add: authorize_and_then_def authorize_def authorize_result_def requested_target_def)
next
  case (Inr t')
  then have t': "resolves resolve (ci_username target) t'" by (simp add: resolve_canonical_target_Inr)
  have "resolves resolve (ci_username target) target \<longleftrightarrow> t' = target" using t' by (auto simp: resolves_def)
  with Inr show ?thesis
    by (auto simp: authorize_and_then_def authorize_def authorize_result_def requested_target_def is_some_and_def
        split: sum.splits if_splits simp del: resolve_canonical_target_Inr)
qed

text \<open>What an action means for the machine and the report, and how many steps can follow it.\<close>

definition coordinator_inv :: "coordinator \<Rightarrow> bool" where
  "coordinator_inv c \<longleftrightarrow>
     pcr_terminal_response_attempts (co_report c) = 0
     \<and> (case co_action c of
          SendPrompt _ \<Rightarrow>
            (\<exists>r. co_phase c = PhasePending r) \<and> co_armed c \<and> co_promotion c = None
            \<and> pcr_prompt_response_attempts (co_report c) = 0 \<and> \<not> pcr_authentication_started (co_report c)
        | StartAuthentication _ \<Rightarrow>
            co_phase c = PhaseCommitted \<and> co_armed c \<and> co_promotion c = None
            \<and> pcr_prompt_response_attempts (co_report c) = 1 \<and> \<not> pcr_authentication_started (co_report c)
        | _ \<Rightarrow>
            co_phase c = PhaseClosed \<and> pcr_prompt_response_attempts (co_report c) \<le> 1
            \<and> (pcr_authentication_started (co_report c) \<longrightarrow> pcr_prompt_response_attempts (co_report c) = 1))"

fun action_rank :: "prompt_connection_action \<Rightarrow> nat" where
  "action_rank (SendPrompt _) = 2"
| "action_rank (StartAuthentication _) = 1"
| "action_rank _ = 0"

fun is_final_action :: "prompt_connection_action \<Rightarrow> bool" where
  "is_final_action (SendPrompt _) = False"
| "is_final_action (StartAuthentication _) = False"
| "is_final_action _ = True"

subsection \<open>The operations of the machine\<close>

lemma terminal_protocol_violation_final:
  "terminal_protocol_violation env cancel phase d = (action, phase', d') \<Longrightarrow> is_final_action action \<and> phase' = PhaseClosed"
  by (auto simp: terminal_protocol_violation_def Let_def split: if_splits)

lemma machine_eof_final:
  "machine_eof env phase d = (action, phase', d') \<Longrightarrow> is_final_action action \<and> phase' = PhaseClosed"
  by (auto simp: machine_eof_def split: prompt_connection_phase.splits)

lemma finish_authentication_final:
  "finish_authentication env response phase d = (action, phase', d') \<Longrightarrow> is_final_action action \<and> phase' = PhaseClosed"
  unfolding finish_authentication_def
  by (auto split: prompt_connection_phase.splits dest: terminal_protocol_violation_final)

lemma begin_with_outcome:
  assumes "begin_with env begn issue machine_new d = (action, phase, d')"
  shows "is_final_action action \<and> phase = PhaseClosed
    \<or> (\<exists>r. action = SendPrompt (pending_prompt_response r) \<and> phase = PhasePending r \<and> issue begn d = (Inr r, d')
         \<and> begin_auth_validate begn = Inr () \<and> ppr_username r = ba_username begn
         \<and> constant_time_eq (ppr_client_nonce r) (ba_client_nonce begn))"
  using assms unfolding begin_with_def machine_new_def
  by (auto split: sum.splits prod.splits if_splits)

lemma machine_receive_outcome:
  assumes "machine_receive manager env request phase d = (action, phase', d')"
  shows "is_final_action action \<and> phase' = PhaseClosed
    \<or> (\<exists>r commit r'. phase = PhasePending r \<and> request = Some (CmdCommitAuthV1 commit)
         \<and> transaction_validate commit = Inr ()
         \<and> pending_claim_commit manager env (tr_transaction_token commit) (tr_client_nonce commit) r d = (Inr (), r', d')
         \<and> action = StartAuthentication r' \<and> phase' = PhaseCommitted)"
  using assms unfolding machine_receive_def
  by (auto split: prompt_connection_phase.splits option.splits cmd.splits sum.splits prod.splits
      dest: terminal_protocol_violation_final)

lemma prompt_sent_outcome:
  assumes "prompt_sent_with_waker manager env waker phase d = (Inl action, phase', d')"
  shows "is_final_action action \<and> phase' = PhaseClosed"
  using assms unfolding prompt_sent_with_waker_def
  by (auto split: prompt_connection_phase.splits sum.splits prod.splits dest: terminal_protocol_violation_final)

lemma prompt_sent_phase:
  "prompt_sent_with_waker manager env waker phase d = (Inr deadline, phase', d') \<Longrightarrow> phase' = phase"
  unfolding prompt_sent_with_waker_def
  by (auto split: prompt_connection_phase.splits sum.splits prod.splits)

subsection \<open>Supervision ends the connection\<close>

definition closes :: "('p, 's) machine_op \<Rightarrow> bool" where
  "closes respond \<longleftrightarrow> (\<forall>phase d action phase' d'. respond phase d = (action, phase', d')
     \<longrightarrow> is_final_action action \<and> phase' = PhaseClosed)"

lemma closes_responses:
  "closes (machine_eof env)" "closes (finish_authentication env response)" "closes (terminal_protocol_violation env cancel)"
  unfolding closes_def
  using machine_eof_final finish_authentication_final terminal_protocol_violation_final by blast+

lemma closesD: "closes respond \<Longrightarrow> respond phase d = (action, phase', d') \<Longrightarrow> is_final_action action \<and> phase' = PhaseClosed"
  unfolding closes_def by blast

lemma finish_without_worker_final:
  assumes "\<forall>respond. answer = Some respond \<longrightarrow> closes respond"
    and "finish_without_worker env active answer phase d = Some (action, phase', d')"
  shows "is_final_action action \<and> phase' = PhaseClosed"
  using assms unfolding finish_without_worker_def Let_def
  by (auto split: prod.splits option.splits bool.splits dest: closesD machine_eof_final)

lemma refuse_completion_final:
  assumes "\<forall>respond. answer = Some respond \<longrightarrow> closes respond"
    and "refuse_completion env active completion answer phase d = (action, phase', d')"
  shows "is_final_action action \<and> phase' = PhaseClosed"
  using assms unfolding refuse_completion_def Let_def
  by (auto split: prod.splits option.splits bool.splits dest: closesD machine_eof_final)

text \<open>A worker's completion that the supervisor hands on: after it was received, the peer was quiet and
  nothing had stopped the work, twice.\<close>

definition handed_on ::
  "('p, 's, 'm) supervisor_env_scheme \<Rightarrow> active_prompt_authentication \<Rightarrow> prompt_worker_completion \<Rightarrow> ('p, 's) daemon
   \<Rightarrow> ('p, 's) daemon \<Rightarrow> bool" where
  "handed_on env active completion d d' \<longleftrightarrow>
     (\<exists>d1 d2. supervise_loop env (active_work_deadline (apa_deadline active)) (apa_control active) d
                = Some (WinWorker completion, d1)
        \<and> inspect_active_socket env 0 (sv_join env d1) = (Inr Quiet, d2)
        \<and> work_stopped env (active_work_deadline (apa_deadline active)) (apa_control active) d2 = (False, d'))"

lemma finish_worker_cases:
  assumes "finish_worker env active completion phase d = ((action, phase', d'), promotion)"
  shows "is_final_action action \<and> phase' = PhaseClosed
    \<and> (promotion = None \<and> (\<nexists>r. action = SendTerminal (Some (RSuccess r)))
       \<or> (\<exists>d1 d2 d3. inspect_active_socket env 0 (sv_join env d) = (Inr Quiet, d1)
            \<and> work_stopped env (active_work_deadline (apa_deadline active)) (apa_control active) d1 = (False, d2)
            \<and> finish_authentication env (wc_response completion) phase d2 = (action, phase', d3)))"
proof -
  let ?u = "finish_authentication env (response_error (ascii ''authentication unavailable''))"
  have refuse: "is_final_action a \<and> ph = PhaseClosed \<and> (\<nexists>r. a = SendTerminal (Some (RSuccess r)))"
    if "refuse_completion env active completion answer phase d0 = (a, ph, d9)"
      "answer \<in> {None, Some (terminal_protocol_violation env True), Some ?u}" for answer d0 a ph d9
  proof -
    have "\<forall>respond. answer = Some respond \<longrightarrow> closes respond" using that(2) closes_responses by auto
    moreover have "a \<noteq> SendTerminal (Some (RSuccess r))" for r
      using that unfolding refuse_completion_def Let_def
      by (auto split: prod.splits option.splits bool.splits prompt_connection_phase.splits if_splits
          simp: machine_eof_def terminal_protocol_violation_def finish_authentication_def
            response_error_def response_prompt_error_def response_error_code_def)
    ultimately show ?thesis using refuse_completion_final [OF _ that(1)] by blast
  qed
  obtain event d1 where i: "inspect_active_socket env 0 (sv_join env d) = (event, d1)" by (metis surj_pair)
  show ?thesis
  proof (cases "event = Inr Quiet")
    case True
    obtain stop d2 where w: "work_stopped env (active_work_deadline (apa_deadline active)) (apa_control active) d1 = (stop, d2)"
      by (metis surj_pair)
    show ?thesis
    proof (cases stop)
      case True
      with i \<open>event = Inr Quiet\<close> w assms
      have r: "refuse_completion env active completion (Some ?u) phase d2 = (action, phase', d')" "promotion = None"
        by (simp_all add: finish_worker_def Let_def)
      show ?thesis using refuse [OF r(1)] r(2) by blast
    next
      case False
      obtain a ph d3 where f: "finish_authentication env (wc_response completion) phase d2 = (a, ph, d3)" by (metis surj_pair)
      with i \<open>event = Inr Quiet\<close> w False assms have "action = a" "phase' = ph"
        by (auto simp: finish_worker_def Let_def split: bool.splits option.splits)
      moreover have "stop = False" using False by simp
      ultimately show ?thesis using f i w \<open>event = Inr Quiet\<close> finish_authentication_final [OF f] by blast
    qed
  next
    case False
    then obtain answer where r: "refuse_completion env active completion answer phase d1 = (action, phase', d')"
      and "promotion = None" "answer \<in> {None, Some (terminal_protocol_violation env True), Some ?u}"
      using i assms by (cases event) (auto simp: finish_worker_def Let_def split: active_socket_event.splits)
    then show ?thesis using refuse [OF r] by blast
  qed
qed

lemma supervise_cases:
  assumes "supervise_active_authentication env active phase d = Some ((action, phase', d'), promotion)"
  shows "is_final_action action \<and> phase' = PhaseClosed
    \<and> (promotion = None \<and> (\<nexists>r. action = SendTerminal (Some (RSuccess r)))
       \<or> (\<exists>completion d1 d2. handed_on env active completion d d1
            \<and> finish_authentication env (wc_response completion) phase d1 = (action, phase', d2)))"
proof -
  let ?u = "finish_authentication env (response_error (ascii ''authentication unavailable''))"
  obtain w d1 where l: "supervise_loop env (active_work_deadline (apa_deadline active)) (apa_control active) d = Some (w, d1)"
    using assms unfolding supervise_active_authentication_def by (auto split: option.splits)
  show ?thesis
  proof (cases "\<exists>completion. w = WinWorker completion")
    case True
    then obtain completion where "w = WinWorker completion" by blast
    with assms l have "finish_worker env active completion phase d1 = ((action, phase', d'), promotion)"
      by (simp add: supervise_active_authentication_def)
    from finish_worker_cases [OF this] show ?thesis
      using l \<open>w = WinWorker completion\<close> unfolding handed_on_def by blast
  next
    case False
    then obtain answer where f: "finish_without_worker env active answer phase d1 = Some (action, phase', d')"
      and "promotion = None" and a: "answer \<in> {None, Some (terminal_protocol_violation env True), Some ?u}"
      using assms l by (cases w) (auto simp: supervise_active_authentication_def)
    moreover have "\<forall>respond. answer = Some respond \<longrightarrow> closes respond" using a closes_responses by auto
    moreover have "action \<noteq> SendTerminal (Some (RSuccess r))" for r
      using f a unfolding finish_without_worker_def Let_def
      by (auto split: prod.splits option.splits bool.splits prompt_connection_phase.splits if_splits
          simp: machine_eof_def terminal_protocol_violation_def finish_authentication_def
            response_error_def response_prompt_error_def response_error_code_def)
    ultimately show ?thesis using finish_without_worker_final by blast
  qed
qed

subsection \<open>The invariant\<close>

lemma final_inv:
  assumes "is_final_action (co_action c)" and "co_phase c = PhaseClosed" and "pcr_terminal_response_attempts (co_report c) = 0"
    and "pcr_prompt_response_attempts (co_report c) \<le> 1"
    and "pcr_authentication_started (co_report c) \<longrightarrow> pcr_prompt_response_attempts (co_report c) = 1"
  shows "coordinator_inv c"
  using assms by (cases "co_action c") (simp_all add: coordinator_inv_def)

lemma final_rank: "is_final_action action \<Longrightarrow> action_rank action = 0"
  by (cases action) simp_all

lemma next_actionE:
  assumes "next_action c r = Some (Inr c', d')"
  obtains action phase where "r = (action, phase, d')" and "c' = c\<lparr>co_action := action, co_phase := phase\<rparr>"
  using assms by (cases r) (auto simp: next_action_def)

text \<open>The outcomes of the first step: the connection is closing, or a commit was claimed.\<close>

definition prompt_counted :: "coordinator \<Rightarrow> coordinator" where
  "prompt_counted c = c\<lparr>co_report := (co_report c)\<lparr>pcr_prompt_response_attempts :=
     saturating_succ (pcr_prompt_response_attempts (co_report c))\<rparr>\<rparr>"

lemma step_send_promptE:
  assumes "step_send_prompt manager env response c d = Some (Inr c', d')"
  obtains (refused) waker d1 action result where
      "prompt_sent_with_waker manager env (Some waker) (co_phase c) d1 = (Inl action, result)"
      "next_action (prompt_counted c) (action, result) = Some (Inr c', d')"
  | (received) waker d1 deadline phase d2 d3 request where
      "prompt_sent_with_waker manager env (Some waker) (co_phase c) d1 = (Inr deadline, phase, d2)"
      "next_action (prompt_counted c) (machine_receive manager env request phase d3) = Some (Inr c', d')"
  | (violation) phase d3 where
      "next_action (prompt_counted c) (terminal_protocol_violation env False phase d3) = Some (Inr c', d')"
  using assms unfolding step_send_prompt_def Let_def prompt_counted_def
  by (simp split: option.splits prod.splits sum.splits if_splits)

lemma step_send_prompt_cases:
  assumes "step_send_prompt manager env response c d = Some (Inr c', d')"
  shows "co_armed c' = co_armed c \<and> co_promotion c' = co_promotion c
    \<and> co_report c' = (co_report c)\<lparr>pcr_prompt_response_attempts :=
        saturating_succ (pcr_prompt_response_attempts (co_report c))\<rparr>
    \<and> (is_final_action (co_action c') \<and> co_phase c' = PhaseClosed
       \<or> (\<exists>r commit r' d1. co_phase c = PhasePending r \<and> transaction_validate commit = Inr ()
            \<and> pending_claim_commit manager env (tr_transaction_token commit) (tr_client_nonce commit) r d1 = (Inr (), r', d')
            \<and> co_action c' = StartAuthentication r' \<and> co_phase c' = PhaseCommitted))"
  using assms
proof (cases rule: step_send_promptE)
  case (refused waker d1 action result)
  then obtain phase d2 where "result = (phase, d2)" by (cases result)
  with refused show ?thesis by (auto elim!: next_actionE dest!: prompt_sent_outcome simp: prompt_counted_def)
next
  case (received waker d1 deadline phase d2 d3 request)
  then have "phase = co_phase c" using prompt_sent_phase by blast
  with received(2) show ?thesis by (auto elim!: next_actionE dest!: machine_receive_outcome simp: prompt_counted_def)
next
  case (violation phase d3)
  then show ?thesis by (auto elim!: next_actionE dest!: terminal_protocol_violation_final simp: prompt_counted_def)
qed

text \<open>No step before the authentication answers with success.\<close>

lemma machine_receive_no_success:
  "machine_receive manager env request phase d = (action, phase', d') \<Longrightarrow> action \<noteq> SendTerminal (Some (RSuccess r))"
  unfolding machine_receive_def terminal_protocol_violation_def
  by (auto simp: response_prompt_error_def response_error_code_def Let_def
      split: prompt_connection_phase.splits option.splits cmd.splits sum.splits prod.splits)

lemma prompt_sent_no_success:
  "prompt_sent_with_waker manager env waker phase d = (Inl action, phase', d') \<Longrightarrow> action \<noteq> SendTerminal (Some (RSuccess r))"
  unfolding prompt_sent_with_waker_def terminal_protocol_violation_def
  by (auto simp: response_prompt_error_def response_error_code_def Let_def
      split: prompt_connection_phase.splits sum.splits prod.splits)

lemma step_send_prompt_no_success:
  assumes "step_send_prompt manager env response c d = Some (Inr c', d')"
  shows "co_action c' \<noteq> SendTerminal (Some (RSuccess r))"
  using assms
proof (cases rule: step_send_promptE)
  case (refused waker d1 action result)
  then obtain phase d2 where "result = (phase, d2)" by (cases result)
  with refused show ?thesis by (auto elim!: next_actionE dest!: prompt_sent_no_success [where r = r])
next
  case (received waker d1 deadline phase d2 d3 request)
  from received(2) show ?thesis by (auto elim!: next_actionE dest!: machine_receive_no_success [where r = r])
next
  case (violation phase d3)
  then show ?thesis
    by (auto elim!: next_actionE simp: terminal_protocol_violation_def response_prompt_error_def
        response_error_code_def Let_def)
qed

lemma finish_authentication_success:
  assumes "finish_authentication env response phase d = (SendTerminal (Some (RSuccess r)), phase', d')"
  shows "response = Some (RSuccess r)"
  using assms unfolding finish_authentication_def terminal_protocol_violation_def Let_def
  by (auto simp: response_prompt_error_def response_error_code_def split: prompt_connection_phase.splits if_splits)

text \<open>A success that authentication leads to: the closure completed with it at once, or the supervisor handed
  on a completion with it.\<close>

definition authenticated ::
  "('p, 's, 'm) supervisor_env_scheme
   \<Rightarrow> (pending_prompt_record \<Rightarrow> ('p, 's) daemon \<Rightarrow> prompt_authentication \<times> ('p, 's) daemon)
   \<Rightarrow> pending_prompt_record \<Rightarrow> auth_success \<Rightarrow> ('p, 's) daemon \<Rightarrow> bool" where
  "authenticated env run pending r d \<longleftrightarrow>
     (\<exists>d1. run pending d = (AuthCompleted (Some (RSuccess r)), d1))
     \<or> (\<exists>active completion d1 d2. run pending d = (AuthActive active, d1)
          \<and> handed_on env active completion d1 d2 \<and> wc_response completion = Some (RSuccess r))"

lemma step_start_cases:
  assumes "step_start_authentication env run pending c d = Some (Inr c', d')"
  shows "co_armed c \<and> co_report c' = (co_report c)\<lparr>pcr_authentication_started := True\<rparr>
    \<and> is_final_action (co_action c') \<and> co_phase c' = PhaseClosed
    \<and> (\<forall>r. co_action c' = SendTerminal (Some (RSuccess r)) \<longrightarrow> authenticated env run pending r d)"
proof -
  define c0 where "c0 = c\<lparr>co_report := (co_report c)\<lparr>pcr_authentication_started := True\<rparr>\<rparr>"
  have armed: "co_armed c" using assms by (auto simp: step_start_authentication_def Let_def split: if_splits)
  from assms consider
      (completed) response d1 where "run pending d = (AuthCompleted response, d1)"
        "next_action (c0\<lparr>co_armed := False\<rparr>) (finish_authentication env response (co_phase c) d1) = Some (Inr c', d')"
    | (active) active d1 action phase d2 promotion d3 where "run pending d = (AuthActive active, d1)"
        "supervise_active_authentication env active (co_phase c) d1 = Some ((action, phase, d2), promotion)"
        "next_action (c0\<lparr>co_armed := False, co_promotion := promotion\<rparr>) (action, phase, d3) = Some (Inr c', d')"
    unfolding step_start_authentication_def Let_def c0_def
    by (simp split: option.splits prod.splits prompt_authentication.splits if_splits)
  then show ?thesis
  proof cases
    case completed
    then obtain action phase where f: "finish_authentication env response (co_phase c) d1 = (action, phase, d')"
      and c': "c' = c0\<lparr>co_armed := False, co_action := action, co_phase := phase\<rparr>" by (elim next_actionE) simp
    have "response = Some (RSuccess r)" if "action = SendTerminal (Some (RSuccess r))" for r
      using f finish_authentication_success that by blast
    then show ?thesis
      using armed completed(1) c' finish_authentication_final [OF f] by (auto simp: c0_def authenticated_def)
  next
    case active
    then have c': "c' = c0\<lparr>co_armed := False, co_promotion := promotion, co_action := action, co_phase := phase\<rparr>"
      by (auto elim!: next_actionE)
    have "authenticated env run pending r d" if "action = SendTerminal (Some (RSuccess r))" for r
      using supervise_cases [OF active(2)] that active(1) finish_authentication_success
      unfolding authenticated_def by blast
    then show ?thesis using armed c' supervise_cases [OF active(2)] by (simp add: c0_def)
  qed
qed

lemma coordinate_step_inv:
  assumes "coordinator_inv c" and "coordinate_step manager env run c d = Some (Inr c', d')"
  shows "coordinator_inv c' \<and> action_rank (co_action c') < action_rank (co_action c)"
proof (cases "co_action c")
  case (SendPrompt response)
  with assms(2) have s: "step_send_prompt manager env response c d = Some (Inr c', d')" by (simp add: coordinate_step_def)
  note step = step_send_prompt_cases [OF s]
  have "saturating_succ 0 = 1" by (simp add: saturating_succ_def)
  with step assms(1) SendPrompt have "is_final_action (co_action c') \<Longrightarrow> co_phase c' = PhaseClosed \<Longrightarrow> coordinator_inv c'"
    by (intro final_inv) (auto simp: coordinator_inv_def)
  moreover have "coordinator_inv c'" if "co_action c' = StartAuthentication r" "co_phase c' = PhaseCommitted" for r
    using that step assms(1) SendPrompt \<open>saturating_succ 0 = 1\<close> by (simp add: coordinator_inv_def)
  ultimately show ?thesis using step SendPrompt by (auto simp: final_rank)
next
  case (StartAuthentication pending)
  with assms(2) have s: "step_start_authentication env run pending c d = Some (Inr c', d')" by (simp add: coordinate_step_def)
  note step = step_start_cases [OF s]
  have "pcr_terminal_response_attempts (co_report c) = 0 \<and> pcr_prompt_response_attempts (co_report c) = 1"
    using assms(1) StartAuthentication by (simp add: coordinator_inv_def)
  with step have "coordinator_inv c'" by (intro final_inv) auto
  then show ?thesis using step StartAuthentication by (simp add: final_rank)
qed (use assms(2) in \<open>auto simp: coordinate_step_def step_send_terminal_def Let_def split: option.splits prod.splits sum.splits\<close>)

lemma coordinator_new_inv:
  assumes "(\<exists>r. action = SendPrompt (pending_prompt_response r) \<and> phase = PhasePending r)
    \<or> is_final_action action \<and> phase = PhaseClosed"
  shows "coordinator_inv (coordinator_new action phase)"
  using assms by (cases action) (auto simp: coordinator_inv_def coordinator_new_def)

lemma machine_receive_initial:
  "machine_receive manager env request machine_new d = (action, phase, d') \<Longrightarrow> is_final_action action \<and> phase = PhaseClosed"
  using machine_receive_outcome [of manager env request machine_new d action phase d'] by (auto simp: machine_new_def)

lemma coordinator_reaches_inv:
  "coordinator_reaches manager env prepare_pending run request d c d' \<Longrightarrow> coordinator_inv c"
proof (induction rule: coordinator_reaches.induct)
  case (begun begn action phase d')
  then show ?case using begin_with_outcome [OF begun(2)] by (intro coordinator_new_inv) auto
next
  case (refused action phase d')
  then show ?case using machine_receive_initial [OF refused(2)] by (intro coordinator_new_inv) auto
next
  case (step c d1 c' d2)
  then show ?case using coordinate_step_inv by blast
qed

subsection \<open>The loop\<close>

lemma coordinate_loop_last:
  assumes "coordinator_reaches manager env prepare_pending run request d c d1"
    and "coordinate_loop manager env run c d1 = Some (e, d')"
  shows "\<exists>c' d2. coordinator_reaches manager env prepare_pending run request d c' d2
    \<and> coordinate_step manager env run c' d2 = Some (Inl e, d')"
  using assms
proof (induction "action_rank (co_action c)" arbitrary: c d1 rule: less_induct)
  case less
  obtain r d2 where s: "coordinate_step manager env run c d1 = Some (r, d2)"
    using less.prems(2) by (auto simp: coordinate_loop.simps [of _ _ _ c] split: option.splits)
  show ?case
  proof (cases r)
    case (Inl e')
    with less.prems s show ?thesis by (auto simp: coordinate_loop.simps [of _ _ _ c])
  next
    case (Inr c')
    with s have step: "coordinate_step manager env run c d1 = Some (Inr c', d2)" by simp
    have "coordinate_loop manager env run c' d2 = Some (e, d')"
      using less.prems(2) step by (simp add: coordinate_loop.simps [of _ _ _ c])
    with coordinator_reaches.step [OF less.prems(1) step] coordinate_step_inv [OF coordinator_reaches_inv step] less.prems(1)
    show ?thesis using less.hyps by blast
  qed
qed

lemma coordinate_loop_returns:
  assumes "coordinator_inv c" and "\<And>c d. \<exists>r d'. coordinate_step manager env run c d = Some (r, d')"
  shows "\<exists>e d'. coordinate_loop manager env run c d = Some (e, d')"
  using assms(1)
proof (induction "action_rank (co_action c)" arbitrary: c d rule: less_induct)
  case less
  obtain r d2 where s: "coordinate_step manager env run c d = Some (r, d2)" using assms(2) by blast
  show ?case
  proof (cases r)
    case (Inr c')
    with s have "coordinate_step manager env run c d = Some (Inr c', d2)" by simp
    with coordinate_step_inv [OF less.prems this] less.hyps show ?thesis
      by (subst coordinate_loop.simps) (simp add: Inr)
  qed (use s in \<open>simp add: coordinate_loop.simps [of _ _ _ c]\<close>)
qed

lemma coordinate_reaches_last:
  assumes "coordinate_prompt_connection_with_shutdown manager env (Some request) prepare_pending run d = Some (e, d')"
  shows "\<exists>c d1. coordinator_reaches manager env prepare_pending run request d c d1
    \<and> coordinate_step manager env run c d1 = Some (Inl e, d')"
proof (cases "\<exists>begn. request = Some (CmdBeginAuthV1 begn)")
  case True
  then obtain begn where req: "request = Some (CmdBeginAuthV1 begn)" by blast
  obtain action phase d1 where b: "begin_with env begn prepare_pending machine_new d = (action, phase, d1)" by (metis surj_pair)
  with assms req have "coordinate_loop manager env run (coordinator_new action phase) d1 = Some (e, d')"
    by (simp add: coordinate_prompt_connection_with_shutdown_def)
  with coordinate_loop_last coordinator_reaches.begun [OF req b] show ?thesis by blast
next
  case False
  obtain action phase d1 where m: "machine_receive manager env request machine_new d = (action, phase, d1)" by (metis surj_pair)
  with assms False have "coordinate_loop manager env run (coordinator_new action phase) d1 = Some (e, d')"
    by (auto simp: coordinate_prompt_connection_with_shutdown_def split: option.splits cmd.splits)
  with coordinate_loop_last coordinator_reaches.refused [OF False m] show ?thesis by blast
qed

lemma coordinate_returns:
  assumes "\<And>c d. \<exists>r d'. coordinate_step manager env run c d = Some (r, d')"
  shows "\<exists>e d'. coordinate_prompt_connection_with_shutdown manager env (Some request) prepare_pending run d = Some (e, d')"
proof -
  obtain action phase d1 where m: "(case request of
      Some (CmdBeginAuthV1 begn) \<Rightarrow> begin_with env begn prepare_pending machine_new d
    | _ \<Rightarrow> machine_receive manager env request machine_new d) = (action, phase, d1)" by (metis surj_pair)
  have "coordinator_inv (coordinator_new action phase)"
    using m by (intro coordinator_new_inv)
      (auto split: option.splits cmd.splits dest: begin_with_outcome machine_receive_initial)
  from coordinate_loop_returns [OF this assms] m show ?thesis
    by (simp add: coordinate_prompt_connection_with_shutdown_def)
qed

end
