(* ===== verification/ServerReturns.thy ===== *)
theory ServerReturns
  imports ServerRun
begin

section \<open>Prompt connections return\<close>

text \<open>
  Every loop of the prompt path is bounded by a deadline.  When the clock runs, and interruptions of writes
  end, supervision, the wait for a cancelled worker and the coordinator return, whatever the peer, the
  worker and the other threads do.
\<close>

text \<open>The clock: reading it moves it on, nothing turns it back, and it is not part of the manager.\<close>

definition steady :: "('p, 's, 'm) supervisor_env_scheme \<Rightarrow> (('p, 's) daemon \<Rightarrow> instant) \<Rightarrow> bool" where
  "steady env tm \<longleftrightarrow>
     clock_runs (srv_net env) tm \<and> (\<forall>w w' x. tm (w, x) = tm (w', x))
     \<and> (\<forall>d. tm d \<le> tm (se_others env d)) \<and> (\<forall>e n d. tm d \<le> tm (snd (sv_poll env e n d)))
     \<and> (\<forall>d. tm d \<le> tm (snd (sv_peek env d))) \<and> (\<forall>d. tm d \<le> tm (snd (sv_shutdown_requested env d)))
     \<and> (\<forall>d. tm d \<le> tm (snd (sv_try_recv env d))) \<and> (\<forall>d. tm d \<le> tm (snd (sv_is_finished env d)))
     \<and> (\<forall>d. tm d \<le> tm (sv_sleep env d))"

lemma srv_net_simps [simp]:
  "net_now (net.truncate env) = net_now env" "net_read (net.truncate env) = net_read env"
  "net_write (net.truncate env) = net_write env" "net_flush (net.truncate env) = net_flush env"
  "net_set_read_timeout (net.truncate env) = net_set_read_timeout env"
  "net_set_write_timeout (net.truncate env) = net_set_write_timeout env"
  "net_encode (net.truncate env) = net_encode env" "net_decode (net.truncate env) = net_decode env"
  by (simp_all add: net.truncate_def)

lemma steady_clock: "steady env tm \<Longrightarrow> clock_runs (srv_net env) tm"
  by (simp add: steady_def)

lemma steady_now:
  assumes "steady env tm" and "net_now env d = (now, d')"
  shows "now = tm d \<and> tm d < tm d'"
  using clock_runsD(1) [OF steady_clock [OF assms(1)], of d now d'] assms(2) by simp

lemma steady_world: "steady env tm \<Longrightarrow> tm (w, x) = tm (w', x)"
  unfolding steady_def by blast

lemma steady_mono:
  assumes "steady env tm"
  shows "tm d \<le> tm (se_others env d)" and "tm d \<le> tm (snd (sv_poll env e n d))" and "tm d \<le> tm (snd (sv_peek env d))"
    and "tm d \<le> tm (snd (sv_shutdown_requested env d))" and "tm d \<le> tm (snd (sv_try_recv env d))"
    and "tm d \<le> tm (snd (sv_is_finished env d))" and "tm d \<le> tm (sv_sleep env d)"
  using assms unfolding steady_def by blast+

lemma steady_with_manager:
  assumes "steady env tm"
  shows "tm d \<le> tm (snd (with_manager env call d))"
proof -
  obtain w x where "se_others env d = (w, x)" by (cases "se_others env d")
  moreover obtain r w' where "call w = (r, w')" by (cases "call w")
  ultimately show ?thesis
    using steady_mono(1) [OF assms, of d] steady_world [OF assms, of w x w'] by (simp add: with_manager_def)
qed

lemma steady_at_now:
  assumes "steady env tm"
  shows "tm d \<le> tm (snd (at_now env call d))"
proof -
  obtain now w x where n: "net_now env d = (now, w, x)" by (metis surj_pair)
  moreover obtain r w' where "call now w = (r, w')" by (cases "call now w")
  ultimately show ?thesis
    using steady_now [OF assms n] steady_world [OF assms, of w x w'] by (simp add: at_now_def)
qed

lemma steady_inspect:
  assumes "steady env tm"
  shows "tm d \<le> tm (snd (inspect_active_socket env timeout d))"
proof -
  let ?p = "sv_poll env (POLLIN OR POLLHUP OR POLLERR) (min (timeout div 1000000) (2 ^ 31 - 1)) d"
  obtain p d1 where p: "?p = (p, d1)" by (cases ?p)
  then have "tm d \<le> tm d1" using steady_mono(2) [OF assms, of d "POLLIN OR POLLHUP OR POLLERR"] by (metis snd_conv)
  moreover have "tm d1 \<le> tm (snd (sv_peek env d1))" by (rule steady_mono(3) [OF assms])
  ultimately show ?thesis
    using p by (auto simp: inspect_active_socket_def split: poll_result.splits sum.splits prod.splits)
qed

text \<open>When the work goes on, the deadline is still ahead of the start.\<close>

lemma steady_work_stopped:
  assumes "steady env tm" and "work_stopped env work_deadline control d = (stop, d')"
  shows "tm d \<le> tm d' \<and> (\<not> stop \<longrightarrow> tm d < work_deadline)"
proof -
  obtain s d1 where s: "sv_shutdown_requested env d = (s, d1)" by (metis surj_pair)
  obtain now d2 where n: "net_now env d1 = (now, d2)" by (metis surj_pair)
  obtain c d3 where c: "active_is_cancelled env control d2 = (c, d3)" by (metis surj_pair)
  have "tm d \<le> tm d1" using steady_mono(4) [OF assms(1), of d] s by simp
  moreover have "now = tm d1" "tm d1 < tm d2" using steady_now [OF assms(1) n] by simp_all
  moreover have "tm d2 \<le> tm d3"
    using steady_at_now [OF assms(1), of d2] c unfolding active_is_cancelled_def by (metis snd_conv)
  ultimately show ?thesis
    using assms(2) s n c by (auto simp: work_stopped_def split: if_splits)
qed

lemma supervise_loop_returns:
  assumes "steady env tm"
  shows "\<exists>w d'. supervise_loop env work_deadline control d = Some (w, d')"
proof (induction "work_deadline - tm d" arbitrary: d rule: less_induct)
  case less
  obtain now d1 where n: "net_now env d = (now, d1)" by (metis surj_pair)
  obtain event d2 where i: "inspect_active_socket env (active_poll_timeout now work_deadline) d1 = (event, d2)" by (metis surj_pair)
  obtain stop d3 where s: "work_stopped env work_deadline control d2 = (stop, d3)" by (metis surj_pair)
  obtain r d4 where r: "sv_try_recv env d3 = (r, d4)" by (metis surj_pair)
  have "tm d < tm d1" using steady_now [OF assms n] by simp
  moreover have "tm d1 \<le> tm d2" using steady_inspect [OF assms] i by (metis snd_conv)
  moreover have "tm d2 \<le> tm d3 \<and> (\<not> stop \<longrightarrow> tm d2 < work_deadline)" by (rule steady_work_stopped [OF assms s])
  moreover have "tm d3 \<le> tm d4" using steady_mono(5) [OF assms, of d3] r by simp
  ultimately have "\<exists>w d'. supervise_loop env work_deadline control d4 = Some (w, d')" if "\<not> stop"
    using that by (intro less) linarith
  moreover have "\<exists>w d5. accept_completion env work_deadline control c d4 = (w, d5)" for c by (metis surj_pair)
  ultimately show ?case
    using n i s r by (subst supervise_loop.simps) (auto split: sum.splits)
qed

lemma wait_finished_returns:
  assumes "steady env tm"
  shows "\<exists>d'. wait_finished env cleanup_deadline d = Some d'"
proof (induction "cleanup_deadline - tm d" arbitrary: d rule: less_induct)
  case less
  obtain f d1 where f: "sv_is_finished env d = (f, d1)" by (metis surj_pair)
  obtain now d2 where n: "net_now env d1 = (now, d2)" by (metis surj_pair)
  have "tm d \<le> tm d1" using steady_mono(6) [OF assms, of d] f by simp
  moreover have "now = tm d1" "tm d1 < tm d2" using steady_now [OF assms n] by simp_all
  moreover have "tm d2 \<le> tm (sv_sleep env d2)" by (rule steady_mono(7) [OF assms])
  ultimately have "\<exists>d'. wait_finished env cleanup_deadline (sv_sleep env d2) = Some d'" if "now < cleanup_deadline"
    using that by (intro less) linarith
  then show ?case using f n by (subst wait_finished.simps) (auto simp: not_le)
qed

lemma supervise_returns:
  assumes "steady env tm"
  shows "\<exists>r promotion. supervise_active_authentication env active phase d = Some (r, promotion)"
proof -
  have without: "\<exists>r. finish_without_worker env active answer phase d = Some r" for answer d
  proof -
    obtain cd d1 where "active_cleanup_deadline env (apa_deadline active) (cancel_active env (apa_control active) d) = (cd, d1)"
      by (metis surj_pair)
    moreover obtain d2 where "wait_finished env cd d1 = Some d2" using wait_finished_returns [OF assms] by blast
    ultimately show ?thesis
      by (auto simp: finish_without_worker_def Let_def finish_cancelled_active_worker_def
          split: prod.splits option.splits bool.splits)
  qed
  obtain w d1 where "supervise_loop env (active_work_deadline (apa_deadline active)) (apa_control active) d = Some (w, d1)"
    using supervise_loop_returns [OF assms] by blast
  then show ?thesis using without
    by (cases w) (auto simp: supervise_active_authentication_def finish_worker_def, (metis surj_pair)?)
qed

lemma recv_returns_cancellable:
  assumes "clock_runs net tm" and "\<And>s. tm s \<le> tm (snd (cancelled s))"
  shows "\<exists>r s'. recv_prompt_message_until net deadline cancelled s = Some (r, s')"
  unfolding recv_prompt_message_until_def Let_def
  using read_exact_until_returns [OF assms]
  by (intro io_then_returns) (auto simp: decode_message_def split: sum.splits intro!: io_then_returns)

lemma write_response_returns:
  assumes "interruptions_end (srv_net env) pending"
  shows "\<exists>r d'. write_response env response d = Some (r, d')"
proof -
  have "\<exists>r d'. send_message (srv_net env) m d = Some (r, d')" "\<exists>r d'. send_prompt_message (srv_net env) m d = Some (r, d')" for m
    unfolding send_message_def send_prompt_message_def
    by (intro io_then_returns write_all_returns [OF assms]; metis surj_pair)+
  then show ?thesis by (auto simp: write_response_def split: option.splits resp_result.splits)
qed

lemma next_action_returns: "\<exists>r d'. next_action c p = Some (r, d')"
  by (cases p) (simp add: next_action_def)

lemma machine_terminated_steady:
  assumes "steady env tm"
  shows "tm d \<le> tm (snd (machine_manager_terminated env phase d))"
proof (cases phase)
  case (PhasePending r)
  have "tm d \<le> tm (snd (with_manager env is_terminated d))" by (rule steady_with_manager [OF assms])
  then show ?thesis
    by (cases "ppr_issue r") (simp_all add: PhasePending machine_manager_terminated_def pending_manager_terminated_def)
qed (simp_all add: machine_manager_terminated_def)

lemma step_send_prompt_returns:
  assumes steady: "steady env tm" and "interruptions_end (srv_net env) pending"
  shows "\<exists>r d'. step_send_prompt manager env response c d = Some (r, d')"
proof -
  have recv: "\<exists>r d'. recv_prompt_message_until (srv_net env) deadline (machine_manager_terminated env phase) d1 = Some (r, d')"
    for deadline phase d1
    using machine_terminated_steady [OF steady, of _ phase]
    by (intro recv_returns_cancellable [where tm = tm, OF steady_clock [OF steady]])
  obtain r d1 where w: "write_response env response d = Some (r, d1)"
    using write_response_returns [OF assms(2)] by blast
  obtain t d2 where t: "sv_try_clone env d1 = (t, d2)" by (metis surj_pair)
  obtain a phase d3 where a: "prompt_sent_with_waker manager env (Some (projr t)) (co_phase c) d2 = (a, phase, d3)"
    by (metis surj_pair)
  obtain q d4 where q: "recv_prompt_message_until (srv_net env) (projr a) (machine_manager_terminated env phase) d3 = Some (q, d4)"
    using recv by blast
  show ?thesis
  proof (cases r)
    case (Inr u)
    show ?thesis
    proof (cases t)
      case waker: (Inr waker)
      show ?thesis
      proof (cases a)
        case (Inl action)
        then show ?thesis using w t a \<open>r = Inr u\<close> waker
          by (simp add: step_send_prompt_def Let_def next_action_returns)
      next
        case deadline: (Inr deadline)
        show ?thesis
          using w t a q \<open>r = Inr u\<close> waker deadline
          by (cases q) (simp_all add: step_send_prompt_def Let_def next_action_returns)
      qed
    qed (use w t Inr in \<open>simp add: step_send_prompt_def Let_def\<close>)
  qed (use w in \<open>simp add: step_send_prompt_def Let_def\<close>)
qed

lemma coordinate_step_returns:
  assumes steady: "steady env tm" and "interruptions_end (srv_net env) pending"
  shows "\<exists>r d'. coordinate_step manager env run c d = Some (r, d')"
proof -
  have terminal: "\<exists>r d'. step_send_terminal env response c d = Some (r, d')" for response
  proof -
    obtain r d1 where "write_response env response d = Some (r, d1)"
      using write_response_returns [OF assms(2)] by blast
    then show ?thesis by (cases r) (simp_all add: step_send_terminal_def Let_def)
  qed
  have start: "\<exists>r d'. step_start_authentication env run p c d = Some (r, d')" for p
  proof -
    obtain a d1 where r: "run p d = (a, d1)" by (metis surj_pair)
    show ?thesis
    proof (cases a)
      case (AuthActive active)
      obtain action phase d2 promotion where
        "supervise_active_authentication env active (co_phase c) d1 = Some ((action, phase, d2), promotion)"
        using supervise_returns [OF steady] by (metis surj_pair)
      then show ?thesis using r AuthActive
        by (simp add: step_start_authentication_def Let_def next_action_returns)
    qed (use r in \<open>simp add: step_start_authentication_def Let_def next_action_returns\<close>)
  qed
  show ?thesis
    using terminal start step_send_prompt_returns [OF assms]
    by (cases "co_action c") (simp_all add: coordinate_step_def)
qed

end
