(* ===== verification/ServerSamples.thy ===== *)
theory ServerSamples
  imports ServerReturns PromptSamples
begin

section \<open>A daemon to run the prompt path on\<close>

text \<open>
  A concrete environment for the server: the state beside the manager is the time and the bytes still to be
  read, other threads do nothing, the peer sends one commit, and the worker completes with a success.
\<close>

declare split_paired_Ex [simp del] split_paired_All [simp del]

definition ready_storage :: prompt_storage_snapshot where
  "ready_storage = \<lparr>pss_health = Ready, pss_candidate = Candidate 3,
     pss_backend_identity = replicate 32 4, pss_policy_generation = replicate 32 5\<rparr>"

definition granted :: auth_success where
  "granted = \<lparr>as_model_index = 0, as_model_label = [], as_score = 0, as_elapsed_ms = 0\<rparr>"

definition sample_completion :: prompt_worker_completion where
  "sample_completion = \<lparr>wc_response = Some (RSuccess granted), wc_promotion = None, wc_lease = None\<rparr>"

definition sample_transaction :: transaction_req where
  "sample_transaction = \<lparr>tr_protocol_version = PROMPT_PROTOCOL_VERSION, tr_transaction_token = one32,
     tr_client_nonce = replicate 32 9\<rparr>"

definition sample_server :: "(unit, nat \<times> bytes) supervisor_env" where
  "sample_server = \<lparr>net_read = \<lambda>n (w, t, bs). (Inr (take n bs), w, t, drop n bs),
     net_write = \<lambda>bs d. (Inr (length bs), d), net_flush = \<lambda>d. (Inr (), d),
     net_set_read_timeout = \<lambda>t d. (Inr (), d), net_set_write_timeout = \<lambda>t d. (Inr (), d),
     net_now = \<lambda>(w, t, bs). (t, w, Suc t, bs), net_encode = \<lambda>r. [3],
     net_decode = \<lambda>bs. Some (Some (CmdCommitAuthV1 sample_transaction)),
     se_others = \<lambda>d. d, se_resolver = \<lambda>d. (\<lambda>name. Inr (Some sample_identity), d),
     se_prompt_snapshot = \<lambda>user d. (Inr ready_storage, d),
     sv_poll = \<lambda>events timeout d. (PollNone, d), sv_peek = \<lambda>d. (Inr 0, d),
     sv_shutdown_requested = \<lambda>d. (False, d), sv_request_fatal = \<lambda>d. d, sv_spawn = \<lambda>p d. (True, d),
     sv_try_recv = \<lambda>d. (Inr sample_completion, d), sv_is_finished = \<lambda>d. (True, d), sv_join = \<lambda>d. d,
     sv_sleep = \<lambda>d. d, sv_try_clone = \<lambda>d. (Inr 0, d), sv_spawn_monitor = \<lambda>c t d. (True, d),
     sv_promote_if = \<lambda>p f d. d\<rparr>"

definition sample_manager :: "unit prompt_manager" where
  "sample_manager = \<lparr>pm_sha256 = sample_hash, pm_fill = sample_fill, pm_inner = sample_inner\<rparr>"

lemma sample_server_simps [simp]:
  "net_read sample_server n (w, t, bs) = (Inr (take n bs), w, t, drop n bs)"
  "net_write sample_server bs d = (Inr (length bs), d)" "net_flush sample_server d = (Inr (), d)"
  "net_set_read_timeout sample_server i d = (Inr (), d)" "net_now sample_server (w, t, bs) = (t, w, Suc t, bs)"
  "net_encode sample_server r = [3]" "net_decode sample_server bs = Some (Some (CmdCommitAuthV1 sample_transaction))"
  "se_others sample_server d = d" "se_resolver sample_server d = (\<lambda>name. Inr (Some sample_identity), d)"
  "se_prompt_snapshot sample_server user d = (Inr ready_storage, d)" "sv_poll sample_server ev n d = (PollNone, d)"
  "sv_shutdown_requested sample_server d = (False, d)" "sv_spawn sample_server p d = (True, d)"
  "sv_try_recv sample_server d = (Inr sample_completion, d)" "sv_join sample_server d = d"
  "sv_try_clone sample_server d = (Inr 0, d)"
  by (simp_all add: sample_server_def)

lemma sample_server_steady: "steady sample_server (\<lambda>(w, t, bs). t)"
  by (auto simp: steady_def clock_runs_def sample_server_def)

lemma sample_server_interruptions: "interruptions_end (srv_net sample_server) (\<lambda>_. 0)"
  by (auto simp: interruptions_end_def)

definition sample_config :: howy_config where
  "sample_config = legacy_defaults\<lparr>presence := presence_default\<lparr>allowed_pam_services := [[98]], local_only := True\<rparr>\<rparr>"

definition ready_claim :: commit_claim where
  "ready_claim = sample_claim\<lparr>cc_snapshot := capture sample_hash sample_config ready_storage\<rparr>"

definition ready_pending :: pending_prompt_record where
  "ready_pending = \<lparr>ppr_username = [97], ppr_target_uid = 7, ppr_peer_uid = 7, ppr_connection_id = Some 1,
     ppr_transaction_token = one32, ppr_client_nonce = replicate 32 9, ppr_pam_service = [98],
     ppr_origin = OriginLocal, ppr_prompt_timeout_ms = 5000, ppr_commit_response_timeout_ms = 5000,
     ppr_issue = None, ppr_claim = Some ready_claim\<rparr>"

lemma ready_polls:
  assumes "t < 70"
  shows "poll_cancellation sample_server ready_claim (sample_w5, t, bs) = (False, sample_w5, Suc t, bs)"
  using assms by (simp add: poll_cancellation_def at_now_def cancellation_is_cancelled_def control_is_cancelled_def
      ready_claim_def sample_worlds active_control_new_def)

lemma ready_revalidates:
  "revalidate sample_server sample_config ready_claim (sample_w5, 30, bs)
     = (Some (sample_identity, ready_storage), sample_w5, 35, bs)"
proof -
  have "is_canonical_username [97]" by code_simp
  then have "resolves (\<lambda>name. Inr (Some sample_identity)) (ci_username sample_identity) sample_identity"
    by (simp add: resolves_def sample_identity_def)
  moreover have "cc_target ready_claim = sample_identity" "cc_peer_uid ready_claim = 7"
    by (simp_all add: ready_claim_def sample_worlds)
  moreover have "peer_may_target 7 sample_identity" by (simp add: peer_may_target_def sample_identity_def)
  ultimately have "revalidate_target sample_server ready_claim (w, x) = (Some sample_identity, w, x)" for w x
    using authorize_commit_Inr [of "\<lambda>name. Inr (Some sample_identity)" 7 sample_identity sample_identity]
    by (simp add: revalidate_target_def)
  moreover have "validate_current_prompt_policy sample_config (cc_pam_service ready_claim) (cc_origin ready_claim) = Inr ()"
    by (simp add: validate_current_prompt_policy_def ready_claim_def sample_worlds sample_config_def)
  moreover have "is_canonical_username (ci_username sample_identity)"
    using \<open>is_canonical_username [97]\<close> by (simp add: sample_identity_def)
  moreover have "storage_candidate_ready ready_storage" by (simp add: storage_candidate_ready_def ready_storage_def)
  ultimately show ?thesis by (simp add: revalidate_def ready_polls revalidate_storage_def canonical_username_new_def)
qed

lemma ready_promotes:
  "\<exists>lease w'. commit_claim_promote 35 ready_claim
     \<lparr>cb_connection = 1, cb_peer_uid = 7, cb_target = sample_identity, cb_pam_service = [98], cb_origin = OriginLocal,
      cb_snapshot = capture sample_hash sample_config ready_storage\<rparr> sample_w5 = (Inr lease, w')"
  by (simp add: commit_claim_promote_def promote_claim_def live_claim_def control_is_cancelled_def
      active_control_new_def snapshot_eq_def ready_claim_def lock_state_def sample_worlds)

lemma ready_lease:
  "\<exists>lease d'. claim_prompt_commit sample_manager sample_server sample_config ready_pending (sample_w5, 30, bs) = (Inr lease, d')"
proof -
  have "pm_sha256 sample_manager = sample_hash" by (simp add: sample_manager_def)
  then show ?thesis
    using ready_promotes
    by (auto simp: claim_prompt_commit_def ready_pending_def ready_revalidates at_now_def Let_def)
qed

subsection \<open>A connection from its request to the success\<close>

definition sample_request :: begin_auth_req where
  "sample_request = \<lparr>ba_protocol_version = PROMPT_PROTOCOL_VERSION, ba_username = [97], ba_client_nonce = replicate 32 9,
     ba_policy = Some \<lparr>pp_pam_service = [98], pp_origin = prompt_origin_i32 OriginLocal\<rparr>\<rparr>"

definition sample_prepare ::
  "begin_auth_req \<Rightarrow> (unit, nat \<times> bytes) daemon \<Rightarrow> (prompt_error_code + pending_prompt_record) \<times> (unit, nat \<times> bytes) daemon" where
  "sample_prepare request d = (Inr ready_pending, d)"

lemma sample_begins:
  "begin_with sample_server sample_request sample_prepare machine_new d
     = (SendPrompt (pending_prompt_response ready_pending), PhasePending ready_pending, d)"
proof -
  have "begin_auth_validate sample_request = Inr ()" by code_simp
  moreover have "constant_time_eq (replicate 32 9) (replicate 32 9)" by code_simp
  ultimately show ?thesis
    by (simp add: begin_with_def machine_new_def sample_prepare_def ready_pending_def sample_request_def)
qed

lemma sample_reads:
  assumes "t < deadline" and "0 < n" and "n \<le> length bs"
  shows "read_exact_until (srv_net sample_server) deadline (machine_manager_terminated sample_server (PhasePending ready_pending))
     [] n (w, t, bs) = Some (Inr (take n bs), w, Suc t, drop n bs)"
  using assms
  by (subst read_exact_until.simps, subst read_exact_until.simps)
    (auto simp: machine_manager_terminated_def pending_manager_terminated_def ready_pending_def srv_net_simps)

lemma sample_receives:
  assumes "10 \<le> deadline"
  shows "recv_prompt_message_until (srv_net sample_server) deadline (machine_manager_terminated sample_server (PhasePending ready_pending))
     (w, 2, [0, 0, 0, 1, 1]) = Some (Inr (Some (CmdCommitAuthV1 sample_transaction)), w, 4, [])"
  using assms
  by (simp add: recv_prompt_message_until_def sample_reads from_be_u32_def srv_net_simps decode_message_def
      validate_message_size_def MAX_MESSAGE_SIZE_def)

lemma sample_writes: "write_response sample_server response d = Some (Inr (), d)"
  by (simp add: write_response_def send_message_def send_prompt_message_def frame_def srv_net_simps
      write_all.simps split: option.splits resp_result.splits)

lemma sample_commits:
  "machine_receive sample_manager sample_server (Some (CmdCommitAuthV1 sample_transaction)) (PhasePending ready_pending) d
     = (StartAuthentication ready_pending, PhaseCommitted, d)"
proof -
  have "transaction_validate sample_transaction = Inr ()" by code_simp
  moreover have "constant_time_eq one32 one32" "constant_time_eq (replicate 32 9) (replicate 32 9)" by code_simp+
  ultimately show ?thesis
    by (simp add: machine_receive_def pending_claim_commit_def ready_pending_def sample_transaction_def)
qed

lemma sample_prompted:
  "\<exists>c'. coordinate_step sample_manager sample_server run
      (coordinator_new (SendPrompt (pending_prompt_response ready_pending)) (PhasePending ready_pending)) (w, 1, [0, 0, 0, 1, 1])
      = Some (Inr c', w, 4, []) \<and> co_action c' = StartAuthentication ready_pending \<and> co_phase c' = PhaseCommitted \<and> co_armed c'"
proof -
  have "pending_activate sample_manager sample_server (Some 0) ready_pending (w, 1, bs) = (Inr 5000000001, w, 2, bs)" for bs
    by (simp add: pending_activate_def ready_pending_def from_millis_def instant_checked_add_def)
  then show ?thesis
    by (simp add: coordinate_step_def coordinator_new_def step_send_prompt_def sample_writes Let_def
        prompt_sent_with_waker_def sample_receives sample_commits next_action_def)
qed

lemma sample_not_stopped:
  assumes "t < 60"
  shows "work_stopped sample_server 70 0 (sample_w5, t, bs) = (False, sample_w5, Suc (Suc t), bs)"
  using assms by (simp add: work_stopped_def active_is_cancelled_def at_now_def cancellation_is_cancelled_def
      control_is_cancelled_def sample_worlds active_control_new_def)

lemma sample_supervises:
  "supervise_loop sample_server 70 0 (sample_w5, 4, bs) = Some (WinWorker sample_completion, sample_w5, 9, bs)"
  by (simp add: supervise_loop.simps inspect_active_socket_def accept_completion_def sample_not_stopped)

lemma sample_authenticates:
  assumes "co_action c = StartAuthentication ready_pending" and "co_phase c = PhaseCommitted" and "co_armed c"
  shows "\<exists>c' d'. coordinate_step sample_manager sample_server (spawn_prompt_authentication_after_revalidation sample_server) c
      (sample_w5, 4, bs) = Some (Inr c', d') \<and> co_action c' = SendTerminal (Some (RSuccess granted))"
proof -
  have "ac_deadline (pw_heap sample_w5 ! 0) = 70" "cc_control ready_claim = 0"
    by (simp_all add: ready_claim_def sample_worlds active_control_new_def)
  then have "spawn_prompt_authentication_after_revalidation sample_server ready_pending (sample_w5, 4, bs)
      = (AuthActive \<lparr>apa_control = 0, apa_deadline = 70\<rparr>, sample_w5, 4, bs)"
    by (simp add: spawn_prompt_authentication_after_revalidation_def ready_pending_def)
  moreover have "active_work_deadline 70 = 70" by (simp add: active_work_deadline_def ACTIVE_WORKER_CLEANUP_TIMEOUT_def)
  ultimately show ?thesis using assms
    by (simp add: coordinate_step_def step_start_authentication_def supervise_active_authentication_def
        sample_supervises finish_worker_def inspect_active_socket_def sample_not_stopped Let_def sample_completion_def
        response_allows_cache_promotion_def finish_authentication_def is_prompt_auth_terminal_response_def
        drop_lease_def next_action_def)
qed

subsection \<open>A prompt is prepared\<close>

lemma sample_authorized:
  "authorize_prompt_begin sample_server 7 True sample_request d = (Inr sample_identity, d)"
proof -
  have "is_canonical_username [97]" by code_simp
  then have "authorize_and_then (\<lambda>name. Inr (Some sample_identity)) (BeginAuth [97]) (authorization_context_initial 7 True) id
      = Inr (Some sample_identity)"
    by (simp add: authorize_and_then_def authorize_def authorize_result_def requested_target_def resolve_canonical_target_def
        validate_username_def sample_identity_def authorization_context_initial_def is_some_and_def peer_may_target_def
        del: resolve_canonical_target_Inr)
  then show ?thesis by (simp add: authorize_prompt_begin_def sample_request_def)
qed

lemma sample_issues:
  assumes "pb_connection b = 1" and "pb_peer_uid b = 7" and "pb_target b = sample_identity"
  shows "\<exists>w'. begin_reservation_issue sample_hash sample_fill sample_reservation b sample_w2 = (Inr sample_issue, w')"
  using assms by (simp add: begin_reservation_issue_eq issue_reserved_def locked_def lock_state_def sample_w3_eq(2)
      sample_w2_eq(2,3) sample_w1_eq(2) sample_w0_eq(2) remove_provisional_def sample_token Let_def)

lemma sample_reserved:
  "\<exists>w'. prepare_reserved sample_manager sample_server sample_config 7 1 sample_request sample_identity sample_reservation
      (sample_w2, x) = (Inr (sample_identity, [98], OriginLocal, sample_issue), w', x)"
proof -
  have "is_canonical_username (ci_username sample_identity)" by code_simp
  moreover have "storage_candidate_ready ready_storage" by (simp add: storage_candidate_ready_def ready_storage_def)
  moreover obtain w' where "begin_reservation_issue sample_hash sample_fill sample_reservation
      \<lparr>pb_connection = 1, pb_peer_uid = 7, pb_target = sample_identity, pb_client_nonce = replicate 32 9,
       pb_pam_service = [98], pb_origin = OriginLocal, pb_snapshot = capture sample_hash sample_config ready_storage\<rparr>
      sample_w2 = (Inr sample_issue, w')" using sample_issues by fastforce
  ultimately show ?thesis
    by (simp add: prepare_reserved_def canonical_username_new_def sample_request_def sample_manager_def with_manager_def
        prompt_origin_try_from_def)
qed

lemma sample_prepared:
  "\<exists>pending w'. prepare_prompt_pending sample_manager sample_server sample_config 7 1 sample_request (sample_w1, x)
      = (Inr pending, w', x) \<and> ppr_username pending = [97] \<and> ppr_client_nonce pending = replicate 32 9"
proof -
  obtain w' where r: "prepare_reserved sample_manager sample_server sample_config 7 1 sample_request sample_identity
      sample_reservation (sample_w2, x) = (Inr (sample_identity, [98], OriginLocal, sample_issue), w', x)"
    using sample_reserved by blast
  have "validate_prompt_begin_policy sample_config sample_request = Inr ()" by code_simp
  moreover have "u32_of_u64 (prompt_timeout_ms (presence sample_config)) = Some 30000"
    "Option.bind (prompt_active_timeout_checked sample_config) u32_of_millis = Some 5250"
    by (simp_all add: u32_of_u64_def sample_config_def presence_default_def prompt_active_timeout_checked_def
        duration_checked_add_def from_millis_def PROMPT_STORAGE_TIMEOUT_def ACTIVE_WORKER_CLEANUP_TIMEOUT_def u32_of_millis_def)
  moreover have "pm_sha256 sample_manager = sample_hash" "pm_inner sample_manager = sample_inner"
    by (simp_all add: sample_manager_def)
  moreover have "ba_client_nonce sample_request = replicate 32 9" "ci_username sample_identity = [97]"
    by (simp_all add: sample_request_def sample_identity_def)
  ultimately show ?thesis using r sample_w2_eq(1)
    by (simp add: prepare_prompt_pending_def sample_authorized with_manager_def pending_prompt_managed_def
        pending_prompt_new_def
        PROMPT_TIMEOUT_MS_MIN_def PROMPT_TIMEOUT_MS_MAX_def COMMIT_RESPONSE_TIMEOUT_MS_MIN_def COMMIT_RESPONSE_TIMEOUT_MS_MAX_def)
qed

end
