(* ===== verification/ServerProperties.thy ===== *)
theory ServerProperties
  imports ServerSamples
begin

section \<open>Correctness of the daemon's prompt path\<close>

text \<open>
  What the prompt handlers of the daemon guarantee, for every behaviour of the environment and of the
  other threads.
\<close>

declare split_paired_Ex [simp del] split_paired_All [simp del]

subsection \<open>Calls of the manager\<close>

lemma at_nowE:
  assumes "at_now env call d = (r, d')"
  obtains now w x w' where "net_now env d = (now, w, x)" and "call now w = (r, w')" and "d' = (w', x)"
proof -
  obtain now w x where n: "net_now env d = (now, w, x)" by (metis surj_pair)
  obtain r' w' where c: "call now w = (r', w')" by (cases "call now w")
  from assms n c have "r' = r" "d' = (w', x)" by (simp_all add: at_now_def)
  with n c show thesis by (auto intro: that)
qed

lemma with_managerE:
  assumes "with_manager env call d = (r, d')"
  obtains w x w' where "se_others env d = (w, x)" and "call w = (r, w')" and "d' = (w', x)"
proof -
  obtain w x where n: "se_others env d = (w, x)" by (cases "se_others env d")
  obtain r' w' where c: "call w = (r', w')" by (cases "call w")
  from assms n c have "r' = r" "d' = (w', x)" by (simp_all add: with_manager_def)
  with n c show thesis by (auto intro: that)
qed

subsection \<open>Policy\<close>

lemma revalidate_target_SomeD:
  assumes "revalidate_target env claim d = (Some target, d')"
  shows "target = cc_target claim \<and> peer_may_target (cc_peer_uid claim) target
    \<and> (\<exists>resolve. se_resolver env d = (resolve, d') \<and> resolves resolve (ci_username target) target)"
proof -
  obtain resolve d1 where r: "se_resolver env d = (resolve, d1)" by (cases "se_resolver env d")
  from assms r have "authorize_and_then resolve CommitAuth
     \<lparr>peer_uid = cc_peer_uid claim, confirmation_required = True,
      connection_phase = PendingAuth (cc_peer_uid claim) (cc_target claim)\<rparr> id = Inr (Some target)" and "d1 = d'"
    by (auto simp: revalidate_target_def split: sum.splits)
  then show ?thesis using r by (simp add: authorize_commit_Inr)
qed

lemma revalidate_storage_SomeD:
  assumes "revalidate_storage env config claim target d = (Some storage, d')"
  shows "validate_current_prompt_policy config (cc_pam_service claim) (cc_origin claim) = Inr ()
    \<and> is_canonical_username (ci_username target) \<and> storage_candidate_ready storage
    \<and> (\<exists>d1. se_prompt_snapshot env (ci_username target) d1 = (Inr storage, d'))"
  using assms unfolding revalidate_storage_def canonical_username_new_def
  by (auto split: if_splits prod.splits sum.splits)

lemma revalidate_SomeD:
  assumes "revalidate env config claim d = (Some (target, storage), d')"
  shows "target = cc_target claim \<and> peer_may_target (cc_peer_uid claim) target
    \<and> (\<exists>d1 d2 resolve. se_resolver env d1 = (resolve, d2) \<and> resolves resolve (ci_username target) target)
    \<and> validate_current_prompt_policy config (cc_pam_service claim) (cc_origin claim) = Inr ()
    \<and> storage_candidate_ready storage
    \<and> (\<exists>d1 d2. se_prompt_snapshot env (ci_username target) d1 = (Inr storage, d2))"
proof -
  from assms obtain d1 d2 d3 d4 where
    "revalidate_target env claim d1 = (Some target, d2)" "revalidate_storage env config claim target d3 = (Some storage, d4)"
    unfolding revalidate_def by (auto split: if_splits prod.splits option.splits)
  then show ?thesis by (blast dest: revalidate_target_SomeD revalidate_storage_SomeD)
qed

lemma commit_claim_promote_InrD:
  assumes "commit_claim_promote now g binding w = (Inr lease, w')"
  shows "\<exists>active_id. cc_active_id g = Some active_id
    \<and> lease = \<lparr>al_active_id = Some active_id, al_control = cc_control g\<rparr> \<and> live_claim active_id now w
    \<and> \<not> pw_poisoned w \<and> \<not> ms_terminal (pw_state w)
    \<and> cc_peer_uid g = cb_peer_uid binding \<and> cc_target g = cb_target binding
    \<and> cc_pam_service g = cb_pam_service binding \<and> cc_origin g = cb_origin binding
    \<and> snapshot_eq (cc_snapshot g) (cb_snapshot binding)"
  using assms unfolding commit_claim_promote_def promote_claim_def lock_state_def
  by (auto split: option.splits if_splits prod.splits sum.splits)

text \<open>C3. A commit becomes a lease only after everything was checked again.  Whenever
  \<open>claim_prompt_commit\<close> returns a lease, the pending record carried a claim whose target the current
  name service resolves to the identity the prompt was begun for, the peer may target it, the current
  policy allows its service and origin, storage is ready with a candidate and captures a snapshot equal to
  the one taken when the prompt was issued, and the claim was live, neither cancelled nor past its
  deadline, in a manager that had not stopped.\<close>

theorem claim_prompt_commit_sound:
  assumes "claim_prompt_commit manager env config pending d = (Inr lease, d')"
  shows "\<exists>claim active_id storage resolve now w. ppr_claim pending = Some claim
    \<and> lease = \<lparr>al_active_id = Some active_id, al_control = cc_control claim\<rparr>
    \<and> (\<exists>d1 d2. se_resolver env d1 = (resolve, d2)) \<and> resolves resolve (ci_username (cc_target claim)) (cc_target claim)
    \<and> peer_may_target (cc_peer_uid claim) (cc_target claim)
    \<and> cc_pam_service claim \<in> set (allowed_pam_services (presence config))
    \<and> \<not> (cc_origin claim = OriginRemote \<and> local_only (presence config))
    \<and> (\<exists>d1 d2. se_prompt_snapshot env (ci_username (cc_target claim)) d1 = (Inr storage, d2))
    \<and> storage_candidate_ready storage \<and> snapshot_eq (cc_snapshot claim) (capture (pm_sha256 manager) config storage)
    \<and> ppr_peer_uid pending = cc_peer_uid claim \<and> ppr_pam_service pending = cc_pam_service claim
    \<and> ppr_origin pending = cc_origin claim
    \<and> cc_active_id claim = Some active_id \<and> (\<exists>d1 x. net_now env d1 = (now, w, x))
    \<and> live_claim active_id now w \<and> \<not> ms_terminal (pw_state w)"
proof -
  from assms obtain connection claim target storage d1 d2 where
    claim: "ppr_claim pending = Some claim"
    and rev: "revalidate env config claim d = (Some (target, storage), d1)"
    and pro: "at_now env (\<lambda>now. commit_claim_promote now claim
        \<lparr>cb_connection = connection, cb_peer_uid = ppr_peer_uid pending, cb_target = target,
         cb_pam_service = ppr_pam_service pending, cb_origin = ppr_origin pending,
         cb_snapshot = capture (pm_sha256 manager) config storage\<rparr>) d1 = (Inr lease, d2)"
    unfolding claim_prompt_commit_def Let_def
    by (auto split: option.splits prod.splits sum.splits prompt_state_error.splits)
  from pro obtain now w x w' where now: "net_now env d1 = (now, w, x)" and "commit_claim_promote now claim
        \<lparr>cb_connection = connection, cb_peer_uid = ppr_peer_uid pending, cb_target = target,
         cb_pam_service = ppr_pam_service pending, cb_origin = ppr_origin pending,
         cb_snapshot = capture (pm_sha256 manager) config storage\<rparr> w = (Inr lease, w')"
    by (elim at_nowE)
  from commit_claim_promote_InrD [OF this(2)] obtain active_id where
    p: "cc_active_id claim = Some active_id" "lease = \<lparr>al_active_id = Some active_id, al_control = cc_control claim\<rparr>"
      "live_claim active_id now w" "\<not> ms_terminal (pw_state w)" "ppr_peer_uid pending = cc_peer_uid claim"
      "ppr_pam_service pending = cc_pam_service claim" "ppr_origin pending = cc_origin claim"
      "snapshot_eq (cc_snapshot claim) (capture (pm_sha256 manager) config storage)" by auto
  from revalidate_SomeD [OF rev] obtain d3 d4 resolve d5 d6 where
    r: "target = cc_target claim" "peer_may_target (cc_peer_uid claim) target" "se_resolver env d3 = (resolve, d4)"
      "resolves resolve (ci_username target) target"
      "validate_current_prompt_policy config (cc_pam_service claim) (cc_origin claim) = Inr ()"
      "storage_candidate_ready storage" "se_prompt_snapshot env (ci_username target) d5 = (Inr storage, d6)" by blast
  from r(5) have "cc_pam_service claim \<in> set (allowed_pam_services (presence config))"
    "\<not> (cc_origin claim = OriginRemote \<and> local_only (presence config))"
    by (simp_all add: validate_current_prompt_policy_def split: if_splits)
  then show ?thesis using claim p r now
    by (intro exI [of _ claim] exI [of _ active_id] exI [of _ storage] exI [of _ resolve] exI [of _ now] exI [of _ w] conjI)
      (blast | simp)+
qed

subsection \<open>One prompt, one authentication, one answer\<close>




subsection \<open>A success is earned\<close>

text \<open>How a connection came to its commit: the request opened the pending record, and a valid commit claimed
  it.\<close>

definition opened ::
  "(begin_auth_req \<Rightarrow> ('p, 's) daemon \<Rightarrow> (prompt_error_code + pending_prompt_record) \<times> ('p, 's) daemon)
   \<Rightarrow> request \<Rightarrow> ('p, 's) daemon \<Rightarrow> pending_prompt_record \<Rightarrow> bool" where
  "opened prepare_pending request d pending \<longleftrightarrow>
     (\<exists>begn d1. request = Some (CmdBeginAuthV1 begn) \<and> begin_auth_validate begn = Inr ()
        \<and> prepare_pending begn d = (Inr pending, d1) \<and> ppr_username pending = ba_username begn
        \<and> constant_time_eq (ppr_client_nonce pending) (ba_client_nonce begn))"

definition committed ::
  "'p prompt_manager \<Rightarrow> ('p, 's, 'm) server_env_scheme \<Rightarrow> pending_prompt_record \<Rightarrow> pending_prompt_record \<Rightarrow> bool" where
  "committed manager env pending pending' \<longleftrightarrow>
     (\<exists>commit d1 d2. transaction_validate commit = Inr ()
        \<and> pending_claim_commit manager env (tr_transaction_token commit) (tr_client_nonce commit) pending d1
          = (Inr (), pending', d2))"

lemma coordinator_reaches_history:
  assumes "coordinator_reaches manager env prepare_pending run request d c d'"
  shows "(\<forall>response. co_action c = SendPrompt response \<longrightarrow>
      (\<exists>pending. co_phase c = PhasePending pending \<and> opened prepare_pending request d pending
         \<and> response = pending_prompt_response pending))
    \<and> (\<forall>pending'. co_action c = StartAuthentication pending' \<longrightarrow>
      (\<exists>pending. opened prepare_pending request d pending \<and> committed manager env pending pending'))
    \<and> (\<forall>r. co_action c = SendTerminal (Some (RSuccess r)) \<longrightarrow>
      (\<exists>pending pending' d1. opened prepare_pending request d pending \<and> committed manager env pending pending'
         \<and> authenticated env run pending' r d1))"
  using assms
proof (induction rule: coordinator_reaches.induct)
  case (begun begn action phase d')
  have "action \<noteq> SendTerminal (Some (RSuccess r))" for r
    using begun(2) unfolding begin_with_def machine_new_def
    by (auto simp: response_prompt_error_def response_error_code_def split: sum.splits prod.splits if_splits)
  then show ?case using begin_with_outcome [OF begun(2)] begun(1)
    by (auto simp: coordinator_new_def opened_def)
next
  case (refused action phase d')
  have "action \<noteq> SendTerminal (Some (RSuccess r))" for r
    using refused(2) unfolding machine_receive_def machine_new_def
    by (auto simp: terminal_protocol_violation_def response_prompt_error_def response_error_code_def)
  then show ?case using machine_receive_initial [OF refused(2)] by (auto simp: coordinator_new_def)
next
  case (step c d1 c' d2)
  show ?case
  proof (cases "co_action c")
    case (SendPrompt response)
    then have s: "step_send_prompt manager env response c d1 = Some (Inr c', d2)"
      using step.hyps(2) by (simp add: coordinate_step_def)
    have "co_action c' \<noteq> SendTerminal (Some (RSuccess r))" for r
      by (rule step_send_prompt_no_success [OF s])
    with SendPrompt step.IH step_send_prompt_cases [OF s] show ?thesis
      unfolding committed_def by fastforce
  next
    case (StartAuthentication p)
    then have s: "step_start_authentication env run p c d1 = Some (Inr c', d2)"
      using step.hyps(2) by (simp add: coordinate_step_def)
    with StartAuthentication step.IH step_start_cases [OF s] show ?thesis by fastforce
  qed (use step.hyps(2) in \<open>auto simp: coordinate_step_def step_send_terminal_def Let_def
      split: option.splits prod.splits sum.splits\<close>)
qed

lemma spawn_authenticatedD:
  assumes "authenticated env (spawn_prompt_authentication_after_revalidation env) pending r d"
  shows "\<exists>claim completion d1 d2. ppr_claim pending = Some claim \<and> sv_spawn env pending d = (True, d1)
    \<and> handed_on env \<lparr>apa_control = cc_control claim, apa_deadline = ac_deadline (pw_heap (fst d) ! cc_control claim)\<rparr>
        completion d1 d2
    \<and> wc_response completion = Some (RSuccess r)"
  using assms unfolding authenticated_def spawn_prompt_authentication_after_revalidation_def Let_def
  by (auto simp: response_prompt_error_def response_error_def response_error_code_def
      split: option.splits prod.splits bool.splits)

text \<open>C2. A success is earned.  When the coordinator of a prompt connection is about to send a success, the
  connection began with a valid request that opened a pending record for its user and nonce, a valid commit
  claimed that record, a worker was spawned for the claim, and the success is what that worker completed with:
  it was accepted by the supervisor and handed on with the peer connected and silent, no shutdown requested,
  the deadline of the claim not reached and its control not cancelled.\<close>

theorem prompt_success_earned:
  assumes "coordinator_reaches manager env prepare_pending (spawn_prompt_authentication_after_revalidation env) request d c d'"
    and "co_action c = SendTerminal (Some (RSuccess r))"
  shows "\<exists>pending pending' claim completion d1 d2 d3.
      opened prepare_pending request d pending \<and> committed manager env pending pending'
    \<and> ppr_claim pending' = Some claim \<and> sv_spawn env pending' d1 = (True, d2)
    \<and> handed_on env \<lparr>apa_control = cc_control claim, apa_deadline = ac_deadline (pw_heap (fst d1) ! cc_control claim)\<rparr>
        completion d2 d3
    \<and> wc_response completion = Some (RSuccess r)"
proof -
  from coordinator_reaches_history [OF assms(1)] assms(2) obtain pending pending' d1 where
    "opened prepare_pending request d pending" "committed manager env pending pending'"
    "authenticated env (spawn_prompt_authentication_after_revalidation env) pending' r d1" by blast
  with spawn_authenticatedD show ?thesis by blast
qed

subsection \<open>The prompt on the wire\<close>

lemma generate_token_length:
  "generate_token sha256 fill st = (Inr (token, lookup), st') \<Longrightarrow> length token = 32"
proof -
  have "generate_token_loop sha256 fill n st = (Inr (token, lookup), st') \<Longrightarrow> length token = 32" for n
    by (induction n arbitrary: st) (auto simp: Let_def derive_token_def split: if_splits prod.splits sum.splits)
  then show "generate_token sha256 fill st = (Inr (token, lookup), st') \<Longrightarrow> length token = 32"
    by (simp add: generate_token_def)
qed

lemma begin_reservation_issue_token:
  assumes "begin_reservation_issue sha256 fill g binding w = (Inr issue, w')"
  shows "length (pi_token issue) = 32"
  using assms unfolding begin_reservation_issue_def issue_reserved_def locked_def lock_state_def
  by (auto simp: Let_def dest!: generate_token_length split: option.splits if_splits prod.splits sum.splits)

lemma prepare_reserved_token:
  assumes "prepare_reserved manager env config peer connection begn identity reservation d
      = (Inr (identity', pam_service, origin, issue), d')"
  shows "length (pi_token issue) = 32"
  using assms unfolding prepare_reserved_def
  by (auto elim!: with_managerE dest!: begin_reservation_issue_token split: option.splits if_splits prod.splits sum.splits)

lemma prepare_prompt_pending_InrD:
  assumes "prepare_prompt_pending manager env config peer connection begn d = (Inr pending, d')"
  shows "length (ppr_transaction_token pending) = 32 \<and> ppr_client_nonce pending = ba_client_nonce begn
    \<and> PROMPT_TIMEOUT_MS_MIN \<le> ppr_prompt_timeout_ms pending \<and> ppr_prompt_timeout_ms pending \<le> PROMPT_TIMEOUT_MS_MAX
    \<and> COMMIT_RESPONSE_TIMEOUT_MS_MIN \<le> ppr_commit_response_timeout_ms pending
    \<and> ppr_commit_response_timeout_ms pending \<le> COMMIT_RESPONSE_TIMEOUT_MS_MAX"
proof -
  from assms obtain identity reservation d1 identity' pam_service origin issue d2 prompt_ms commit_ms where
    "prepare_reserved manager env config peer connection begn identity reservation d1
       = (Inr (identity', pam_service, origin, issue), d2)"
    "pending_prompt_managed env identity' peer connection (ba_client_nonce begn) pam_service origin prompt_ms commit_ms issue d2
       = (Inr pending, d')"
    unfolding prepare_prompt_pending_def by (auto split: option.splits prod.splits sum.splits)
  then show ?thesis
    by (auto simp: pending_prompt_managed_def pending_prompt_new_def dest!: prepare_reserved_token split: if_splits)
qed

text \<open>C21. Every prompt the daemon sends is well typed.  Whenever the coordinator is about to send a prompt, it is the
  answer to the request that began the connection, and it is a message that the client's validation accepts: it has
  the protocol version, a token of 32 bytes, the nonce of the request itself, and both timeouts in the range the
  protocol allows, whatever the configuration says.\<close>

theorem prompt_message_well_typed:
  assumes "coordinator_reaches manager env (prepare_prompt_pending manager env config peer connection) run request d c d'"
    and "co_action c = SendPrompt response"
  shows "\<exists>begn prompt. request = Some (CmdBeginAuthV1 begn) \<and> response = Some (RPromptRequiredV1 prompt)
    \<and> prompt_required_validate prompt = Inr () \<and> pq_client_nonce prompt = ba_client_nonce begn"
proof -
  from coordinator_reaches_history [OF assms(1)] assms(2) obtain pending where
    "opened (prepare_prompt_pending manager env config peer connection) request d pending"
    "response = pending_prompt_response pending" by blast
  then obtain begn d1 where b: "request = Some (CmdBeginAuthV1 begn)" "begin_auth_validate begn = Inr ()"
      "prepare_prompt_pending manager env config peer connection begn d = (Inr pending, d1)"
      "response = pending_prompt_response pending" unfolding opened_def by blast
  from prepare_prompt_pending_InrD [OF b(3)] b(2) have
    "prompt_required_validate (case response of Some (RPromptRequiredV1 q) \<Rightarrow> q) = Inr ()"
    by (simp add: b(4) pending_prompt_response_def prompt_required_validate_Inr begin_auth_validate_Inr PROMPT_TOKEN_BYTES_def)
  with prepare_prompt_pending_InrD [OF b(3)] b(1,4) show ?thesis by (simp add: pending_prompt_response_def)
qed

subsection \<open>Sample runs\<close>

theorem claim_prompt_commit_sound_witness:
  "\<exists>lease d'. claim_prompt_commit sample_manager sample_server sample_config ready_pending (sample_w5, 30, []) = (Inr lease, d')
     \<and> (\<exists>claim. ppr_claim ready_pending = Some claim \<and> al_control lease = cc_control claim
          \<and> cc_pam_service claim \<in> set (allowed_pam_services (presence sample_config)))"
proof -
  obtain lease d' where l: "claim_prompt_commit sample_manager sample_server sample_config ready_pending (sample_w5, 30, [])
      = (Inr lease, d')" using ready_lease by blast
  from claim_prompt_commit_sound [OF l] show ?thesis using l by auto
qed


theorem prompt_success_earned_witness:
  "\<exists>pending pending' completion d1 d2 d3.
      opened sample_prepare (Some (CmdBeginAuthV1 sample_request)) (sample_w5, 1, [0, 0, 0, 1, 1]) pending
    \<and> committed sample_manager sample_server pending pending' \<and> sv_spawn sample_server pending' d1 = (True, d2)
    \<and> (\<exists>active. handed_on sample_server active completion d2 d3) \<and> wc_response completion = Some (RSuccess granted)"
proof -
  let ?run = "spawn_prompt_authentication_after_revalidation sample_server"
  let ?d = "(sample_w5, 1, [0, 0, 0, 1, 1])"
  let ?reaches = "coordinator_reaches sample_manager sample_server sample_prepare ?run (Some (CmdBeginAuthV1 sample_request)) ?d"
  have b: "?reaches (coordinator_new (SendPrompt (pending_prompt_response ready_pending)) (PhasePending ready_pending)) ?d"
    by (rule coordinator_reaches.begun [OF refl sample_begins])
  obtain c1 where c1: "?reaches c1 (sample_w5, 4, [])" "co_action c1 = StartAuthentication ready_pending"
      "co_phase c1 = PhaseCommitted" "co_armed c1"
    using sample_prompted [of ?run sample_w5] coordinator_reaches.step [OF b] by blast
  obtain c2 d2 where "?reaches c2 d2" "co_action c2 = SendTerminal (Some (RSuccess granted))"
    using sample_authenticates [OF c1(2-4)] coordinator_reaches.step [OF c1(1)] by blast
  from prompt_success_earned [OF this] show ?thesis by blast
qed

theorem prompt_message_well_typed_witness:
  "\<exists>response prompt c d'. coordinator_reaches sample_manager sample_server
      (prepare_prompt_pending sample_manager sample_server sample_config 7 1)
      (spawn_prompt_authentication_after_revalidation sample_server) (Some (CmdBeginAuthV1 sample_request))
      (sample_w1, 1, []) c d'
    \<and> co_action c = SendPrompt response \<and> response = Some (RPromptRequiredV1 prompt)
    \<and> prompt_required_validate prompt = Inr ()"
proof -
  obtain pending w where p: "prepare_prompt_pending sample_manager sample_server sample_config 7 1 sample_request (sample_w1, 1, [])
      = (Inr pending, w, 1, [])" "ppr_username pending = [97]" "ppr_client_nonce pending = replicate 32 9"
    using sample_prepared [of "(1, [])"] by blast
  have "begin_auth_validate sample_request = Inr ()" by code_simp
  with p have "begin_with sample_server sample_request (prepare_prompt_pending sample_manager sample_server sample_config 7 1)
      machine_new (sample_w1, 1, []) = (SendPrompt (pending_prompt_response pending), PhasePending pending, w, 1, [])"
    by (simp add: begin_with_def machine_new_def sample_request_def)
  from coordinator_reaches.begun [OF refl this] have r: "coordinator_reaches sample_manager sample_server
      (prepare_prompt_pending sample_manager sample_server sample_config 7 1)
      (spawn_prompt_authentication_after_revalidation sample_server) (Some (CmdBeginAuthV1 sample_request)) (sample_w1, 1, [])
      (coordinator_new (SendPrompt (pending_prompt_response pending)) (PhasePending pending)) (w, 1, [])" by blast
  have a: "co_action (coordinator_new (SendPrompt (pending_prompt_response pending)) (PhasePending pending))
      = SendPrompt (pending_prompt_response pending)" by (simp add: coordinator_new_def)
  from prompt_message_well_typed [OF r a] r a show ?thesis by blast
qed

end
