(* ===== verification/ServerDispatch.thy ===== *)
theory ServerDispatch
  imports ServerProperties
begin

section \<open>Requests of a connection\<close>

text \<open>
  \<open>handle_connection\<close> of the daemon: the first request of a connection is read under a deadline, gated by the
  prompt protocol, handed to the prompt coordinator or authorized and dispatched to its handler.  The
  handlers of the storage requests are modelled over the operations of the storage backend; the handlers
  that run the camera, the inference engine, the credential files and the status report are parameters.
\<close>

declare split_paired_Ex [simp del] split_paired_All [simp del]

subsection \<open>The operations a handler calls\<close>

datatype outer_record_classification =
    OuterCandidate u64
  | OuterModeMismatch
  | OuterKeyMismatch
  | OuterModelMismatch
  | OuterCorrupt

record ('p, 's) backend =
  sb_candidate_presence :: "str \<Rightarrow> ('p, 's) daemon \<Rightarrow> (storage_backend_error + candidate_presence) \<times> ('p, 's) daemon"
  sb_list_metadata :: "str \<Rightarrow> ('p, 's) daemon \<Rightarrow> (storage_backend_error + metadata_list) \<times> ('p, 's) daemon"
  sb_remove :: "str \<Rightarrow> u64 \<Rightarrow> bytes \<Rightarrow> ('p, 's) daemon \<Rightarrow> (storage_backend_error + u64 \<times> bytes) \<times> ('p, 's) daemon"
  sb_clear :: "str \<Rightarrow> u64 \<Rightarrow> ('p, 's) daemon \<Rightarrow> (storage_backend_error + u64 \<times> usize) \<times> ('p, 's) daemon"
  sb_reload :: "('p, 's) daemon \<Rightarrow> (storage_backend_error + backend_health \<times> outer_record_classification list) \<times> ('p, 's) daemon"
  sb_health :: "('p, 's) daemon \<Rightarrow> backend_health \<times> ('p, 's) daemon"

text \<open>The camera cleanup that a one-shot authentication may leave for after its response is an opaque
  handle.\<close>

record ('p, 's) handlers = "('p, 's) backend" +
  hd_authenticate :: "str \<Rightarrow> u32 \<Rightarrow> ('p, 's) daemon \<Rightarrow> (response \<times> nat option) \<times> ('p, 's) daemon"
  hd_enroll :: "str \<Rightarrow> str \<Rightarrow> ('p, 's) daemon \<Rightarrow> response \<times> ('p, 's) daemon"
  hd_enroll_batch :: "str \<Rightarrow> str \<Rightarrow> str \<Rightarrow> ('p, 's) daemon \<Rightarrow> response \<times> ('p, 's) daemon"
  hd_detect :: "bytes \<Rightarrow> u32 \<Rightarrow> u32 \<Rightarrow> ('p, 's) daemon \<Rightarrow> response \<times> ('p, 's) daemon"
  hd_security_info :: "('p, 's) daemon \<Rightarrow> response \<times> ('p, 's) daemon"
  hd_check_credential :: "str \<Rightarrow> ('p, 's) daemon \<Rightarrow> response \<times> ('p, 's) daemon"
  hd_revoke_credential :: "str \<Rightarrow> str \<Rightarrow> ('p, 's) daemon \<Rightarrow> response \<times> ('p, 's) daemon"
  hd_provider :: str
  hd_uptime :: u64
  hd_peer_uid :: "('p, 's) daemon \<Rightarrow> u32 option \<times> ('p, 's) daemon"
  hd_request_shutdown :: "('p, 's) daemon \<Rightarrow> ('p, 's) daemon"
  hd_finish_cleanup :: "nat \<Rightarrow> bool \<Rightarrow> ('p, 's) daemon \<Rightarrow> ('p, 's) daemon"

text \<open>\<open>Panicked\<close> stands for a failed \<open>expect\<close> and for \<open>unreachable!\<close>.\<close>

datatype 'a outcome = Completed 'a | Panicked

subsection \<open>The initial request\<close>

definition current_operation :: "request \<Rightarrow> operation" where
  "current_operation request =
     (case request of
        Some (CmdAuthenticate user _) \<Rightarrow> Authenticate user
      | Some (CmdAuthenticateV1 r) \<Rightarrow> Authenticate (av_username r)
      | Some (CmdBeginAuthV1 r) \<Rightarrow> BeginAuth (ba_username r)
      | Some (CmdCommitAuthV1 _) \<Rightarrow> CommitAuth
      | Some (CmdCancelAuthV1 _) \<Rightarrow> CancelAuth
      | Some (CmdEnroll user _) \<Rightarrow> Enroll user
      | Some (CmdEnrollV1 user _) \<Rightarrow> Enroll user
      | Some (CmdEnrollBatch user _ _) \<Rightarrow> EnrollBatch user
      | Some (CmdEnrollBatchV1 user _ _) \<Rightarrow> EnrollBatch user
      | Some (CmdEnrollmentPresence user) \<Rightarrow> EnrollmentPresence user
      | Some (CmdListEnrollments user) \<Rightarrow> ListEnrollments user
      | Some (CmdRemoveEnrollment user _ _) \<Rightarrow> RemoveEnrollment user
      | Some (CmdClearEnrollments user _) \<Rightarrow> ClearEnrollments user
      | Some CmdReloadStorage \<Rightarrow> Reload
      | Some CmdSecurityInfo \<Rightarrow> SecurityInfo
      | Some (CmdDetect _ _ _) \<Rightarrow> Detect
      | Some CmdPing \<Rightarrow> Ping
      | Some CmdInfo \<Rightarrow> PublicInfo
      | Some CmdShutdown \<Rightarrow> Shutdown
      | Some (CmdCheckCredential user) \<Rightarrow> CheckCredential user
      | Some (CmdRevokeCredential user _) \<Rightarrow> RevokeCredential user
      | None \<Rightarrow> Unknown)"

definition initial_prompt_protocol_response :: "request \<Rightarrow> bool \<Rightarrow> response option" where
  "initial_prompt_protocol_response request confirm =
     (case request of
        Some (CmdAuthenticate _ _) \<Rightarrow>
          (if confirm then Some (response_prompt_error Incompatible) else None)
      | Some (CmdAuthenticateV1 r) \<Rightarrow>
          (case authenticate_v1_validate r of
             Inl e \<Rightarrow> Some (response_prompt_error (validation_prompt_error e))
           | Inr _ \<Rightarrow> (if confirm then Some (response_prompt_error Incompatible) else None))
      | Some (CmdBeginAuthV1 r) \<Rightarrow>
          (case begin_auth_validate r of
             Inl e \<Rightarrow> Some (response_prompt_error (validation_prompt_error e))
           | Inr _ \<Rightarrow> (if confirm then None else Some (response_prompt_error Incompatible)))
      | Some (CmdCommitAuthV1 r) \<Rightarrow>
          Some (case transaction_validate r of
                  Inr _ \<Rightarrow> response_prompt_error Violation
                | Inl e \<Rightarrow> response_prompt_error (validation_prompt_error e))
      | Some (CmdCancelAuthV1 r) \<Rightarrow>
          Some (case transaction_validate r of
                  Inr _ \<Rightarrow> response_prompt_error Violation
                | Inl e \<Rightarrow> response_prompt_error (validation_prompt_error e))
      | _ \<Rightarrow> None)"

definition dispatch_authenticate_v1_with ::
  "authenticate_v1_req \<Rightarrow> bool \<Rightarrow> (authenticate_v1_req \<Rightarrow> ('p, 's) daemon \<Rightarrow> (response \<times> nat option) \<times> ('p, 's) daemon)
   \<Rightarrow> ('p, 's) daemon \<Rightarrow> (response \<times> nat option) \<times> ('p, 's) daemon" where
  "dispatch_authenticate_v1_with r confirm authenticate d =
     (case authenticate_v1_validate r of
        Inl e \<Rightarrow> ((response_prompt_error (validation_prompt_error e), None), d)
      | Inr _ \<Rightarrow>
          (if confirm then ((response_prompt_error Incompatible, None), d) else authenticate r d))"

subsection \<open>Storage requests\<close>

definition storage_error_response :: "storage_backend_error \<Rightarrow> response" where
  "storage_error_response e =
     (case e of
        BackendAbsent \<Rightarrow> response_error_code STORAGE_ABSENT_ERROR (ascii ''no enrollments found'')
      | Conflict _ \<Rightarrow> response_error_code STORAGE_CONFLICT_ERROR (ascii ''enrollment data changed; relist and retry'')
      | Corrupt \<Rightarrow> response_error_code STORAGE_CORRUPT_ERROR (ascii ''enrollment storage is corrupt'')
      | BackendAuthenticationFailed \<Rightarrow> response_error_code STORAGE_CORRUPT_ERROR (ascii ''enrollment storage is corrupt'')
      | ModelMismatch \<Rightarrow>
          response_error_code STORAGE_MODEL_MISMATCH_ERROR
            (ascii ''enrollments were created for a different recognizer model'')
      | InvalidInput _ \<Rightarrow> response_error_code STORAGE_INVALID_REQUEST_ERROR (ascii ''invalid storage request'')
      | _ \<Rightarrow> response_error_code STORAGE_UNAVAILABLE_ERROR (ascii ''enrollment storage is unavailable''))"

definition handle_enrollment_presence ::
  "('p, 's, 'm) backend_scheme \<Rightarrow> str \<Rightarrow> ('p, 's) daemon \<Rightarrow> response outcome \<times> ('p, 's) daemon" where
  "handle_enrollment_presence storage user d =
     (case canonical_username_new user of
        Inl _ \<Rightarrow> (Panicked, d)
      | Inr user \<Rightarrow>
          (case sb_candidate_presence storage user d of
             (Inr CandidateAbsent, d) \<Rightarrow> (Completed (response_enrollment_presence False), d)
           | (Inr (Candidate _), d) \<Rightarrow> (Completed (response_enrollment_presence True), d)
           | (Inl _, d) \<Rightarrow>
               (Completed (response_error_code STORAGE_UNAVAILABLE_ERROR (ascii ''enrollment presence is unavailable'')), d)))"

definition metadata_response :: "metadata_list \<Rightarrow> response" where
  "metadata_response l =
     response_list_enrollments (ml_generation l)
       (map (\<lambda>e. \<lparr>me_enrollment_id = em_enrollment_id e, me_label = em_label e,
                  me_created_unix_seconds = em_created_unix_seconds e\<rparr>) (ml_entries l))"

definition handle_list_enrollments ::
  "('p, 's, 'm) backend_scheme \<Rightarrow> str \<Rightarrow> ('p, 's) daemon \<Rightarrow> response outcome \<times> ('p, 's) daemon" where
  "handle_list_enrollments storage user d =
     (case canonical_username_new user of
        Inl _ \<Rightarrow> (Panicked, d)
      | Inr user \<Rightarrow>
          (case sb_list_metadata storage user d of
             (Inr l, d) \<Rightarrow> (Completed (metadata_response l), d)
           | (Inl e, d) \<Rightarrow>
               (Completed (if e = BackendAbsent then response_list_enrollments ABSENT_GENERATION []
                           else storage_error_response e), d)))"

text \<open>\<open>RemoveRequest::new\<close> and \<open>ClearRequest::new\<close> fail on the absent generation; the handlers expect them
  to succeed.\<close>

definition handle_remove_enrollment ::
  "('p, 's, 'm) backend_scheme \<Rightarrow> str \<Rightarrow> bytes \<Rightarrow> u64 \<Rightarrow> ('p, 's) daemon \<Rightarrow> response outcome \<times> ('p, 's) daemon" where
  "handle_remove_enrollment storage user eid expected d =
     (if expected = ABSENT_GENERATION \<or> length eid \<noteq> 16
      then (Completed (storage_error_response (InvalidInput ''remove request'')), d)
      else case enrollment_id_new eid of
        Inl _ \<Rightarrow> (Completed (storage_error_response (InvalidInput ''enrollment ID'')), d)
      | Inr i \<Rightarrow>
          (case canonical_username_new user of
             Inl _ \<Rightarrow> (Panicked, d)
           | Inr user \<Rightarrow>
               (if expected = ABSENT_GENERATION then (Panicked, d)
                else case sb_remove storage user expected i d of
                  (Inr (gen, removed), d) \<Rightarrow> (Completed (response_remove_enrollment gen removed), d)
                | (Inl e, d) \<Rightarrow> (Completed (storage_error_response e), d))))"

definition handle_clear_enrollments ::
  "('p, 's, 'm) backend_scheme \<Rightarrow> str \<Rightarrow> u64 \<Rightarrow> ('p, 's) daemon \<Rightarrow> response outcome \<times> ('p, 's) daemon" where
  "handle_clear_enrollments storage user expected d =
     (if expected = ABSENT_GENERATION
      then (Completed (storage_error_response (InvalidInput ''clear generation'')), d)
      else case canonical_username_new user of
        Inl _ \<Rightarrow> (Panicked, d)
      | Inr user \<Rightarrow>
          (if expected = ABSENT_GENERATION then (Panicked, d)
           else case sb_clear storage user expected d of
             (Inr (gen, removed), d) \<Rightarrow>
               (Completed (if removed < 2 ^ 32 then response_clear_enrollments gen (word_of_nat removed)
                           else storage_error_response (InvalidInput ''count'')), d)
           | (Inl e, d) \<Rightarrow> (Completed (storage_error_response e), d)))"

definition saturating_inc :: "u32 \<Rightarrow> u32" where
  "saturating_inc n = (if n = - 1 then n else n + 1)"

fun count_record :: "outer_record_classification \<Rightarrow> reload_storage_result \<Rightarrow> reload_storage_result" where
  "count_record (OuterCandidate _) r = r\<lparr>rs_candidate_records := saturating_inc (rs_candidate_records r)\<rparr>"
| "count_record OuterModeMismatch r = r\<lparr>rs_mode_mismatch_records := saturating_inc (rs_mode_mismatch_records r)\<rparr>"
| "count_record OuterKeyMismatch r = r\<lparr>rs_key_mismatch_records := saturating_inc (rs_key_mismatch_records r)\<rparr>"
| "count_record OuterModelMismatch r = r\<lparr>rs_model_mismatch_records := saturating_inc (rs_model_mismatch_records r)\<rparr>"
| "count_record OuterCorrupt r = r\<lparr>rs_corrupt_records := saturating_inc (rs_corrupt_records r)\<rparr>"

definition handle_reload_storage ::
  "('p, 's, 'm) backend_scheme \<Rightarrow> ('p, 's) daemon \<Rightarrow> response \<times> ('p, 's) daemon" where
  "handle_reload_storage storage d =
     (case sb_reload storage d of
        (Inr (health, records), d) \<Rightarrow>
          (Some (RReloadStorage (fold count_record records
             \<lparr>rs_storage_ready = (health = Ready), rs_candidate_records = 0, rs_mode_mismatch_records = 0,
              rs_key_mismatch_records = 0, rs_model_mismatch_records = 0, rs_corrupt_records = 0\<rparr>)), d)
      | (Inl e, d) \<Rightarrow> (storage_error_response e, d))"

subsection \<open>Dispatch\<close>

definition INITIAL_REQUEST_READ_TIMEOUT :: duration where "INITIAL_REQUEST_READ_TIMEOUT = 2000000000"
definition FACE_EMBEDDING_DIM :: usize where "FACE_EMBEDDING_DIM = 512"

text \<open>What dispatching a request comes to: a response to write, with the camera cleanup that is still to be
  finished; the end of the connection, its response being written; or a panic.\<close>

datatype dispatched =
    Respond response "nat option"
  | Ended "io_error + unit"
  | DispatchPanicked

definition respond :: "response \<times> ('p, 's) daemon \<Rightarrow> (dispatched \<times> ('p, 's) daemon) option" where
  "respond r = (case r of (response, d) \<Rightarrow> Some (Respond response None, d))"

definition respond_outcome :: "response outcome \<times> ('p, 's) daemon \<Rightarrow> (dispatched \<times> ('p, 's) daemon) option" where
  "respond_outcome r =
     (case r of
        (Completed response, d) \<Rightarrow> Some (Respond response None, d)
      | (Panicked, d) \<Rightarrow> Some (DispatchPanicked, d))"

definition respond_with_cleanup :: "(response \<times> nat option) \<times> ('p, 's) daemon \<Rightarrow> (dispatched \<times> ('p, 's) daemon) option" where
  "respond_with_cleanup r = (case r of ((response, cleanup), d) \<Rightarrow> Some (Respond response cleanup, d))"

definition dispatch_authorized_enrollment ::
  "('p, 's, 'm) handlers_scheme \<Rightarrow> request \<Rightarrow> str \<Rightarrow> ('p, 's) daemon \<Rightarrow> response option \<times> ('p, 's) daemon" where
  "dispatch_authorized_enrollment h request user d =
     (let incompatible = response_error_code ENROLLMENT_PROTOCOL_ERROR
            (ascii ''enrollment requires a compatible daemon-owned storage operation'')
      in case request of
        Some (CmdEnroll _ _) \<Rightarrow> (Some incompatible, d)
      | Some (CmdEnrollBatch _ _ _) \<Rightarrow> (Some incompatible, d)
      | Some (CmdEnrollV1 _ lbl) \<Rightarrow> map_prod Some id (hd_enroll h user lbl d)
      | Some (CmdEnrollBatchV1 _ session_dir lbl) \<Rightarrow> map_prod Some id (hd_enroll_batch h user session_dir lbl d)
      | _ \<Rightarrow> (None, d))"

definition handle_root_shutdown ::
  "('p, 's, 'n) supervisor_env_scheme \<Rightarrow> ('p, 's, 'm) handlers_scheme \<Rightarrow> ('p, 's) daemon
   \<Rightarrow> ((io_error + unit) \<times> ('p, 's) daemon) option" where
  "handle_root_shutdown env h d =
     map_option (\<lambda>(result, d). (result, hd_request_shutdown h d)) (write_response env (Some RPong) d)"

text \<open>The closure that runs under an authorization; \<open>target\<close> is its canonical target.\<close>

definition run_command ::
  "('p, 's, 'n) supervisor_env_scheme \<Rightarrow> ('p, 's, 'm) handlers_scheme \<Rightarrow> howy_config \<Rightarrow> request
   \<Rightarrow> canonical_identity option \<Rightarrow> ('p, 's) daemon \<Rightarrow> (dispatched \<times> ('p, 's) daemon) option" where
  "run_command env h config request target d =
     (let confirm = (presence_mode (presence config) = Confirm);
          for_user = (\<lambda>handler. case target of
             None \<Rightarrow> Some (DispatchPanicked, d)
           | Some identity \<Rightarrow> handler (ci_username identity));
          enrollment = (\<lambda>user. case dispatch_authorized_enrollment h request user d of
             (None, d) \<Rightarrow> Some (DispatchPanicked, d)
           | (Some response, d) \<Rightarrow> Some (Respond response None, d))
      in case request of
        Some (CmdEnroll _ _) \<Rightarrow> for_user enrollment
      | Some (CmdEnrollV1 _ _) \<Rightarrow> for_user enrollment
      | Some (CmdEnrollBatch _ _ _) \<Rightarrow> for_user enrollment
      | Some (CmdEnrollBatchV1 _ _ _) \<Rightarrow> for_user enrollment
      | Some (CmdAuthenticate _ timeout) \<Rightarrow>
          for_user (\<lambda>user. respond_with_cleanup (hd_authenticate h user timeout d))
      | Some (CmdAuthenticateV1 r) \<Rightarrow>
          for_user (\<lambda>user. respond_with_cleanup
            (dispatch_authenticate_v1_with r confirm (\<lambda>r. hd_authenticate h user (av_timeout r)) d))
      | Some (CmdBeginAuthV1 _) \<Rightarrow> Some (DispatchPanicked, d)
      | Some (CmdCommitAuthV1 _) \<Rightarrow> Some (DispatchPanicked, d)
      | Some (CmdCancelAuthV1 _) \<Rightarrow> Some (DispatchPanicked, d)
      | Some (CmdDetect pixels height width) \<Rightarrow> respond (hd_detect h pixels height width d)
      | Some CmdPing \<Rightarrow> Some (Respond (Some RPong) None, d)
      | Some CmdInfo \<Rightarrow>
          (case sb_health h d of (health, d) \<Rightarrow>
             Some (Respond (response_daemon_info (hd_provider h) (word_of_nat FACE_EMBEDDING_DIM) (hd_uptime h)
               (ucast (embedding_mode_u8 (embedding_mode (security config)))) confirm (health = Ready)) None, d))
      | Some (CmdEnrollmentPresence _) \<Rightarrow>
          for_user (\<lambda>user. respond_outcome (handle_enrollment_presence h user d))
      | Some (CmdListEnrollments _) \<Rightarrow>
          for_user (\<lambda>user. respond_outcome (handle_list_enrollments h user d))
      | Some (CmdRemoveEnrollment _ eid expected) \<Rightarrow>
          for_user (\<lambda>user. respond_outcome (handle_remove_enrollment h user eid expected d))
      | Some (CmdClearEnrollments _ expected) \<Rightarrow>
          for_user (\<lambda>user. respond_outcome (handle_clear_enrollments h user expected d))
      | Some CmdReloadStorage \<Rightarrow> respond (handle_reload_storage h d)
      | Some CmdSecurityInfo \<Rightarrow> respond (hd_security_info h d)
      | Some CmdShutdown \<Rightarrow> map_option (\<lambda>(result, d). (Ended result, d)) (handle_root_shutdown env h d)
      | Some (CmdCheckCredential _) \<Rightarrow> for_user (\<lambda>user. respond (hd_check_credential h user d))
      | Some (CmdRevokeCredential _ session) \<Rightarrow> for_user (\<lambda>user. respond (hd_revoke_credential h user session d))
      | None \<Rightarrow> Some (DispatchPanicked, d))"

definition is_authenticate_v1 :: "request \<Rightarrow> bool" where
  "is_authenticate_v1 request = (case request of Some (CmdAuthenticateV1 _) \<Rightarrow> True | _ \<Rightarrow> False)"

definition is_begin_auth_v1 :: "request \<Rightarrow> bool" where
  "is_begin_auth_v1 request = (case request of Some (CmdBeginAuthV1 _) \<Rightarrow> True | _ \<Rightarrow> False)"

definition dispatch_context :: "howy_config \<Rightarrow> u32 \<Rightarrow> request \<Rightarrow> authorization_context" where
  "dispatch_context config peer request =
     authorization_context_initial peer
       (presence_mode (presence config) = Confirm \<and> \<not> is_authenticate_v1 request)"

definition dispatch_request ::
  "('p, 's, 'n) supervisor_env_scheme \<Rightarrow> ('p, 's, 'm) handlers_scheme \<Rightarrow> howy_config \<Rightarrow> u32 option \<Rightarrow> request
   \<Rightarrow> ('p, 's) daemon \<Rightarrow> (dispatched \<times> ('p, 's) daemon) option" where
  "dispatch_request env h config peer request d =
     (case peer of
        None \<Rightarrow> Some (Respond (response_error (ascii ''permission denied'')) None, d)
      | Some uid \<Rightarrow>
          (case se_resolver env d of (resolve, d) \<Rightarrow>
             (case authorize_and_then resolve (current_operation request) (dispatch_context config uid request) id of
                Inr target \<Rightarrow> run_command env h config request target d
              | Inl _ \<Rightarrow>
                  Some (Respond (if is_begin_auth_v1 request then response_prompt_error PromptUnavailable
                                 else response_error (ascii ''permission denied'')) None, d))))"

subsection \<open>The whole connection\<close>

text \<open>\<open>coordinate_response_cleanup\<close> without its timing: before the response when camera stops are not deferred,
  after it otherwise.\<close>

definition coordinate_response_cleanup ::
  "('p, 's, 'n) supervisor_env_scheme \<Rightarrow> ('p, 's, 'm) handlers_scheme \<Rightarrow> bool \<Rightarrow> nat option \<Rightarrow> response
   \<Rightarrow> ('p, 's) daemon \<Rightarrow> ((io_error + unit) \<times> ('p, 's) daemon) option" where
  "coordinate_response_cleanup env h defer_camera_stop cleanup response d =
     (case cleanup of
        None \<Rightarrow> write_response env response d
      | Some c \<Rightarrow>
          (if defer_camera_stop
           then map_option (\<lambda>(result, d). (result, hd_finish_cleanup h c False d)) (write_response env response d)
           else write_response env response (hd_finish_cleanup h c True d)))"

datatype connection_end = ConnEnded "io_error + unit" | ConnPanicked

text \<open>The initial deadline of a clock that cannot be advanced any more is an \<open>InvalidInput\<close> error, a kind that
  nothing distinguishes.\<close>

definition handle_connection ::
  "'p prompt_manager \<Rightarrow> ('p, 's, 'n) supervisor_env_scheme \<Rightarrow> ('p, 's, 'm) handlers_scheme \<Rightarrow> howy_config \<Rightarrow> bool
   \<Rightarrow> connection_id \<Rightarrow> ('p, 's) daemon \<Rightarrow> (connection_end \<times> ('p, 's) daemon) option" where
  "handle_connection manager env h config defer_camera_stop connection d =
     (case net_set_write_timeout env 10000000000 d of
        (Inl e, d) \<Rightarrow> Some (ConnEnded (Inl e), d)
      | (Inr _, d) \<Rightarrow>
          (case net_now env d of (now, d) \<Rightarrow>
             (case instant_checked_add now INITIAL_REQUEST_READ_TIMEOUT of
                None \<Rightarrow> Some (ConnEnded (Inl (OtherIo 0)), d)
              | Some deadline \<Rightarrow>
                  (case recv_prompt_message_until (srv_net env) deadline (sv_shutdown_requested env) d of
                     None \<Rightarrow> None
                   | Some (Inl e, d) \<Rightarrow> Some (ConnEnded (Inl e), d)
                   | Some (Inr request, d) \<Rightarrow>
                       (case hd_peer_uid h d of (peer, d) \<Rightarrow>
                          (case initial_prompt_protocol_response request (presence_mode (presence config) = Confirm) of
                             Some response \<Rightarrow> map_option (\<lambda>(result, d). (ConnEnded result, d)) (write_response env response d)
                           | None \<Rightarrow>
                               (if is_begin_auth_v1 request
                                then map_option (\<lambda>(e, d).
                                    (case e of CoordReturned _ \<Rightarrow> ConnEnded (Inr ())
                                     | CoordFailed e \<Rightarrow> ConnEnded (Inl e) | CoordPanicked \<Rightarrow> ConnPanicked, d))
                                  (coordinate_prompt_connection_with_shutdown manager env (Some request)
                                     (\<lambda>begn d. case peer of
                                         None \<Rightarrow> (Inl PromptUnavailable, d)
                                       | Some uid \<Rightarrow> prepare_prompt_pending manager env config uid connection begn d)
                                     (spawn_prompt_authentication_after_revalidation env) d)
                                else case dispatch_request env h config peer request d of
                                  None \<Rightarrow> None
                                | Some (DispatchPanicked, d) \<Rightarrow> Some (ConnPanicked, d)
                                | Some (Ended result, d) \<Rightarrow> Some (ConnEnded result, d)
                                | Some (Respond response cleanup, d) \<Rightarrow>
                                    map_option (\<lambda>(result, d). (ConnEnded result, d))
                                      (coordinate_response_cleanup env h defer_camera_stop cleanup response d))))))))"

end
