(* ===== verification/Connections.thy ===== *)
theory Connections
  imports Prelude
begin

section \<open>Accounting of connections\<close>

text \<open>
  \<open>ConnectionAccounting\<close> of the daemon: how many connections are open, in total and per user id.  A permit is the
  user id it was acquired for; it is dropped when its worker ends.
\<close>

definition MAX_CONNECTION_WORKERS :: usize where "MAX_CONNECTION_WORKERS = 64"
definition RESERVED_CONNECTIONS :: usize where "RESERVED_CONNECTIONS = 8"
definition MAX_CONNECTIONS_PER_UID :: usize where "MAX_CONNECTIONS_PER_UID = 8"

lemmas connection_limits = MAX_CONNECTION_WORKERS_def RESERVED_CONNECTIONS_def MAX_CONNECTIONS_PER_UID_def

record connection_accounting =
  ca_total :: usize
  ca_by_uid :: "(u32, usize) hashmap"

definition accounting_default :: connection_accounting where
  "accounting_default = \<lparr>ca_total = 0, ca_by_uid = []\<rparr>"

definition uid_count :: "u32 \<Rightarrow> connection_accounting \<Rightarrow> usize" where
  "uid_count uid counts = (case hm_get (ca_by_uid counts) uid of None \<Rightarrow> 0 | Some n \<Rightarrow> n)"

text \<open>The additions cannot overflow: the total is below \<open>MAX_CONNECTION_WORKERS\<close> when they are reached, and
  no count exceeds the total in a reachable state.\<close>

definition try_acquire_connection :: "u32 \<Rightarrow> connection_accounting \<Rightarrow> u32 option \<times> connection_accounting" where
  "try_acquire_connection uid counts =
     (let per_uid = uid_count uid counts;
          unprivileged_limit = MAX_CONNECTION_WORKERS - RESERVED_CONNECTIONS
      in if MAX_CONNECTION_WORKERS \<le> ca_total counts
            \<or> uid \<noteq> 0 \<and> unprivileged_limit \<le> ca_total counts
            \<or> uid \<noteq> 0 \<and> MAX_CONNECTIONS_PER_UID \<le> per_uid
         then (None, counts)
         else (Some uid, \<lparr>ca_total = ca_total counts + 1,
                 ca_by_uid = hm_insert uid (uid_count uid counts + 1) (ca_by_uid counts)\<rparr>))"

definition drop_connection_permit :: "u32 \<Rightarrow> connection_accounting \<Rightarrow> connection_accounting" where
  "drop_connection_permit uid counts =
     \<lparr>ca_total = ca_total counts - 1,
      ca_by_uid =
        (case hm_get (ca_by_uid counts) uid of
           None \<Rightarrow> ca_by_uid counts
         | Some n \<Rightarrow> if n - 1 = 0 then hm_remove uid (ca_by_uid counts)
                     else hm_insert uid (n - 1) (ca_by_uid counts))\<rparr>"

text \<open>The accounts and the permits that are out, as connections come and go.\<close>

inductive connections_run :: "connection_accounting \<Rightarrow> u32 list \<Rightarrow> bool" where
  start: "connections_run accounting_default []"
| accept: "connections_run counts permits \<Longrightarrow> try_acquire_connection uid counts = (Some permit, counts') \<Longrightarrow>
    connections_run counts' (permit # permits)"
| refuse: "connections_run counts permits \<Longrightarrow> try_acquire_connection uid counts = (None, counts') \<Longrightarrow>
    connections_run counts' permits"
| close: "connections_run counts permits \<Longrightarrow> permit \<in> set permits \<Longrightarrow>
    connections_run (drop_connection_permit permit counts) (remove1 permit permits)"

subsection \<open>The accounts are exact and bounded\<close>

definition uid_entry :: "nat \<Rightarrow> usize option" where
  "uid_entry n = (if n = 0 then None else Some n)"

definition accounts_inv :: "connection_accounting \<Rightarrow> u32 list \<Rightarrow> bool" where
  "accounts_inv counts permits \<longleftrightarrow>
     ca_total counts = length permits \<and> length permits \<le> MAX_CONNECTION_WORKERS
     \<and> (\<forall>uid. hm_get (ca_by_uid counts) uid = uid_entry (count_list permits uid))
     \<and> length (filter (\<lambda>u. u \<noteq> 0) permits) \<le> MAX_CONNECTION_WORKERS - RESERVED_CONNECTIONS
     \<and> (\<forall>uid. uid \<noteq> 0 \<longrightarrow> count_list permits uid \<le> MAX_CONNECTIONS_PER_UID)"

lemma count_list_remove1: "count_list (remove1 a xs) b = (if a = b then count_list xs b - 1 else count_list xs b)"
  by (induction xs) auto

lemma length_filter_remove1: "length (filter P (remove1 a xs)) \<le> length (filter P xs)"
  by (induction xs) auto

lemma uid_count_inv: "accounts_inv counts permits \<Longrightarrow> uid_count uid counts = count_list permits uid"
  by (simp add: accounts_inv_def uid_count_def uid_entry_def)

lemma acquire_inv:
  assumes "accounts_inv counts permits" and "try_acquire_connection uid counts = (Some permit, counts')"
  shows "accounts_inv counts' (permit # permits)"
proof -
  have "length (filter (\<lambda>u. u \<noteq> 0) permits) < n" if "length permits < n" for n
    using that by (rule le_less_trans [OF length_filter_le])
  moreover have "uid_entry (Suc n) = Some (Suc n)" for n by (simp add: uid_entry_def)
  ultimately show ?thesis using assms uid_count_inv [OF assms(1)]
    by (auto simp: accounts_inv_def try_acquire_connection_def Let_def connection_limits not_le less_eq_Suc_le split: if_splits)
qed

lemma drop_inv:
  assumes "accounts_inv counts permits" and "permit \<in> set permits"
  shows "accounts_inv (drop_connection_permit permit counts) (remove1 permit permits)"
proof -
  have "0 < count_list permits permit" using assms(2) count_list_0_iff [of permits permit] by simp
  moreover have "length (filter (\<lambda>u. u \<noteq> 0) (remove1 permit permits)) \<le> length (filter (\<lambda>u. u \<noteq> 0) permits)"
    by (rule length_filter_remove1)
  ultimately show ?thesis using assms
    by (auto simp: accounts_inv_def drop_connection_permit_def count_list_remove1 length_remove1 uid_entry_def)
qed

lemma connections_inv: "connections_run counts permits \<Longrightarrow> accounts_inv counts permits"
proof (induction rule: connections_run.induct)
  case start
  show ?case by (simp add: accounts_inv_def accounting_default_def uid_entry_def)
next
  case (refuse counts permits uid counts')
  then show ?case by (simp add: try_acquire_connection_def Let_def split: if_splits)
qed (blast intro: acquire_inv drop_inv)+

text \<open>C31. The accounts of the connections are exact and keep room for root.  However connections come and go, the
  totals are those of the open connections, there are never more than 64, of which at most 56 are not root's,
  with at most 8 for one user other than root; a user other than root is refused exactly at one of these
  limits, and root is accepted whenever it has fewer than the 8 reserved connections open.\<close>

theorem connections_accounted:
  assumes "connections_run counts permits"
  shows "ca_total counts = length permits \<and> (\<forall>uid. uid_count uid counts = count_list permits uid)
    \<and> length permits \<le> 64 \<and> length (filter (\<lambda>u. u \<noteq> 0) permits) \<le> 56
    \<and> (\<forall>uid. uid \<noteq> 0 \<longrightarrow> count_list permits uid \<le> 8)
    \<and> (\<forall>uid. uid \<noteq> 0 \<longrightarrow> (fst (try_acquire_connection uid counts) = None
          \<longleftrightarrow> 56 \<le> length permits \<or> 8 \<le> count_list permits uid))
    \<and> (count_list permits 0 < 8 \<longrightarrow> fst (try_acquire_connection 0 counts) = Some 0)"
proof -
  have inv: "accounts_inv counts permits" by (rule connections_inv [OF assms])
  have "length permits = count_list permits 0 + length (filter (\<lambda>u. u \<noteq> 0) permits)"
    by (induction permits) auto
  with inv uid_count_inv [OF inv] show ?thesis
    by (auto simp: accounts_inv_def try_acquire_connection_def Let_def connection_limits)
qed

theorem connections_accounted_witness:
  "connections_run \<lparr>ca_total = 1, ca_by_uid = [(5, 1)]\<rparr> [5]
   \<and> fst (try_acquire_connection 0 \<lparr>ca_total = 1, ca_by_uid = [(5, 1)]\<rparr>) = Some 0"
proof -
  have "try_acquire_connection 5 accounting_default = (Some 5, \<lparr>ca_total = 1, ca_by_uid = [(5, 1)]\<rparr>)"
    by (simp add: try_acquire_connection_def accounting_default_def uid_count_def connection_limits)
  with connections_run.start have "connections_run \<lparr>ca_total = 1, ca_by_uid = [(5, 1)]\<rparr> [5]"
    by (rule connections_run.accept)
  from connections_accounted [OF this] this show ?thesis by simp
qed

end
