(* ===== verification/Admission.thy ===== *)
theory Admission
  imports PromptState
begin

section \<open>Admission to the camera\<close>

text \<open>
  \<open>CameraAdmission\<close> of the daemon: one lease at a time, handed out in the order of arrival.  The loop of
  \<open>acquire_cancellable\<close> holds the lock of the queue except while it waits on the condition variable, so one
  round of it, from one wait to the next, is one step; the steps of all threads interleave freely.
\<close>

record admission_queue =
  aq_active :: bool
  aq_next_ticket :: u64
  aq_waiters :: "u64 list"

datatype camera_admission_error = AdmissionBusy | AdmissionCancelled

definition admission_new :: admission_queue where
  "admission_new = \<lparr>aq_active = False, aq_next_ticket = 0, aq_waiters = []\<rparr>"

definition remove_waiter :: "u64 \<Rightarrow> u64 list \<Rightarrow> u64 list" where
  "remove_waiter ticket waiters = remove1 ticket waiters"

definition take_ticket :: "admission_queue \<Rightarrow> u64 \<times> admission_queue" where
  "take_ticket q =
     (let ticket = aq_next_ticket q
      in (ticket, q\<lparr>aq_next_ticket := ticket + 1, aq_waiters := aq_waiters q @ [ticket]\<rparr>))"

definition is_front :: "u64 \<Rightarrow> admission_queue \<Rightarrow> bool" where
  "is_front ticket q = (case aq_waiters q of [] \<Rightarrow> False | t # _ \<Rightarrow> t = ticket)"

text \<open>The loop up to the wait: \<open>None\<close> goes on to wait.\<close>

definition acquire_round ::
  "bool \<Rightarrow> instant \<Rightarrow> instant \<Rightarrow> u64 \<Rightarrow> admission_queue \<Rightarrow> (camera_admission_error + unit) option \<times> admission_queue" where
  "acquire_round cancelled deadline now ticket q =
     (if cancelled then (Some (Inl AdmissionCancelled), q\<lparr>aq_waiters := remove_waiter ticket (aq_waiters q)\<rparr>)
      else if \<not> aq_active q \<and> is_front ticket q
      then (Some (Inr ()), q\<lparr>aq_waiters := tl (aq_waiters q), aq_active := True\<rparr>)
      else if deadline - now = 0
      then (Some (Inl AdmissionBusy), q\<lparr>aq_waiters := remove_waiter ticket (aq_waiters q)\<rparr>)
      else (None, q))"

text \<open>After the wait: \<open>None\<close> goes back to the head of the loop.\<close>

definition acquire_woken ::
  "bool \<Rightarrow> instant \<Rightarrow> instant \<Rightarrow> u64 \<Rightarrow> admission_queue \<Rightarrow> (camera_admission_error + unit) option \<times> admission_queue" where
  "acquire_woken timed_out deadline now ticket q =
     (if timed_out \<and> deadline \<le> now \<and> (aq_active q \<or> \<not> is_front ticket q)
      then (Some (Inl AdmissionBusy), q\<lparr>aq_waiters := remove_waiter ticket (aq_waiters q)\<rparr>)
      else (None, q))"

definition release_camera_admission :: "admission_queue \<Rightarrow> admission_queue" where
  "release_camera_admission q = q\<lparr>aq_active := False\<rparr>"

subsection \<open>All threads together\<close>

text \<open>The tickets of the threads that are in the loop, the leases that are out, and the history: the tickets that
  were admitted, the last one first, and how many were drawn.  A lease is released once, by its drop or by the
  cleanup task it was handed to.\<close>

record camera_system =
  cs_queue :: admission_queue
  cs_waiting :: "u64 list"
  cs_leases :: nat
  cs_admitted :: "u64 list"
  cs_arrivals :: nat

definition settle :: "u64 \<Rightarrow> (camera_admission_error + unit) option \<Rightarrow> admission_queue \<Rightarrow> camera_system \<Rightarrow> camera_system" where
  "settle ticket r q s =
     (case r of
        None \<Rightarrow> s\<lparr>cs_queue := q\<rparr>
      | Some (Inl _) \<Rightarrow> s\<lparr>cs_queue := q, cs_waiting := remove1 ticket (cs_waiting s)\<rparr>
      | Some (Inr _) \<Rightarrow>
          s\<lparr>cs_queue := q, cs_waiting := remove1 ticket (cs_waiting s), cs_leases := cs_leases s + 1,
            cs_admitted := ticket # cs_admitted s\<rparr>)"

inductive camera_run :: "camera_system \<Rightarrow> bool" where
  start: "camera_run \<lparr>cs_queue = admission_new, cs_waiting = [], cs_leases = 0, cs_admitted = [], cs_arrivals = 0\<rparr>"
| arrive: "camera_run s \<Longrightarrow> take_ticket (cs_queue s) = (ticket, q) \<Longrightarrow>
    camera_run (s\<lparr>cs_queue := q, cs_waiting := ticket # cs_waiting s, cs_arrivals := cs_arrivals s + 1\<rparr>)"
| round: "camera_run s \<Longrightarrow> ticket \<in> set (cs_waiting s) \<Longrightarrow>
    acquire_round cancelled deadline now ticket (cs_queue s) = (r, q) \<Longrightarrow> camera_run (settle ticket r q s)"
| woken: "camera_run s \<Longrightarrow> ticket \<in> set (cs_waiting s) \<Longrightarrow>
    acquire_woken timed_out deadline now ticket (cs_queue s) = (r, q) \<Longrightarrow> camera_run (settle ticket r q s)"
| release: "camera_run s \<Longrightarrow> 0 < cs_leases s \<Longrightarrow>
    camera_run (s\<lparr>cs_queue := release_camera_admission (cs_queue s), cs_leases := cs_leases s - 1\<rparr>)"

subsection \<open>Exclusive and first come, first served\<close>

definition camera_inv :: "camera_system \<Rightarrow> bool" where
  "camera_inv s \<longleftrightarrow>
     cs_leases s = (if aq_active (cs_queue s) then 1 else 0)
     \<and> unat (aq_next_ticket (cs_queue s)) = cs_arrivals s
     \<and> set (cs_waiting s) = set (aq_waiters (cs_queue s)) \<and> distinct (cs_waiting s)
     \<and> sorted_wrt (<) (map unat (rev (cs_admitted s) @ aq_waiters (cs_queue s)))
     \<and> (\<forall>t \<in> set (cs_admitted s) \<union> set (aq_waiters (cs_queue s)). unat t < cs_arrivals s)"

lemma sorted_wrt_remove1: "sorted_wrt P (map f ys) \<Longrightarrow> sorted_wrt P (map f (remove1 a ys))"
  by (induction ys) (auto dest: notin_set_remove1)

lemma sorted_wrt_append_remove1:
  "sorted_wrt P (xs @ map f ys) \<Longrightarrow> sorted_wrt P (xs @ map f (remove1 a ys))"
  by (auto simp: sorted_wrt_append intro: sorted_wrt_remove1 dest: notin_set_remove1)

lemma distinct_waiters: "camera_inv s \<Longrightarrow> distinct (aq_waiters (cs_queue s))"
  by (auto simp: camera_inv_def sorted_wrt_append strict_sorted_iff distinct_map)

lemma leave_inv:
  assumes "camera_inv s" and "ticket \<in> set (cs_waiting s)"
    and "q = (cs_queue s)\<lparr>aq_waiters := remove_waiter ticket (aq_waiters (cs_queue s))\<rparr>"
  shows "camera_inv (settle ticket (Some (Inl e)) q s)"
  using assms distinct_waiters [OF assms(1)]
  by (auto simp: camera_inv_def settle_def remove_waiter_def set_remove1_eq
      intro: sorted_wrt_append_remove1 dest: notin_set_remove1)

lemma admit_inv:
  assumes "camera_inv s" and "\<not> aq_active (cs_queue s)" and "is_front ticket (cs_queue s)"
    and "q = (cs_queue s)\<lparr>aq_waiters := tl (aq_waiters (cs_queue s)), aq_active := True\<rparr>"
  shows "camera_inv (settle ticket (Some (Inr ())) q s)"
proof -
  from assms(3) obtain ws where w: "aq_waiters (cs_queue s) = ticket # ws"
    by (auto simp: is_front_def split: list.splits)
  then have "ticket \<notin> set ws" using distinct_waiters [OF assms(1)] by simp
  with assms w show ?thesis by (auto simp: camera_inv_def settle_def set_remove1_eq)
qed

lemma round_inv:
  assumes "camera_inv s" and "ticket \<in> set (cs_waiting s)"
    and "acquire_round cancelled deadline now ticket (cs_queue s) = (r, q)"
  shows "camera_inv (settle ticket r q s)"
proof -
  have "camera_inv (settle ticket None (cs_queue s) s)" using assms(1) by (simp add: settle_def)
  with leave_inv [OF assms(1,2) refl] admit_inv [OF assms(1) _ _ refl] assms(3) show ?thesis
    by (auto simp: acquire_round_def split: if_splits)
qed

lemma woken_inv:
  assumes "camera_inv s" and "ticket \<in> set (cs_waiting s)"
    and "acquire_woken timed_out deadline now ticket (cs_queue s) = (r, q)"
  shows "camera_inv (settle ticket r q s)"
proof -
  have "camera_inv (settle ticket None (cs_queue s) s)" using assms(1) by (simp add: settle_def)
  with leave_inv [OF assms(1,2) refl] assms(3) show ?thesis
    by (auto simp: acquire_woken_def split: if_splits)
qed

lemma arrive_inv:
  assumes "camera_inv s" and "cs_arrivals s + 1 < 2 ^ 64" and "take_ticket (cs_queue s) = (ticket, q)"
  shows "camera_inv (s\<lparr>cs_queue := q, cs_waiting := ticket # cs_waiting s, cs_arrivals := cs_arrivals s + 1\<rparr>)"
proof -
  let ?n = "aq_next_ticket (cs_queue s)"
  have "unat ?n = cs_arrivals s" using assms(1) by (simp add: camera_inv_def)
  then have n: "unat (?n + 1) = unat ?n + 1" using assms(2) by (simp add: unat_word_ariths)
  have "\<forall>t \<in> set (cs_admitted s) \<union> set (aq_waiters (cs_queue s)). unat t < unat ?n"
    using assms(1) by (simp add: camera_inv_def)
  with assms n show ?thesis
    by (auto simp: camera_inv_def take_ticket_def Let_def sorted_wrt_append ball_Un intro: less_SucI)
qed

lemma camera_run_inv:
  assumes "camera_run s" and "cs_arrivals s < 2 ^ 64"
  shows "camera_inv s"
  using assms
proof (induction rule: camera_run.induct)
  case start
  show ?case by (simp add: camera_inv_def admission_new_def)
next
  case (arrive s ticket q)
  then show ?case by (intro arrive_inv) simp_all
next
  case (round s ticket cancelled deadline now r q)
  then have "cs_arrivals s < 2 ^ 64" by (simp add: settle_def split: option.splits sum.splits)
  with round show ?case by (blast intro: round_inv)
next
  case (woken s ticket timed_out deadline now r q)
  then have "cs_arrivals s < 2 ^ 64" by (simp add: settle_def split: option.splits sum.splits)
  with woken show ?case by (blast intro: woken_inv)
next
  case (release s)
  then show ?case by (auto simp: camera_inv_def release_camera_admission_def split: if_splits)
qed

text \<open>C30. The camera is exclusive and first come, first served.  However the threads interleave, as long as fewer
  than \<open>2 ^ 64\<close> tickets were drawn, there is at most one lease, exactly while the queue is active; the queue
  holds exactly the tickets of the threads that wait, and leases are handed out in the order in which the
  tickets were drawn, before every ticket that still waits.  When no lease is out, the first waiting thread
  gets it in its next round unless it is cancelled, however late it is.\<close>

theorem camera_exclusive_fifo:
  assumes "camera_run s" and "cs_arrivals s < 2 ^ 64"
  shows "cs_leases s = (if aq_active (cs_queue s) then 1 else 0)
    \<and> set (cs_waiting s) = set (aq_waiters (cs_queue s)) \<and> distinct (aq_waiters (cs_queue s))
    \<and> sorted_wrt (<) (map unat (rev (cs_admitted s) @ aq_waiters (cs_queue s)))
    \<and> (\<forall>t ts deadline now. aq_waiters (cs_queue s) = t # ts \<and> cs_leases s = 0 \<longrightarrow>
         fst (acquire_round False deadline now t (cs_queue s)) = Some (Inr ()))"
proof -
  have inv: "camera_inv s" by (rule camera_run_inv [OF assms])
  with distinct_waiters [OF inv] show ?thesis
    by (auto simp: camera_inv_def acquire_round_def is_front_def split: if_splits)
qed

theorem camera_exclusive_fifo_witness:
  "\<exists>s. camera_run s \<and> cs_admitted s = [0] \<and> cs_leases s = 1 \<and> aq_waiters (cs_queue s) = []"
proof -
  let ?s0 = "\<lparr>cs_queue = admission_new, cs_waiting = [], cs_leases = 0, cs_admitted = [], cs_arrivals = 0\<rparr>"
  let ?q1 = "\<lparr>aq_active = False, aq_next_ticket = 1, aq_waiters = [0]\<rparr>"
  let ?q2 = "\<lparr>aq_active = True, aq_next_ticket = 1, aq_waiters = []\<rparr>"
  have "take_ticket admission_new = (0, ?q1)" by (simp add: take_ticket_def admission_new_def)
  then have r1: "camera_run (?s0\<lparr>cs_queue := ?q1, cs_waiting := [0], cs_arrivals := 1\<rparr>)"
    using camera_run.arrive [OF camera_run.start, of 0 ?q1] by simp
  have "acquire_round False 5 1 0 ?q1 = (Some (Inr ()), ?q2)" by (simp add: acquire_round_def is_front_def)
  then have "camera_run \<lparr>cs_queue = ?q2, cs_waiting = [], cs_leases = 1, cs_admitted = [0], cs_arrivals = 1\<rparr>"
    using camera_run.round [OF r1, of 0 False 5 1 "Some (Inr ())" ?q2] by (simp add: settle_def)
  from camera_exclusive_fifo [OF this] this show ?thesis by fastforce
qed

end
