(* ===== verification/CameraProfiles.thy ===== *)
theory CameraProfiles
  imports PromptState
begin

section \<open>The cache of the camera profile\<close>

text \<open>
  \<open>CameraProfileCache\<close> of the daemon: the profile of the camera is probed by one worker at a time, kept until
  its capture fails, and probed again after a delay.  A probe carries the generation it was started for, and
  a profile is handed out with the generation of its probe as a token.  The profile itself is opaque.
\<close>

definition CAMERA_PROFILE_RETRY_BACKOFF :: duration where "CAMERA_PROFILE_RETRY_BACKOFF = 100000000"

datatype 'a camera_profile_state =
    ProfileIdle u64
  | ProfileProbing u64
  | ProfileReady 'a u64
  | ProfileFailed instant u64
  | ProfileShutdown

datatype probe_claim = ClaimReady | ClaimStart u64 | ClaimWait | ClaimShutdown

definition profile_cache_new :: "'a camera_profile_state" where
  "profile_cache_new = ProfileIdle 0"

definition profile_claim :: "instant \<Rightarrow> 'a camera_profile_state \<Rightarrow> probe_claim \<times> 'a camera_profile_state" where
  "profile_claim now state =
     (case state of
        ProfileReady _ _ \<Rightarrow> (ClaimReady, state)
      | ProfileIdle gen \<Rightarrow> (ClaimStart gen, ProfileProbing gen)
      | ProfileProbing _ \<Rightarrow> (ClaimWait, state)
      | ProfileFailed retry_at gen \<Rightarrow>
          (if retry_at \<le> now then
             (if gen = - 1 then (ClaimShutdown, ProfileShutdown)
              else (ClaimStart (gen + 1), ProfileProbing (gen + 1)))
           else (ClaimWait, state))
      | ProfileShutdown \<Rightarrow> (ClaimShutdown, state))"

definition complete_probe :: "u64 \<Rightarrow> 'a option \<Rightarrow> instant \<Rightarrow> 'a camera_profile_state \<Rightarrow> 'a camera_profile_state" where
  "complete_probe gen result now state =
     (case state of
        ProfileProbing active_generation \<Rightarrow>
          (if active_generation \<noteq> gen then state
           else case result of
             Some profile \<Rightarrow> ProfileReady profile gen
           | None \<Rightarrow> ProfileFailed (now + CAMERA_PROFILE_RETRY_BACKOFF) gen)
      | _ \<Rightarrow> state)"

definition ready_profile :: "'a camera_profile_state \<Rightarrow> ('a \<times> u64) option" where
  "ready_profile state = (case state of ProfileReady profile gen \<Rightarrow> Some (profile, gen) | _ \<Rightarrow> None)"

definition initial_attempt_finished :: "'a camera_profile_state \<Rightarrow> bool" where
  "initial_attempt_finished state =
     (case state of ProfileReady _ _ \<Rightarrow> True | ProfileFailed _ _ \<Rightarrow> True | ProfileShutdown \<Rightarrow> True | _ \<Rightarrow> False)"

definition invalidate_if_current :: "u64 \<Rightarrow> instant \<Rightarrow> 'a camera_profile_state \<Rightarrow> bool \<times> 'a camera_profile_state" where
  "invalidate_if_current token now state =
     (case state of
        ProfileReady _ gen \<Rightarrow> (if gen = token then (True, ProfileFailed now gen) else (False, state))
      | _ \<Rightarrow> (False, state))"

definition profile_shutdown :: "'a camera_profile_state \<Rightarrow> 'a camera_profile_state" where
  "profile_shutdown state = ProfileShutdown"

subsection \<open>Probes in flight\<close>

text \<open>The state of the cache, the generations of the probes whose worker has not ended, all that were started, the last
  one first, and what the probes that ended returned.  A worker ends once: by completing its probe or by dropping
  its completion, which completes it with an error.\<close>

record 'a profile_system =
  ps_state :: "'a camera_profile_state"
  ps_running :: "u64 list"
  ps_started :: "u64 list"
  ps_results :: "(u64 \<times> 'a option) list"

definition started_by :: "probe_claim \<Rightarrow> u64 list" where
  "started_by c = (case c of ClaimStart gen \<Rightarrow> [gen] | _ \<Rightarrow> [])"

inductive profile_run :: "'a profile_system \<Rightarrow> bool" where
  start: "profile_run \<lparr>ps_state = profile_cache_new, ps_running = [], ps_started = [], ps_results = []\<rparr>"
| claim: "profile_run s \<Longrightarrow> profile_claim now (ps_state s) = (c, st) \<Longrightarrow>
    profile_run (s\<lparr>ps_state := st, ps_running := started_by c @ ps_running s, ps_started := started_by c @ ps_started s\<rparr>)"
| complete: "profile_run s \<Longrightarrow> gen \<in> set (ps_running s) \<Longrightarrow>
    profile_run (s\<lparr>ps_state := complete_probe gen result now (ps_state s), ps_running := remove1 gen (ps_running s),
      ps_results := (gen, result) # ps_results s\<rparr>)"
| invalidate: "profile_run s \<Longrightarrow> invalidate_if_current token now (ps_state s) = (done, st) \<Longrightarrow>
    profile_run (s\<lparr>ps_state := st\<rparr>)"
| shutdown: "profile_run s \<Longrightarrow> profile_run (s\<lparr>ps_state := profile_shutdown (ps_state s)\<rparr>)"

definition below :: "u64 \<Rightarrow> u64 list \<Rightarrow> bool" where
  "below gen gs \<longleftrightarrow> (\<forall>g \<in> set gs. g \<le> gen)"

definition profile_inv :: "'a profile_system \<Rightarrow> bool" where
  "profile_inv s \<longleftrightarrow>
     distinct (ps_started s) \<and> length (ps_running s) \<le> 1
     \<and> (case ps_state s of
          ProfileIdle gen \<Rightarrow> ps_started s = [] \<and> ps_running s = []
        | ProfileProbing gen \<Rightarrow> ps_running s = [gen] \<and> below gen (ps_started s)
        | ProfileReady profile gen \<Rightarrow>
            ps_running s = [] \<and> below gen (ps_started s) \<and> (gen, Some profile) \<in> set (ps_results s)
        | ProfileFailed _ gen \<Rightarrow> ps_running s = [] \<and> below gen (ps_started s)
        | ProfileShutdown \<Rightarrow> True)"

lemma below_next:
  assumes "below gen gs" and "gen \<noteq> - 1"
  shows "gen + 1 \<notin> set gs \<and> below (gen + 1) gs"
proof -
  have "gen < gen + 1" using assms(2) by (rule word_less_increment)
  with assms(1) show ?thesis by (auto simp: below_def intro: order.trans less_imp_le)
qed

lemma profile_run_inv: "profile_run s \<Longrightarrow> profile_inv s"
proof (induction rule: profile_run.induct)
  case start
  show ?case by (simp add: profile_inv_def profile_cache_new_def)
next
  case (claim s now c st)
  then show ?case
    by (auto simp: profile_inv_def profile_claim_def started_by_def below_def below_next [unfolded below_def]
        split: camera_profile_state.splits if_splits)
next
  case (complete s gen result now)
  then show ?case
    by (auto simp: profile_inv_def complete_probe_def length_remove1 split: camera_profile_state.splits if_splits option.splits)
next
  case (invalidate s token now "done" st)
  then show ?case
    by (auto simp: profile_inv_def invalidate_if_current_def split: camera_profile_state.splits if_splits)
qed (simp add: profile_inv_def profile_shutdown_def)

text \<open>C32. One probe of the camera at a time, and a profile is what its own probe found.  However claims, completions,
  invalidations and the shutdown interleave, at most one probe is running and no generation is started
  twice; a profile that is handed out with a token is what the probe of that generation returned, and
  invalidating with an older token leaves the cache alone.  Once it is shut down the cache stays so.\<close>

theorem camera_probe_single:
  assumes "profile_run s"
  shows "length (ps_running s) \<le> 1 \<and> distinct (ps_started s)
    \<and> (\<forall>profile token. ready_profile (ps_state s) = Some (profile, token) \<longrightarrow> (token, Some profile) \<in> set (ps_results s)
         \<and> (\<forall>older now. older \<noteq> token \<longrightarrow> invalidate_if_current older now (ps_state s) = (False, ps_state s)))
    \<and> (ps_state s = ProfileShutdown \<longrightarrow>
         (\<forall>gen result now token. snd (profile_claim now (ps_state s)) = ProfileShutdown
            \<and> complete_probe gen result now (ps_state s) = ProfileShutdown
            \<and> snd (invalidate_if_current token now (ps_state s)) = ProfileShutdown))"
  using profile_run_inv [OF assms]
  by (auto simp: profile_inv_def ready_profile_def invalidate_if_current_def profile_claim_def complete_probe_def
      split: camera_profile_state.splits)

theorem camera_probe_single_witness:
  "\<exists>s. profile_run s \<and> ready_profile (ps_state s) = Some ((), 0) \<and> (0, Some ()) \<in> set (ps_results s)"
proof -
  have "profile_run \<lparr>ps_state = ProfileProbing 0 :: unit camera_profile_state, ps_running = [0], ps_started = [0], ps_results = []\<rparr>"
    using profile_run.claim [OF profile_run.start, of 1 "ClaimStart 0" "ProfileProbing 0 :: unit camera_profile_state"]
    by (simp add: profile_claim_def profile_cache_new_def started_by_def)
  from profile_run.complete [OF this, of 0 "Some ()" 2] have
    r: "profile_run \<lparr>ps_state = ProfileReady () 0, ps_running = [], ps_started = [0], ps_results = [(0, Some ())]\<rparr>"
    by (simp add: complete_probe_def)
  from camera_probe_single [OF r] r show ?thesis by (fastforce simp: ready_profile_def)
qed

end
