(* ===== verification/Bmp.thy ===== *)
theory Bmp
  imports Codec
begin

section \<open>The images of a batch enrollment\<close>

text \<open>
  \<open>inspect_strict_bmp\<close> and \<open>decode_bmp_as_bgr\<close> of the daemon: a batch enrollment reads bitmap files that a user has
  written, so their decoder faces untrusted bytes.  The inspection accepts one canonical form of the format,
  and the decoder, which indexes the file by the inspected metadata, relies on it.
\<close>

subsection \<open>Inspection\<close>

definition MAX_BATCH_IMAGE_WIDTH :: u32 where "MAX_BATCH_IMAGE_WIDTH = 4096"
definition MAX_BATCH_IMAGE_HEIGHT :: u32 where "MAX_BATCH_IMAGE_HEIGHT = 4096"
definition MAX_BATCH_DECODED_BYTES_PER_FILE :: usize where "MAX_BATCH_DECODED_BYTES_PER_FILE = 32 * 1024 * 1024"

record bmp_metadata =
  bm_width :: u32
  bm_height :: u32
  bm_pixel_offset :: usize
  bm_row_stride :: usize

definition read_u16_le :: "bytes \<Rightarrow> usize \<Rightarrow> string + u16" where
  "read_u16_le bs offset =
     map_ok u16_from_le (ok_or ''truncated BMP header'' (get_range bs offset (saturating_add offset 2)))"

definition read_u32_le :: "bytes \<Rightarrow> usize \<Rightarrow> string + u32" where
  "read_u32_le bs offset =
     map_ok u32_from_le (ok_or ''truncated BMP header'' (get_range bs offset (saturating_add offset 4)))"

text \<open>The signed dimensions are the same bits; \<open>u32::try_from\<close> keeps the bits of a value that is not negative.\<close>

definition read_i32_le :: "bytes \<Rightarrow> usize \<Rightarrow> string + 32 word" where
  "read_i32_le bs offset =
     map_ok u32_from_le (ok_or ''truncated BMP header'' (get_range bs offset (saturating_add offset 4)))"

fun check_padding :: "bytes \<Rightarrow> usize \<Rightarrow> usize \<Rightarrow> usize \<Rightarrow> nat list \<Rightarrow> string + unit" where
  "check_padding bs pixel_offset row_stride active_row_bytes [] = Inr ()"
| "check_padding bs pixel_offset row_stride active_row_bytes (row # rows) =
     and_then (ok_or ''BMP padding offset overflowed''
       (Option.bind (Option.bind (checked_mul row row_stride) (\<lambda>offset. checked_add offset active_row_bytes))
          (checked_add pixel_offset))) (\<lambda>padding_start.
     and_then (ok_or ''BMP padding end overflowed''
       (Option.bind (Option.bind (checked_add row 1) (\<lambda>row. checked_mul row row_stride))
          (checked_add pixel_offset))) (\<lambda>padding_end.
     and_then (ok_or ''BMP padding is truncated'' (get_range bs padding_start padding_end)) (\<lambda>padding.
     if \<exists>b \<in> set padding. b \<noteq> 0 then Inl ''BMP row padding is not canonical''
     else check_padding bs pixel_offset row_stride active_row_bytes rows)))"

definition checked_mul_u64 :: "u64 \<Rightarrow> u64 \<Rightarrow> u64 option" where
  "checked_mul_u64 a b = (if unat a * unat b < 2 ^ 64 then Some (a * b) else None)"

text \<open>The part of the inspection that follows the header; \<open>n & !3\<close> rounds down to a multiple of four.\<close>

definition inspect_pixels :: "bytes \<Rightarrow> usize \<Rightarrow> u32 \<Rightarrow> u32 \<Rightarrow> string + bmp_metadata \<times> u64" where
  "inspect_pixels bs pixel_offset width height =
     and_then (ok_or ''decoded image size overflowed''
       (Option.bind (checked_mul_u64 (ucast width) (ucast height)) (\<lambda>pixels. checked_mul_u64 pixels 3))) (\<lambda>decoded_bytes.
     if decoded_bytes = 0 \<or> MAX_BATCH_DECODED_BYTES_PER_FILE < unat decoded_bytes
     then Inl ''decoded image bytes exceed the limit''
     else and_then (ok_or ''BMP row size overflowed'' (checked_mul (unat width) 3)) (\<lambda>active_row_bytes.
     and_then (ok_or ''BMP row stride overflowed''
       (map_option (\<lambda>n. n div 4 * 4) (checked_add active_row_bytes 3))) (\<lambda>row_stride.
     and_then (ok_or ''BMP pixel data size overflowed'' (checked_mul row_stride (unat height))) (\<lambda>pixel_bytes.
     and_then (ok_or ''BMP pixel data end overflowed'' (checked_add pixel_offset pixel_bytes)) (\<lambda>finish.
     if finish \<noteq> length bs then Inl ''BMP pixel data length is invalid''
     else and_then (check_padding bs pixel_offset row_stride active_row_bytes [0..<unat height]) (\<lambda>_.
     and_then (read_u32_le bs 34) (\<lambda>declared_image_bytes.
     if declared_image_bytes = 0 \<or> unat declared_image_bytes \<noteq> pixel_bytes
     then Inl ''BMP declared image size is invalid''
     else Inr (\<lparr>bm_width = width, bm_height = height, bm_pixel_offset = pixel_offset, bm_row_stride = row_stride\<rparr>,
               decoded_bytes))))))))"

definition inspect_strict_bmp :: "bytes \<Rightarrow> string + bmp_metadata \<times> u64" where
  "inspect_strict_bmp bs =
     (if length bs < 54 \<or> get_range bs 0 2 \<noteq> Some (ascii ''BM'') then Inl ''invalid BMP header''
      else and_then (map_ok unat (read_u32_le bs 2)) (\<lambda>file_size.
      if file_size \<noteq> length bs \<or> get_range bs 6 10 \<noteq> Some [0, 0, 0, 0]
      then Inl ''BMP file size or reserved fields are invalid''
      else and_then (map_ok unat (read_u32_le bs 10)) (\<lambda>pixel_offset.
      and_then (read_u32_le bs 14) (\<lambda>header.
      if header \<noteq> 40 \<or> pixel_offset \<noteq> 54 then Inl ''only BITMAPINFOHEADER BMP files are supported''
      else and_then (read_i32_le bs 18) (\<lambda>width.
      and_then (read_i32_le bs 22) (\<lambda>height.
      if sint width \<le> 0 \<or> sint height \<le> 0 then Inl ''BMP dimensions are invalid''
      else if MAX_BATCH_IMAGE_WIDTH < width \<or> MAX_BATCH_IMAGE_HEIGHT < height
      then Inl ''image dimensions exceed the limit''
      else and_then (read_u16_le bs 26) (\<lambda>planes.
      and_then (read_u16_le bs 28) (\<lambda>bits.
      and_then (read_u32_le bs 30) (\<lambda>compression.
      if planes \<noteq> 1 \<or> bits \<noteq> 24 \<or> compression \<noteq> 0
      then Inl ''only uncompressed 24-bit BMP files are supported''
      else if get_range bs 38 54 \<noteq> Some (replicate 16 0) then Inl ''BMP canonical header fields are invalid''
      else inspect_pixels bs pixel_offset width height)))))))))"

subsection \<open>Decoding\<close>

text \<open>\<open>None\<close> is a panic: a slice of the file or of the buffer that is out of range.\<close>

fun decode_rows ::
  "bytes \<Rightarrow> bmp_metadata \<Rightarrow> usize \<Rightarrow> usize \<Rightarrow> nat list \<Rightarrow> bytes \<Rightarrow> (string + bytes) option" where
  "decode_rows encoded bmp active_row_bytes height [] bgr = Some (Inr bgr)"
| "decode_rows encoded bmp active_row_bytes height (output_row # rows) bgr =
     (case and_then (ok_or ''BMP source row offset overflowed'' (checked_mul (height - 1 - output_row) (bm_row_stride bmp))) (\<lambda>offset.
           and_then (ok_or ''BMP source offset overflowed'' (checked_add (bm_pixel_offset bmp) offset)) (\<lambda>source_start.
           and_then (ok_or ''BMP source row end overflowed'' (checked_add source_start active_row_bytes)) (\<lambda>source_end.
           and_then (ok_or ''BMP destination row offset overflowed'' (checked_mul output_row active_row_bytes)) (\<lambda>destination_start.
           and_then (ok_or ''BMP destination row end overflowed'' (checked_add destination_start active_row_bytes)) (\<lambda>destination_end.
           Inr (source_start, source_end, destination_start, destination_end)))))) of
        Inl e \<Rightarrow> Some (Inl e)
      | Inr (source_start, source_end, destination_start, destination_end) \<Rightarrow>
          (if length bgr < destination_end then None
           else case get_range encoded source_start source_end of
             None \<Rightarrow> None
           | Some chunk \<Rightarrow>
               decode_rows encoded bmp active_row_bytes height rows
                 (take destination_start bgr @ chunk @ drop destination_end bgr)))"

definition decode_bmp_as_bgr ::
  "allocator \<Rightarrow> bytes \<Rightarrow> u64 \<Rightarrow> bmp_metadata \<Rightarrow> (string + bytes \<times> u32 \<times> u32) option" where
  "decode_bmp_as_bgr alloc encoded decoded_bytes bmp =
     (if \<not> alloc ''decoded image'' (unat decoded_bytes) then Some (Inl ''failed to allocate bounded decoded image'')
      else let bgr = replicate (unat decoded_bytes) 0
      in case checked_mul (unat (bm_width bmp)) 3 of
           None \<Rightarrow> Some (Inl ''BMP active row size overflowed'')
         | Some active_row_bytes \<Rightarrow>
             map_option (map_ok (\<lambda>bgr. (bgr, bm_width bmp, bm_height bmp)))
               (decode_rows encoded bmp active_row_bytes (unat (bm_height bmp)) [0..<unat (bm_height bmp)] bgr))"

end
