(* ===== verification/BmpProperties.thy ===== *)
theory BmpProperties
  imports Bmp
begin

section \<open>The bitmap decoder is exact and safe\<close>

text \<open>
  A reference encoder of the accepted form, and the proof that the inspection accepts exactly its images and
  that the decoder returns exactly their pixels, without leaving the file or its buffer.
\<close>

subsection \<open>The reference encoding\<close>

definition stride :: "nat \<Rightarrow> nat" where
  "stride w = (3 * w + 3) div 4 * 4"

definition bmp_row :: "nat \<Rightarrow> bytes \<Rightarrow> bytes" where
  "bmp_row w r = r @ replicate (stride w - 3 * w) 0"

definition bmp_header :: "u32 \<Rightarrow> u32 \<Rightarrow> bytes" where
  "bmp_header w h =
     ascii ''BM'' @ u32_to_le (word_of_nat (54 + stride (unat w) * unat h)) @ [0, 0, 0, 0] @ u32_to_le 54
     @ u32_to_le 40 @ u32_to_le w @ u32_to_le h @ u16_to_le 1 @ u16_to_le 24 @ u32_to_le 0
     @ u32_to_le (word_of_nat (stride (unat w) * unat h)) @ replicate 16 0"

text \<open>The rows of an image, the top one first, are stored from the bottom up.\<close>

definition bmp_file :: "u32 \<Rightarrow> u32 \<Rightarrow> bytes list \<Rightarrow> bytes" where
  "bmp_file w h rows = bmp_header w h @ concat (map (bmp_row (unat w)) (rev rows))"

definition dimensions_ok :: "u32 \<Rightarrow> u32 \<Rightarrow> bool" where
  "dimensions_ok w h \<longleftrightarrow> w \<noteq> 0 \<and> h \<noteq> 0 \<and> unat w \<le> 4096 \<and> unat h \<le> 4096 \<and> 3 * unat w * unat h \<le> 32 * 1024 * 1024"

definition image_wf :: "u32 \<Rightarrow> u32 \<Rightarrow> bytes list \<Rightarrow> bool" where
  "image_wf w h rows \<longleftrightarrow> dimensions_ok w h \<and> length rows = unat h \<and> (\<forall>r \<in> set rows. length r = 3 * unat w)"

definition metadata_of :: "u32 \<Rightarrow> u32 \<Rightarrow> bmp_metadata" where
  "metadata_of w h = \<lparr>bm_width = w, bm_height = h, bm_pixel_offset = 54, bm_row_stride = stride (unat w)\<rparr>"

text \<open>The padding of a row, in the file and in its pixel part; and an image for the witness.\<close>

definition padding :: "bytes \<Rightarrow> nat \<Rightarrow> nat \<Rightarrow> bytes" where
  "padding bs w r = take (stride w - 3 * w) (drop (54 + (r * stride w + 3 * w)) bs)"

definition row_padding :: "bytes \<Rightarrow> nat \<Rightarrow> nat \<Rightarrow> bytes" where
  "row_padding ps w r = take (stride w - 3 * w) (drop (r * stride w + 3 * w) ps)"

definition sample_rows :: "bytes list" where
  "sample_rows = [[1, 2, 3], [4, 5, 6]]"

subsection \<open>Arithmetic\<close>

lemma unat_word_of_nat: "n < 2 ^ LENGTH('a) \<Longrightarrow> unat (word_of_nat n :: 'a :: len word) = n"
  by (simp add: unsigned_of_nat take_bit_nat_eq_self)

lemma nonzero_eq_iff: "unat v = n \<Longrightarrow> 0 < n \<Longrightarrow> \<not> (x = 0 \<or> unat x \<noteq> n) \<longleftrightarrow> x = v"
  by (auto simp: word_unat_eq_iff)

lemma unat_eq_54: "unat (x :: u32) = 54 \<longleftrightarrow> x = 54"
  by (simp add: word_unat_eq_iff)

lemma stride_bounds: "3 * w \<le> stride w" "stride w \<le> 3 * w + 3"
  unfolding stride_def by presburger+

lemma small_dimensions:
  assumes "dimensions_ok w h"
  shows "stride (unat w) * unat h < 2 ^ 32 - 54" and "0 < stride (unat w) * unat h"
    and "3 * unat w < usize_limit" and "stride (unat w) * unat h + 54 < usize_limit"
proof -
  have "stride (unat w) \<le> 12291" using stride_bounds(2) [of "unat w"] assms by (simp add: dimensions_ok_def)
  moreover have "unat h \<le> 4096" using assms by (simp add: dimensions_ok_def)
  ultimately have m: "stride (unat w) * unat h \<le> 12291 * 4096" by (rule mult_le_mono)
  then show "stride (unat w) * unat h < 2 ^ 32 - 54" and "stride (unat w) * unat h + 54 < usize_limit"
    by (simp_all add: usize_limit_def)
  have "0 < unat w" "0 < unat h" using assms by (simp_all add: dimensions_ok_def unat_gt_0)
  then show "0 < stride (unat w) * unat h" using stride_bounds(1) [of "unat w"] by simp
  show "3 * unat w < usize_limit" using assms by (simp add: dimensions_ok_def usize_limit_def)
qed

lemma sint_small:
  assumes "(w :: 32 word) \<le> 4096"
  shows "sint w = int (unat w)"
proof -
  have "uint w \<le> 4096" using assms by (simp add: word_le_def)
  then have "uint w < 2 ^ 31" by (rule le_less_trans) simp
  moreover have "- (2 ^ 31) \<le> uint w" by (rule order.trans [OF _ uint_ge_0]) simp
  ultimately have "signed_take_bit 31 (uint w) = uint w" by (intro signed_take_bit_int_eq_self)
  then show ?thesis by (simp add: sint_uint)
qed

lemma dimension_tests:
  fixes w h :: u32
  shows "\<not> (sint w \<le> 0 \<or> sint h \<le> 0) \<and> \<not> (MAX_BATCH_IMAGE_WIDTH < w \<or> MAX_BATCH_IMAGE_HEIGHT < h)
    \<longleftrightarrow> w \<noteq> 0 \<and> h \<noteq> 0 \<and> unat w \<le> 4096 \<and> unat h \<le> 4096"
  using sint_small [of w] sint_small [of h]
  by (auto simp: MAX_BATCH_IMAGE_WIDTH_def MAX_BATCH_IMAGE_HEIGHT_def not_less word_le_nat_alt uint_0_iff)

subsection \<open>The header\<close>

lemma reads:
  assumes "54 \<le> length bs" and "k \<le> 50"
  shows "read_u32_le bs k = Inr (u32_from_le (take 4 (drop k bs)))" "read_i32_le bs k = Inr (u32_from_le (take 4 (drop k bs)))"
    "read_u16_le bs k = Inr (u16_from_le (take 2 (drop k bs)))"
  using assms
  by (simp_all add: read_u32_le_def read_i32_le_def read_u16_le_def saturating_add_small usize_limit_def get_range_def)

lemma split_header:
  "take 54 bs = take 2 bs @ take 4 (drop 2 bs) @ take 4 (drop 6 bs) @ take 4 (drop 10 bs) @ take 4 (drop 14 bs)
     @ take 4 (drop 18 bs) @ take 4 (drop 22 bs) @ take 2 (drop 26 bs) @ take 2 (drop 28 bs) @ take 4 (drop 30 bs)
     @ take 4 (drop 34 bs) @ take 16 (drop 38 bs)"
proof -
  have "take (2 + (4 + (4 + (4 + (4 + (4 + (4 + (2 + (2 + (4 + (4 + 16))))))))))) bs =
     take 2 bs @ take 4 (drop 2 bs) @ take 4 (drop 6 bs) @ take 4 (drop 10 bs) @ take 4 (drop 14 bs)
     @ take 4 (drop 18 bs) @ take 4 (drop 22 bs) @ take 2 (drop 26 bs) @ take 2 (drop 28 bs) @ take 4 (drop 30 bs)
     @ take 4 (drop 34 bs) @ take 16 (drop 38 bs)"
    unfolding take_add drop_drop by simp
  then show ?thesis by simp
qed

lemma u32_field:
  assumes "length x = 4"
  shows "u32_from_le x = v \<longleftrightarrow> x = u32_to_le v"
  using u32_to_from_le [OF assms] by auto

lemma u16_field:
  assumes "length x = 2"
  shows "u16_from_le x = v \<longleftrightarrow> x = u16_to_le v"
  using u16_to_from_le [OF assms] by auto

lemma concat_fields: "list_all2 (\<lambda>x y. length x = length y) xs ys \<Longrightarrow> concat xs = concat ys \<longleftrightarrow> xs = ys"
  by (induction rule: list_all2_induct) auto

lemma header_fields:
  assumes "54 \<le> length bs"
  shows "take 54 bs = bmp_header w h \<longleftrightarrow>
     take 2 bs = ascii ''BM'' \<and> u32_from_le (take 4 (drop 2 bs)) = word_of_nat (54 + stride (unat w) * unat h)
     \<and> take 4 (drop 6 bs) = [0, 0, 0, 0] \<and> u32_from_le (take 4 (drop 10 bs)) = 54 \<and> u32_from_le (take 4 (drop 14 bs)) = 40
     \<and> u32_from_le (take 4 (drop 18 bs)) = w \<and> u32_from_le (take 4 (drop 22 bs)) = h
     \<and> u16_from_le (take 2 (drop 26 bs)) = 1 \<and> u16_from_le (take 2 (drop 28 bs)) = 24 \<and> u32_from_le (take 4 (drop 30 bs)) = 0
     \<and> u32_from_le (take 4 (drop 34 bs)) = word_of_nat (stride (unat w) * unat h) \<and> take 16 (drop 38 bs) = replicate 16 0"
proof -
  let ?xs = "[take 2 bs, take 4 (drop 2 bs), take 4 (drop 6 bs), take 4 (drop 10 bs), take 4 (drop 14 bs), take 4 (drop 18 bs),
    take 4 (drop 22 bs), take 2 (drop 26 bs), take 2 (drop 28 bs), take 4 (drop 30 bs), take 4 (drop 34 bs), take 16 (drop 38 bs)]"
  let ?ys = "[ascii ''BM'', u32_to_le (word_of_nat (54 + stride (unat w) * unat h)), [0, 0, 0, 0], u32_to_le 54, u32_to_le 40,
    u32_to_le w, u32_to_le h, u16_to_le 1, u16_to_le 24, u32_to_le 0, u32_to_le (word_of_nat (stride (unat w) * unat h)),
    replicate 16 0]"
  have "take 54 bs = bmp_header w h \<longleftrightarrow> concat ?xs = concat ?ys" unfolding split_header bmp_header_def by simp
  also have "\<dots> \<longleftrightarrow> ?xs = ?ys" using assms by (intro concat_fields) simp
  finally show ?thesis using assms by (simp add: u32_field u16_field)
qed

subsection \<open>The pixels\<close>

lemma check_padding_Inr:
  assumes "length bs = 54 + stride w * h" and "54 + stride w * h < usize_limit" and "h < usize_limit"
    and "\<forall>r \<in> set rows. r < h"
  shows "check_padding bs 54 (stride w) (3 * w) rows = Inr () \<longleftrightarrow> (\<forall>r \<in> set rows. \<forall>b \<in> set (padding bs w r). b = 0)"
  using assms(4)
proof (induction rows)
  case (Cons r rows)
  have "Suc r * stride w \<le> h * stride w" using Cons.prems by (intro mult_le_mono1) simp
  then have e: "54 + (r + 1) * stride w \<le> length bs" using assms(1) by (simp add: mult.commute)
  have a: "r * stride w + 3 * w \<le> (r + 1) * stride w" using stride_bounds(1) [of w] by simp
  from e assms(1,2) have l2: "54 + (r + 1) * stride w < usize_limit" by linarith
  with a have l1: "54 + (r * stride w + 3 * w) < usize_limit" by linarith
  have l: "r * stride w < usize_limit" "r * stride w + 3 * w < usize_limit" "54 + (r * stride w + 3 * w) < usize_limit"
    "r + 1 < usize_limit" "(r + 1) * stride w < usize_limit" "54 + (r + 1) * stride w < usize_limit"
    using l1 l2 assms(3) Cons.prems by simp_all
  have "get_range bs (54 + (r * stride w + 3 * w)) (54 + (r + 1) * stride w) = Some (padding bs w r)"
    using a e by (simp add: get_range_def padding_def)
  with l Cons show ?case by (simp add: checked_mul_def checked_add_def)
qed simp

lemma inspect_pixels_Inr:
  assumes "w \<noteq> 0" and "h \<noteq> 0" and "unat w \<le> 4096" and "unat h \<le> 4096" and "54 \<le> length bs"
  shows "inspect_pixels bs 54 w h = Inr (m, n) \<longleftrightarrow>
     dimensions_ok w h \<and> length bs = 54 + stride (unat w) * unat h
     \<and> (\<forall>r < unat h. \<forall>b \<in> set (padding bs (unat w) r). b = 0)
     \<and> u32_from_le (take 4 (drop 34 bs)) = word_of_nat (stride (unat w) * unat h)
     \<and> m = metadata_of w h \<and> n = word_of_nat (3 * unat w * unat h)"
proof -
  have u: "unat (ucast w :: u64) = unat w" "unat (ucast h :: u64) = unat h"
    using assms(3,4) by (simp_all add: unsigned_ucast_eq take_bit_nat_eq_self)
  have wh: "unat w * unat h \<le> 4096 * 4096" using assms(3,4) by (rule mult_le_mono)
  have p: "unat (ucast w * ucast h :: u64) = unat w * unat h"
    using wh u by (simp add: unat_word_ariths)
  define n0 where "n0 = (word_of_nat (3 * unat w * unat h) :: u64)"
  have dec: "unat n0 = 3 * unat w * unat h" unfolding n0_def by (rule unat_word_of_nat) (use wh in simp)
  have d: "Option.bind (checked_mul_u64 (ucast w) (ucast h)) (\<lambda>pixels. checked_mul_u64 pixels 3) = Some n0"
    using wh u p by (simp add: checked_mul_u64_def n0_def)
  have nz: "n0 \<noteq> 0" using dec assms(1,2) by (auto simp: unat_eq_0 [symmetric])
  define v where "v = (word_of_nat (stride (unat w) * unat h) :: u32)"
  show ?thesis
  proof (cases "3 * unat w * unat h \<le> 32 * 1024 * 1024")
    case True
    then have ok: "dimensions_ok w h" using assms by (simp add: dimensions_ok_def)
    note small = small_dimensions [OF ok]
    have m: "checked_mul (unat w) 3 = Some (3 * unat w)"
      "map_option (\<lambda>n. n div 4 * 4) (checked_add (3 * unat w) 3) = Some (stride (unat w))"
      "checked_mul (stride (unat w)) (unat h) = Some (stride (unat w) * unat h)"
      "checked_add 54 (stride (unat w) * unat h) = Some (54 + stride (unat w) * unat h)"
      using small assms(3) by (simp_all add: stride_def checked_add_def usize_limit_def)
    have s: "unat v = stride (unat w) * unat h" unfolding v_def by (rule unat_word_of_nat) (use small(1) in simp)
    have e: "inspect_pixels bs 54 w h =
        (if 54 + stride (unat w) * unat h \<noteq> length bs then Inl ''BMP pixel data length is invalid''
         else and_then (check_padding bs 54 (stride (unat w)) (3 * unat w) [0..<unat h]) (\<lambda>_.
           if u32_from_le (take 4 (drop 34 bs)) \<noteq> v then Inl ''BMP declared image size is invalid''
           else Inr (metadata_of w h, n0)))"
      unfolding inspect_pixels_def d m ok_or.simps and_then.simps nonzero_eq_iff [OF s small(2), symmetric]
      using dec nz True reads(1) [OF assms(5), of 34]
      by (simp add: MAX_BATCH_DECODED_BYTES_PER_FILE_def metadata_of_def)
    have pad: "check_padding bs 54 (stride (unat w)) (3 * unat w) [0..<unat h] = Inr () \<longleftrightarrow>
        (\<forall>r < unat h. \<forall>b \<in> set (padding bs (unat w) r). b = 0)" if "length bs = 54 + stride (unat w) * unat h"
      using that small assms(4) by (subst check_padding_Inr [where h = "unat h"]) (auto simp: usize_limit_def)
    show ?thesis using pad ok unfolding e n0_def [symmetric] v_def [symmetric] by (auto simp: and_then_Inr_iff)
  next
    case False
    with d dec show ?thesis by (simp add: inspect_pixels_def dimensions_ok_def MAX_BATCH_DECODED_BYTES_PER_FILE_def)
  qed
qed

lemma inspect_fields:
  fixes bs :: bytes
  defines "w \<equiv> u32_from_le (take 4 (drop 18 bs))" and "h \<equiv> u32_from_le (take 4 (drop 22 bs))"
  assumes len: "54 \<le> length bs"
  shows "inspect_strict_bmp bs = Inr (m, n) \<longleftrightarrow>
      take 2 bs = ascii ''BM'' \<and> unat (u32_from_le (take 4 (drop 2 bs))) = length bs \<and> take 4 (drop 6 bs) = [0, 0, 0, 0]
      \<and> u32_from_le (take 4 (drop 10 bs)) = 54 \<and> u32_from_le (take 4 (drop 14 bs)) = 40
      \<and> (w \<noteq> 0 \<and> h \<noteq> 0 \<and> unat w \<le> 4096 \<and> unat h \<le> 4096)
      \<and> u16_from_le (take 2 (drop 26 bs)) = 1 \<and> u16_from_le (take 2 (drop 28 bs)) = 24 \<and> u32_from_le (take 4 (drop 30 bs)) = 0
      \<and> take 16 (drop 38 bs) = replicate 16 0 \<and> inspect_pixels bs 54 w h = Inr (m, n)"
proof -
  have g: "get_range bs 0 2 = Some (take 2 bs)" "get_range bs 6 10 = Some (take 4 (drop 6 bs))"
    "get_range bs 38 54 = Some (take 16 (drop 38 bs))" using len by (simp_all add: get_range_def)
  show ?thesis
    unfolding inspect_strict_bmp_def g w_def h_def
    using len dimension_tests [of w h, unfolded w_def h_def]
    by (auto simp: reads [OF len] unat_eq_54 split: if_splits)
qed

lemma file_size_field:
  fixes x w h :: u32
  assumes "dimensions_ok w h" and "length bs = 54 + stride (unat w) * unat h"
  shows "unat x = length bs \<longleftrightarrow> x = word_of_nat (54 + stride (unat w) * unat h)"
proof -
  have "unat (word_of_nat (length bs) :: u32) = length bs"
    by (rule unat_word_of_nat) (use small_dimensions(1) [OF assms(1)] assms(2) in simp)
  then show ?thesis unfolding assms(2) [symmetric] by (auto simp: word_unat_eq_iff)
qed

lemma inspect_Inr:
  assumes len: "54 \<le> length bs"
  shows "inspect_strict_bmp bs = Inr (m, n) \<longleftrightarrow>
     (\<exists>w h. dimensions_ok w h \<and> length bs = 54 + stride (unat w) * unat h \<and> take 54 bs = bmp_header w h
        \<and> (\<forall>r < unat h. \<forall>b \<in> set (padding bs (unat w) r). b = 0)
        \<and> m = metadata_of w h \<and> n = word_of_nat (3 * unat w * unat h))" (is "?L \<longleftrightarrow> (\<exists>w h. ?R w h)")
proof
  let ?w = "u32_from_le (take 4 (drop 18 bs))" and ?h = "u32_from_le (take 4 (drop 22 bs))"
  assume ?L
  note f = this [unfolded inspect_fields [OF len]]
  then have w: "?w \<noteq> 0" "?h \<noteq> 0" "unat ?w \<le> 4096" "unat ?h \<le> 4096" and p: "inspect_pixels bs 54 ?w ?h = Inr (m, n)"
    by blast+
  note p = p [unfolded inspect_pixels_Inr [OF w len]]
  have "take 54 bs = bmp_header ?w ?h" unfolding header_fields [OF len] using f p file_size_field [of ?w ?h bs] by blast
  with p show "\<exists>w h. ?R w h" by blast
next
  assume "\<exists>w h. ?R w h"
  then obtain w h where ok: "dimensions_ok w h" and l: "length bs = 54 + stride (unat w) * unat h"
    and f: "take 54 bs = bmp_header w h" and p: "\<forall>r < unat h. \<forall>b \<in> set (padding bs (unat w) r). b = 0"
    and m: "m = metadata_of w h" "n = word_of_nat (3 * unat w * unat h)" by blast
  note f = f [unfolded header_fields [OF len]]
  then have wh: "u32_from_le (take 4 (drop 18 bs)) = w" "u32_from_le (take 4 (drop 22 bs)) = h" by blast+
  have w: "w \<noteq> 0" "h \<noteq> 0" "unat w \<le> 4096" "unat h \<le> 4096" using ok by (simp_all add: dimensions_ok_def)
  have "inspect_pixels bs 54 w h = Inr (m, n)"
    unfolding inspect_pixels_Inr [OF w len] using ok l f p m by blast
  then show ?L unfolding inspect_fields [OF len] wh using f w file_size_field [OF ok l] by blast
qed

subsection \<open>The rows\<close>

lemma length_bmp_header [simp]: "length (bmp_header w h) = 54"
  by (simp add: bmp_header_def)

lemma length_bmp_row: "length r = 3 * w \<Longrightarrow> length (bmp_row w r) = stride w"
  using stride_bounds(1) [of w] by (simp add: bmp_row_def)

lemma length_concat_uniform:
  "\<forall>x \<in> set xs. length x = n \<Longrightarrow> length (concat xs) = length xs * n"
  by (induction xs) auto

lemma drop_concat_rows:
  assumes "\<forall>x \<in> set xs. length x = n" and "k < length xs"
  shows "drop (k * n) (concat xs) = xs ! k @ concat (drop (Suc k) xs)"
proof -
  have "concat xs = concat (take k xs) @ xs ! k @ concat (drop (Suc k) xs)"
    using id_take_nth_drop [OF assms(2)] by (metis concat_append concat.simps(2))
  moreover have "length (concat (take k xs)) = k * n"
    using assms by (subst length_concat_uniform [where n = n]) (auto dest: in_set_takeD)
  ultimately show ?thesis by (metis append_eq_conv_conj)
qed

lemma padding_row_padding: "padding bs w r = row_padding (drop 54 bs) w r"
  by (simp add: padding_def row_padding_def add.commute)

lemma rows_padding:
  assumes "\<forall>r \<in> set rows. length r = 3 * w" and "k < length rows"
  shows "row_padding (concat (map (bmp_row w) rows)) w k = replicate (stride w - 3 * w) 0"
proof -
  let ?ps = "concat (map (bmp_row w) rows)"
  have d: "drop (k * stride w) ?ps = bmp_row w (rows ! k) @ concat (drop (Suc k) (map (bmp_row w) rows))"
    using assms by (subst drop_concat_rows) (auto simp: length_bmp_row)
  have "drop (k * stride w + 3 * w) ?ps = drop (3 * w) (drop (k * stride w) ?ps)" by (simp add: add.commute)
  also have "\<dots> = replicate (stride w - 3 * w) 0 @ concat (drop (Suc k) (map (bmp_row w) rows))"
    unfolding d using assms by (simp add: bmp_row_def)
  finally show ?thesis by (simp add: row_padding_def)
qed

lemma rows_split:
  assumes "length ps = stride w * h" and "\<forall>r < h. \<forall>b \<in> set (row_padding ps w r). b = 0"
  shows "\<exists>rows. length rows = h \<and> (\<forall>r \<in> set rows. length r = 3 * w) \<and> ps = concat (map (bmp_row w) rows)"
  using assms
proof (induction h arbitrary: ps)
  case (Suc h)
  have l: "stride w \<le> length ps" "3 * w \<le> stride w" using Suc.prems(1) stride_bounds(1) [of w] by simp_all
  have "row_padding (drop (stride w) ps) w r = row_padding ps w (Suc r)" for r
    by (simp add: row_padding_def ac_simps)
  then have "\<forall>r < h. \<forall>b \<in> set (row_padding (drop (stride w) ps) w r). b = 0" using Suc.prems(2) by auto
  with Suc.IH [of "drop (stride w) ps"] Suc.prems(1) obtain rows where rows: "length rows = h"
    "\<forall>r \<in> set rows. length r = 3 * w" "drop (stride w) ps = concat (map (bmp_row w) rows)" by auto
  have z: "\<forall>b \<in> set (row_padding ps w 0). b = 0" using Suc.prems(2) by blast
  have "row_padding ps w 0 = replicate (length (row_padding ps w 0)) 0"
    by (rule replicate_length_same [symmetric]) (use z in blast)
  then have "take (stride w - 3 * w) (drop (3 * w) ps) = replicate (stride w - 3 * w) 0"
    using l by (simp add: row_padding_def)
  then have "bmp_row w (take (3 * w) ps) = take (stride w) ps"
    using l take_add [of "3 * w" "stride w - 3 * w" ps] by (simp add: bmp_row_def)
  then have "ps = concat (map (bmp_row w) (take (3 * w) ps # rows))" using rows(3) by (simp flip: rows(3))
  moreover have "length (take (3 * w) ps) = 3 * w" using l by simp
  ultimately show ?case using rows(1,2) by (intro exI [of _ "take (3 * w) ps # rows"]) auto
qed simp

lemma inspect_iff:
  "inspect_strict_bmp bs = Inr (m, n) \<longleftrightarrow>
     (\<exists>w h rows. image_wf w h rows \<and> bs = bmp_file w h rows \<and> m = metadata_of w h \<and> n = word_of_nat (3 * unat w * unat h))"
  (is "?L \<longleftrightarrow> (\<exists>w h rows. ?R w h rows)")
proof
  assume ?L
  then have len: "54 \<le> length bs" by (auto simp: inspect_strict_bmp_def split: if_splits)
  from \<open>?L\<close> [unfolded inspect_Inr [OF len]] obtain w h where ok: "dimensions_ok w h"
    and l: "length bs = 54 + stride (unat w) * unat h" and f: "take 54 bs = bmp_header w h"
    and p: "\<forall>r < unat h. \<forall>b \<in> set (padding bs (unat w) r). b = 0"
    and m: "m = metadata_of w h" "n = word_of_nat (3 * unat w * unat h)" by blast
  have "length (drop 54 bs) = stride (unat w) * unat h" using l by simp
  from rows_split [OF this p [unfolded padding_row_padding]] obtain rows where rows: "length rows = unat h"
    "\<forall>r \<in> set rows. length r = 3 * unat w" "drop 54 bs = concat (map (bmp_row (unat w)) rows)" by blast
  have "bs = bmp_file w h (rev rows)"
    using append_take_drop_id [of 54 bs] unfolding f rows(3) bmp_file_def by simp
  with ok rows m show "\<exists>w h rows. ?R w h rows" by (intro exI [of _ w] exI [of _ h] exI [of _ "rev rows"]) (simp add: image_wf_def)
next
  assume "\<exists>w h rows. ?R w h rows"
  then obtain w h rows where wf: "image_wf w h rows" and bs: "bs = bmp_file w h rows"
    and m: "m = metadata_of w h" "n = word_of_nat (3 * unat w * unat h)" by blast
  then have ok: "dimensions_ok w h" and r: "length rows = unat h" "\<forall>r \<in> set (rev rows). length r = 3 * unat w"
    by (simp_all add: image_wf_def)
  have l: "length bs = 54 + stride (unat w) * unat h"
    unfolding bs bmp_file_def using r
    by (simp, subst length_concat_uniform [where n = "stride (unat w)"]) (auto simp: length_bmp_row)
  have "\<forall>k < unat h. \<forall>b \<in> set (padding bs (unat w) k). b = 0"
    unfolding padding_row_padding bs bmp_file_def using rows_padding [OF r(2)] r(1) by simp
  then show ?L using ok l m by (subst inspect_Inr) (auto simp: bs bmp_file_def)
qed

subsection \<open>The decoder\<close>

lemma source_row:
  assumes "image_wf w h rows" and "k < unat h"
  defines "a \<equiv> 54 + (unat h - 1 - k) * stride (unat w)"
  shows "get_range (bmp_file w h rows) a (a + 3 * unat w) = Some (rows ! k)"
proof -
  let ?xs = "map (bmp_row (unat w)) (rev rows)" and ?i = "unat h - 1 - k"
  have r: "length rows = unat h" "\<forall>r \<in> set rows. length r = 3 * unat w" using assms(1) by (simp_all add: image_wf_def)
  have i: "?i < length ?xs" and n: "?xs ! ?i = bmp_row (unat w) (rows ! k)" using r(1) assms(2) by (simp_all add: rev_nth)
  have "drop a (bmp_file w h rows) = drop (?i * stride (unat w)) (concat ?xs)"
    unfolding a_def bmp_file_def by simp
  also have "\<dots> = bmp_row (unat w) (rows ! k) @ concat (drop (Suc ?i) ?xs)"
    unfolding n [symmetric] using r i by (intro drop_concat_rows) (auto simp: length_bmp_row)
  finally have d: "drop a (bmp_file w h rows) = rows ! k @ replicate (stride (unat w) - 3 * unat w) 0 @ concat (drop (Suc ?i) ?xs)"
    by (simp add: bmp_row_def)
  have k: "length (rows ! k) = 3 * unat w" using r assms(2) by simp
  from d k have "3 * unat w \<le> length (drop a (bmp_file w h rows))" by simp
  then have "a + 3 * unat w \<le> length (bmp_file w h rows)"
  proof (cases "3 * unat w = 0")
    case True
    then show ?thesis using assms(1) by (simp add: image_wf_def dimensions_ok_def unat_eq_0)
  qed simp
  with d k show ?thesis by (simp add: get_range_def)
qed

lemma decode_offsets:
  assumes "dimensions_ok w h" and "k < unat h"
  shows "54 + (unat h - 1 - k) * stride (unat w) + 3 * unat w < usize_limit" and "k * (3 * unat w) + 3 * unat w < usize_limit"
    and "k * (3 * unat w) + 3 * unat w \<le> unat h * (3 * unat w)"
proof -
  have "Suc (unat h - 1 - k) * stride (unat w) \<le> unat h * stride (unat w)" using assms(2) by (intro mult_le_mono1) simp
  then have "(unat h - 1 - k) * stride (unat w) + stride (unat w) \<le> stride (unat w) * unat h" by (simp add: mult.commute)
  then show "54 + (unat h - 1 - k) * stride (unat w) + 3 * unat w < usize_limit"
    using stride_bounds(1) [of "unat w"] small_dimensions(4) [OF assms(1)] by linarith
  have "Suc k * (3 * unat w) \<le> unat h * (3 * unat w)" using assms(2) by (intro mult_le_mono1) simp
  then show le: "k * (3 * unat w) + 3 * unat w \<le> unat h * (3 * unat w)" by simp
  have "unat h * (3 * unat w) \<le> 32 * 1024 * 1024" using assms(1) by (simp add: dimensions_ok_def ac_simps)
  with le show "k * (3 * unat w) + 3 * unat w < usize_limit" by (simp add: usize_limit_def)
qed

lemma overwrite:
  assumes "a + n \<le> length xs" and "length ys = n"
  shows "length (take a xs @ ys @ drop (a + n) xs) = length xs"
    and "take (a + n) (take a xs @ ys @ drop (a + n) xs) = take a xs @ ys"
  using assms by simp_all

lemma decode_rows_fill:
  assumes wf: "image_wf w h rows"
  shows "k \<le> unat h \<Longrightarrow> length bgr = unat h * (3 * unat w) \<Longrightarrow> take (k * (3 * unat w)) bgr = concat (take k rows) \<Longrightarrow>
    decode_rows (bmp_file w h rows) (metadata_of w h) (3 * unat w) (unat h) [k..<unat h] bgr = Some (Inr (concat rows))"
proof (induction "unat h - k" arbitrary: k bgr)
  case 0
  then show ?case using wf by (simp add: image_wf_def)
next
  case (Suc d)
  let ?n = "3 * unat w"
  from Suc.hyps(2) have k: "k < unat h" by simp
  have ok: "dimensions_ok w h" and r: "length rows = unat h" "length (rows ! k) = ?n"
    using wf k by (simp_all add: image_wf_def)
  note o1 = decode_offsets [OF ok k] and src = source_row [OF wf k]
  define bgr' where "bgr' = take (k * ?n) bgr @ rows ! k @ drop (k * ?n + ?n) bgr"
  note w = overwrite [OF o1(3) [folded Suc.prems(2)] r(2), folded bgr'_def]
  have l: "length bgr' = unat h * ?n" using w(1) Suc.prems(2) by simp
  have "take (Suc k * ?n) bgr' = take (k * ?n) bgr @ rows ! k" using w(2) by (simp add: add.commute)
  then have t: "take (Suc k * ?n) bgr' = concat (take (Suc k) rows)"
    using Suc.prems(3) r(1) k by (simp add: take_Suc_conv_app_nth)
  have "decode_rows (bmp_file w h rows) (metadata_of w h) ?n (unat h) (k # [Suc k..<unat h]) bgr =
      decode_rows (bmp_file w h rows) (metadata_of w h) ?n (unat h) [Suc k..<unat h] bgr'"
    using o1 src Suc.prems(2) by (simp add: checked_mul_def checked_add_def metadata_of_def bgr'_def)
  also have "\<dots> = Some (Inr (concat rows))"
    using Suc.hyps k l t by (intro Suc.hyps(1)) simp_all
  finally show ?case using k by (simp add: upt_conv_Cons)
qed

lemma decode_image:
  assumes "image_wf w h rows"
  shows "decode_bmp_as_bgr alloc (bmp_file w h rows) (word_of_nat (3 * unat w * unat h)) (metadata_of w h) =
     Some (if alloc ''decoded image'' (3 * unat w * unat h) then Inr (concat rows, w, h)
           else Inl ''failed to allocate bounded decoded image'')"
proof -
  have ok: "dimensions_ok w h" using assms by (simp add: image_wf_def)
  define n where "n = (word_of_nat (3 * unat w * unat h) :: u64)"
  have n: "unat n = 3 * unat w * unat h"
    unfolding n_def by (rule unat_word_of_nat) (use ok in \<open>simp add: dimensions_ok_def\<close>)
  have "decode_rows (bmp_file w h rows) (metadata_of w h) (3 * unat w) (unat h) [0..<unat h] (replicate (unat n) 0) =
      Some (Inr (concat rows))"
    by (rule decode_rows_fill [OF assms]) (simp_all add: n)
  moreover have "bm_width (metadata_of w h) = w" "bm_height (metadata_of w h) = h" by (simp_all add: metadata_of_def)
  ultimately show ?thesis
    unfolding n_def [symmetric] using small_dimensions(3) [OF ok]
    by (simp add: decode_bmp_as_bgr_def n checked_mul_def mult.commute [of "unat w" 3])
qed

subsection \<open>Properties\<close>

text \<open>C28. The inspection of a batch image accepts a file exactly if it is the canonical encoding of some image
  within the limits: an image of 1 to 4096 columns and rows and at most 32 MiB of pixels, written as a
  54-byte header with exact sizes and zero in every unused field, followed by its rows from the bottom up,
  each padded with zeros to a multiple of four bytes.  The metadata and the decoded size it returns are those of this image.\<close>

theorem bmp_inspection_exact:
  "inspect_strict_bmp bs = Inr (m, n) \<longleftrightarrow>
     (\<exists>w h rows. image_wf w h rows \<and> bs = bmp_file w h rows \<and> m = metadata_of w h \<and> n = word_of_nat (3 * unat w * unat h))"
  by (rule inspect_iff)

text \<open>C29. Whatever file the inspection accepts, the decoder driven by the metadata of the inspection does not panic
  (no slice of the file or of the buffer is out of range) and no offset overflows: either the allocation of the
  buffer fails, and it returns that error, or it returns exactly the pixels of the one image that the file encodes, the
  top row first and without padding, with its width and height.\<close>

theorem bmp_decode_safe:
  assumes "inspect_strict_bmp bs = Inr (m, n)"
  shows "\<exists>rows. image_wf (bm_width m) (bm_height m) rows \<and> bs = bmp_file (bm_width m) (bm_height m) rows
    \<and> length (concat rows) = unat n
    \<and> decode_bmp_as_bgr alloc bs n m =
        Some (if alloc ''decoded image'' (unat n) then Inr (concat rows, bm_width m, bm_height m)
              else Inl ''failed to allocate bounded decoded image'')"
proof -
  from assms [unfolded inspect_iff] obtain w h rows where wf: "image_wf w h rows" and bs: "bs = bmp_file w h rows"
    and m: "m = metadata_of w h" and n: "n = word_of_nat (3 * unat w * unat h)" by blast
  have u: "unat n = 3 * unat w * unat h"
    unfolding n by (rule unat_word_of_nat) (use wf in \<open>simp add: image_wf_def dimensions_ok_def\<close>)
  have "length (concat rows) = unat n"
    unfolding u using wf length_concat_uniform [of rows "3 * unat w"] by (simp add: image_wf_def)
  moreover have wh: "bm_width m = w" "bm_height m = h" by (simp_all add: m metadata_of_def)
  ultimately show ?thesis unfolding wh bs u using wf decode_image [OF wf, of alloc] by (auto simp: n m)
qed

theorem bmp_decode_safe_witness:
  "inspect_strict_bmp (bmp_file 1 2 sample_rows) = Inr (metadata_of 1 2, 6)
   \<and> (\<exists>rows. bmp_file 1 2 sample_rows = bmp_file 1 2 rows \<and> length (concat rows) = 6
      \<and> decode_bmp_as_bgr (\<lambda>_ _. True) (bmp_file 1 2 sample_rows) 6 (metadata_of 1 2) = Some (Inr (concat rows, 1, 2)))"
proof -
  have i: "inspect_strict_bmp (bmp_file 1 2 sample_rows) = Inr (metadata_of 1 2, 6)"
    unfolding inspect_iff
    by (intro exI [of _ 1] exI [of _ 2] exI [of _ sample_rows])
      (simp add: sample_rows_def image_wf_def dimensions_ok_def)
  from bmp_decode_safe [OF this, of "\<lambda>_ _. True"] show ?thesis using i by (auto simp: metadata_of_def)
qed

end
