(* ===== verification/Spec2Isabelle.thy ===== *)
theory Spec2Isabelle
  imports Storage_Properties Budget PromptProperties PromptSnapshot CacheProperties PamProperties DispatchProperties Connections Admission CameraProfiles BmpProperties
begin

text \<open>
  A verification development of howy, face authentication for Linux.

  \<^bold>\<open>The program.\<close>  An application asks PAM to authenticate a user.  The PAM module (\<^verbatim>\<open>crates/howy-pam\<close>) connects to
  the daemon (\<^verbatim>\<open>crates/howy-daemon\<close>) over a Unix socket and exchanges length-prefixed protobuf messages
  (\<^verbatim>\<open>proto/howy.proto\<close>; \<^verbatim>\<open>ipc.rs\<close> and \<^verbatim>\<open>protocol.rs\<close> of \<^verbatim>\<open>crates/howy-common\<close>).  When the configuration requires
  a confirmation, a login is a two-step transaction: the daemon issues a token for a prompt, the module asks
  the user and commits the token, and only then a worker of the daemon looks through the camera.  Every other
  request goes through the authorization policy to a handler.  The face models of the users are records on disk, in a plaintext
  or an AES-GCM format; loaded models are kept in a cache that is charged to a budget of plaintext bytes.

  \<^bold>\<open>Conventions\<close> (\<open>Prelude\<close>).  \<open>u8\<close> to \<open>u64\<close> are words of their width; a \<open>usize\<close> is a natural number with the checked
  and saturating operations of the source at \<open>2 ^ 64\<close>; a byte string or a \<open>str\<close> is a list of 8-bit words; an \<open>f32\<close> is its bits.
  \<open>Result\<close> is a sum with the error on the left and \<open>and_then\<close> for the question mark.  A \<open>HashMap\<close> is an association
  list with one entry per key, an \<open>Arc\<close> an index into a heap of counted cells.  A value that a drop releases is
  released by an explicit call where its scope ends.  In \<open>Contracts\<close>, \<open>Cache\<close> and \<open>Bmp\<close> the value \<open>None\<close> is a panic; in \<open>Ipc\<close>,
  \<open>Pam\<close> and the server theories \<open>None\<close> is a loop that never returns; a panic of a request handler is \<open>Panicked\<close>.

  \<^bold>\<open>Theories and sources.\<close>

  \<^item> \<open>Config\<close>: \<^verbatim>\<open>config.rs\<close>, the sections with their defaults, and \<open>validate\<close>.
  \<^item> \<open>Records\<close>, \<open>Crypto\<close>, \<open>Reader\<close>, \<open>Codec\<close>: \<^verbatim>\<open>storage/mod.rs\<close>, \<^verbatim>\<open>storage/crypto.rs\<close> and \<^verbatim>\<open>storage/codec.rs\<close> of howy-common, and the user
    name grammar of \<^verbatim>\<open>paths.rs\<close>: the records, the nonce generator, the bounded reader, the two record formats and their inspectors.
  \<^item> \<open>AesGcm\<close>: the vendored aes-gcm, ghash and polyval crates over a block cipher.
  \<^item> \<open>Contracts\<close>: \<^verbatim>\<open>storage/contracts.rs\<close>, the allocation estimates, the budget with its permits, and snapshots.
  \<^item> \<open>Authorization\<close>: \<^verbatim>\<open>authorization.rs\<close>, the policy and the loop around \<open>getpwnam_r\<close>.
  \<^item> \<open>PromptDigest\<close>, \<open>PromptState\<close>: \<^verbatim>\<open>prompt_state.rs\<close>, the manager of the prompt transactions: tables, guards, cancellation.
  \<^item> \<open>Cache\<close>: \<^verbatim>\<open>storage/cache.rs\<close> of the daemon, the model cache and the serializers per user.
  \<^item> \<open>Protocol\<close>, \<open>Ipc\<close>: the messages with their validation; reads and writes under deadlines, frames, and the prompt client.
  \<^item> \<open>Pam\<close>: \<^verbatim>\<open>howy-pam/src/lib.rs\<close>, the entry points of the module.
  \<^item> \<open>ServerPrompt\<close>, \<open>ServerConnection\<close>, \<open>ServerDispatch\<close>: \<^verbatim>\<open>server.rs\<close> of the daemon: the prompt handlers; the worker of a commit,
    its supervision and the coordinator of a prompt connection; \<open>handle_connection\<close> with authorization and dispatch.
  \<^item> \<open>Connections\<close>, \<open>Admission\<close>, \<open>CameraProfiles\<close>, \<open>Bmp\<close>: further parts of \<^verbatim>\<open>server.rs\<close>: \<open>ConnectionAccounting\<close>, \<open>CameraAdmission\<close>,
    \<open>CameraProfileCache\<close>, and the inspection and decoding of the bitmap files of a batch enrollment.

  The composition is that of the code: \<open>ServerDispatch\<close> calls the coordinator of \<open>ServerConnection\<close> for a prompt request and
  \<open>authorize_and_then\<close> of \<open>Authorization\<close> for every other one; the coordinator calls the handlers of \<open>ServerPrompt\<close>, and these
  the manager of \<open>PromptState\<close>; \<open>Pam\<close> calls the client of \<open>Ipc\<close>.  The state of the daemon is the world of the manager paired with
  the state of everything outside.
\<close>

text \<open>
  \<^bold>\<open>What is shown.\<close>

  \<^item> Storage (\<open>Codec_Correct\<close>, \<open>Envelope\<close>, \<open>Metadata\<close>, \<open>Storage_Properties\<close>): both formats round-trip, the plaintext decoder accepts exactly the canonical
    encodings, a decrypted record was authenticated with its whole header, and no two encryptions under one generator
    share a nonce.  The facts about fields come from the locale \<open>field_codec\<close>, those about nonces from \<open>fresh_issuer\<close>.
  \<^item> Budget and cache (\<open>Budget\<close>, \<open>CacheInvariant\<close>, \<open>CacheSafety\<close>, \<open>CacheProperties\<close>): as instances of the locale \<open>safe_machine\<close>, whatever their clients do, the
    budget is exactly the sum of its permits, the cache never panics, its accounting is exact, a lookup answers nothing but the
    model last published (a refinement of a map from users to models), and evictions follow the last use.
    Both kinds of reservation instantiate the locale \<open>reservation\<close>.
  \<^item> Prompts (\<open>PromptSystem\<close> to \<open>PromptSnapshot\<close>): over every program that uses the manager, its tables are the guards held, a token is used once, every
    grant goes back to an issue, an activation and a claim in time, shutdown is final, and a stopped or poisoned manager refuses everything.
    The byte string behind a security snapshot determines the policy, by the locale \<open>prefix_free\<close>.
  \<^item> Authorization: the decision function equals a declarative policy and confines an unprivileged peer.
  \<^item> Server (\<open>ServerRun\<close>, \<open>ServerReturns\<close>, \<open>ServerProperties\<close>, \<open>DispatchProperties\<close>): a commit becomes a lease only after everything was checked again; a
    success is earned by the worker of a claimed commit; a required confirmation cannot be avoided; an unprivileged peer reaches its own account and the
    public status only; prompt connections and the connection handler return, and no assertion fails.
  \<^item> Client side (\<open>Framing\<close>, \<open>PamProperties\<close>): messages arrive in order however a stream is split; the module returns, and returns success only when granted.
  \<^item> Resources: connection limits are exact, the camera is exclusive and first come first served, one probe runs at a time.
  \<^item> Bitmaps (\<open>BmpProperties\<close>): the inspection accepts exactly the canonical encodings of images within the limits, and
    on an accepted file the decoder stays within the file and its buffer and returns exactly the pixels.

  \<open>Samples\<close>, \<open>PromptSamples\<close> and \<open>ServerSamples\<close> hold the concrete data at which the hypotheses of the properties are discharged.

  \<^bold>\<open>Loops and bounds.\<close>  The loop around \<open>getpwnam_r\<close> has fuel, because interruptions may go on forever; \<open>n + 21\<close> is enough when
  interruptions stop after \<open>n\<close> calls, since the buffer doubles at most to its maximum.  The loops over sockets, the supervision and the coordinator are partial
  functions; that they return is proved from a clock that moves on and interruptions of writes that end.
  The eviction loops of the cache have termination proofs by the number of entries.  All other recursion is structural.

  \<^bold>\<open>Parameters.\<close>  SHA-256, the AES block, the random source, the allocator, the name service, libpam with the conversation, sockets, clocks, threads and the
  protobuf codec are arguments.  The hypotheses about them are named and stated where they are used: that decryption inverts
  encryption, that a decoder of messages inverts its encoder, that a stream delivers what was sent, that a clock moves on.
  What other threads do is an arbitrary change of the state of the daemon at every call of the environment.

  \<^bold>\<open>Not modelled.\<close>  The storage backends (\<^verbatim>\<open>plaintext.rs\<close>, \<^verbatim>\<open>mode1.rs\<close>, \<^verbatim>\<open>readiness.rs\<close>), key material, legacy import and namespace scan: sequences of file-system calls
  whose meaning is that of the file system.  Camera capture, face detection and the sessions around them: devices, floating-point kernels and the ONNX runtime.  The accept
  loop, the reaper thread, child processes and daemon start-up: threads, signals and process calls.  Enrollment, one-shot authentication, detection,
  credentials and status are handlers given to \<open>ServerDispatch\<close>.  The command line client, the migration engine,
  the configuration bridge and the scripts drive other programs and files.  TOML and JSON parsing and the generated protobuf code belong to third-party crates.
  Log output, redaction and zeroizing of memory have no counterpart in a model of values.
\<close>

end
